(* ===== verification/Prelude.thy ===== *)
theory Prelude
  imports "HOL-Library.Word"
begin

text \<open>
  Shared ground of the development.

  A Go function that touches state is a command \<open>('a, 's) gocmd\<close>: it takes the state
  and either returns a value and the new state (\<open>Ret\<close>) or stops with a fault
  (\<open>Fault\<close>): a panic (a nil dereference, a slice out of range, a send on a closed
  channel) or a goroutine that blocks for ever (a send nobody receives, a mutex that is
  already held).  The theory gives the commands' combinators, the predicate transformer
  \<open>runs\<close> with which every later theory states and proves facts about commands, the two
  codec interfaces, and generic facts on bytes and decimal numbers.
\<close>

unbundle bit_operations_syntax

type_synonym byte = "8 word"
type_synonym bytes = "byte list"
type_synonym uint16 = "16 word"
type_synonym uint32 = "32 word"

named_theorems wp "equations that compute the predicate transformer of a command"
named_theorems keeps "facts that an operation keeps a predicate of the state"

section \<open>Commands, faults and sequencing\<close>

datatype fault =
    Panicked string
  | Blocked string

datatype ('a, 's) outcome =
    Ret 'a 's
  | Fault fault 's

type_synonym ('a, 's) gocmd = "'s \<Rightarrow> ('a, 's) outcome"

definition ret :: "'a \<Rightarrow> ('a, 's) gocmd" where
  "ret x = (\<lambda>s. Ret x s)"

definition bindM :: "('a, 's) gocmd \<Rightarrow> ('a \<Rightarrow> ('b, 's) gocmd) \<Rightarrow> ('b, 's) gocmd" where
  "bindM m f = (\<lambda>s. case m s of Ret x t \<Rightarrow> f x t | Fault e t \<Rightarrow> Fault e t)"

definition thenM :: "('a, 's) gocmd \<Rightarrow> ('b, 's) gocmd \<Rightarrow> ('b, 's) gocmd" where
  "thenM m n = bindM m (\<lambda>_. n)"

definition getM :: "('s \<Rightarrow> 'a) \<Rightarrow> ('a, 's) gocmd" where
  "getM f = (\<lambda>s. Ret (f s) s)"

definition modifyM :: "('s \<Rightarrow> 's) \<Rightarrow> (unit, 's) gocmd" where
  "modifyM f = (\<lambda>s. Ret () (f s))"

definition panicM :: "string \<Rightarrow> ('a, 's) gocmd" where
  "panicM msg = (\<lambda>s. Fault (Panicked msg) s)"

definition blockM :: "string \<Rightarrow> ('a, 's) gocmd" where
  "blockM msg = (\<lambda>s. Fault (Blocked msg) s)"

text \<open>
  \<open>deferM m d\<close> is Go's \<open>defer\<close>: \<open>d\<close> runs on the result of \<open>m\<close>, after it, and the
  result of \<open>m\<close> is returned.  A function with several \<open>defer\<close>s nests them, the last
  one registered innermost.
\<close>

definition deferM :: "('a, 's) gocmd \<Rightarrow> ('a \<Rightarrow> (unit, 's) gocmd) \<Rightarrow> ('a, 's) gocmd" where
  "deferM m d = bindM m (\<lambda>r. thenM (d r) (ret r))"

text \<open>
  \<open>bindE\<close> is the idiom \<open>x, err := m; if err != nil { return nil, err }\<close>.
\<close>

definition bindE :: "('e + 'a, 's) gocmd \<Rightarrow> ('a \<Rightarrow> ('e + 'b, 's) gocmd) \<Rightarrow> ('e + 'b, 's) gocmd" where
  "bindE m f = bindM m (\<lambda>r. case r of Inl e \<Rightarrow> ret (Inl e) | Inr x \<Rightarrow> f x)"

text \<open>A sum of an error and a value, from Go's pair of a pointer and an error.\<close>

definition errOf :: "'e + 'a \<Rightarrow> 'e option" where
  "errOf r = (case r of Inl e \<Rightarrow> Some e | Inr _ \<Rightarrow> None)"

lemma errOf_simps [simp]:
  "errOf (Inl e) = Some e" "errOf (Inr x) = None"
  by (simp_all add: errOf_def)

lemmas cmd_defs = bindM_def thenM_def getM_def modifyM_def ret_def panicM_def blockM_def

section \<open>The predicate transformer\<close>

text \<open>
  \<open>runs m Q F s\<close>: command \<open>m\<close> started in \<open>s\<close> either returns with \<open>Q\<close> or faults with
  \<open>F\<close>.  With \<open>F = (\<lambda>_ _. False)\<close> it says that \<open>m\<close> returns.
\<close>

definition runs :: "('a, 's) gocmd \<Rightarrow> ('a \<Rightarrow> 's \<Rightarrow> bool) \<Rightarrow> (fault \<Rightarrow> 's \<Rightarrow> bool) \<Rightarrow> 's \<Rightarrow> bool" where
  "runs m Q F s = (case m s of Ret x t \<Rightarrow> Q x t | Fault e t \<Rightarrow> F e t)"

lemma runs_ret [wp]: "runs (ret x) Q F s = Q x s"
  by (simp add: runs_def ret_def)

lemma runs_bindM [wp]: "runs (bindM m f) Q F s = runs m (\<lambda>x. runs (f x) Q F) F s"
  by (simp add: runs_def bindM_def split: outcome.splits)

lemma runs_thenM [wp]: "runs (thenM m n) Q F s = runs m (\<lambda>_. runs n Q F) F s"
  by (simp add: thenM_def runs_bindM)

lemma runs_getM [wp]: "runs (getM f) Q F s = Q (f s) s"
  by (simp add: runs_def getM_def)

lemma runs_modifyM [wp]: "runs (modifyM f) Q F s = Q () (f s)"
  by (simp add: runs_def modifyM_def)

lemma runs_panicM [wp]: "runs (panicM msg) Q F s = F (Panicked msg) s"
  by (simp add: runs_def panicM_def)

lemma runs_blockM [wp]: "runs (blockM msg) Q F s = F (Blocked msg) s"
  by (simp add: runs_def blockM_def)

lemma runs_deferM [wp]:
  "runs (deferM m d) Q F s = runs m (\<lambda>r. runs (d r) (\<lambda>_. Q r) F) F s"
  unfolding deferM_def runs_bindM runs_thenM runs_ret by (rule refl)

lemma runs_bindE [wp]:
  "runs (bindE m f) Q F s =
     runs m (\<lambda>r. case r of Inl e \<Rightarrow> Q (Inl e) | Inr x \<Rightarrow> runs (f x) Q F) F s"
  unfolding bindE_def runs_bindM
  by (rule arg_cong [where f = "\<lambda>q. runs m q F s"]) (auto simp: fun_eq_iff wp split: sum.splits)

lemma runs_if [wp]:
  "runs (if b then m else n) Q F s = (if b then runs m Q F s else runs n Q F s)"
  by simp

lemma runs_case_option [wp]:
  "runs (case x of None \<Rightarrow> m | Some y \<Rightarrow> f y) Q F s =
     (case x of None \<Rightarrow> runs m Q F s | Some y \<Rightarrow> runs (f y) Q F s)"
  by (simp split: option.splits)

lemma runs_case_sum [wp]:
  "runs (case x of Inl e \<Rightarrow> m e | Inr y \<Rightarrow> f y) Q F s =
     (case x of Inl e \<Rightarrow> runs (m e) Q F s | Inr y \<Rightarrow> runs (f y) Q F s)"
  by (simp split: sum.splits)

lemma runs_case_prod [wp]:
  "runs (case p of (a, b) \<Rightarrow> f a b) Q F s = (case p of (a, b) \<Rightarrow> runs (f a b) Q F s)"
  by (simp split: prod.splits)

text \<open>The same equations where the state is not given yet.\<close>

lemma runs_pointfree [wp]:
  "runs (ret x) Q F = Q x"
  "runs (modifyM f) Q F = (\<lambda>s. Q () (f s))"
  "runs (getM g) Q F = (\<lambda>s. Q (g s) s)"
  "runs (panicM msg) Q F = F (Panicked msg)"
  "runs (blockM msg) Q F = F (Blocked msg)"
  "runs (bindM m k) Q F = runs m (\<lambda>x. runs (k x) Q F) F"
  "runs (thenM m n) Q F = runs m (\<lambda>_. runs n Q F) F"
  "runs (deferM m d) Q F = runs m (\<lambda>r. runs (d r) (\<lambda>_. Q r) F) F"
  by (simp_all add: fun_eq_iff wp)

lemma runs_Ret: "m s = Ret x t \<Longrightarrow> runs m Q F s = Q x t"
  by (simp add: runs_def)

lemma runs_mono:
  assumes "runs m Q F s"
    and "\<And>x t. Q x t \<Longrightarrow> Q' x t" and "\<And>e t. F e t \<Longrightarrow> F' e t"
  shows "runs m Q' F' s"
  using assms by (auto simp: runs_def split: outcome.splits)

lemma runs_conj:
  "runs m Q F s \<Longrightarrow> runs m Q' F s \<Longrightarrow> runs m (\<lambda>x t. Q x t \<and> Q' x t) F s"
  by (auto simp: runs_def split: outcome.splits)

lemma runs_RetD: "runs m Q F s \<Longrightarrow> m s = Ret x t \<Longrightarrow> Q x t"
  by (simp add: runs_def)

lemma runs_FaultD: "runs m Q F s \<Longrightarrow> m s = Fault e t \<Longrightarrow> F e t"
  by (simp add: runs_def)

lemma runs_total: "runs m Q (\<lambda>_ _. False) s \<longleftrightarrow> (\<exists>x t. m s = Ret x t \<and> Q x t)"
  by (auto simp: runs_def split: outcome.splits)

lemma runs_bind:
  assumes "runs m R F s" and "\<And>x t. R x t \<Longrightarrow> runs (f x) Q F t"
  shows "runs (bindM m f) Q F s"
  unfolding runs_bindM by (rule runs_mono [OF assms(1)]) (simp_all add: assms(2))

lemma runs_bind_sum:
  assumes "runs m R F s" and "\<And>e t. R (Inl e) t \<Longrightarrow> Q (Inl e) t"
    and "\<And>x t. R (Inr x) t \<Longrightarrow> runs (f x) Q F t"
  shows "runs (bindE m f) Q F s"
  unfolding runs_bindE
  by (rule runs_mono [OF assms(1)]) (auto simp: assms(2,3) split: sum.split)

lemma runs_then:
  assumes "runs m (\<lambda>_. R) F s" and "\<And>t. R t \<Longrightarrow> runs n Q F t"
  shows "runs (thenM m n) Q F s"
  unfolding runs_thenM by (rule runs_mono [OF assms(1)]) (simp_all add: assms(2))

lemma runs_triv: "runs m (\<lambda>_ _. True) (\<lambda>_ _. True) s"
  by (simp add: runs_def split: outcome.splits)

text \<open>
  \<open>preserves P m\<close>: whatever \<open>m\<close> does, a state with \<open>P\<close> is left with \<open>P\<close>, on return and
  on a fault.
\<close>

definition preserves :: "('s \<Rightarrow> bool) \<Rightarrow> ('a, 's) gocmd \<Rightarrow> bool" where
  "preserves P m \<longleftrightarrow> (\<forall>s. P s \<longrightarrow> runs m (\<lambda>_. P) (\<lambda>_. P) s)"

lemma preservesI: "(\<And>s. P s \<Longrightarrow> runs m (\<lambda>_. P) (\<lambda>_. P) s) \<Longrightarrow> preserves P m"
  by (simp add: preserves_def)

lemma preservesD: "preserves P m \<Longrightarrow> P s \<Longrightarrow> runs m (\<lambda>_. P) (\<lambda>_. P) s"
  by (simp add: preserves_def)

lemma preserves_ret [keeps]: "preserves P (ret x)"
  and preserves_getM [keeps]: "preserves P (getM f)"
  and preserves_panicM [keeps]: "preserves P (panicM msg)"
  and preserves_blockM [keeps]: "preserves P (blockM msg)"
  by (simp_all add: preserves_def wp)

lemma preserves_bindM [keeps]:
  assumes "preserves P m" and "\<And>x. preserves P (f x)"
  shows "preserves P (bindM m f)"
proof (rule preservesI)
  fix s assume "P s"
  with assms(1) have "runs m (\<lambda>_. P) (\<lambda>_. P) s" by (rule preservesD)
  then show "runs (bindM m f) (\<lambda>_. P) (\<lambda>_. P) s"
    unfolding runs_bindM by (rule runs_mono) (auto intro: preservesD [OF assms(2)])
qed

lemma preserves_thenM [keeps]:
  "preserves P m \<Longrightarrow> preserves P n \<Longrightarrow> preserves P (thenM m n)"
  by (simp add: thenM_def preserves_bindM)

lemma preserves_deferM [keeps]:
  "preserves P m \<Longrightarrow> (\<And>r. preserves P (d r)) \<Longrightarrow> preserves P (deferM m d)"
  by (simp add: deferM_def keeps)

lemma preserves_modifyM: "(\<And>s. P s \<Longrightarrow> P (f s)) \<Longrightarrow> preserves P (modifyM f)"
  by (simp add: preserves_def wp)

lemma preserves_bindE [keeps]:
  "preserves P m \<Longrightarrow> (\<And>x. preserves P (f x)) \<Longrightarrow> preserves P (bindE m f)"
  unfolding bindE_def by (rule preserves_bindM) (auto simp: keeps split: sum.splits)

lemma preserves_if [keeps]:
  "(b \<Longrightarrow> preserves P m) \<Longrightarrow> (\<not> b \<Longrightarrow> preserves P n) \<Longrightarrow> preserves P (if b then m else n)"
  by simp

lemma preserves_case_sum [keeps]:
  "(\<And>e. x = Inl e \<Longrightarrow> preserves P (m e)) \<Longrightarrow> (\<And>y. x = Inr y \<Longrightarrow> preserves P (f y)) \<Longrightarrow>
    preserves P (case x of Inl e \<Rightarrow> m e | Inr y \<Rightarrow> f y)"
  by (simp split: sum.split)

lemma preserves_case_option [keeps]:
  "(x = None \<Longrightarrow> preserves P m) \<Longrightarrow> (\<And>y. x = Some y \<Longrightarrow> preserves P (f y)) \<Longrightarrow>
    preserves P (case x of None \<Rightarrow> m | Some y \<Rightarrow> f y)"
  by (simp split: option.split)

lemma preserves_case_prod [keeps]:
  "(\<And>a b. preserves P (f a b)) \<Longrightarrow> preserves P (case p of (a, b) \<Rightarrow> f a b)"
  by (simp split: prod.split)

text \<open>A value read from the state is known to be the state's own.\<close>

lemma preserves_getM_bind:
  "(\<And>s. P s \<Longrightarrow> runs (f (g s)) (\<lambda>_. P) (\<lambda>_. P) s) \<Longrightarrow> preserves P (bindM (getM g) f)"
  by (simp add: preserves_def wp)

lemma preserves_modify_modify:
  "preserves P (thenM (modifyM (\<lambda>s. g (f s))) m) \<Longrightarrow>
    preserves P (thenM (modifyM f) (thenM (modifyM g) m))"
  by (simp add: preserves_def wp)

lemma preserves_strengthen:
  assumes "preserves Q m" and "\<And>s. P s \<Longrightarrow> Q s" and "\<And>s. Q s \<Longrightarrow> P s"
  shows "preserves P m"
  using assms by (auto simp: preserves_def intro: runs_mono)

text \<open>
  \<open>zoom get put m\<close> runs \<open>m\<close> on the part of the state that \<open>get\<close> reads and \<open>put\<close>
  replaces: the rest of the state cannot change.
\<close>

definition zoom :: "('s \<Rightarrow> 't) \<Rightarrow> ('t \<Rightarrow> 's \<Rightarrow> 's) \<Rightarrow> ('a, 't) gocmd \<Rightarrow> ('a, 's) gocmd" where
  "zoom get put m =
     (\<lambda>s. case m (get s) of Ret x t \<Rightarrow> Ret x (put t s) | Fault e t \<Rightarrow> Fault e (put t s))"

lemma runs_zoom [wp]:
  "runs (zoom get put m) Q F s =
     runs m (\<lambda>x t. Q x (put t s)) (\<lambda>e t. F e (put t s)) (get s)"
  by (simp add: runs_def zoom_def split: outcome.splits)

lemma preserves_zoom:
  "(\<And>s t. P s \<Longrightarrow> P (put t s)) \<Longrightarrow> preserves P (zoom get put m)"
  by (simp add: preserves_def runs_def zoom_def split: outcome.splits)

abbreviation onSnd :: "('a, 'c) gocmd \<Rightarrow> ('a, 'b \<times> 'c) gocmd" where
  "onSnd \<equiv> zoom snd (\<lambda>c (b, _). (b, c))"

text \<open>
  \<open>nonblocking I m\<close>: from a state with \<open>I\<close> the command keeps \<open>I\<close> when it returns, and
  if it faults it is a panic: no goroutine is left waiting.
\<close>

definition nonblocking :: "('s \<Rightarrow> bool) \<Rightarrow> ('a, 's) gocmd \<Rightarrow> bool" where
  "nonblocking I m \<longleftrightarrow> (\<forall>s. I s \<longrightarrow> runs m (\<lambda>_. I) (\<lambda>e _. \<exists>msg. e = Panicked msg) s)"

named_theorems live "rules that show a command nonblocking"

lemma nonblockingI:
  "(\<And>s. I s \<Longrightarrow> runs m (\<lambda>_. I) (\<lambda>e _. \<exists>msg. e = Panicked msg) s) \<Longrightarrow> nonblocking I m"
  by (simp add: nonblocking_def)

lemma nonblockingD:
  "nonblocking I m \<Longrightarrow> I s \<Longrightarrow> runs m (\<lambda>_. I) (\<lambda>e _. \<exists>msg. e = Panicked msg) s"
  by (simp add: nonblocking_def)

lemma nonblocking_ret [live]: "nonblocking I (ret x)"
  and nonblocking_getM [live]: "nonblocking I (getM f)"
  and nonblocking_panicM [live]: "nonblocking I (panicM msg)"
  by (simp_all add: nonblocking_def wp)

lemma nonblocking_modifyM [live]: "(\<And>s. I s \<Longrightarrow> I (f s)) \<Longrightarrow> nonblocking I (modifyM f)"
  by (simp add: nonblocking_def wp)

lemma nonblocking_bindM [live]:
  assumes "nonblocking I m" and "\<And>x. nonblocking I (f x)"
  shows "nonblocking I (bindM m f)"
proof (rule nonblockingI)
  fix s assume "I s"
  from nonblockingD [OF assms(1) this]
  show "runs (bindM m f) (\<lambda>_. I) (\<lambda>e _. \<exists>msg. e = Panicked msg) s"
    unfolding runs_bindM by (rule runs_mono) (auto intro: nonblockingD [OF assms(2)])
qed

lemma nonblocking_thenM [live]:
  "nonblocking I m \<Longrightarrow> nonblocking I n \<Longrightarrow> nonblocking I (thenM m n)"
  by (simp add: thenM_def nonblocking_bindM)

lemma nonblocking_case_sum [live]:
  "(\<And>e. nonblocking I (m e)) \<Longrightarrow> (\<And>y. nonblocking I (f y)) \<Longrightarrow>
    nonblocking I (case x of Inl e \<Rightarrow> m e | Inr y \<Rightarrow> f y)"
  by (simp split: sum.split)

lemma nonblocking_case_option [live]:
  "nonblocking I m \<Longrightarrow> (\<And>y. nonblocking I (f y)) \<Longrightarrow>
    nonblocking I (case x of None \<Rightarrow> m | Some y \<Rightarrow> f y)"
  by (simp split: option.split)

lemma nonblocking_case_prod [live]:
  "(\<And>a b. nonblocking I (f a b)) \<Longrightarrow> nonblocking I (case p of (a, b) \<Rightarrow> f a b)"
  by (simp split: prod.split)

lemma nonblocking_if [live]:
  "(b \<Longrightarrow> nonblocking I m) \<Longrightarrow> (\<not> b \<Longrightarrow> nonblocking I n) \<Longrightarrow>
    nonblocking I (if b then m else n)"
  by simp

lemma nonblocking_bindE [live]:
  "nonblocking I m \<Longrightarrow> (\<And>x. nonblocking I (f x)) \<Longrightarrow> nonblocking I (bindE m f)"
  unfolding bindE_def by (intro live)

lemma nonblocking_deferM [live]:
  "nonblocking I m \<Longrightarrow> (\<And>r. nonblocking I (d r)) \<Longrightarrow> nonblocking I (deferM m d)"
  unfolding deferM_def by (intro live)

lemma nonblocking_zoom:
  assumes "nonblocking J m" and "\<And>s. I s \<Longrightarrow> J (get s)"
    and "\<And>s t. I s \<Longrightarrow> J t \<Longrightarrow> I (put t s)"
  shows "nonblocking I (zoom get put m)"
proof (rule nonblockingI)
  fix s assume s: "I s"
  from nonblockingD [OF assms(1) assms(2) [OF s]]
  show "runs (zoom get put m) (\<lambda>_. I) (\<lambda>e _. \<exists>msg. e = Panicked msg) s"
    unfolding runs_zoom by (rule runs_mono) (auto intro: assms(3) s)
qed

lemma nonblocking_Blocked: "nonblocking I m \<Longrightarrow> I s \<Longrightarrow> m s \<noteq> Fault (Blocked msg) t"
  by (auto simp: nonblocking_def runs_def)

section \<open>Codec interfaces\<close>

text \<open>
  What a writer and a reader of a byte stream promise each other: reading what was
  written gives the value back and leaves the rest of the stream untouched.
\<close>

locale prefix_codec =
  fixes enc :: "'a \<Rightarrow> 'b list"
    and dec :: "'b list \<Rightarrow> ('e + 'a) \<times> 'b list"
    and valid :: "'a \<Rightarrow> bool"
  assumes dec_enc: "valid x \<Longrightarrow> dec (enc x @ rest) = (Inr x, rest)"
begin

lemma dec_enc_nil: "valid x \<Longrightarrow> dec (enc x) = (Inr x, [])"
  using dec_enc [of x "[]"] by simp

lemma enc_prefix_free:
  assumes "valid x" and "valid y" and "enc x @ r = enc y @ r'"
  shows "x = y \<and> r = r'"
proof -
  have "dec (enc x @ r) = (Inr x, r)" by (rule dec_enc [OF assms(1)])
  moreover have "dec (enc x @ r) = (Inr y, r')"
    unfolding assms(3) by (rule dec_enc [OF assms(2)])
  ultimately show ?thesis by simp
qed

lemma enc_inj: "valid x \<Longrightarrow> valid y \<Longrightarrow> enc x = enc y \<Longrightarrow> x = y"
  using enc_prefix_free [of x y "[]" "[]"] by simp

end

text \<open>A codec on whole values.\<close>

locale value_codec =
  fixes enc :: "'a \<Rightarrow> 'b list"
    and dec :: "'b list \<Rightarrow> 'e + 'a"
    and valid :: "'a \<Rightarrow> bool"
  assumes dec_enc_whole: "valid x \<Longrightarrow> dec (enc x) = Inr x"
begin

lemma enc_inj_whole: "valid x \<Longrightarrow> valid y \<Longrightarrow> enc x = enc y \<Longrightarrow> x = y"
  by (metis dec_enc_whole sum.inject(2))

end

sublocale prefix_codec \<subseteq> whole: value_codec enc "\<lambda>bs. fst (dec bs)" valid
proof
  fix x assume "valid x"
  then show "fst (dec (enc x)) = Inr x" by (simp only: dec_enc_nil fst_conv)
qed

section \<open>Splitting at a separator\<close>

text \<open>\<open>strings.Split\<close> with a separator of one character.\<close>

fun splitOn :: "char \<Rightarrow> string \<Rightarrow> string list" where
  "splitOn sep [] = [[]]"
| "splitOn sep (c # s) =
     (if c = sep then [] # splitOn sep s
      else (case splitOn sep s of [] \<Rightarrow> [[c]] | w # ws \<Rightarrow> (c # w) # ws))"

lemma splitOn_nonempty [simp]: "splitOn sep s \<noteq> []"
  by (cases s) (auto split: list.split)

lemma splitOn_none: "sep \<notin> set s \<Longrightarrow> splitOn sep s = [s]"
  by (induction s) auto

lemma splitOn_append: "sep \<notin> set a \<Longrightarrow> splitOn sep (a @ sep # s) = a # splitOn sep s"
  by (induction a) auto

section \<open>Decimal numbers\<close>

text \<open>The digits \<open>fmt.Sprintf("%d", n)\<close> writes.\<close>

fun show_nat :: "nat \<Rightarrow> string" where
  "show_nat n =
     (if n < 10 then [char_of (48 + n)] else show_nat (n div 10) @ [char_of (48 + n mod 10)])"

declare show_nat.simps [simp del]

definition is_digit :: "char \<Rightarrow> bool" where
  "is_digit c \<longleftrightarrow> 48 \<le> (of_char c :: nat) \<and> (of_char c :: nat) \<le> 57"

definition digit_val :: "char \<Rightarrow> nat" where
  "digit_val c = of_char c - 48"

text \<open>The value of a string of digits, most significant first.\<close>

definition digits_val :: "string \<Rightarrow> nat" where
  "digits_val ds = foldl (\<lambda>a c. 10 * a + digit_val c) 0 ds"

lemma of_char_digit: "k < 10 \<Longrightarrow> (of_char (char_of (48 + k :: nat)) :: nat) = 48 + k"
  by simp

lemma is_digit_char_of [simp]: "k < 10 \<Longrightarrow> is_digit (char_of (48 + k :: nat))"
  by (simp add: is_digit_def)

lemma digit_val_char_of [simp]: "k < 10 \<Longrightarrow> digit_val (char_of (48 + k :: nat)) = k"
  by (simp add: digit_val_def)

lemma digits_val_snoc [simp]: "digits_val (ds @ [c]) = 10 * digits_val ds + digit_val c"
  by (simp add: digits_val_def)

lemma digits_val_Nil [simp]: "digits_val [] = 0"
  by (simp add: digits_val_def)

lemma show_nat_digits: "\<forall>c \<in> set (show_nat n). is_digit c"
proof (induction n rule: show_nat.induct)
  case (1 n)
  show ?case
  proof (cases "n < 10")
    case True
    then show ?thesis by (simp add: show_nat.simps [of n])
  next
    case False
    with 1 show ?thesis by (simp add: show_nat.simps [of n])
  qed
qed

lemma show_nat_nonempty [simp]: "show_nat n \<noteq> []"
  by (simp add: show_nat.simps [of n])

lemma digits_val_show_nat [simp]: "digits_val (show_nat n) = n"
proof (induction n rule: show_nat.induct)
  case (1 n)
  show ?case
  proof (cases "n < 10")
    case True
    then have "show_nat n = [] @ [char_of (48 + n)]" by (simp add: show_nat.simps [of n])
    with True show ?thesis by (simp only: digits_val_snoc digit_val_char_of) simp
  next
    case False
    with 1 show ?thesis by (simp add: show_nat.simps [of n])
  qed
qed

lemma show_nat_inj: "show_nat m = show_nat n \<longleftrightarrow> m = n"
  by (metis digits_val_show_nat)

end
