(* ===== verification/GoErrors.thy ===== *)
theory GoErrors
  imports Prelude
begin

text \<open>
  The error values of the program and the questions the code asks of them.

  Go compares the package-level error variables (\<open>errors.New\<close> at package scope) by
  identity, so each is a constructor of \<open>sentinel\<close>; errors made where they are returned
  are \<open>ErrorString\<close> with their text.  \<open>Wrapped\<close> is \<open>errors.Wrap\<close> and \<open>fmt.Errorf\<close>
  with a prefix.  The error types the code tests with a type assertion
  (\<open>scard.Error\<close>, \<open>WrongPINError\<close>, \<open>WrongPUKError\<close>, \<open>ErrBadResponse\<close>, and the
  flow's \<open>restartError\<close>, \<open>giveupError\<close>, \<open>authenticityError\<close>) are constructors.
\<close>

datatype sentinel =
    \<comment> \<open>keycard-go\<close>
    ErrNoAvailablePairingSlots
  | ErrBadChecksumSize
  | ErrUnsupportedLength80
  | ErrLengthTooBig
  | ErrBadRawCommand
  | ErrBadRawResponse
  | ErrInvalidResponseMAC
  | ErrWrongApplicationInfoTemplate
    \<comment> \<open>internal/keycard\_context\_v2.go\<close>
  | ErrKeycardNotConnected
  | ErrKeycardNotInitialized
  | ErrKeycardNotReady
  | ErrKeycardNotAuthorized
  | ErrKeycardNotBlocked
  | ErrKeycardNoKeys
    \<comment> \<open>internal/keycard\_context\_v2\_state.go\<close>
  | SimulatedNoPCSC
  | SimulatedListReadersError
  | SimulatedGetStatusChangeError
  | SimulatedCardConnectError
  | SimulatedSelectAppletError
  | SimulatedOpenSecureChannelError
    \<comment> \<open>pkg/session/service.go\<close>
  | ErrKeycardServiceNotStarted

datatype go_error =
    SCardError uint32
  | WrongPINError int
  | WrongPUKError int
  | ErrBadResponse uint16 string
  | ErrTagNotFound bytes
  | EOF
  | Sentinel sentinel
  | ErrorString string
  | Wrapped string go_error
  | RestartError
  | GiveupError
  | AuthenticityError

type_synonym error = "go_error option" \<comment> \<open>\<open>None\<close> is Go's nil error\<close>

section \<open>Questions the code asks of an error\<close>

text \<open>\<open>IsSCardError\<close>: a type assertion on the error itself, not on what it wraps.\<close>

fun IsSCardError :: "error \<Rightarrow> bool" where
  "IsSCardError (Some (SCardError _)) = True"
| "IsSCardError _ = False"

fun GetRetries :: "error \<Rightarrow> int \<times> bool" where
  "GetRetries (Some (WrongPINError n)) = (n, True)"
| "GetRetries (Some (WrongPUKError n)) = (n, True)"
| "GetRetries _ = (0, False)"

text \<open>\<open>errors.Is\<close> of the standard library: the error or one it wraps is the target.\<close>

fun wraps :: "go_error \<Rightarrow> go_error \<Rightarrow> bool" where
  "wraps (Wrapped m e) t = (Wrapped m e = t \<or> wraps e t)"
| "wraps e t = (e = t)"

definition errors_Is :: "error \<Rightarrow> go_error \<Rightarrow> bool" where
  "errors_Is e t = (case e of None \<Rightarrow> False | Some x \<Rightarrow> wraps x t)"

lemma errors_Is_None [simp]: "\<not> errors_Is None t"
  by (simp add: errors_Is_def)

lemma wraps_refl [simp]: "wraps e e"
  by (cases e) auto

lemma errors_Is_Some_Sentinel [simp]:
  "errors_Is (Some (Sentinel a)) (Sentinel b) \<longleftrightarrow> a = b"
  by (simp add: errors_Is_def)

definition wrapErr :: "string \<Rightarrow> error \<Rightarrow> error" where
  "wrapErr m e = map_option (Wrapped m) e"

lemma wrapErr_simps [simp]:
  "wrapErr m None = None" "wrapErr m (Some e) = Some (Wrapped m e)"
  by (simp_all add: wrapErr_def)

lemma IsSCardError_iff: "IsSCardError e \<longleftrightarrow> (\<exists>c. e = Some (SCardError c))"
  by (cases e rule: IsSCardError.cases) auto

lemma IsSCardError_None [simp]: "\<not> IsSCardError None"
  by simp

text \<open>An error that only says how many attempts are left is never a reader error.\<close>

lemma GetRetries_not_SCard: "snd (GetRetries e) \<Longrightarrow> \<not> IsSCardError e"
  by (cases e rule: GetRetries.cases) auto

section \<open>The texts of errors\<close>

text \<open>The texts the code compares or sends; the others are only logged.\<close>

fun sentinel_text :: "sentinel \<Rightarrow> string" where
  "sentinel_text SimulatedNoPCSC = ''simulated-no-pcsc''"
| "sentinel_text SimulatedListReadersError = ''simulated-list-readers-error''"
| "sentinel_text SimulatedGetStatusChangeError = ''simulated-get-status-change-error''"
| "sentinel_text SimulatedCardConnectError = ''simulated-card-connect-error''"
| "sentinel_text SimulatedSelectAppletError = ''simulated-select-applet-error''"
| "sentinel_text SimulatedOpenSecureChannelError = ''simulated-open-secure-channel-error''"
| "sentinel_text ErrKeycardNotConnected = ''keycard not connected''"
| "sentinel_text ErrKeycardNotInitialized = ''keycard not initialized''"
| "sentinel_text ErrKeycardNotReady = ''keycard not ready''"
| "sentinel_text ErrKeycardNotAuthorized = ''keycard not authorized''"
| "sentinel_text ErrKeycardNotBlocked = ''keycard not blocked''"
| "sentinel_text ErrKeycardNoKeys = ''keycard has not keys''"
| "sentinel_text ErrKeycardServiceNotStarted = ''keycard service not started''"
| "sentinel_text ErrNoAvailablePairingSlots = ''no available pairing slots''"
| "sentinel_text ErrBadChecksumSize = ''bad checksum size''"
| "sentinel_text ErrUnsupportedLength80 = ''length cannot be 0x80''"
| "sentinel_text ErrLengthTooBig = ''length cannot be more than 3 bytes''"
| "sentinel_text ErrBadRawCommand = ''command must be at least 4 bytes''"
| "sentinel_text ErrBadRawResponse = ''response data must be at least 2 bytes''"
| "sentinel_text ErrInvalidResponseMAC = ''invalid response MAC''"
| "sentinel_text ErrWrongApplicationInfoTemplate = ''wrong application info template''"

text \<open>
  \<open>Error()\<close>.  The texts of an \<open>scard.Error\<close> come from a table of the PC/SC binding that
  the code only logs; the number stands for it.
\<close>

fun hex_nat :: "nat \<Rightarrow> string" where
  "hex_nat n =
     (let c = (\<lambda>k. if k < 10 then char_of (48 + k) else char_of (87 + k)) in
      if n < 16 then [c n] else hex_nat (n div 16) @ [c (n mod 16)])"

declare hex_nat.simps [simp del]

definition show_int :: "int \<Rightarrow> string" where
  "show_int i = (if i < 0 then CHR ''-'' # show_nat (nat (- i)) else show_nat (nat i))"

fun error_text :: "go_error \<Rightarrow> string" where
  "error_text (SCardError c) = ''scard: error(0x'' @ hex_nat (unat c) @ '')''"
| "error_text (WrongPINError n) = ''wrong pin. remaining attempts: '' @ show_int n"
| "error_text (WrongPUKError n) = ''wrong puk. remaining attempts: '' @ show_int n"
| "error_text (ErrBadResponse sw m) = ''bad response '' @ hex_nat (unat sw) @ '': '' @ m"
| "error_text (ErrTagNotFound tag) = ''tag '' @ concat (map (\<lambda>b. (if unat b < 16 then ''0'' else []) @ hex_nat (unat b)) tag) @ '' not found''"
| "error_text EOF = ''EOF''"
| "error_text (Sentinel s) = sentinel_text s"
| "error_text (ErrorString m) = m"
| "error_text (Wrapped m e) = m @ '': '' @ error_text e"
| "error_text RestartError = ''restart''"
| "error_text GiveupError = ''giveup''"
| "error_text AuthenticityError = ''authenticity''"

end
