(* ===== verification/HexUtils.thy ===== *)
theory HexUtils
  imports GoErrors
begin

text \<open>
  \<open>pkg/utils/hex_string.go\<close> and the byte helpers of \<open>internal/utils.go\<close>: hexadecimal
  encoding and decoding (\<open>encoding/hex\<close> of the standard library, which \<open>Btox\<close> and
  \<open>Xtob\<close> call), \<open>BytesToInt\<close>, \<open>ParseVersion\<close> and \<open>ContainsString\<close>.
\<close>

section \<open>Hexadecimal strings\<close>

definition hex_digit :: "nat \<Rightarrow> char" where
  "hex_digit n = (if n < 10 then char_of (48 + n) else char_of (87 + n))"

text \<open>The standard decoder takes both cases.\<close>

definition hex_val :: "char \<Rightarrow> nat option" where
  "hex_val c =
     (let n = (of_char c :: nat) in
      if 48 \<le> n \<and> n \<le> 57 then Some (n - 48)
      else if 97 \<le> n \<and> n \<le> 102 then Some (n - 87)
      else if 65 \<le> n \<and> n \<le> 70 then Some (n - 55)
      else None)"

fun Btox :: "bytes \<Rightarrow> string" where
  "Btox [] = []"
| "Btox (b # bs) = hex_digit (unat b div 16) # hex_digit (unat b mod 16) # Btox bs"

text \<open>
  \<open>hex.DecodeString\<close> reports the first bad byte, or an odd length when every complete
  pair is good and the byte that is left over is a digit.
\<close>

definition errHexLength :: go_error where
  "errHexLength = ErrorString ''encoding/hex: odd length hex string''"

definition errHexByte :: go_error where
  "errHexByte = ErrorString ''encoding/hex: invalid byte''"

fun Xtob :: "string \<Rightarrow> go_error + bytes" where
  "Xtob [] = Inr []"
| "Xtob [c] = Inl (if hex_val c = None then errHexByte else errHexLength)"
| "Xtob (c # d # cs) =
     (case hex_val c of None \<Rightarrow> Inl errHexByte
      | Some h \<Rightarrow> (case hex_val d of None \<Rightarrow> Inl errHexByte
        | Some l \<Rightarrow> (case Xtob cs of Inl e \<Rightarrow> Inl e
          | Inr bs \<Rightarrow> Inr (of_nat (16 * h + l) # bs))))"

lemma hex_val_digit [simp]: "n < 16 \<Longrightarrow> hex_val (hex_digit n) = Some n"
  by (auto simp: hex_val_def hex_digit_def)

lemma unat_byte_less: "unat (b :: byte) < 256"
  using unsigned_less [of b] by simp

lemma unat_ucast_byte [simp]: "unat (ucast (b :: byte) :: uint32) = unat b"
  using unat_byte_less [of b] by (simp add: unsigned_ucast_eq take_bit_eq_mod)

lemma byte_split [simp]: "(of_nat (16 * (unat (b :: byte) div 16) + unat b mod 16) :: byte) = b"
  by (simp add: mult_div_mod_eq)

lemma hex_val_bound: "hex_val c = Some n \<Longrightarrow> n < 16"
  by (auto simp: hex_val_def Let_def split: if_splits)

lemma length_Btox [simp]: "length (Btox bs) = 2 * length bs"
  by (induction bs) simp_all

interpretation hex: value_codec Btox Xtob "\<lambda>_. True"
proof
  fix x :: bytes
  have "unat b div 16 < 16" for b :: byte
    using unat_byte_less [of b] by linarith
  then show "Xtob (Btox x) = Inr x"
    by (induction x) (simp_all del: of_nat_add of_nat_mult)
qed

lemma Btox_inj: "Btox a = Btox b \<longleftrightarrow> a = b"
  by (metis TrueI hex.enc_inj_whole)

lemma Btox_eq_Nil [simp]: "Btox b = [] \<longleftrightarrow> b = []"
  by (cases b) simp_all

lemma Xtob_length: "Xtob s = Inr bs \<Longrightarrow> length s = 2 * length bs"
  by (induction s arbitrary: bs rule: Xtob.induct) (auto split: option.splits sum.splits if_splits)

text \<open>Decoding then encoding gives the string back in lower case.\<close>

definition hex_lower :: "char \<Rightarrow> char" where
  "hex_lower c = (if 65 \<le> (of_char c :: nat) \<and> (of_char c :: nat) \<le> 70
     then char_of ((of_char c :: nat) + 32) else c)"

lemma hex_digit_val: "hex_val c = Some n \<Longrightarrow> hex_digit n = hex_lower c"
  by (auto simp: hex_val_def hex_lower_def hex_digit_def Let_def split: if_splits)

lemma unat_hex_byte: "h < 16 \<Longrightarrow> l < 16 \<Longrightarrow> unat (of_nat (16 * h + l) :: byte) = 16 * h + l"
  by (simp add: unat_of_nat del: of_nat_add of_nat_mult)

lemma Btox_Xtob: "Xtob s = Inr bs \<Longrightarrow> Btox bs = map hex_lower s"
proof (induction s arbitrary: bs rule: Xtob.induct)
  case (3 c d cs)
  then obtain h l bs' where h: "hex_val c = Some h" and l: "hex_val d = Some l"
    and cs: "Xtob cs = Inr bs'" and bs: "bs = of_nat (16 * h + l) # bs'"
    by (auto split: option.splits sum.splits)
  have hl: "h < 16" "l < 16" using h l by (auto dest: hex_val_bound)
  have "Btox bs' = map hex_lower cs" by (rule "3.IH" [OF h l cs])
  with hl h l show ?case
    by (simp add: bs unat_hex_byte hex_digit_val del: of_nat_add of_nat_mult)
qed (auto split: if_splits)

section \<open>Strings and byte slices\<close>

text \<open>The conversions \<open>[]byte(s)\<close> and \<open>string(b)\<close>: a Go string is its bytes.\<close>

definition string_bytes :: "string \<Rightarrow> bytes" where
  "string_bytes s = map (\<lambda>c. of_nat (of_char c)) s"

definition bytes_string :: "bytes \<Rightarrow> string" where
  "bytes_string bs = map (\<lambda>b. char_of (unat b)) bs"

lemma char_byte [simp]: "char_of (unat (of_nat (of_char c) :: byte)) = c"
  by (simp add: unat_of_nat)

lemma bytes_string_inverse [simp]: "bytes_string (string_bytes s) = s"
  by (simp add: bytes_string_def string_bytes_def comp_def)

lemma string_bytes_inverse [simp]: "string_bytes (bytes_string b) = b"
  using unat_byte_less by (simp add: bytes_string_def string_bytes_def comp_def map_idI)

lemma length_string_bytes [simp]: "length (string_bytes s) = length s"
  by (simp add: string_bytes_def)

section \<open>Numbers in byte slices\<close>

text \<open>\<open>binary.BigEndian.Uint32\<close> on four bytes.\<close>

definition be_uint32 :: "bytes \<Rightarrow> uint32" where
  "be_uint32 bs = foldl (\<lambda>a b. (a * 256) OR ucast b) 0 bs"

text \<open>\<open>copy(num[4-len(s):], s)\<close> on a zeroed array of four.\<close>

definition pad4 :: "bytes \<Rightarrow> bytes" where
  "pad4 s = replicate (4 - length s) 0 @ s"

definition BytesToInt :: "bytes \<Rightarrow> int" where
  "BytesToInt s = (if length s > 4 then 0 else uint (be_uint32 (pad4 s)))"

lemma pad4_simps:
  "pad4 [] = [0, 0, 0, 0]"
  "pad4 [a] = [0, 0, 0, a]"
  "pad4 [a, b] = [0, 0, a, b]"
  "pad4 [a, b, c] = [0, a, b, c]"
  "pad4 [a, b, c, d] = [a, b, c, d]"
  by (simp_all add: pad4_def numeral_eq_Suc)

lemma BytesToInt_nonneg [simp]: "0 \<le> BytesToInt s"
  by (simp add: BytesToInt_def)

lemma BytesToInt_bound: "BytesToInt s < 2 ^ 32"
  using uint_bounded [of "be_uint32 (pad4 s)"] by (simp add: BytesToInt_def)

lemma BytesToInt_Nil [simp]: "BytesToInt [] = 0"
  by (simp add: BytesToInt_def be_uint32_def pad4_simps)

lemma mult256_push: "(x :: uint32) * 256 = push_bit 8 x"
  by (simp add: push_bit_eq_mult)

text \<open>One byte shifted in below: no carry, so the \<open>OR\<close> is a sum.\<close>

lemma or_byte_plus: "(a * 256 :: uint32) OR ucast (b :: byte) = a * 256 + ucast b"
proof -
  have "(push_bit 8 a) AND (ucast b :: uint32) = 0"
    by (rule bit_word_eqI) (auto simp: bit_simps dest: bit_imp_le_length)
  then show ?thesis
    using word_plus_and_or [of "push_bit 8 a" "ucast b"] by (simp add: mult256_push)
qed

fun ParseVersion :: "bytes \<Rightarrow> string" where
  "ParseVersion [] = ''''"
| "ParseVersion [major, minor] = show_nat (unat major) @ ''.'' @ show_nat (unat minor)"
| "ParseVersion _ = ''unexpected version format''"

fun ContainsString :: "string \<Rightarrow> string list \<Rightarrow> bool" where
  "ContainsString str [] = False"
| "ContainsString str (v # s) = (if v = str then True else ContainsString str s)"

lemma ContainsString_iff [simp]: "ContainsString str s \<longleftrightarrow> str \<in> set s"
  by (induction s) auto

text \<open>
  \<open>HexString\<close>: bytes that JSON has as the text of their hexadecimal digits; \<open>json.Marshal\<close> and
  \<open>json.Unmarshal\<close> of a string are parameters.
\<close>

definition HexString_MarshalJSON :: "(string \<Rightarrow> go_error + bytes) \<Rightarrow> bytes \<Rightarrow> go_error + bytes" where
  "HexString_MarshalJSON marshal s = marshal (Btox s)"

definition HexString_UnmarshalJSON :: "(bytes \<Rightarrow> go_error + string) \<Rightarrow> bytes \<Rightarrow> go_error + bytes" where
  "HexString_UnmarshalJSON unmarshal data =
     (case unmarshal data of Inl e \<Rightarrow> Inl e | Inr x \<Rightarrow> Xtob x)"

definition HexString_String :: "bytes \<Rightarrow> string" where
  "HexString_String s = Btox s"

lemma HexString_round_trip:
  "(\<And>x b. marshal x = Inr b \<Longrightarrow> unmarshal b = Inr x) \<Longrightarrow> HexString_MarshalJSON marshal s = Inr b \<Longrightarrow>
     HexString_UnmarshalJSON unmarshal b = Inr s"
  by (simp add: HexString_MarshalJSON_def HexString_UnmarshalJSON_def hex.dec_enc_whole)

end
