(* ===== verification/Apdu.thy ===== *)
theory Apdu
  imports HexUtils
begin

text \<open>
  The package \<open>apdu\<close> of the vendored keycard-go: TLV tags and lengths
  (\<open>apdu/utils.go\<close>), raw responses (\<open>apdu/response.go\<close>) and commands
  (\<open>apdu/command.go\<close>).  A \<open>bytes.Buffer\<close> is the list of its unread bytes; a read
  returns its result and the bytes that are left.
\<close>

section \<open>Lengths\<close>

text \<open>
  \<open>buf.Read(make([]byte, n))\<close>: at the end of the buffer an error (unless \<open>n\<close> is 0);
  otherwise whatever is there, and the rest of the slice keeps its zeros.
\<close>

definition bufRead :: "nat \<Rightarrow> bytes \<Rightarrow> (go_error + bytes) \<times> bytes" where
  "bufRead n buf =
     (if buf = [] \<and> n \<noteq> 0 then (Inl EOF, [])
      else (Inr (take n buf @ replicate (n - length buf) 0), drop n buf))"

fun ParseLength :: "bytes \<Rightarrow> (go_error + uint32) \<times> bytes" where
  "ParseLength [] = (Inl EOF, [])"
| "ParseLength (len # buf) =
     (if len = 0x80 then (Inl (Sentinel ErrUnsupportedLength80), buf)
      else if len > 0x80 then
        (let lengthSize = len - 0x80 in
         if lengthSize > 3 then (Inl (Sentinel ErrLengthTooBig), buf)
         else (case bufRead (unat lengthSize) buf of
             (Inl e, buf') \<Rightarrow> (Inl e, buf')
           | (Inr data, buf') \<Rightarrow> (Inr (be_uint32 (pad4 data)), buf')))
      else (Inr (ucast len), buf))"

definition byteOf :: "uint32 \<Rightarrow> byte" where
  "byteOf w = ucast w"

definition WriteLength :: "uint32 \<Rightarrow> bytes" where
  "WriteLength n =
     (if n < 0x80 then [byteOf n]
      else if n < 0x100 then [0x81, byteOf n]
      else if n < 0x10000 then [0x82, byteOf (drop_bit 8 n), byteOf n]
      else if n < 0x1000000 then
        [0x83, byteOf (drop_bit 16 n), byteOf (drop_bit 8 n), byteOf n]
      else
        [0x84, byteOf (drop_bit 24 n), byteOf (drop_bit 16 n), byteOf (drop_bit 8 n), byteOf n])"

lemma bufRead_append: "length ds = n \<Longrightarrow> bufRead n (ds @ rest) = (Inr ds, rest)"
  by (auto simp: bufRead_def)

lemma bufRead_length: "bufRead n buf = (Inr data, buf') \<Longrightarrow> length data = n"
  by (auto simp: bufRead_def split: if_splits)

lemma bufRead_rest: "bufRead n buf = (r, buf') \<Longrightarrow> length buf' \<le> length buf"
  by (auto simp: bufRead_def split: if_splits)

lemma ParseLength_rest: "ParseLength buf = (r, buf') \<Longrightarrow> length buf' \<le> length buf"
  by (cases buf) (auto simp: Let_def dest: bufRead_rest split: if_splits prod.splits sum.splits)

lemma ParseLength_shrinks: "ParseLength buf = (Inr n, buf') \<Longrightarrow> length buf' < length buf"
  by (cases buf) (auto simp: Let_def le_imp_less_Suc dest: bufRead_rest
      split: if_splits prod.splits sum.splits)

text \<open>Three bytes are the most a length is read from, so it is below \<open>2 ^ 24\<close>.\<close>

lemma be_uint32_4:
  "be_uint32 [a, b, c, d] =
     ((ucast a * 256 + ucast b) * 256 + ucast c) * 256 + (ucast d :: uint32)"
  by (simp add: be_uint32_def or_byte_plus)

lemma unat_be_uint32_4:
  "unat (be_uint32 [a, b, c, d]) = ((unat a * 256 + unat b) * 256 + unat c) * 256 + unat d"
proof -
  have "((unat a * 256 + unat b) * 256 + unat c) * 256 + unat d < 2 ^ 32"
    using unat_byte_less [of a] unat_byte_less [of b] unat_byte_less [of c] unat_byte_less [of d]
    by simp
  then show ?thesis
    by (simp add: be_uint32_4 unat_word_ariths mod_simps)
qed

lemma pad4_upto3: "length d \<le> 3 \<Longrightarrow> \<exists>a b c. pad4 d = [0, a, b, c]"
  by (auto simp: pad4_def numeral_eq_Suc length_Suc_conv le_Suc_eq)

lemma ParseLength_bound:
  assumes "ParseLength buf = (Inr n, buf')"
  shows "unat n < 2 ^ 24"
proof (cases buf)
  case Nil
  with assms show ?thesis by simp
next
  case (Cons len bs)
  show ?thesis
  proof (cases "len > 0x80")
    case True
    with assms Cons obtain d where sz: "len - 0x80 \<le> 3" and n: "n = be_uint32 (pad4 d)"
      and d: "length d = unat (len - 0x80)"
      by (auto simp: Let_def not_less dest: bufRead_length split: if_splits prod.splits sum.splits)
    from sz d have "length d \<le> 3" by (simp add: word_le_nat_alt)
    then obtain a b c where "pad4 d = [0, a, b, c]" using pad4_upto3 by blast
    with n show ?thesis
      using unat_byte_less [of a] unat_byte_less [of b] unat_byte_less [of c]
      by (simp add: unat_be_uint32_4)
  next
    case False
    with assms Cons have "n = ucast len" by (auto split: if_splits)
    then show ?thesis
      using unat_byte_less [of len] by simp
  qed
qed


text \<open>Writing then reading gives the length back, for every length below \<open>2 ^ 24\<close>.\<close>

lemma unat_byteOf: "unat (byteOf n) = unat n mod 256"
  by (simp add: byteOf_def unsigned_ucast_eq take_bit_eq_mod)

lemma unat_drop: "unat (drop_bit k (n :: uint32)) = unat n div 2 ^ k"
  unfolding unat_drop_bit_eq by (rule drop_bit_eq_div)

lemmas length_bytes = unat_byteOf unat_drop

lemma be_uint32_eqI:
  "((unat a * 256 + unat b) * 256 + unat c) * 256 + unat d = unat n \<Longrightarrow> be_uint32 [a, b, c, d] = n"
  by (simp add: word_unat_eq_iff unat_be_uint32_4)

lemma WriteLength_1: "n < 0x80 \<Longrightarrow> ParseLength (WriteLength n @ rest) = (Inr n, rest)"
proof -
  assume n: "n < 0x80"
  then have u: "unat n < 128" by (simp add: word_less_nat_alt)
  then have b: "unat (byteOf n) = unat n" by (simp add: unat_byteOf)
  with u have "byteOf n \<noteq> 0x80" "\<not> byteOf n > 0x80"
    by (simp_all add: word_unat_eq_iff word_less_nat_alt)
  moreover have "ucast (byteOf n) = n" by (simp add: word_unat_eq_iff b)
  ultimately show ?thesis using n by (simp add: WriteLength_def)
qed

lemma ParseLength_sized:
  "ParseLength (0x81 # a # rest) = (Inr (be_uint32 [0, 0, 0, a]), rest)"
  "ParseLength (0x82 # a # b # rest) = (Inr (be_uint32 [0, 0, a, b]), rest)"
  "ParseLength (0x83 # a # b # c # rest) = (Inr (be_uint32 [0, a, b, c]), rest)"
  by (simp_all add: bufRead_def pad4_simps)

lemma WriteLength_forms:
  "n < 0x100 \<Longrightarrow> \<not> n < 0x80 \<Longrightarrow> WriteLength n = [0x81, byteOf n]"
  "n < 0x10000 \<Longrightarrow> \<not> n < 0x100 \<Longrightarrow> WriteLength n = [0x82, byteOf (drop_bit 8 n), byteOf n]"
  "n < 0x1000000 \<Longrightarrow> \<not> n < 0x10000 \<Longrightarrow>
     WriteLength n = [0x83, byteOf (drop_bit 16 n), byteOf (drop_bit 8 n), byteOf n]"
  by (auto simp: WriteLength_def word_less_nat_alt)

lemma bytes3:
  "m < 2 ^ 24 \<Longrightarrow>
     ((0 * 256 + m div 2 ^ 16 mod 256) * 256 + m div 2 ^ 8 mod 256) * 256 + m mod 256 = (m :: nat)"
proof -
  assume m: "m < 2 ^ 24"
  define q where "q = m div 256"
  have "m div 2 ^ 16 = q div 256" by (simp add: q_def flip: div_mult2_eq)
  moreover from m have "q div 256 < 256" by (simp add: q_def)
  moreover have "q div 256 * 256 + q mod 256 = q" by (rule div_mult_mod_eq)
  moreover have "q * 256 + m mod 256 = m" unfolding q_def by (rule div_mult_mod_eq)
  ultimately show ?thesis by (simp flip: q_def)
qed

lemma ParseLength_WriteLength:
  assumes "n < 0x1000000"
  shows "ParseLength (WriteLength n @ rest) = (Inr n, rest)"
proof (cases "n < 0x80")
  case True
  then show ?thesis by (rule WriteLength_1)
next
  case False
  have u: "unat n < 2 ^ 24" using assms by (simp add: word_less_nat_alt)
  consider "n < 0x100" | "\<not> n < 0x100" "n < 0x10000" | "\<not> n < 0x10000" by blast
  then show ?thesis
  proof cases
    case 1
    then have "be_uint32 [0, 0, 0, byteOf n] = n"
      by (intro be_uint32_eqI) (simp add: length_bytes word_less_nat_alt)
    then show ?thesis
      by (simp only: WriteLength_forms(1) [OF 1 False] ParseLength_sized append_Cons append_Nil)
  next
    case 2
    then have "unat n < 65536" by (simp add: word_less_nat_alt)
    then have "be_uint32 [0, 0, byteOf (drop_bit 8 n), byteOf n] = n"
      by (intro be_uint32_eqI) (simp add: length_bytes)
    then show ?thesis
      by (simp only: WriteLength_forms(2) [OF 2(2) 2(1)] ParseLength_sized append_Cons append_Nil)
  next
    case 3
    have "be_uint32 [0, byteOf (drop_bit 16 n), byteOf (drop_bit 8 n), byteOf n] = n"
      by (intro be_uint32_eqI) (simp only: length_bytes unsigned_0 bytes3 [OF u])
    then show ?thesis
      by (simp only: WriteLength_forms(3) [OF assms 3] ParseLength_sized append_Cons append_Nil)
  qed
qed

interpretation length: prefix_codec WriteLength ParseLength "\<lambda>n. n < 0x1000000"
  by unfold_locales (rule ParseLength_WriteLength)

text \<open>
  From \<open>2 ^ 24\<close> on the writer uses a four-byte form that the reader refuses.
\<close>

lemma ParseLength_WriteLength_big:
  assumes "\<not> n < 0x1000000"
  shows "fst (ParseLength (WriteLength n @ rest)) = Inl (Sentinel ErrLengthTooBig)"
proof -
  have "\<not> n < 0x80" "\<not> n < 0x100" "\<not> n < 0x10000"
    using assms by (auto simp: word_less_nat_alt)
  with assms show ?thesis by (simp add: WriteLength_def)
qed

lemma ParseLength_WriteLength_iff:
  "fst (ParseLength (WriteLength n @ rest)) = Inr n \<longleftrightarrow> n < 0x1000000"
  using ParseLength_WriteLength [of n rest] ParseLength_WriteLength_big [of n rest]
  by (cases "n < 0x1000000") simp_all

lemma WriteLength_length: "1 \<le> length (WriteLength n) \<and> length (WriteLength n) \<le> 5"
  by (simp add: WriteLength_def)

section \<open>Tags\<close>

text \<open>The bytes of a multi-byte tag: up to the first without the top bit.\<close>

fun parseTagMore :: "bytes \<Rightarrow> bytes \<Rightarrow> (go_error + bytes) \<times> bytes" where
  "parseTagMore tag [] = (Inl EOF, [])"
| "parseTagMore tag (b # buf) =
     (if b AND 0x80 \<noteq> 0x80 then (Inr (tag @ [b]), buf) else parseTagMore (tag @ [b]) buf)"

fun parseTag :: "bytes \<Rightarrow> (go_error + bytes) \<times> bytes" where
  "parseTag [] = (Inl EOF, [])"
| "parseTag (b # buf) =
     (if b AND 0x1F \<noteq> 0x1F then (Inr [b], buf) else parseTagMore [b] buf)"

lemma parseTagMore_rest: "parseTagMore tag buf = (r, buf') \<Longrightarrow> length buf' \<le> length buf"
  by (induction tag buf rule: parseTagMore.induct) (auto split: if_splits)

lemma parseTag_shrinks: "parseTag buf = (Inr tag, buf') \<Longrightarrow> length buf' < length buf"
  by (cases buf) (auto simp: le_imp_less_Suc dest: parseTagMore_rest split: if_splits)

text \<open>
  \<open>findTag\<close>: the loop over the entries of a TLV sequence is the recursion on the rest of
  the buffer with the same tags; the descent into a constructed entry is the recursion
  with the tail of the tags.
\<close>

function (sequential) findTag :: "bytes \<Rightarrow> nat \<Rightarrow> bytes list \<Rightarrow> go_error + bytes" where
  "findTag raw occurrence [] = Inr raw"
| "findTag raw occurrence (target # tags) =
     (case parseTag raw of
        (Inl e, _) \<Rightarrow> Inl (if e = EOF then ErrTagNotFound target else e)
      | (Inr tag, buf) \<Rightarrow>
          (case ParseLength buf of
             (Inl e, _) \<Rightarrow> Inl e
           | (Inr len, buf') \<Rightarrow>
               (case bufRead (unat len) buf' of
                  (Inl e, _) \<Rightarrow> Inl e
                | (Inr data, buf'') \<Rightarrow>
                    if tag = target then
                      if tags = [] \<and> occurrence > 0 then findTag buf'' (occurrence - 1) (target # tags)
                      else if tags = [] then Inr data
                      else findTag data occurrence tags
                    else findTag buf'' occurrence (target # tags))))"
  by pat_completeness auto

lemma findTag_shrinks:
  assumes "parseTag raw = (Inr tag, buf)" and "ParseLength buf = (r, buf')"
    and "bufRead n buf' = (r', buf'')"
  shows "length buf'' < length raw"
  using parseTag_shrinks [OF assms(1)] ParseLength_rest [OF assms(2)] bufRead_rest [OF assms(3)]
  by linarith

termination findTag
  by (relation "measures [\<lambda>(raw, n, tags). length tags, \<lambda>(raw, n, tags). length raw]")
     (auto intro: findTag_shrinks [OF sym sym sym])

declare findTag.simps(2) [simp del]

definition FindTag :: "bytes \<Rightarrow> bytes list \<Rightarrow> go_error + bytes" where
  "FindTag raw tags = findTag raw 0 tags"

definition FindTagN :: "bytes \<Rightarrow> nat \<Rightarrow> bytes list \<Rightarrow> go_error + bytes" where
  "FindTagN raw n tags = findTag raw n tags"

text \<open>
  A TLV entry, as the card writes it: a one-byte tag, the length, the value.  The readers
  of the code look such entries up; the writer is what their properties are stated with.
\<close>

definition tlv :: "byte \<Rightarrow> bytes \<Rightarrow> bytes" where
  "tlv tag v = tag # WriteLength (of_nat (length v)) @ v"

definition simple_tag :: "byte \<Rightarrow> bool" where
  "simple_tag t \<longleftrightarrow> t AND 0x1F \<noteq> 0x1F"

lemma of_nat_length_ok:
  assumes "length v < 2 ^ 24"
  shows "(of_nat (length v) :: uint32) < 0x1000000" and "unat (of_nat (length v) :: uint32) = length v"
proof -
  from assms show u: "unat (of_nat (length v) :: uint32) = length v"
    by (simp add: unat_of_nat)
  from assms show "(of_nat (length v) :: uint32) < 0x1000000"
    by (simp add: word_less_nat_alt u)
qed

lemma findTag_tlv:
  assumes "simple_tag t" and "length v < 2 ^ 24"
  shows "findTag (tlv t v @ rest) n (target # tags) =
     (if [t] = target then
        if tags = [] \<and> n > 0 then findTag rest (n - 1) (target # tags)
        else if tags = [] then Inr v
        else findTag v n tags
      else findTag rest n (target # tags))"
proof -
  have "parseTag (tlv t v @ rest) = (Inr [t], WriteLength (of_nat (length v)) @ v @ rest)"
    using assms(1) by (simp add: tlv_def simple_tag_def)
  moreover have "ParseLength (WriteLength (of_nat (length v)) @ v @ rest) =
      (Inr (of_nat (length v)), v @ rest)"
    by (rule ParseLength_WriteLength) (rule of_nat_length_ok [OF assms(2)])
  moreover have "bufRead (length v) (v @ rest) = (Inr v, rest)"
    by (rule bufRead_append) (rule refl)
  ultimately show ?thesis
    by (simp add: findTag.simps(2) of_nat_length_ok [OF assms(2)])
qed

lemma findTag_Nil: "findTag [] n (target # tags) = Inl (ErrTagNotFound target)"
  by (simp add: findTag.simps(2))

section \<open>Responses\<close>

record response =
  resp_Data :: bytes
  Sw1 :: byte
  Sw2 :: byte
  Sw :: uint16

definition SwOK :: uint16 where "SwOK = 0x9000"

definition mkSw :: "byte \<Rightarrow> byte \<Rightarrow> uint16" where
  "mkSw a b = (push_bit 8 (ucast a)) OR ucast b"

definition ParseResponse :: "bytes \<Rightarrow> go_error + response" where
  "ParseResponse data =
     (if length data < 2 then Inl (Sentinel ErrBadRawResponse)
      else
        (let n = length data - 2; sw1 = data ! n; sw2 = data ! (n + 1) in
         Inr \<lparr>resp_Data = take n data, Sw1 = sw1, Sw2 = sw2, Sw = mkSw sw1 sw2\<rparr>))"

definition NewErrBadResponse :: "uint16 \<Rightarrow> string \<Rightarrow> go_error" where
  "NewErrBadResponse sw message = ErrBadResponse sw message"

lemma ParseResponse_append:
  "ParseResponse (d @ [a, b]) = Inr \<lparr>resp_Data = d, Sw1 = a, Sw2 = b, Sw = mkSw a b\<rparr>"
  by (simp add: ParseResponse_def Let_def nth_append)

lemma last_two:
  assumes "2 \<le> length xs"
  obtains d a b where "xs = d @ [a, b]"
proof -
  from assms obtain ys b where xs: "xs = ys @ [b]" by (cases xs rule: rev_cases) auto
  with assms obtain d a where "ys = d @ [a]" by (cases ys rule: rev_cases) auto
  with xs show ?thesis using that by simp
qed

lemma ParseResponse_cases:
  "ParseResponse data = Inr r \<longleftrightarrow>
     data = resp_Data r @ [Sw1 r, Sw2 r] \<and> Sw r = mkSw (Sw1 r) (Sw2 r)"
proof
  assume r: "ParseResponse data = Inr r"
  then have "2 \<le> length data" by (auto simp: ParseResponse_def split: if_splits)
  then obtain d a b where "data = d @ [a, b]" by (rule last_two)
  with r show "data = resp_Data r @ [Sw1 r, Sw2 r] \<and> Sw r = mkSw (Sw1 r) (Sw2 r)"
    by (auto simp: ParseResponse_append)
next
  assume "data = resp_Data r @ [Sw1 r, Sw2 r] \<and> Sw r = mkSw (Sw1 r) (Sw2 r)"
  then show "ParseResponse data = Inr r"
    using ParseResponse_append [of "resp_Data r" "Sw1 r" "Sw2 r"] by simp
qed


section \<open>Commands\<close>

record command =
  Cla :: byte
  Ins :: byte
  P1 :: byte
  P2 :: byte
  cmd_Data :: bytes
  cmd_le :: byte
  cmd_requiresLe :: bool

definition NewCommand :: "byte \<Rightarrow> byte \<Rightarrow> byte \<Rightarrow> byte \<Rightarrow> bytes \<Rightarrow> command" where
  "NewCommand cla ins p1 p2 data =
     \<lparr>Cla = cla, Ins = ins, P1 = p1, P2 = p2, cmd_Data = data, cmd_le = 0, cmd_requiresLe = False\<rparr>"

definition SetLe :: "byte \<Rightarrow> command \<Rightarrow> command" where
  "SetLe le c = c\<lparr>cmd_requiresLe := True, cmd_le := le\<rparr>"

text \<open>Writing to a \<open>bytes.Buffer\<close> never fails; the length byte is truncated to 8 bits.\<close>

definition SerializeCommand :: "command \<Rightarrow> bytes" where
  "SerializeCommand c =
     [Cla c, Ins c, P1 c, P2 c] @
     (if cmd_Data c \<noteq> [] then of_nat (length (cmd_Data c)) # cmd_Data c else []) @
     (if cmd_requiresLe c then [cmd_le c] else [])"

text \<open>
  \<open>ParseCommand\<close>: a missing length byte, fewer data bytes than announced and a missing
  \<open>Le\<close> each end the parse without an error.
\<close>

definition ParseCommand :: "bytes \<Rightarrow> go_error + command" where
  "ParseCommand raw =
     (case raw of
        cla # ins # p1 # p2 # r \<Rightarrow>
          (let c = NewCommand cla ins p1 p2 [] in
           case r of
             [] \<Rightarrow> Inr c
           | lc # r' \<Rightarrow>
               if length r' < unat lc then Inr c
               else
                 (let c' = c\<lparr>cmd_Data := take (unat lc) r'\<rparr> in
                  case drop (unat lc) r' of
                    [] \<Rightarrow> Inr c'
                  | le # _ \<Rightarrow> Inr (SetLe le c')))
      | _ \<Rightarrow> Inl (Sentinel ErrBadRawCommand))"

text \<open>
  A command whose data fits the length byte and that has data, or no \<open>Le\<close>, is parsed
  back as it was.
\<close>

definition cmd_wire :: "command \<Rightarrow> bool" where
  "cmd_wire c \<longleftrightarrow> length (cmd_Data c) < 256 \<and> (cmd_requiresLe c \<longrightarrow> cmd_Data c \<noteq> []) \<and>
     (\<not> cmd_requiresLe c \<longrightarrow> cmd_le c = 0)"

lemma unat_of_nat_byte: "n < 256 \<Longrightarrow> unat (of_nat n :: byte) = n"
  by (simp add: unat_of_nat)

lemma ParseCommand_Serialize: "cmd_wire c \<Longrightarrow> ParseCommand (SerializeCommand c) = Inr c"
  by (cases c) (auto simp: cmd_wire_def ParseCommand_def SerializeCommand_def NewCommand_def
      SetLe_def Let_def unat_of_nat_byte)

interpretation cmd: value_codec SerializeCommand ParseCommand cmd_wire
  by unfold_locales (rule ParseCommand_Serialize)

end
