(* ===== verification/Metadata.thy ===== *)
theory Metadata
  imports Apdu
begin

text \<open>
  The public data of a card, \<open>types/metadata.go\<close> of the vendored keycard-go: a card name
  and the ordered set of the last components of its wallet paths, with the byte format
  they are stored in.  \<open>container/list\<close> is a list from front to back.
\<close>

section \<open>The ordered set of path components\<close>

record metadata =
  md_name :: string
  md_paths :: "uint32 list"

text \<open>The walk of \<open>insertOrderedNoDups\<close> starts at the back: it sees the list reversed.\<close>

fun insertFromBack :: "uint32 \<Rightarrow> uint32 list \<Rightarrow> uint32 list" where
  "insertFromBack num [] = [num]"
| "insertFromBack num (val # prevs) =
     (if num > val then num # val # prevs
      else if num = val then val # prevs
      else val # insertFromBack num prevs)"

definition insertOrderedNoDups :: "uint32 list \<Rightarrow> uint32 \<Rightarrow> uint32 list" where
  "insertOrderedNoDups xs num = rev (insertFromBack num (rev xs))"

definition EmptyMetadata :: metadata where
  "EmptyMetadata = \<lparr>md_name = '''', md_paths = []\<rparr>"

definition SetName :: "string \<Rightarrow> metadata \<Rightarrow> go_error + metadata" where
  "SetName name m =
     (if length name > 20 then Inl (ErrorString ''name longer than 20 chars'')
      else Inr (m\<lparr>md_name := name\<rparr>))"

definition AddPath :: "uint32 \<Rightarrow> metadata \<Rightarrow> metadata" where
  "AddPath path m = m\<lparr>md_paths := insertOrderedNoDups (md_paths m) path\<rparr>"

definition RemovePath :: "uint32 \<Rightarrow> metadata \<Rightarrow> metadata" where
  "RemovePath path m = m\<lparr>md_paths := remove1 path (md_paths m)\<rparr>"

definition NewMetadata :: "string \<Rightarrow> uint32 list \<Rightarrow> go_error + metadata" where
  "NewMetadata name paths =
     (case SetName name EmptyMetadata of Inl e \<Rightarrow> Inl e
      | Inr m \<Rightarrow> Inr (fold AddPath paths m))"

text \<open>The representation invariant: strictly increasing.\<close>

abbreviation increasing :: "uint32 list \<Rightarrow> bool" where
  "increasing xs \<equiv> sorted_wrt (<) xs"

text \<open>What a set of numbers promises its clients, whatever list it is kept in.\<close>

locale ordered_set =
  fixes ins :: "'l \<Rightarrow> 'a :: linorder \<Rightarrow> 'l"
    and elems :: "'l \<Rightarrow> 'a list"
  assumes ins_increasing: "sorted_wrt (<) (elems l) \<Longrightarrow> sorted_wrt (<) (elems (ins l x))"
    and ins_elems: "sorted_wrt (<) (elems l) \<Longrightarrow> set (elems (ins l x)) = insert x (set (elems l))"
begin

lemma increasing_unique:
  "sorted_wrt (<) xs \<Longrightarrow> sorted_wrt (<) ys \<Longrightarrow> set xs = set ys \<Longrightarrow> xs = (ys :: 'a list)"
  by (meson strict_sorted_equal)

lemma fold_increasing:
  "sorted_wrt (<) (elems l) \<Longrightarrow> sorted_wrt (<) (elems (fold (\<lambda>x l. ins l x) xs l))"
  by (induction xs arbitrary: l) (auto intro: ins_increasing)

lemma fold_elems:
  "sorted_wrt (<) (elems l) \<Longrightarrow> set (elems (fold (\<lambda>x l. ins l x) xs l)) = set xs \<union> set (elems l)"
  by (induction xs arbitrary: l) (simp_all add: ins_elems ins_increasing)

lemma fold_sorted_list:
  assumes "elems l = []"
  shows "elems (fold (\<lambda>x l. ins l x) xs l) = sorted_list_of_set (set xs)"
  using fold_increasing [of l xs] fold_elems [of l xs] assms
  by (intro increasing_unique) simp_all

lemma ins_idem:
  assumes "sorted_wrt (<) (elems l)" and "x \<in> set (elems l)"
  shows "elems (ins l x) = elems l"
  by (rule increasing_unique) (use assms in \<open>simp_all add: ins_increasing ins_elems insert_absorb\<close>)

lemma ins_last:
  assumes "sorted_wrt (<) (elems l)" and "\<forall>y \<in> set (elems l). y < x"
  shows "elems (ins l x) = elems l @ [x]"
  by (rule increasing_unique)
     (use assms in \<open>simp_all add: ins_increasing ins_elems sorted_wrt_append\<close>)

end

lemma insertFromBack_set: "set (insertFromBack n xs) = insert n (set xs)"
  by (induction xs) auto

lemma insertFromBack_decreasing:
  "sorted_wrt (>) xs \<Longrightarrow> sorted_wrt (>) (insertFromBack n xs)"
proof (induction xs)
  case (Cons x xs)
  then show ?case by (auto simp: insertFromBack_set not_less)
qed simp

lemma decreasing_rev: "sorted_wrt (>) (rev xs) = increasing xs"
  by (simp add: sorted_wrt_rev)

interpretation pathset: ordered_set insertOrderedNoDups "\<lambda>xs. xs"
proof
  fix l :: "uint32 list" and x
  assume "increasing l"
  then show "increasing (insertOrderedNoDups l x)"
    using insertFromBack_decreasing [of "rev l" x] decreasing_rev
    by (metis insertOrderedNoDups_def rev_rev_ident)
  show "set (insertOrderedNoDups l x) = insert x (set l)"
    by (simp add: insertOrderedNoDups_def insertFromBack_set)
qed

interpretation mdset: ordered_set "\<lambda>m x. AddPath x m" md_paths
  by unfold_locales (simp_all add: AddPath_def pathset.ins_increasing pathset.ins_elems)

lemma fold_AddPath_name: "md_name (fold AddPath xs m) = md_name m"
  by (induction xs arbitrary: m) (simp_all add: AddPath_def)

lemma NewMetadata_ok:
  "length name \<le> 20 \<Longrightarrow>
     NewMetadata name paths = Inr \<lparr>md_name = name, md_paths = sorted_list_of_set (set paths)\<rparr>"
  by (rule ssubst [OF NewMetadata_def])
     (simp add: SetName_def EmptyMetadata_def mdset.fold_sorted_list fold_AddPath_name metadata.equality)

lemma NewMetadata_long: "length name > 20 \<Longrightarrow>
     NewMetadata name paths = Inl (ErrorString ''name longer than 20 chars'')"
  by (simp add: NewMetadata_def SetName_def)

definition md_wf :: "metadata \<Rightarrow> bool" where
  "md_wf m \<longleftrightarrow> length (md_name m) \<le> 20 \<and> increasing (md_paths m)"

lemma NewMetadata_wf: "NewMetadata name paths = Inr m \<Longrightarrow> md_wf m"
  using NewMetadata_ok [of name paths] NewMetadata_long [of name paths]
  by (cases "length name \<le> 20") (auto simp: md_wf_def not_le)

lemma RemovePath_wf: "md_wf m \<Longrightarrow> md_wf (RemovePath p m)"
proof -
  have "increasing xs \<Longrightarrow> increasing (remove1 p xs)" for xs :: "uint32 list"
    by (induction xs) (auto dest: set_remove1_subset [THEN subsetD])
  then show "md_wf m \<Longrightarrow> ?thesis" by (simp add: md_wf_def RemovePath_def)
qed

lemma AddPath_wf: "md_wf m \<Longrightarrow> md_wf (AddPath p m)"
  using mdset.ins_increasing by (simp add: md_wf_def AddPath_def)

section \<open>The byte format\<close>

text \<open>
  The loop of \<open>Serialize\<close>: the current run starts at \<open>start\<close> and holds \<open>len + 1\<close>
  consecutive numbers; the list is what has not been visited.
\<close>

fun serializeRuns :: "uint32 \<Rightarrow> uint32 \<Rightarrow> uint32 list \<Rightarrow> bytes" where
  "serializeRuns start len [] = WriteLength start @ WriteLength len"
| "serializeRuns start len (w # ws) =
     (if w = start + len + 1 then serializeRuns start (len + 1) ws
      else WriteLength start @ WriteLength len @ serializeRuns w 0 ws)"

definition Serialize :: "metadata \<Rightarrow> bytes" where
  "Serialize m =
     (0x20 OR of_nat (length (md_name m))) # string_bytes (md_name m) @
     (case md_paths m of [] \<Rightarrow> [] | start # ps \<Rightarrow> serializeRuns start 0 ps)"

text \<open>
  The inner loop of \<open>ParseMetadata\<close>, \<open>for i := start; i <= hi; i++\<close> on 32-bit numbers:
  it would not end for the greatest \<open>hi\<close>, so its result is an option.
\<close>

partial_function (option) insertRange :: "uint32 \<Rightarrow> uint32 \<Rightarrow> uint32 list \<Rightarrow> uint32 list option" where
  "insertRange i hi xs =
     (if i \<le> hi then insertRange (i + 1) hi (insertOrderedNoDups xs i) else Some xs)"

text \<open>
  The outer loop.  An \<open>io.EOF\<close> from reading a start ends the list, also when it comes
  from a length whose bytes are missing.
\<close>

partial_function (option) parseRuns :: "bytes \<Rightarrow> uint32 list \<Rightarrow> (go_error + uint32 list) option" where
  "parseRuns buf xs =
     (case ParseLength buf of
        (Inl e, _) \<Rightarrow> Some (if e = EOF then Inr xs else Inl e)
      | (Inr start, buf') \<Rightarrow>
          (case ParseLength buf' of
             (Inl e, _) \<Rightarrow> Some (Inl e)
           | (Inr count, buf'') \<Rightarrow>
               Option.bind (insertRange start (start + count) xs) (parseRuns buf'')))"

definition ParseMetadata :: "bytes \<Rightarrow> (go_error + metadata) option" where
  "ParseMetadata data =
     (case data of
        [] \<Rightarrow> Some (Inl EOF)
      | header # buf \<Rightarrow>
          if drop_bit 5 header \<noteq> 1 then Some (Inl (ErrorString ''invalid version''))
          else
            (let namelen = unat (header AND 0x1F); cardName = bytes_string (take namelen buf) in
             case parseRuns (drop namelen buf) [] of
               None \<Rightarrow> None
             | Some (Inl e) \<Rightarrow> Some (Inl e)
             | Some (Inr ps) \<Rightarrow> Some (Inr \<lparr>md_name = cardName, md_paths = ps\<rparr>)))"

declare insertRange.simps [code]
declare parseRuns.simps [code]

subsection \<open>The loops end\<close>

lemma unat_uint32_less: "unat (n :: uint32) < 4294967296"
  using unsigned_less [of n, where 'a = nat] by simp

lemma unat_plus1: "i < hi \<Longrightarrow> unat (i + 1) = unat (i :: uint32) + 1"
  using unat_uint32_less [of hi] by (simp add: unat_word_ariths word_less_nat_alt)

lemma insertRange_total:
  assumes "hi < 0xFFFFFFFF"
  shows "\<exists>ys. insertRange i hi xs = Some ys \<and> (increasing xs \<longrightarrow>
    increasing ys \<and> set ys = set xs \<union> {i..hi})"
proof (induction "unat hi + 1 - unat i" arbitrary: i xs rule: less_induct)
  case less
  show ?case
  proof (cases "i \<le> hi")
    case False
    then show ?thesis by (subst insertRange.simps) auto
  next
    case True
    with assms have lt: "i < 0xFFFFFFFF" by simp
    then have u: "unat (i + 1) = unat i + 1" by (rule unat_plus1)
    from True have "unat i \<le> unat hi" by (simp add: word_le_nat_alt)
    with u have "unat hi + 1 - unat (i + 1) < unat hi + 1 - unat i" by simp
    from less [OF this, of "insertOrderedNoDups xs i"] obtain ys
      where ys: "insertRange (i + 1) hi (insertOrderedNoDups xs i) = Some ys"
        and inc: "increasing (insertOrderedNoDups xs i) \<longrightarrow>
          increasing ys \<and> set ys = set (insertOrderedNoDups xs i) \<union> {i + 1..hi}" by blast
    have "{i..hi} = insert i {i + 1..hi}"
      using True by (auto simp: word_le_nat_alt word_unat_eq_iff u)
    with ys inc True show ?thesis
      by (subst insertRange.simps) (auto simp: pathset.ins_increasing pathset.ins_elems)
  qed
qed

lemma ParseLength_sum:
  assumes "ParseLength a = (Inr start, b)" and "ParseLength c = (Inr count, d)"
  shows "start + count < 0xFFFFFFFF" and "start \<le> start + count"
    and "unat (start + count) = unat start + unat count"
proof -
  have s: "unat start < 2 ^ 24" and c: "unat count < 2 ^ 24"
    using assms by (auto dest: ParseLength_bound)
  then show u: "unat (start + count) = unat start + unat count"
    by (subst unat_plus_simple [THEN iffD1]) (auto simp: word_le_nat_alt unat_word_ariths)
  from s c u show "start + count < 0xFFFFFFFF" "start \<le> start + count"
    by (simp_all add: word_less_nat_alt word_le_nat_alt)
qed

lemma parseRuns_total:
  "\<exists>r. parseRuns buf xs = Some r \<and> (increasing xs \<longrightarrow> (\<forall>ys. r = Inr ys \<longrightarrow> increasing ys))"
proof (induction "length buf" arbitrary: buf xs rule: less_induct)
  case less
  show ?case
  proof (cases "ParseLength buf")
    case (Pair r1 buf')
    show ?thesis
    proof (cases r1)
      case (Inl e)
      with Pair show ?thesis by (subst parseRuns.simps) simp
    next
      case (Inr start)
      show ?thesis
      proof (cases "ParseLength buf'")
        case (Pair r2 buf'')
        note p2 = this
        show ?thesis
        proof (cases r2)
          case (Inl e)
          with \<open>ParseLength buf = (r1, buf')\<close> Inr p2 show ?thesis by (subst parseRuns.simps) simp
        next
          case (Inr count)
          have p1: "ParseLength buf = (Inr start, buf')"
            using \<open>ParseLength buf = (r1, buf')\<close> \<open>r1 = Inr start\<close> by simp
          have p2': "ParseLength buf' = (Inr count, buf'')" using p2 Inr by simp
          obtain ys where ys: "insertRange start (start + count) xs = Some ys"
            and inc: "increasing xs \<longrightarrow> increasing ys"
            using insertRange_total [OF ParseLength_sum(1) [OF p1 p2']] by blast
          have "length buf'' < length buf"
            using ParseLength_shrinks [OF p1] ParseLength_rest [OF p2'] by linarith
          from less [OF this, of ys] inc ys p1 p2' show ?thesis
            by (subst parseRuns.simps) auto
        qed
      qed
    qed
  qed
qed

lemma ParseMetadata_total: "\<exists>r. ParseMetadata data = Some r"
proof (cases data)
  case (Cons header buf)
  obtain r where "parseRuns (drop (unat (header AND 0x1F)) buf) [] = Some r"
    using parseRuns_total by blast
  with Cons show ?thesis by (auto simp: ParseMetadata_def Let_def split: sum.splits)
qed (simp add: ParseMetadata_def)

subsection \<open>Round trip\<close>

text \<open>The numbers of a run.\<close>

definition run :: "uint32 \<Rightarrow> uint32 \<Rightarrow> uint32 list" where
  "run start len = map (\<lambda>k. start + of_nat k) [0..<Suc (unat len)]"

lemma run_0: "run start 0 = [start]"
  by (simp add: run_def)

lemma run_start: "start \<in> set (run start len)"
  by (simp add: run_def upt_conv_Cons del: upt_Suc)

lemma unat_add_small: "unat a + k < 2 ^ 32 \<Longrightarrow> unat (a + of_nat k :: uint32) = unat a + k"
  by (simp add: unat_word_ariths unat_of_nat mod_simps)

lemma run_Suc:
  assumes "unat len < 2 ^ 31"
  shows "run start (len + 1) = run start len @ [start + len + 1]"
proof -
  have "unat (len + 1) = unat len + 1"
    using assms unat_add_small [of len 1] by simp
  then show ?thesis by (simp add: run_def add.assoc)
qed

lemma insertRange_step:
  assumes "unat i \<le> unat hi" and "hi < 0xFFFFFFFF"
  shows "insertRange i hi xs = insertRange (i + 1) hi (insertOrderedNoDups xs i)"
  using assms by (subst insertRange.simps) (simp add: word_le_nat_alt)

text \<open>Inserting a run above everything in the list appends it.\<close>

lemma insertRange_append:
  assumes "increasing xs" and "\<forall>y \<in> set xs. y < start"
    and "unat start + n < 2 ^ 25"
  shows "insertRange start (start + of_nat n) xs = Some (xs @ map (\<lambda>k. start + of_nat k) [0..<Suc n])"
  using assms
proof (induction n arbitrary: start xs)
  case 0
  then have "insertRange start start xs = insertRange (start + 1) start (insertOrderedNoDups xs start)"
    by (intro insertRange_step) (simp_all add: word_less_nat_alt)
  also have "\<dots> = Some (insertOrderedNoDups xs start)"
    using 0 unat_add_small [of start 1]
    by (subst insertRange.simps) (simp add: word_le_nat_alt)
  finally show ?case using 0 pathset.ins_last by simp
next
  case (Suc n)
  let ?s = "start + 1"
  have us: "unat ?s = unat start + 1" using unat_add_small [of start 1] Suc.prems by simp
  have uh: "unat (start + of_nat (Suc n)) = unat start + Suc n"
    by (rule unat_add_small) (use Suc.prems in simp)
  have ins: "insertOrderedNoDups xs start = xs @ [start]"
    by (rule pathset.ins_last) (use Suc.prems in simp_all)
  have e: "start + of_nat (Suc n) = ?s + of_nat n" by simp
  have "insertRange start (start + of_nat (Suc n)) xs =
      insertRange ?s (start + of_nat (Suc n)) (xs @ [start])"
    unfolding ins [symmetric] using Suc.prems uh
    by (intro insertRange_step) (simp_all add: word_less_nat_alt)
  also have "\<dots> = Some ((xs @ [start]) @ map (\<lambda>k. ?s + of_nat k) [0..<Suc n])"
    unfolding e
  proof (rule Suc.IH)
    show "increasing (xs @ [start])" using Suc.prems by (simp add: sorted_wrt_append)
    show "\<forall>y \<in> set (xs @ [start]). y < ?s"
      using Suc.prems us by (auto simp: word_less_nat_alt)
    show "unat ?s + n < 2 ^ 25" using Suc.prems us by simp
  qed
  also have "(xs @ [start]) @ map (\<lambda>k. ?s + of_nat k) [0..<Suc n] =
      xs @ map (\<lambda>k. start + of_nat k) [0..<Suc (Suc n)]"
    by (subst upt_conv_Cons [of 0 "Suc (Suc n)"])
       (simp_all add: map_Suc_upt [symmetric] comp_def ac_simps del: upt_Suc)
  finally show ?case .
qed

lemma parseRuns_run:
  assumes "increasing xs" and "\<forall>y \<in> set xs. y < start"
    and "start < 0x1000000" and "len < 0x1000000"
  shows "parseRuns (WriteLength start @ WriteLength len @ rest) xs = parseRuns rest (xs @ run start len)"
proof -
  have "unat start < 2 ^ 24" "unat len < 2 ^ 24"
    using assms by (simp_all add: word_less_nat_alt)
  then have "insertRange start (start + of_nat (unat len)) xs =
      Some (xs @ map (\<lambda>k. start + of_nat k) [0..<Suc (unat len)])"
    by (intro insertRange_append) (use assms in simp_all)
  with assms show ?thesis
    by (subst parseRuns.simps) (simp add: ParseLength_WriteLength run_def)
qed

lemma parseRuns_Nil: "parseRuns [] xs = Some (Inr xs)"
  by (subst parseRuns.simps) simp

lemma run_len_ok: "unat start + unat len < 2 ^ 24 \<Longrightarrow> (len :: uint32) < 0x1000000"
  by (simp add: word_less_nat_alt)

lemma parseRuns_serializeRuns:
  assumes "increasing (xs @ run start len @ ws)"
    and "\<forall>p \<in> set ws. p < 0x1000000"
    and "start < 0x1000000" and "unat start + unat len < 2 ^ 24"
  shows "parseRuns (serializeRuns start len ws) xs = Some (Inr (xs @ run start len @ ws))"
  using assms
proof (induction start len ws arbitrary: xs rule: serializeRuns.induct)
  case (1 start len)
  from 1 run_start [of start len] have "parseRuns (WriteLength start @ WriteLength len @ []) xs = parseRuns [] (xs @ run start len)"
    by (intro parseRuns_run) (auto simp: sorted_wrt_append intro: run_len_ok)
  then show ?case by (simp add: parseRuns_Nil)
next
  case (2 start len w ws)
  show ?case
  proof (cases "w = start + len + 1")
    case True
    have r: "run start (len + 1) = run start len @ [w]"
      using 2 unfolding True by (intro run_Suc) simp
    have "unat w < 2 ^ 24" using 2 by (simp add: word_less_nat_alt)
    moreover have "unat (start + of_nat (unat len + 1)) = unat start + (unat len + 1)"
      by (rule unat_add_small) (use 2 in simp)
    ultimately have "unat start + unat len + 1 < 2 ^ 24" using True by (simp add: ac_simps)
    moreover have "unat (len + 1) = unat len + 1"
      using unat_add_small [of len 1] 2 by simp
    ultimately have "parseRuns (serializeRuns start (len + 1) ws) xs =
        Some (Inr (xs @ run start (len + 1) @ ws))"
      using 2 True r by (intro "2.IH"(1)) auto
    with True r show ?thesis by simp
  next
    case False
    from 2 run_start [of start len] have "parseRuns (WriteLength start @ WriteLength len @ serializeRuns w 0 ws) xs =
        parseRuns (serializeRuns w 0 ws) (xs @ run start len)"
      by (intro parseRuns_run) (auto simp: sorted_wrt_append intro: run_len_ok)
    also have "\<dots> = Some (Inr ((xs @ run start len) @ run w 0 @ ws))"
      using 2 False by (intro "2.IH"(2)) (auto simp: run_0 word_less_nat_alt)
    finally show ?thesis using False by (simp add: run_0)
  qed
qed

lemma header_bits:
  assumes "n \<le> 20"
  shows "drop_bit 5 (0x20 OR of_nat n :: byte) = 1" and "unat ((0x20 OR of_nat n :: byte) AND 0x1F) = n"
proof -
  from assms have "n \<in> {0..20}" by simp
  then have "n \<in> set [0..<21]" by (simp add: atLeast_upt)
  then have "drop_bit 5 (0x20 OR of_nat n :: byte) = 1 \<and> unat ((0x20 OR of_nat n :: byte) AND 0x1F) = n"
    by (simp add: upt_rec) auto
  then show "drop_bit 5 (0x20 OR of_nat n :: byte) = 1" "unat ((0x20 OR of_nat n :: byte) AND 0x1F) = n"
    by simp_all
qed

lemma ParseMetadata_Serialize_runs:
  assumes "length (md_name m) \<le> 20"
  shows "ParseMetadata (Serialize m) =
    (case parseRuns (case md_paths m of [] \<Rightarrow> [] | start # ps \<Rightarrow> serializeRuns start 0 ps) [] of
       None \<Rightarrow> None | Some (Inl e) \<Rightarrow> Some (Inl e)
     | Some (Inr ps) \<Rightarrow> Some (Inr \<lparr>md_name = md_name m, md_paths = ps\<rparr>))"
proof -
  define h :: byte where "h = 0x20 OR of_nat (length (md_name m))"
  have h: "drop_bit 5 h = 1" "unat (h AND 0x1F) = length (md_name m)"
    unfolding h_def by (rule header_bits [OF assms])+
  have "Serialize m = h # string_bytes (md_name m) @
      (case md_paths m of [] \<Rightarrow> [] | start # ps \<Rightarrow> serializeRuns start 0 ps)"
    by (simp only: Serialize_def h_def)
  then show ?thesis by (simp add: ParseMetadata_def h split: option.split sum.split)
qed

lemma ParseMetadata_Serialize:
  assumes "md_wf m" and "\<forall>p \<in> set (md_paths m). p < 0x1000000"
  shows "ParseMetadata (Serialize m) = Some (Inr m)"
proof -
  have "parseRuns (case md_paths m of [] \<Rightarrow> [] | start # ps \<Rightarrow> serializeRuns start 0 ps) [] =
      Some (Inr (md_paths m))"
  proof (cases "md_paths m")
    case (Cons start ps)
    with assms have "parseRuns (serializeRuns start 0 ps) [] = Some (Inr ([] @ run start 0 @ ps))"
      by (intro parseRuns_serializeRuns) (auto simp: run_0 md_wf_def word_less_nat_alt)
    with Cons show ?thesis by (simp add: run_0)
  qed (simp add: parseRuns_Nil)
  with assms show ?thesis by (simp add: ParseMetadata_Serialize_runs md_wf_def)
qed

text \<open>
  The converse.  A number from \<open>2 ^ 24\<close> on that does not continue the run before it is
  written as the start of a run in the form the reader refuses, so the whole record
  cannot be read back.
\<close>

lemma parseRuns_big: "\<not> start < 0x1000000 \<Longrightarrow>
    parseRuns (WriteLength start @ rest) xs = Some (Inl (Sentinel ErrLengthTooBig))"
  using ParseLength_WriteLength_big [of start rest]
  by (subst parseRuns.simps) (auto split: prod.split)


lemma serializeRuns_start: "\<exists>rest. serializeRuns start len ws = WriteLength start @ rest"
  by (induction start len ws rule: serializeRuns.induct) auto

lemma parseRuns_start_big:
  "\<not> start < 0x1000000 \<Longrightarrow>
     parseRuns (serializeRuns start len ws) xs = Some (Inl (Sentinel ErrLengthTooBig))"
  using serializeRuns_start [of start len ws] parseRuns_big by auto

lemma parseRuns_one:
  assumes "start < 0x1000000"
  obtains e where "parseRuns (WriteLength start @ WriteLength len @ rest) xs = Some (Inl e)"
  | ys where "parseRuns (WriteLength start @ WriteLength len @ rest) xs = parseRuns rest ys"
proof (cases "len < 0x1000000")
  case True
  have 1: "ParseLength (WriteLength start @ WriteLength len @ rest) = (Inr start, WriteLength len @ rest)"
    by (rule ParseLength_WriteLength [OF assms])
  have 2: "ParseLength (WriteLength len @ rest) = (Inr len, rest)"
    by (rule ParseLength_WriteLength [OF True])
  obtain ys where "insertRange start (start + len) xs = Some ys"
    using insertRange_total [OF ParseLength_sum(1) [OF 1 2]] by blast
  with 1 2 have "parseRuns (WriteLength start @ WriteLength len @ rest) xs = parseRuns rest ys"
    by (subst parseRuns.simps) simp
  then show ?thesis by (rule that(2))
next
  case False
  with assms have "parseRuns (WriteLength start @ WriteLength len @ rest) xs =
      Some (Inl (Sentinel ErrLengthTooBig))"
    using ParseLength_WriteLength_big [of len rest]
    by (subst parseRuns.simps) (auto simp: ParseLength_WriteLength split: prod.split)
  then show ?thesis by (rule that(1))
qed

lemma parseRuns_serializeRuns_big:
  assumes "p \<in> set ws" and "\<not> p < 0x1000000" and "p - 1 \<notin> set ((start + len) # ws)"
  shows "\<exists>e. parseRuns (serializeRuns start len ws) xs = Some (Inl e)"
  using assms
proof (induction start len ws arbitrary: xs rule: serializeRuns.induct)
  case (2 start len w ws)
  show ?case
  proof (cases "start < 0x1000000")
    case False
    then show ?thesis by (blast intro: parseRuns_start_big)
  next
    case small: True
    show ?thesis
    proof (cases "w = start + len + 1")
      case True
      with 2 have "p \<in> set ws" and "p - 1 \<notin> set ((start + (len + 1)) # ws)"
        by (auto simp: ac_simps)
      from "2.IH"(1) [OF True this(1) "2.prems"(2) this(2)] True show ?thesis by simp
    next
      case False
      have rest: "\<exists>e. parseRuns (serializeRuns w 0 ws) ys = Some (Inl e)" for ys
      proof (cases "w < 0x1000000")
        case True
        with 2 have "p \<in> set ws" and "p - 1 \<notin> set ((w + 0) # ws)" by auto
        from "2.IH"(2) [OF False this(1) "2.prems"(2) this(2)] show ?thesis by simp
      qed (blast intro: parseRuns_start_big)
      show ?thesis
        by (rule parseRuns_one [OF small, of len "serializeRuns w 0 ws" xs]) (use False rest in simp_all)
    qed
  qed
qed simp

lemma ParseMetadata_Serialize_big:
  assumes "length (md_name m) \<le> 20"
    and "p \<in> set (md_paths m)" and "\<not> p < 0x1000000" and "p - 1 \<notin> set (md_paths m)"
  shows "\<exists>e. ParseMetadata (Serialize m) = Some (Inl e)"
proof (cases "md_paths m")
  case Nil
  with assms show ?thesis by simp
next
  case (Cons start ps)
  have "\<exists>e. parseRuns (serializeRuns start 0 ps) [] = Some (Inl e)"
  proof (cases "start < 0x1000000")
    case True
    with Cons assms show ?thesis by (intro parseRuns_serializeRuns_big [of p]) auto
  qed (blast intro: parseRuns_start_big)
  with assms(1) Cons show ?thesis by (auto simp: ParseMetadata_Serialize_runs)
qed

lemma ParseMetadata_increasing: "ParseMetadata data = Some (Inr m) \<Longrightarrow> increasing (md_paths m)"
proof (cases data)
  case (Cons header buf)
  assume m: "ParseMetadata data = Some (Inr m)"
  obtain r where "parseRuns (drop (unat (header AND 0x1F)) buf) [] = Some r"
      and "\<forall>ys. r = Inr ys \<longrightarrow> increasing ys"
    using parseRuns_total [of "drop (unat (header AND 0x1F)) buf" "[]"] by auto
  with Cons m show ?thesis
    by (auto simp: ParseMetadata_def Let_def split: sum.splits if_splits)
qed (simp add: ParseMetadata_def)

end
