(* ===== verification/DerivationPath.thy ===== *)
theory DerivationPath
  imports HexUtils
begin

text \<open>
  The package \<open>derivationpath\<close> of the vendored keycard-go: the decoder, a state machine
  whose current state is the function \<open>d.f\<close>, and the encoder.
\<close>

datatype StartingPoint = StartingPointMaster | StartingPointCurrent | StartingPointParent

datatype parseFunc = ParseStart | ParseSeparator | ParseSegment

text \<open>The reader is the list of its unread characters.\<close>

record decoder =
  d_r :: string
  d_f :: parseFunc
  d_pos :: int
  d_path :: "uint32 list"
  d_start :: StartingPoint
  d_token :: string
  d_hardened :: bool

definition hardenedStart :: nat where "hardenedStart = 0x80000000"

definition newDecoder :: "string \<Rightarrow> decoder" where
  "newDecoder path =
     \<lparr>d_r = path, d_f = ParseStart, d_pos = 0, d_path = [], d_start = StartingPointCurrent,
      d_token = '''', d_hardened = False\<rparr>"

text \<open>\<open>string(b)\<close> and \<open>%c\<close> of a byte: its code point in UTF-8.\<close>

definition rune_string :: "char \<Rightarrow> string" where
  "rune_string c =
     (let n = (of_char c :: nat) in
      if n < 128 then [c] else [char_of (192 + n div 64), char_of (128 + n mod 64)])"

text \<open>\<open>strconv.ParseUint(s, 10, 32)\<close> of the standard library; its error quotes the text, here always digits.\<close>

definition ParseUint32 :: "string \<Rightarrow> go_error + nat" where
  "ParseUint32 s =
     (if s = [] \<or> \<not> list_all is_digit s then Inl (ErrorString (''strconv.ParseUint: parsing '' @ [CHR 0x22] @ s @ [CHR 0x22] @ '': invalid syntax''))
      else if digits_val s \<ge> 2 ^ 32 then Inl (ErrorString (''strconv.ParseUint: parsing '' @ [CHR 0x22] @ s @ [CHR 0x22] @ '': value out of range''))
      else Inr (digits_val s))"

definition saveSegment :: "decoder \<Rightarrow> error \<times> decoder" where
  "saveSegment d =
     (if d_token d \<noteq> [] then
        (case ParseUint32 (d_token d) of
           Inl e \<Rightarrow> (Some e, d)
         | Inr i \<Rightarrow>
             if i \<ge> hardenedStart then
               (Some (ErrorString (''index must be lower than 2^31, got '' @ show_nat i)),
                d\<lparr>d_pos := d_pos d - (int (length (d_token d)) - 1)\<rparr>)
             else
               (None, d\<lparr>d_path := d_path d @ [of_nat (if d_hardened d then i + hardenedStart else i)],
                       d_f := ParseSegment, d_token := '''', d_hardened := False\<rparr>))
      else (None, d\<lparr>d_f := ParseSegment, d_token := '''', d_hardened := False\<rparr>))"

definition parseStart :: "decoder \<Rightarrow> error \<times> decoder" where
  "parseStart d =
     (case d_r d of
        [] \<Rightarrow> (Some EOF, d)
      | b # r \<Rightarrow>
          if b = CHR ''m'' then
            (None, d\<lparr>d_r := r, d_pos := d_pos d + 1, d_start := StartingPointMaster, d_f := ParseSeparator\<rparr>)
          else if b = CHR ''.'' then
            (case r of
               [] \<Rightarrow> (Some EOF, d\<lparr>d_r := r, d_pos := d_pos d + 1\<rparr>)
             | b2 # r2 \<Rightarrow>
                 if b2 = CHR ''.'' then
                   (None, d\<lparr>d_r := r2, d_pos := d_pos d + 2, d_f := ParseSeparator, d_start := StartingPointParent\<rparr>)
                 else
                   (None, d\<lparr>d_r := r, d_pos := d_pos d + 1, d_f := ParseSeparator, d_start := StartingPointCurrent\<rparr>))
          else (None, d\<lparr>d_f := ParseSegment\<rparr>))"

definition parseSeparator :: "decoder \<Rightarrow> error \<times> decoder" where
  "parseSeparator d =
     (case d_r d of
        [] \<Rightarrow> (Some EOF, d)
      | b # r \<Rightarrow>
          (let d' = d\<lparr>d_r := r, d_pos := d_pos d + 1\<rparr> in
           if b = CHR ''/'' then saveSegment d'
           else (Some (ErrorString (''expected /, got '' @ rune_string b)), d')))"

definition parseSegment :: "decoder \<Rightarrow> error \<times> decoder" where
  "parseSegment d =
     (case d_r d of
        [] \<Rightarrow>
          if d_token d = [] then (Some (ErrorString ''expected number, got EOF''), d)
          else
            (case saveSegment d of
               (Some e, d') \<Rightarrow> (Some e, d')
             | (None, d') \<Rightarrow> (Some EOF, d'))
      | b # r \<Rightarrow>
          (let d' = d\<lparr>d_r := r, d_pos := d_pos d + 1\<rparr> in
           if d_token d \<noteq> [] \<and> b = CHR ''/'' then saveSegment d'
           else if d_token d \<noteq> [] \<and> b = CHR 0x27 then
             (None, d'\<lparr>d_hardened := True, d_f := ParseSeparator\<rparr>)
           else if \<not> is_digit b then
             (Some (ErrorString (''expected number, got '' @ rune_string b)), d')
           else (None, d'\<lparr>d_token := d_token d @ [b]\<rparr>)))"

definition runParseFunc :: "decoder \<Rightarrow> error \<times> decoder" where
  "runParseFunc d =
     (case d_f d of ParseStart \<Rightarrow> parseStart d | ParseSeparator \<Rightarrow> parseSeparator d
      | ParseSegment \<Rightarrow> parseSegment d)"

text \<open>Every step that goes on consumes a character or leaves the start state.\<close>

definition decoder_measure :: "decoder \<Rightarrow> nat" where
  "decoder_measure d = 2 * length (d_r d) + (if d_f d = ParseStart then 1 else 0)"

lemma saveSegment_keeps:
  "saveSegment d = (e, d') \<Longrightarrow> d_r d' = d_r d \<and> d_start d' = d_start d \<and> (e = None \<longrightarrow> d_f d' = ParseSegment)"
  by (auto simp: saveSegment_def split: if_splits sum.splits)

lemma runParseFunc_decreases:
  assumes "runParseFunc d = (None, d')"
  shows "decoder_measure d' < decoder_measure d"
proof (cases "d_f d")
  case ParseStart
  with assms show ?thesis
    by (auto simp: runParseFunc_def parseStart_def decoder_measure_def split: list.splits if_splits)
next
  case ParseSeparator
  with assms show ?thesis
    by (auto simp: runParseFunc_def parseSeparator_def decoder_measure_def Let_def
        dest: saveSegment_keeps split: list.splits if_splits)
next
  case ParseSegment
  with assms show ?thesis
    by (auto simp: runParseFunc_def parseSegment_def decoder_measure_def Let_def
        dest: saveSegment_keeps split: list.splits if_splits prod.splits option.splits)
qed

function (sequential) parseLoop :: "decoder \<Rightarrow> go_error \<times> decoder" where
  "parseLoop d =
     (case runParseFunc d of (Some e, d') \<Rightarrow> (e, d') | (None, d') \<Rightarrow> parseLoop d')"
  by pat_completeness auto

termination parseLoop
  by (relation "measure decoder_measure") (auto intro: runParseFunc_decreases [OF sym])

declare parseLoop.simps [simp del]

definition parse :: "decoder \<Rightarrow> StartingPoint \<times> uint32 list \<times> error" where
  "parse d =
     (case parseLoop d of (e, d') \<Rightarrow>
        (d_start d', d_path d',
         if e = EOF then None
         else Some (ErrorString (''at position '' @ show_int (d_pos d') @ '', '' @ error_text e))))"

definition Decode :: "string \<Rightarrow> StartingPoint \<times> uint32 list \<times> error" where
  "Decode str = parse (newDecoder str)"

section \<open>The encoder\<close>

fun encodeSegment :: "uint32 \<Rightarrow> string" where
  "encodeSegment i =
     (if unat i \<ge> hardenedStart then show_nat (unat i - hardenedStart) @ [CHR 0x27]
      else show_nat (unat i))"

text \<open>\<open>strings.Join\<close> of the starting \<open>m\<close> and the segments with \<open>/\<close>.\<close>

definition Encode :: "uint32 list \<Rightarrow> string" where
  "Encode rawPath = ''m'' @ concat (map (\<lambda>i. CHR ''/'' # encodeSegment i) rawPath)"


section \<open>Decoding what the encoder wrote\<close>

definition hardened :: "uint32 \<Rightarrow> bool" where
  "hardened i \<longleftrightarrow> unat i \<ge> hardenedStart"

text \<open>A decoder in the segment state of an absolute path.\<close>

definition segState :: "uint32 list \<Rightarrow> string \<Rightarrow> string \<Rightarrow> int \<Rightarrow> decoder" where
  "segState path tok r pos =
     \<lparr>d_r = r, d_f = ParseSegment, d_pos = pos, d_path = path, d_start = StartingPointMaster,
      d_token = tok, d_hardened = False\<rparr>"

lemma parseLoop_go: "runParseFunc d = (None, d') \<Longrightarrow> parseLoop d = parseLoop d'"
  by (subst parseLoop.simps) simp

lemma parseLoop_stop: "runParseFunc d = (Some e, d') \<Longrightarrow> parseLoop d = (e, d')"
  by (subst parseLoop.simps) simp

lemma digit_not_special: "is_digit b \<Longrightarrow> b \<noteq> CHR ''/'' \<and> b \<noteq> CHR 0x27"
  by (auto simp: is_digit_def)

lemma parseLoop_digits:
  "list_all is_digit ds \<Longrightarrow>
     parseLoop (segState path tok (ds @ r) pos) = parseLoop (segState path (tok @ ds) r (pos + int (length ds)))"
proof (induction ds arbitrary: tok pos)
  case (Cons b ds)
  then have "runParseFunc (segState path tok ((b # ds) @ r) pos) =
      (None, segState path (tok @ [b]) (ds @ r) (pos + 1))"
    using digit_not_special [of b]
    by (simp add: runParseFunc_def parseSegment_def segState_def Let_def)
  from parseLoop_go [OF this] Cons show ?case by (simp add: add.assoc)
qed simp

lemma ParseUint32_show_nat: "n < 2 ^ 32 \<Longrightarrow> ParseUint32 (show_nat n) = Inr n"
  using show_nat_digits [of n] by (simp add: ParseUint32_def list_all_iff)

lemma saveSegment_show_nat:
  "n < hardenedStart \<Longrightarrow> d_token d = show_nat n \<Longrightarrow>
     saveSegment d = (None, d\<lparr>d_path := d_path d @ [of_nat (if d_hardened d then n + hardenedStart else n)],
       d_f := ParseSegment, d_token := '''', d_hardened := False\<rparr>)"
  by (simp add: saveSegment_def ParseUint32_show_nat hardenedStart_def)

lemma parseLoop_segment:
  "parseLoop (segState path '''' (show_nat n @ r) pos) =
     parseLoop (segState path (show_nat n) r (pos + int (length (show_nat n))))"
  using parseLoop_digits [of "show_nat n" path "''''" r pos] show_nat_digits [of n]
  by (simp add: list_all_iff)

text \<open>A segment that is followed by another one is stored.\<close>

lemma parseLoop_plain:
  assumes "n < hardenedStart"
  shows "parseLoop (segState path (show_nat n) (CHR ''/'' # r) pos) =
     parseLoop (segState (path @ [of_nat n]) '''' r (pos + 1))"
  by (rule parseLoop_go)
     (simp add: runParseFunc_def parseSegment_def segState_def Let_def saveSegment_show_nat [OF assms])

lemma quote_step:
  "runParseFunc (segState path (show_nat n) (CHR 0x27 # r) pos) =
     (None, (segState path (show_nat n) r (pos + 1))\<lparr>d_f := ParseSeparator, d_hardened := True\<rparr>)"
  by (simp add: runParseFunc_def parseSegment_def segState_def Let_def)

lemma parseLoop_quote:
  assumes "n < hardenedStart"
  shows "parseLoop (segState path (show_nat n) (CHR 0x27 # CHR ''/'' # r) pos) =
     parseLoop (segState (path @ [of_nat (n + hardenedStart)]) '''' r (pos + 2))"
  unfolding parseLoop_go [OF quote_step]
  by (rule parseLoop_go)
     (simp add: runParseFunc_def parseSeparator_def segState_def Let_def saveSegment_show_nat [OF assms])

text \<open>
  At the end of the path a plain segment is stored, but a hardened one is not: after the
  quote the decoder waits for a separator, and the end of the input ends the loop there.
\<close>

definition decoded :: "decoder \<Rightarrow> uint32 list \<Rightarrow> bool" where
  "decoded d ps \<longleftrightarrow>
     (\<exists>d'. parseLoop d = (EOF, d') \<and> d_path d' = ps \<and> d_start d' = StartingPointMaster)"

lemma decoded_plain_end:
  assumes "n < hardenedStart"
  shows "decoded (segState path (show_nat n) [] pos) (path @ [of_nat n])"
proof -
  have "runParseFunc (segState path (show_nat n) [] pos) =
      (Some EOF, segState (path @ [of_nat n]) '''' [] pos)"
    by (simp add: runParseFunc_def parseSegment_def segState_def saveSegment_show_nat [OF assms])
  from parseLoop_stop [OF this] show ?thesis by (simp add: decoded_def segState_def)
qed

lemma decoded_quote_end: "decoded (segState path (show_nat n) [CHR 0x27] pos) path"
proof -
  let ?d = "(segState path (show_nat n) [] (pos + 1))\<lparr>d_f := ParseSeparator, d_hardened := True\<rparr>"
  have "runParseFunc ?d = (Some EOF, ?d)"
    by (simp add: runParseFunc_def parseSeparator_def segState_def)
  from parseLoop_stop [OF this] show ?thesis
    unfolding decoded_def parseLoop_go [OF quote_step] by (simp add: segState_def)
qed

definition dropTrailingHardened :: "uint32 list \<Rightarrow> uint32 list" where
  "dropTrailingHardened ps = (if ps \<noteq> [] \<and> hardened (last ps) then butlast ps else ps)"

lemma hardened_split:
  assumes "hardened i"
  shows "unat i - hardenedStart < hardenedStart"
    and "of_nat (unat i - hardenedStart + hardenedStart) = i"
  using assms unsigned_less [of i, where 'a = nat]
  by (simp_all add: hardened_def hardenedStart_def del: of_nat_add)

text \<open>The two forms of a segment, as the decoder's lemmas see them.\<close>

lemma encodeSegment_cases:
  obtains n where "n < hardenedStart" "\<not> hardened i" "encodeSegment i = show_nat n" "of_nat n = i"
  | n where "n < hardenedStart" "hardened i" "encodeSegment i = show_nat n @ [CHR 0x27]"
      "of_nat (n + hardenedStart) = i"
  using hardened_split [of i] by (cases "hardened i") (auto simp: hardened_def not_le)

lemma decoded_segments:
  "decoded (segState path '''' (encodeSegment i @ concat (map (\<lambda>i. CHR ''/'' # encodeSegment i) is)) pos)
     (path @ dropTrailingHardened (i # is))"
proof (induction "is" arbitrary: i path pos)
  case Nil
  show ?case
  proof (cases i rule: encodeSegment_cases)
    case (1 n)
    with decoded_plain_end [of n path] show ?thesis
      by (simp add: decoded_def dropTrailingHardened_def parseLoop_segment [of path n Nil, simplified] del: encodeSegment.simps)
  next
    case (2 n)
    with decoded_quote_end [of path n] show ?thesis
      by (simp add: decoded_def dropTrailingHardened_def parseLoop_segment del: encodeSegment.simps)
  qed
next
  case (Cons j js)
  let ?rest = "encodeSegment j @ concat (map (\<lambda>i. CHR ''/'' # encodeSegment i) js)"
  have dt: "dropTrailingHardened (i # j # js) = i # dropTrailingHardened (j # js)"
    by (simp add: dropTrailingHardened_def)
  have IH: "decoded (segState (path @ [i]) '''' ?rest p) (path @ i # dropTrailingHardened (j # js))" for p
    using Cons.IH [of "path @ [i]" j p] by simp
  show ?case
  proof (cases i rule: encodeSegment_cases)
    case (1 n)
    with IH show ?thesis
      unfolding dt by (simp add: decoded_def parseLoop_segment parseLoop_plain del: encodeSegment.simps)
  next
    case (2 n)
    with IH show ?thesis
      unfolding dt by (simp add: decoded_def parseLoop_segment parseLoop_quote
          del: encodeSegment.simps of_nat_add)
  qed
qed

lemma decoded_Decode:
  "decoded (newDecoder s) ps \<Longrightarrow> Decode s = (StartingPointMaster, ps, None)"
  by (auto simp: decoded_def Decode_def parse_def)

lemma parseLoop_root:
  "parseLoop (newDecoder (CHR ''m'' # CHR ''/'' # r)) = parseLoop (segState [] '''' r 2)"
proof -
  let ?d = "(segState [] '''' (CHR ''/'' # r) 1)\<lparr>d_f := ParseSeparator\<rparr>"
  have 1: "runParseFunc (newDecoder (CHR ''m'' # CHR ''/'' # r)) = (None, ?d)"
    by (simp add: runParseFunc_def parseStart_def newDecoder_def segState_def)
  have 2: "runParseFunc ?d = (None, segState [] '''' r 2)"
    by (simp add: runParseFunc_def parseSeparator_def segState_def Let_def saveSegment_def)
  show ?thesis by (simp only: parseLoop_go [OF 1] parseLoop_go [OF 2])
qed

lemma Decode_Encode: "Decode (Encode ps) = (StartingPointMaster, dropTrailingHardened ps, None)"
proof (cases ps)
  case Nil
  then show ?thesis
    by (simp add: Encode_def Decode_def newDecoder_def parse_def parseLoop.simps runParseFunc_def
        parseStart_def parseSeparator_def dropTrailingHardened_def)
next
  case (Cons i js)
  have "decoded (newDecoder (Encode ps)) (dropTrailingHardened ps)"
    using decoded_segments [of "[]" i js 2]
    by (simp add: Cons Encode_def decoded_def parseLoop_root del: encodeSegment.simps)
  then show ?thesis by (rule decoded_Decode)
qed


section \<open>Paths below a fixed prefix\<close>

text \<open>A step never forgets a component.\<close>

lemma saveSegment_path: "saveSegment d = (e, d') \<Longrightarrow> \<exists>qs. d_path d' = d_path d @ qs"
  by (auto simp: saveSegment_def split: if_splits sum.splits)

lemma runParseFunc_path: "runParseFunc d = (e, d') \<Longrightarrow> \<exists>qs. d_path d' = d_path d @ qs"
  by (cases "d_f d")
     (auto simp: runParseFunc_def parseStart_def parseSeparator_def parseSegment_def Let_def
       dest!: saveSegment_path split: list.splits if_splits prod.splits option.splits)

lemma parseLoop_path: "parseLoop d = (e, d') \<Longrightarrow> \<exists>qs. d_path d' = d_path d @ qs"
proof (induction d rule: parseLoop.induct)
  case (1 d)
  obtain r d1 where s: "runParseFunc d = (r, d1)" by fastforce
  from runParseFunc_path [OF s] obtain qs where qs: "d_path d1 = d_path d @ qs" ..
  show ?case
  proof (cases r)
    case None
    with s "1.prems" have "parseLoop d1 = (e, d')" by (simp add: parseLoop_go)
    from "1.IH" [OF s [symmetric] None this] qs show ?thesis by auto
  next
    case (Some x)
    with s "1.prems" have "d' = d1" by (simp add: parseLoop_stop)
    with qs show ?thesis by simp
  qed
qed

lemma parseLoop_hardened_segment:
  assumes "n < hardenedStart" and "ds = show_nat n"
  shows "parseLoop (segState path '''' (ds @ CHR 0x27 # CHR ''/'' # r) pos) =
     parseLoop (segState (path @ [of_nat (n + hardenedStart)]) '''' r (pos + int (length ds) + 2))"
  unfolding assms(2) parseLoop_segment parseLoop_quote [OF assms(1)] ..

end
