(* ===== verification/CardTypes.thy ===== *)
theory CardTypes
  imports Metadata DerivationPath
begin

text \<open>
  The data of the program: the constants of \<open>internal/const.go\<close> and
  \<open>internal/error.go\<close>, the records of \<open>internal/types.go\<close>, the types of the vendored
  keycard-go they are made from, the readers of the card's answers
  (\<open>types/application_info.go\<close>, \<open>types/application_status.go\<close>,
  \<open>types/exported_key.go\<close>), and the conversions of \<open>internal/utils.go\<close>.
\<close>

section \<open>Constants\<close>

definition MaxPINRetries :: int where "MaxPINRetries = 3"
definition MaxPUKRetries :: int where "MaxPUKRetries = 5"
definition MaxFreeSlots :: int where "MaxFreeSlots = 5"
definition DefMnemoLen :: int where "DefMnemoLen = 12"
definition DefPINLen :: nat where "DefPINLen = 6"
definition DefPUKLen :: nat where "DefPUKLen = 12"
definition DefPairing :: string where "DefPairing = ''KeycardDefaultPairing''"

abbreviation quote :: char where "quote \<equiv> CHR 0x27"

definition MasterPath :: string where "MasterPath = ''m''"
definition WalletRoothPath :: string where
  "WalletRoothPath = ''m/44'' @ [quote] @ ''/60'' @ [quote] @ ''/0'' @ [quote] @ ''/0''"
definition WalletPath :: string where "WalletPath = WalletRoothPath @ ''/0''"
definition Eip1581Path :: string where
  "Eip1581Path = ''m/43'' @ [quote] @ ''/60'' @ [quote] @ ''/1581'' @ [quote]"
definition WhisperPath :: string where "WhisperPath = Eip1581Path @ ''/0'' @ [quote] @ ''/0''"
definition EncryptionPath :: string where "EncryptionPath = Eip1581Path @ ''/1'' @ [quote] @ ''/0''"

lemmas path_defs = MasterPath_def WalletRoothPath_def WalletPath_def Eip1581Path_def
  WhisperPath_def EncryptionPath_def

definition ErrorPCSC :: string where "ErrorPCSC = ''no-pcsc''"
definition ErrorReaderList :: string where "ErrorReaderList = ''no-reader-list''"
definition ErrorNoReader :: string where "ErrorNoReader = ''no-reader-found''"

section \<open>What the card reports\<close>

record appInfo = \<comment> \<open>\<open>ktypes.ApplicationInfo\<close>\<close>
  ai_Installed :: bool
  ai_Initialized :: bool
  ai_InstanceUID :: bytes
  ai_SecureChannelPublicKey :: bytes
  ai_Version :: bytes
  ai_AvailableSlots :: bytes
  ai_KeyUID :: bytes
  ai_Capabilities :: byte

definition emptyAppInfo :: appInfo where
  "emptyAppInfo = \<lparr>ai_Installed = False, ai_Initialized = False, ai_InstanceUID = [],
     ai_SecureChannelPublicKey = [], ai_Version = [], ai_AvailableSlots = [], ai_KeyUID = [],
     ai_Capabilities = 0\<rparr>"

definition CapabilitySecureChannel :: byte where "CapabilitySecureChannel = 1"
definition CapabilityKeyManagement :: byte where "CapabilityKeyManagement = 2"
definition CapabilityCredentialsManagement :: byte where "CapabilityCredentialsManagement = 4"
definition CapabilityNDEF :: byte where "CapabilityNDEF = 8"
definition CapabilityFactoryReset :: byte where "CapabilityFactoryReset = 16"
definition CapabilityAll :: byte where
  "CapabilityAll = CapabilitySecureChannel OR CapabilityKeyManagement OR
     CapabilityCredentialsManagement OR CapabilityNDEF OR CapabilityFactoryReset"

lemmas capability_defs = CapabilitySecureChannel_def CapabilityKeyManagement_def
  CapabilityCredentialsManagement_def CapabilityNDEF_def CapabilityFactoryReset_def CapabilityAll_def

definition HasCapability :: "byte \<Rightarrow> appInfo \<Rightarrow> bool" where
  "HasCapability c a \<longleftrightarrow> ai_Capabilities a AND c = c"

definition HasSecureChannelCapability :: "appInfo \<Rightarrow> bool" where
  "HasSecureChannelCapability a = HasCapability CapabilitySecureChannel a"

definition HasFactoryResetCapability :: "appInfo \<Rightarrow> bool" where
  "HasFactoryResetCapability a = HasCapability CapabilityFactoryReset a"

text \<open>
  \<open>ParseApplicationInfo\<close> reads \<open>data[0]\<close> and slices \<open>data[2:]\<close>: \<open>None\<close> is the run-time
  panic on an answer that is too short.
\<close>

definition ParseApplicationInfo :: "bytes \<Rightarrow> (go_error + appInfo) option" where
  "ParseApplicationInfo data =
     (case data of
        [] \<Rightarrow> None
      | b # r \<Rightarrow>
          if b = 0x80 then
            (if r = [] then None
             else
               (let pk = drop 2 data in
                Some (Inr (emptyAppInfo\<lparr>ai_Installed := True, ai_SecureChannelPublicKey := pk,
                  ai_Capabilities := (if pk \<noteq> [] then CapabilityCredentialsManagement OR CapabilitySecureChannel
                    else CapabilityCredentialsManagement)\<rparr>))))
          else if b \<noteq> 0xA4 then Some (Inl (Sentinel ErrWrongApplicationInfoTemplate))
          else Some
            (case FindTag data [[0xA4], [0x8F]] of Inl e \<Rightarrow> Inl e | Inr uid \<Rightarrow>
            (case FindTag data [[0xA4], [0x80]] of Inl e \<Rightarrow> Inl e | Inr pk \<Rightarrow>
            (case FindTag data [[0xA4], [0x02]] of Inl e \<Rightarrow> Inl e | Inr version \<Rightarrow>
            (case FindTagN data 1 [[0xA4], [0x02]] of Inl e \<Rightarrow> Inl e | Inr slots \<Rightarrow>
            (case FindTagN data 0 [[0xA4], [0x8E]] of Inl e \<Rightarrow> Inl e | Inr keyUID \<Rightarrow>
              Inr \<lparr>ai_Installed = True, ai_Initialized = True, ai_InstanceUID = uid,
                ai_SecureChannelPublicKey = pk, ai_Version = version, ai_AvailableSlots = slots,
                ai_KeyUID = keyUID,
                ai_Capabilities =
                  (case FindTag data [[0x8D]] of Inr (c # _) \<Rightarrow> c | _ \<Rightarrow> CapabilityAll)\<rparr>))))))"

record appStatus = \<comment> \<open>\<open>ktypes.ApplicationStatus\<close>\<close>
  as_PinRetryCount :: int
  as_PUKRetryCount :: int
  as_KeyInitialized :: bool
  as_Path :: string

fun be_words :: "bytes \<Rightarrow> uint32 list" where
  "be_words (a # b # c # d # r) = be_uint32 [a, b, c, d] # be_words r"
| "be_words _ = []"

text \<open>
  \<open>EncodeFromBytes\<close>: the slice holds \<open>len/4\<close> numbers, so \<open>binary.Read\<close> has the bytes
  it asks for and leaves a rest of up to three alone.
\<close>

definition EncodeFromBytes :: "bytes \<Rightarrow> string" where
  "EncodeFromBytes data = Encode (be_words data)"

definition parseKeyPathStatus :: "bytes \<Rightarrow> appStatus" where
  "parseKeyPathStatus data =
     \<lparr>as_PinRetryCount = 0, as_PUKRetryCount = 0, as_KeyInitialized = False,
      as_Path = EncodeFromBytes data\<rparr>"

definition count_byte :: "go_error + bytes \<Rightarrow> int" where
  "count_byte r = (case r of Inr [b] \<Rightarrow> uint b | _ \<Rightarrow> 0)"

definition ParseApplicationStatus :: "bytes \<Rightarrow> appStatus" where
  "ParseApplicationStatus data =
     (case FindTag data [[0xA3]] of
        Inl _ \<Rightarrow> parseKeyPathStatus data
      | Inr tpl \<Rightarrow>
          \<lparr>as_PinRetryCount = count_byte (FindTag tpl [[0x02]]),
           as_PUKRetryCount = count_byte (FindTagN tpl 1 [[0x02]]),
           as_KeyInitialized = (FindTag tpl [[0x01]] = Inr [0xFF]),
           as_Path = ''''\<rparr>)"

text \<open>\<open>ExportedKey\<close>: the code asks whether the public key is nil, so the fields are optional.\<close>

record exportedKey =
  ek_pubKey :: "bytes option"
  ek_privKey :: "bytes option"
  ek_chainCode :: "bytes option"

definition tryFindTag :: "bytes \<Rightarrow> bytes list \<Rightarrow> bytes option" where
  "tryFindTag tpl tags = (case FindTag tpl tags of Inl _ \<Rightarrow> None | Inr d \<Rightarrow> Some d)"

text \<open>\<open>pubFromPriv\<close> stands for \<open>HexToECDSA\<close> and \<open>FromECDSAPub\<close> of go-ethereum's crypto.\<close>

definition ParseExportKeyResponse ::
    "(bytes \<Rightarrow> go_error + bytes) \<Rightarrow> bytes \<Rightarrow> go_error + exportedKey" where
  "ParseExportKeyResponse pubFromPriv data =
     (case FindTag data [[0xA1]] of
        Inl e \<Rightarrow> Inl e
      | Inr tpl \<Rightarrow>
          (let pubKey = tryFindTag tpl [[0x80]]; privKey = tryFindTag tpl [[0x81]];
               chainCode = tryFindTag tpl [[0x82]] in
           if (pubKey = None \<or> pubKey = Some []) \<and> privKey \<noteq> None \<and> privKey \<noteq> Some [] then
             (case pubFromPriv (the privKey) of
                Inl e \<Rightarrow> Inl e
              | Inr pk \<Rightarrow> Inr \<lparr>ek_pubKey = Some pk, ek_privKey = privKey, ek_chainCode = chainCode\<rparr>)
           else Inr \<lparr>ek_pubKey = pubKey, ek_privKey = privKey, ek_chainCode = chainCode\<rparr>))"

record pairingInfo = \<comment> \<open>\<open>ktypes.PairingInfo\<close>\<close>
  pi_Key :: bytes
  pi_Index :: int

record ktSignature = \<comment> \<open>\<open>ktypes.Signature\<close>, its public key apart\<close>
  ks_r :: bytes
  ks_s :: bytes
  ks_v :: byte

section \<open>What the program reports\<close>

record signature =
  sig_R :: bytes
  sig_S :: bytes
  sig_V :: byte

record applicationInfo =
  Initialized :: bool
  InstanceUID :: bytes
  Version :: int
  AvailableSlots :: int
  KeyUID :: bytes

record applicationInfoV2 =
  v2_Installed :: bool
  v2_Initialized :: bool
  v2_InstanceUID :: bytes
  v2_versionRaw :: int
  v2_Version :: string
  v2_AvailableSlots :: int
  v2_KeyUID :: bytes

record applicationStatus =
  RemainingAttemptsPIN :: int
  RemainingAttemptsPUK :: int
  KeyInitialized :: bool
  Path :: string

record keyPair =
  kp_Address :: string
  kp_PublicKey :: bytes
  kp_PrivateKey :: bytes
  kp_ChainCode :: bytes

record wallet =
  w_Path :: string
  w_Address :: string
  w_PublicKey :: bytes

record cardMetadata = \<comment> \<open>\<open>internal.Metadata\<close>\<close>
  cm_Name :: string
  cm_Wallets :: "wallet list"

record loginKeys =
  EncryptionPrivateKey :: "keyPair option"
  WhisperPrivateKey :: "keyPair option"

record recoverKeys =
  rk_LoginKeys :: loginKeys
  EIP1581key :: "keyPair option"
  WalletRootKey :: "keyPair option"
  WalletKey :: "keyPair option"
  MasterKey :: "keyPair option"

section \<open>Conversions\<close>

definition ToAppInfo :: "appInfo option \<Rightarrow> applicationInfo" where
  "ToAppInfo r =
     (case r of
        None \<Rightarrow> \<lparr>Initialized = False, InstanceUID = [], Version = 0, AvailableSlots = 0, KeyUID = []\<rparr>
      | Some r \<Rightarrow> \<lparr>Initialized = ai_Initialized r, InstanceUID = ai_InstanceUID r,
          Version = BytesToInt (ai_Version r), AvailableSlots = BytesToInt (ai_AvailableSlots r),
          KeyUID = ai_KeyUID r\<rparr>)"

definition ToAppInfoV2 :: "appInfo option \<Rightarrow> applicationInfoV2 option" where
  "ToAppInfoV2 r =
     (case r of
        None \<Rightarrow> None
      | Some r \<Rightarrow> Some \<lparr>v2_Installed = ai_Installed r, v2_Initialized = ai_Initialized r,
          v2_InstanceUID = ai_InstanceUID r, v2_versionRaw = BytesToInt (ai_Version r),
          v2_Version = ParseVersion (ai_Version r),
          v2_AvailableSlots = BytesToInt (ai_AvailableSlots r), v2_KeyUID = ai_KeyUID r\<rparr>)"

definition ToAppStatus :: "appStatus option \<Rightarrow> applicationStatus option" where
  "ToAppStatus r =
     map_option (\<lambda>r. \<lparr>RemainingAttemptsPIN = as_PinRetryCount r,
       RemainingAttemptsPUK = as_PUKRetryCount r, KeyInitialized = as_KeyInitialized r,
       Path = as_Path r\<rparr>) r"

definition ToSignature :: "ktSignature \<Rightarrow> signature" where
  "ToSignature r = \<lparr>sig_R = ks_r r, sig_S = ks_s r, sig_V = ks_v r\<rparr>"

definition walletTmp :: "uint32 \<Rightarrow> uint32 list" where
  "walletTmp p = [0x8000002c, 0x8000003c, 0x80000000, 0x00000000, p]"

definition ToMetadata :: "metadata \<Rightarrow> cardMetadata" where
  "ToMetadata r =
     \<lparr>cm_Name = md_name r,
      cm_Wallets = map (\<lambda>p. \<lparr>w_Path = Encode (walletTmp p), w_Address = '''', w_PublicKey = []\<rparr>)
        (md_paths r)\<rparr>"

lemma ToAppInfoV2_None [simp]: "ToAppInfoV2 r = None \<longleftrightarrow> r = None"
  by (simp add: ToAppInfoV2_def split: option.splits)

lemma ToAppStatus_simps [simp]:
  "ToAppStatus None = None"
  "ToAppStatus (Some r) = Some \<lparr>RemainingAttemptsPIN = as_PinRetryCount r,
     RemainingAttemptsPUK = as_PUKRetryCount r, KeyInitialized = as_KeyInitialized r, Path = as_Path r\<rparr>"
  by (simp_all add: ToAppStatus_def)

end
