(* ===== verification/Crypto.thy ===== *)
theory Crypto
  imports CardTypes
begin

text \<open>
  The cryptographic layer of keycard-go: \<open>crypto/crypto.go\<close> and \<open>secrets.go\<close>.

  The primitives are parameters, collected in the record \<open>prims\<close>: the AES and DES block
  ciphers, the hashes, PBKDF2, Unicode normalisation and the curve operations of
  go-ethereum.  What the code builds from them is defined here: the CBC mode with its run-time
  checks, the ISO padding, the MAC, the session keys.  A function that can panic on what
  the card sent is a command.
\<close>

record prims =
  aesEnc :: "bytes \<Rightarrow> bytes \<Rightarrow> bytes"        \<comment> \<open>key, one block\<close>
  aesDec :: "bytes \<Rightarrow> bytes \<Rightarrow> bytes"
  desEnc :: "bytes \<Rightarrow> bytes \<Rightarrow> bytes"
  des3Enc :: "bytes \<Rightarrow> bytes \<Rightarrow> bytes"
  sha256 :: "bytes \<Rightarrow> bytes"
  sha512 :: "bytes \<Rightarrow> bytes"
  pbkdf2Sha256 :: "bytes \<Rightarrow> bytes \<Rightarrow> int \<Rightarrow> nat \<Rightarrow> bytes"
  pbkdf2Sha512 :: "bytes \<Rightarrow> bytes \<Rightarrow> int \<Rightarrow> nat \<Rightarrow> bytes"
  nfkd :: "bytes \<Rightarrow> bytes"
  unmarshalPubkey :: "bytes \<Rightarrow> go_error + bytes"
  scalarMultX :: "bytes \<Rightarrow> bytes \<Rightarrow> bytes"   \<comment> \<open>public key, private key; 32 bytes\<close>
  pubFromPriv :: "bytes \<Rightarrow> go_error + bytes"
  pubkeyToAddress :: "bytes \<Rightarrow> string"
  ecrecover :: "bytes \<Rightarrow> bytes \<Rightarrow> go_error + bytes"
  verifyIdentity :: "bytes \<Rightarrow> bytes \<Rightarrow> go_error + bytes"

section \<open>Padding\<close>

definition appendPadding :: "nat \<Rightarrow> bytes \<Rightarrow> bytes" where
  "appendPadding blockSize data =
     data @ 0x80 # replicate (blockSize - length data mod blockSize - 1) 0"

text \<open>
  \<open>removePadding\<close>: the index runs down from the last byte while it is above
  \<open>len(data)-blockSize\<close>, and stops at a \<open>0x80\<close>.  On an empty slice the first access
  \<open>data[-1]\<close> panics, and so does the access below index 0 of a short slice: \<open>None\<close>.
\<close>

function padScan :: "bytes \<Rightarrow> int \<Rightarrow> int \<Rightarrow> int option" where
  "padScan data low i =
     (if i > low then
        (if i < 0 then None
         else if data ! nat i = 0x80 then Some i
         else padScan data low (i - 1))
      else Some i)"
  by pat_completeness auto

termination padScan by (relation "measure (\<lambda>(data, low, i). nat (i - low))") auto

declare padScan.simps [simp del]

definition removePadding :: "nat \<Rightarrow> bytes \<Rightarrow> bytes option" where
  "removePadding blockSize data =
     (case padScan data (int (length data) - int blockSize) (int (length data) - 1) of
        None \<Rightarrow> None
      | Some i \<Rightarrow> if i < 0 then None else Some (take (nat i) data))"

lemma length_appendPadding:
  assumes "0 < n"
  shows "length (appendPadding n d) = (length d div n + 1) * n"
proof -
  have m: "length d mod n < n" using assms by simp
  have e: "length d div n * n + length d mod n = length d" by simp
  have "length (appendPadding n d) = length d + (n - length d mod n)"
    using m by (simp add: appendPadding_def)
  with e m show ?thesis unfolding add_mult_distrib by linarith
qed

lemma appendPadding_full: "0 < n \<Longrightarrow> n dvd length (appendPadding n d)"
  by (simp add: length_appendPadding)

lemma appendPadding_nonempty: "appendPadding n d \<noteq> []"
  by (simp add: appendPadding_def)

text \<open>The scan passes the zeros of the padding and stops at the mark.\<close>

lemma padScan_zeros:
  assumes "k \<le> m" and "low \<le> int (length d)"
  shows "padScan (d @ 0x80 # replicate m 0) low (int (length d + k)) = Some (int (length d))"
  using assms
proof (induction k)
  case 0
  then show ?case by (simp add: padScan.simps [of _ _ "int (length d)"] nth_append)
next
  case (Suc k)
  have nz: "(d @ 0x80 # replicate m (0::byte)) ! nat (int (length d + Suc k)) = 0"
    using Suc.prems by (simp add: nth_append del: of_nat_Suc of_nat_add)
  have i: "int (length d + Suc k) - 1 = int (length d + k)" by simp
  have "padScan (d @ 0x80 # replicate m 0) low (int (length d + Suc k)) =
      padScan (d @ 0x80 # replicate m 0) low (int (length d + k))"
    unfolding padScan.simps [of _ _ "int (length d + Suc k)"] i nz using Suc.prems by simp
  with Suc show ?case by simp
qed

lemma removePadding_append:
  assumes "0 < n"
  shows "removePadding n (appendPadding n d) = Some d"
proof -
  define m where "m = n - length d mod n - 1"
  have pad: "appendPadding n d = d @ 0x80 # replicate m 0" by (simp add: appendPadding_def m_def)
  have "m < n" using assms by (simp add: m_def)
  then have low: "int (length (appendPadding n d)) - int n \<le> int (length d)" by (simp add: pad)
  have idx: "int (length (appendPadding n d)) - 1 = int (length d + m)" by (simp add: pad)
  have "padScan (appendPadding n d) (int (length (appendPadding n d)) - int n)
      (int (length (appendPadding n d)) - 1) = Some (int (length d))"
    unfolding idx using low unfolding pad by (intro padScan_zeros) simp_all
  then show ?thesis by (simp add: removePadding_def) (simp add: pad)
qed

text \<open>On at least one block there is always a place to cut.\<close>

lemma padScan_total: "0 \<le> low \<Longrightarrow> low \<le> i \<Longrightarrow> \<exists>j. padScan data low i = Some j \<and> low \<le> j"
proof (induction data low i rule: padScan.induct)
  case (1 data low i)
  then show ?case by (cases "i > low") (simp_all add: padScan.simps [of data low i] padScan.simps [of data i i])
qed

lemma removePadding_total: "0 < n \<Longrightarrow> n \<le> length data \<Longrightarrow> \<exists>d. removePadding n data = Some d"
  using padScan_total [of "int (length data) - int n" "int (length data) - 1" data]
  by (auto simp: removePadding_def)

section \<open>CBC mode\<close>

definition xor_bytes :: "bytes \<Rightarrow> bytes \<Rightarrow> bytes" where
  "xor_bytes a b = map2 (XOR) a b"

function cbcEncrypt :: "(bytes \<Rightarrow> bytes) \<Rightarrow> nat \<Rightarrow> bytes \<Rightarrow> bytes \<Rightarrow> bytes" where
  "cbcEncrypt f n iv data =
     (if n = 0 \<or> data = [] then []
      else
        (let c = f (xor_bytes (take n data) iv) in
         c @ cbcEncrypt f n c (drop n data)))"
  by pat_completeness auto

termination cbcEncrypt by (relation "measure (\<lambda>(f, n, iv, data). length data)") auto

function cbcDecrypt :: "(bytes \<Rightarrow> bytes) \<Rightarrow> nat \<Rightarrow> bytes \<Rightarrow> bytes \<Rightarrow> bytes" where
  "cbcDecrypt f n iv data =
     (if n = 0 \<or> data = [] then []
      else xor_bytes (f (take n data)) iv @ cbcDecrypt f n (take n data) (drop n data))"
  by pat_completeness auto

termination cbcDecrypt by (relation "measure (\<lambda>(f, n, iv, data). length data)") auto

declare cbcEncrypt.simps [simp del] cbcDecrypt.simps [simp del]

text \<open>What the code relies on of a block cipher: it maps blocks to blocks, and back.\<close>

definition block_cipher :: "nat \<Rightarrow> (bytes \<Rightarrow> bytes) \<Rightarrow> (bytes \<Rightarrow> bytes) \<Rightarrow> bool" where
  "block_cipher n e d \<longleftrightarrow>
     (\<forall>b. length b = n \<longrightarrow> length (e b) = n \<and> length (d b) = n \<and> d (e b) = b)"

lemma block_cipherD:
  assumes "block_cipher n e d" and "length b = n"
  shows "length (e b) = n" and "length (d b) = n" and "d (e b) = b"
  using assms by (auto simp: block_cipher_def)

lemma length_xor_bytes [simp]: "length (xor_bytes a b) = min (length a) (length b)"
  by (simp add: xor_bytes_def)

lemma xor_bytes_twice: "length a = length b \<Longrightarrow> xor_bytes (xor_bytes a b) b = a"
  by (rule nth_equalityI) (simp_all add: xor_bytes_def xor.assoc)

lemma length_cbcEncrypt:
  assumes "\<And>b. length b = n \<Longrightarrow> length (f b) = n" and "0 < n"
  shows "n dvd length data \<Longrightarrow> length iv = n \<Longrightarrow> length (cbcEncrypt f n iv data) = length data"
proof (induction "length data" arbitrary: data iv rule: less_induct)
  case less
  show ?case
  proof (cases "data = []")
    case True
    then show ?thesis by (simp add: cbcEncrypt.simps [of f n iv])
  next
    case False
    with less.prems have le: "n \<le> length data" by (auto intro: dvd_imp_le)
    let ?c = "f (xor_bytes (take n data) iv)"
    have c: "length ?c = n" using assms(1) le less.prems by simp
    have "n dvd length (drop n data)" using less.prems le by (simp add: dvd_diff_nat)
    then have "length (cbcEncrypt f n ?c (drop n data)) = length (drop n data)"
      using less.hyps [of "drop n data" ?c] c False \<open>0 < n\<close> by simp
    with False \<open>0 < n\<close> c le show ?thesis
      by (simp add: cbcEncrypt.simps [of f n iv] Let_def)
  qed
qed

lemma length_cbcDecrypt:
  assumes "\<And>b. length b = n \<Longrightarrow> length (f b) = n" and "0 < n"
  shows "n dvd length data \<Longrightarrow> length iv = n \<Longrightarrow> length (cbcDecrypt f n iv data) = length data"
proof (induction "length data" arbitrary: data iv rule: less_induct)
  case less
  show ?case
  proof (cases "data = []")
    case True
    then show ?thesis by (simp add: cbcDecrypt.simps [of f n iv])
  next
    case False
    with less.prems have le: "n \<le> length data" by (auto intro: dvd_imp_le)
    then have b: "length (take n data) = n" "length (f (take n data)) = n" using assms(1) by simp_all
    have "n dvd length (drop n data)" using less.prems le by (simp add: dvd_diff_nat)
    then have "length (cbcDecrypt f n (take n data) (drop n data)) = length (drop n data)"
      using less.hyps [of "drop n data" "take n data"] b(1) False \<open>0 < n\<close> by simp
    with False \<open>0 < n\<close> b le less.prems show ?thesis
      by (simp add: cbcDecrypt.simps [of f n iv])
  qed
qed

lemma cbcDecrypt_cbcEncrypt:
  assumes bc: "block_cipher n e d" and "0 < n"
  shows "n dvd length data \<Longrightarrow> length iv = n \<Longrightarrow>
    cbcDecrypt d n iv (cbcEncrypt e n iv data) = data"
proof (induction "length data" arbitrary: data iv rule: less_induct)
  case less
  show ?case
  proof (cases "data = []")
    case True
    then show ?thesis by (simp add: cbcEncrypt.simps [of e n iv] cbcDecrypt.simps [of d n iv])
  next
    case False
    with less.prems have le: "n \<le> length data" by (auto intro: dvd_imp_le)
    let ?x = "xor_bytes (take n data) iv"
    let ?c = "e ?x"
    have x: "length ?x = n" using le less.prems by simp
    note c = block_cipherD [OF bc x]
    have enc: "cbcEncrypt e n iv data = ?c @ cbcEncrypt e n ?c (drop n data)"
      using False \<open>0 < n\<close> by (simp add: cbcEncrypt.simps [of e n iv] Let_def)
    have ne: "?c \<noteq> []" using c(1) \<open>0 < n\<close> by auto
    have "n dvd length (drop n data)" using less.prems le by (simp add: dvd_diff_nat)
    then have IH: "cbcDecrypt d n ?c (cbcEncrypt e n ?c (drop n data)) = drop n data"
      using less.hyps [of "drop n data" ?c] c(1) False \<open>0 < n\<close> by simp
    have "xor_bytes (d ?c) iv = take n data"
      using c(3) le less.prems by (simp add: xor_bytes_twice)
    then show ?thesis
      unfolding enc using ne \<open>0 < n\<close> c(1) IH
      by (simp add: cbcDecrypt.simps [of d n iv "?c @ _"])
  qed
qed

text \<open>
  \<open>cipher.NewCBCEncrypter\<close> panics unless the IV is one block, \<open>CryptBlocks\<close> panics unless
  its input is full blocks, and \<open>aes.NewCipher\<close> refuses a key that is not 16, 24 or 32
  bytes long.
\<close>

definition aesKeyOK :: "bytes \<Rightarrow> bool" where
  "aesKeyOK key \<longleftrightarrow> length key = 16 \<or> length key = 24 \<or> length key = 32"

definition keySizeError :: "bytes \<Rightarrow> go_error" where
  "keySizeError key = ErrorString (''crypto/aes: invalid key size '' @ show_nat (length key))"

definition cryptBlocks :: "nat \<Rightarrow> bytes \<Rightarrow> bytes \<Rightarrow> bytes \<Rightarrow> (bytes, 's) gocmd" where
  "cryptBlocks n iv data out =
     (if length iv \<noteq> n then panicM ''cipher: IV length must equal block size''
      else if \<not> n dvd length data then panicM ''crypto/cipher: input not full blocks''
      else ret out)"

section \<open>\<open>crypto/crypto.go\<close>\<close>

definition PairingTokenSalt :: string where
  "PairingTokenSalt = ''Keycard Pairing Password Salt''"

definition ErrInvalidCardCryptogram :: go_error where
  "ErrInvalidCardCryptogram = ErrorString ''invalid card cryptogram''"

definition EncryptData :: "prims \<Rightarrow> bytes \<Rightarrow> bytes \<Rightarrow> bytes \<Rightarrow> (go_error + bytes, 's) gocmd" where
  "EncryptData C data encKey iv =
     (let data = appendPadding 16 data in
      if \<not> aesKeyOK encKey then ret (Inl (keySizeError encKey))
      else bindM (cryptBlocks 16 iv data (cbcEncrypt (aesEnc C encKey) 16 iv data))
             (\<lambda>c. ret (Inr c)))"

definition DecryptData :: "prims \<Rightarrow> bytes \<Rightarrow> bytes \<Rightarrow> bytes \<Rightarrow> (go_error + bytes, 's) gocmd" where
  "DecryptData C data encKey iv =
     (if \<not> aesKeyOK encKey then ret (Inl (keySizeError encKey))
      else bindM (cryptBlocks 16 iv data (cbcDecrypt (aesDec C encKey) 16 iv data))
             (\<lambda>p. case removePadding 16 p of
                    None \<Rightarrow> panicM ''index out of range''
                  | Some d \<Rightarrow> ret (Inr d)))"

text \<open>
  \<open>CalculateMac\<close>: one CBC encrypter runs over the metadata and then over the padded
  data, and the MAC is the last block but one of the encrypted data.
\<close>

definition CalculateMac :: "prims \<Rightarrow> bytes \<Rightarrow> bytes \<Rightarrow> bytes \<Rightarrow> (go_error + bytes, 's) gocmd" where
  "CalculateMac C meta data macKey =
     (let data = appendPadding 16 data; e = cbcEncrypt (aesEnc C macKey) 16 in
      if \<not> aesKeyOK macKey then ret (Inl (keySizeError macKey))
      else bindM (cryptBlocks 16 (replicate 16 0) meta (e (replicate 16 0) meta)) (\<lambda>m.
        (let iv = (if m = [] then replicate 16 0 else drop (length m - 16) m) in
         bindM (cryptBlocks 16 iv data (e iv data)) (\<lambda>d.
           if length d < 32 then panicM ''slice bounds out of range''
           else ret (Inr (take 16 (drop (length d - 32) d)))))))"

definition generatePairingToken :: "prims \<Rightarrow> string \<Rightarrow> bytes" where
  "generatePairingToken C pass =
     pbkdf2Sha256 C (nfkd C (string_bytes pass)) (nfkd C (string_bytes PairingTokenSalt)) 50000 32"

definition VerifyCryptogram :: "prims \<Rightarrow> bytes \<Rightarrow> string \<Rightarrow> bytes \<Rightarrow> go_error + bytes" where
  "VerifyCryptogram C challenge pairingPass cardCryptogram =
     (let secretHash = pbkdf2Sha256 C (nfkd C (string_bytes pairingPass))
                         (nfkd C (string_bytes PairingTokenSalt)) 50000 32;
          expectedCryptogram = sha256 C (secretHash @ challenge) in
      if expectedCryptogram \<noteq> cardCryptogram then Inl ErrInvalidCardCryptogram
      else Inr secretHash)"

text \<open>The slices \<open>cardData[:32]\<close> and \<open>cardData[32:]\<close> panic on a short answer.\<close>

definition DeriveSessionKeys ::
    "prims \<Rightarrow> bytes \<Rightarrow> bytes \<Rightarrow> bytes \<Rightarrow> (bytes \<times> bytes \<times> bytes, 's) gocmd" where
  "DeriveSessionKeys C secret pairingKey cardData =
     (if length cardData < 32 then panicM ''slice bounds out of range''
      else
        (let salt = take 32 cardData; iv = drop 32 cardData;
             data = sha512 C (secret @ pairingKey @ salt) in
         ret (take 32 data, drop 32 data, iv)))"

definition OneShotEncryptWith :: "prims \<Rightarrow> bytes \<Rightarrow> bytes \<Rightarrow> bytes \<Rightarrow> bytes \<Rightarrow> go_error + bytes" where
  "OneShotEncryptWith C iv pubKeyData secret data =
     (let data = appendPadding 16 data in
      if \<not> aesKeyOK secret then Inl (keySizeError secret)
      else Inr (of_nat (length pubKeyData) # pubKeyData @ iv @ cbcEncrypt (aesEnc C secret) 16 iv data))"

section \<open>\<open>secrets.go\<close>\<close>

record secrets =
  sec_pin :: string
  sec_puk :: string
  sec_pairingPass :: string
  sec_pairingToken :: bytes

definition NewSecrets :: "prims \<Rightarrow> string \<Rightarrow> string \<Rightarrow> string \<Rightarrow> secrets" where
  "NewSecrets C pin puk pairingPass =
     \<lparr>sec_pin = pin, sec_puk = puk, sec_pairingPass = pairingPass,
      sec_pairingToken = generatePairingToken C pairingPass\<rparr>"

section \<open>Encryption and decryption are inverse\<close>

lemma EncryptData_ok:
  assumes "aesKeyOK key" and "length iv = 16"
  shows "EncryptData C d key iv =
    ret (Inr (cbcEncrypt (aesEnc C key) 16 iv (appendPadding 16 d)))"
  using assms appendPadding_full [of 16 d]
  by (simp add: EncryptData_def cryptBlocks_def bindM_def ret_def Let_def)

lemma DecryptData_EncryptData:
  assumes "block_cipher 16 (aesEnc C key) (aesDec C key)" and "aesKeyOK key" and "length iv = 16"
  shows "DecryptData C (cbcEncrypt (aesEnc C key) 16 iv (appendPadding 16 d)) key iv = ret (Inr d)"
proof -
  have full: "16 dvd length (appendPadding 16 d)" by (simp add: appendPadding_full)
  have len: "length (cbcEncrypt (aesEnc C key) 16 iv (appendPadding 16 d)) = length (appendPadding 16 d)"
    using length_cbcEncrypt [OF block_cipherD(1) [OF assms(1)] _ full assms(3)] by simp
  have "cbcDecrypt (aesDec C key) 16 iv (cbcEncrypt (aesEnc C key) 16 iv (appendPadding 16 d)) =
      appendPadding 16 d"
    using cbcDecrypt_cbcEncrypt [OF assms(1) _ full assms(3)] by simp
  with assms len full show ?thesis
    by (simp add: DecryptData_def cryptBlocks_def bindM_def ret_def removePadding_append)
qed

text \<open>
  The MAC as a function of header and data, for data that is not empty: then it is one
  block and computing it does not panic.
\<close>

definition mac_of :: "prims \<Rightarrow> bytes \<Rightarrow> bytes \<Rightarrow> bytes \<Rightarrow> bytes" where
  "mac_of C key meta data =
     (let e = cbcEncrypt (aesEnc C key) 16; d = e (e (replicate 16 0) meta) (appendPadding 16 data) in
      take 16 (drop (length d - 32) d))"

lemma CalculateMac_ok:
  assumes f: "\<And>b. length b = 16 \<Longrightarrow> length (aesEnc C key b) = 16"
    and "aesKeyOK key" and "length meta = 16" and "d \<noteq> []" and "16 dvd length d"
  shows "CalculateMac C meta d key = ret (Inr (mac_of C key meta d))"
    and "length (mac_of C key meta d) = 16"
proof -
  let ?z = "replicate 16 (0::byte)"
  let ?m = "cbcEncrypt (aesEnc C key) 16 ?z meta"
  have m: "length ?m = 16"
    using length_cbcEncrypt [OF f, where data = meta and iv = ?z] assms(3) by simp
  then have iv: "(if ?m = [] then ?z else drop (length ?m - 16) ?m) = ?m" by auto
  have full: "16 dvd length (appendPadding 16 d)" by (simp add: appendPadding_full)
  let ?d = "cbcEncrypt (aesEnc C key) 16 ?m (appendPadding 16 d)"
  have d: "length ?d = length (appendPadding 16 d)"
    using length_cbcEncrypt [OF f _ full m] by simp
  have "16 \<le> length d" using assms(4,5) by (auto intro: dvd_imp_le)
  then have long: "32 \<le> length ?d" unfolding d by (simp add: length_appendPadding)
  show "CalculateMac C meta d key = ret (Inr (mac_of C key meta d))"
    using assms(2,3) iv full m long
    by (auto simp: CalculateMac_def cryptBlocks_def bindM_def ret_def Let_def mac_of_def fun_eq_iff)
  show "length (mac_of C key meta d) = 16" using long by (simp add: mac_of_def Let_def)
qed

end
