(* ===== verification/Channel.thy ===== *)
theory Channel
  imports Crypto
begin

text \<open>
  The channels of keycard-go: \<open>io/normal_channel.go\<close> over a transmitter, and
  \<open>secure_channel.go\<close> over it.  The transmitter, the random source and the key generator
  are commands on a state of type \<open>'c\<close>, collected in the record \<open>port\<close>: the session
  context, the flow context and the examples each supply their own.
\<close>

record 'c port =
  transmit :: "bytes \<Rightarrow> (go_error + bytes, 'c) gocmd"
  randRead :: "nat \<Rightarrow> (go_error + bytes, 'c) gocmd"
  ecGenerateKey :: "(go_error + bytes \<times> bytes, 'c) gocmd"  \<comment> \<open>private, public\<close>

section \<open>The normal channel\<close>

definition ClaISO7816 :: byte where "ClaISO7816 = 0x00"
definition ClaGp :: byte where "ClaGp = 0x80"
definition ClaMac :: byte where "ClaMac = 0x84"
definition InsGetResponse :: byte where "InsGetResponse = 0xC0"
definition Sw1ResponseDataIncomplete :: byte where "Sw1ResponseDataIncomplete = 0x61"
definition SwFileNotFound :: uint16 where "SwFileNotFound = 0x6A82"
definition SwReferencedDataNotFound :: uint16 where "SwReferencedDataNotFound = 0x6A88"
definition SwSecurityConditionNotSatisfied :: uint16 where "SwSecurityConditionNotSatisfied = 0x6982"
definition SwAuthenticationMethodBlocked :: uint16 where "SwAuthenticationMethodBlocked = 0x6983"

definition NewCommandGetResponse :: "byte \<Rightarrow> command" where
  "NewCommandGetResponse len = SetLe len (NewCommand ClaISO7816 InsGetResponse 0 0 [])"

definition isGetResponse :: "command \<Rightarrow> bool" where
  "isGetResponse cmd \<longleftrightarrow> Cla cmd = ClaISO7816 \<and> Ins cmd = InsGetResponse"

lemma isGetResponse_NewCommandGetResponse [simp]: "isGetResponse (NewCommandGetResponse n)"
  by (simp add: isGetResponse_def NewCommandGetResponse_def SetLe_def NewCommand_def)

text \<open>
  \<open>Send\<close> calls itself for a GET RESPONSE when the card says that data is waiting; it does
  not do so for an answer to GET RESPONSE itself, so it nests once.
\<close>

function Send :: "'c port \<Rightarrow> command \<Rightarrow> (go_error + response, 'c) gocmd" where
  "Send P cmd =
     bindE (transmit P (SerializeCommand cmd)) (\<lambda>rawResp.
       case ParseResponse rawResp of
         Inl e \<Rightarrow> ret (Inl e)
       | Inr resp \<Rightarrow>
           if Sw1 resp = Sw1ResponseDataIncomplete \<and> \<not> isGetResponse cmd
           then Send P (NewCommandGetResponse (Sw2 resp))
           else ret (ParseResponse rawResp))"
  by pat_completeness auto

termination Send
  by (relation "measure (\<lambda>(P, cmd). if isGetResponse cmd then 0 else 1)") auto

declare Send.simps [simp del]

lemma Send_once:
  assumes "transmit P (SerializeCommand cmd) s = Ret (Inr raw) t"
    and "ParseResponse raw = Inr resp" and "Sw1 resp \<noteq> Sw1ResponseDataIncomplete \<or> isGetResponse cmd"
  shows "Send P cmd s = Ret (Inr resp) t"
  using assms by (auto simp: Send.simps [of P cmd] bindE_def bindM_def ret_def)

lemma Send_get_response:
  assumes "transmit P (SerializeCommand cmd) s = Ret (Inr raw) t"
    and "ParseResponse raw = Inr resp" and "Sw1 resp = Sw1ResponseDataIncomplete"
    and "\<not> isGetResponse cmd"
  shows "Send P cmd s = Send P (NewCommandGetResponse (Sw2 resp)) t"
  using assms by (simp add: Send.simps [of P cmd] bindE_def bindM_def)

lemma Send_transmit_error:
  "transmit P (SerializeCommand cmd) s = Ret (Inl e) t \<Longrightarrow> Send P cmd s = Ret (Inl e) t"
  by (simp add: Send.simps [of P cmd] bindE_def bindM_def ret_def)

text \<open>A port that does not block gives a channel that does not block.\<close>

definition port_live :: "('c \<Rightarrow> bool) \<Rightarrow> 'c port \<Rightarrow> bool" where
  "port_live I P \<longleftrightarrow> (\<forall>b. nonblocking I (transmit P b)) \<and> (\<forall>n. nonblocking I (randRead P n)) \<and>
     nonblocking I (ecGenerateKey P)"

lemma port_liveD [live]:
  assumes "port_live I P"
  shows "nonblocking I (transmit P b)" and "nonblocking I (randRead P n)"
    and "nonblocking I (ecGenerateKey P)"
  using assms by (simp_all add: port_live_def)

lemma nonblocking_Send [live]:
  assumes "port_live I P"
  shows "nonblocking I (Send P cmd)"
proof -
  have "nonblocking I (Send P (NewCommandGetResponse n))" for n
    unfolding Send.simps [of P "NewCommandGetResponse n"] by (intro live assms) simp
  then show ?thesis unfolding Send.simps [of P cmd] by (intro live assms)
qed

lemma nonblocking_onSnd [live]: "nonblocking I m \<Longrightarrow> nonblocking (\<lambda>(_, c). I c) (onSnd m)"
  by (rule nonblocking_zoom [where J = I]) auto

section \<open>The secure channel\<close>

record secureChannel =
  sc_open :: bool
  sc_secret :: bytes
  sc_publicKey :: "bytes option"
  sc_encKey :: bytes
  sc_macKey :: bytes
  sc_iv :: bytes

definition NewSecureChannel :: secureChannel where
  "NewSecureChannel = \<lparr>sc_open = False, sc_secret = [], sc_publicKey = None, sc_encKey = [],
     sc_macKey = [], sc_iv = []\<rparr>"

definition GenerateSecret ::
    "prims \<Rightarrow> 'c port \<Rightarrow> bytes \<Rightarrow> (go_error + unit, secureChannel \<times> 'c) gocmd" where
  "GenerateSecret C P cardPubKeyData =
     bindE (onSnd (ecGenerateKey P)) (\<lambda>(priv, pub).
       case unmarshalPubkey C cardPubKeyData of
         Inl e \<Rightarrow> ret (Inl e)
       | Inr cardPubKey \<Rightarrow>
           thenM (modifyM (\<lambda>(sc, c).
             (sc\<lparr>sc_publicKey := Some pub, sc_secret := scalarMultX C cardPubKey priv\<rparr>, c)))
           (ret (Inr ())))"

definition sc_Reset :: "(unit, secureChannel \<times> 'c) gocmd" where
  "sc_Reset = modifyM (\<lambda>(sc, c). (sc\<lparr>sc_open := False\<rparr>, c))"

definition sc_Init :: "bytes \<Rightarrow> bytes \<Rightarrow> bytes \<Rightarrow> (unit, secureChannel \<times> 'c) gocmd" where
  "sc_Init iv encKey macKey =
     modifyM (\<lambda>(sc, c). (sc\<lparr>sc_iv := iv, sc_encKey := encKey, sc_macKey := macKey,
       sc_open := True\<rparr>, c))"

text \<open>\<open>FromECDSAPub\<close> of a nil key is nil.\<close>

definition RawPublicKey :: "secureChannel \<Rightarrow> bytes" where
  "RawPublicKey sc = (case sc_publicKey sc of None \<Rightarrow> [] | Some k \<Rightarrow> k)"

definition updateIV :: "prims \<Rightarrow> bytes \<Rightarrow> bytes \<Rightarrow> (go_error + unit, secureChannel \<times> 'c) gocmd" where
  "updateIV C meta data =
     bindM (getM (sc_macKey \<circ> fst)) (\<lambda>macKey.
     bindE (CalculateMac C meta data macKey) (\<lambda>mac.
     thenM (modifyM (\<lambda>(sc, c). (sc\<lparr>sc_iv := mac\<rparr>, c))) (ret (Inr ()))))"

text \<open>
  The two halves of \<open>SecureChannel.Send\<close>: before the command goes out it is encrypted,
  the IV becomes its MAC, and the data sent is the IV and the ciphertext; the answer is
  decrypted with that IV, the IV becomes the answer's MAC, and must be the one received.
\<close>

definition sc_meta :: "command \<Rightarrow> bytes \<Rightarrow> bytes" where
  "sc_meta cmd encData =
     [Cla cmd, Ins cmd, P1 cmd, P2 cmd, of_nat (length encData + 16), 0, 0, 0, 0, 0, 0, 0, 0, 0, 0, 0]"

definition sc_rmeta :: "bytes \<Rightarrow> bytes" where
  "sc_rmeta data = [of_nat (length data), 0, 0, 0, 0, 0, 0, 0, 0, 0, 0, 0, 0, 0, 0, 0]"

definition sc_wrap :: "prims \<Rightarrow> command \<Rightarrow> (go_error + command, secureChannel \<times> 'c) gocmd" where
  "sc_wrap C cmd =
     bindM (getM fst) (\<lambda>sc.
     bindE (EncryptData C (cmd_Data cmd) (sc_encKey sc) (sc_iv sc)) (\<lambda>encData.
     bindE (updateIV C (sc_meta cmd encData) encData) (\<lambda>_.
     bindM (getM (sc_iv \<circ> fst)) (\<lambda>iv.
     ret (Inr (cmd\<lparr>cmd_Data := iv @ encData\<rparr>))))))"

definition sc_unwrap :: "prims \<Rightarrow> response \<Rightarrow> (go_error + response, secureChannel \<times> 'c) gocmd" where
  "sc_unwrap C resp =
     (if Sw resp \<noteq> SwOK then ret (Inl (NewErrBadResponse (Sw resp) ''unexpected sw in secure channel''))
      else bindM (getM fst) (\<lambda>sc.
        if length (resp_Data resp) < length (sc_iv sc) then panicM ''slice bounds out of range''
        else
          (let rmac = take (length (sc_iv sc)) (resp_Data resp);
               rdata = drop (length (sc_iv sc)) (resp_Data resp) in
           bindE (DecryptData C rdata (sc_encKey sc) (sc_iv sc)) (\<lambda>plainData.
           bindE (updateIV C (sc_rmeta (resp_Data resp)) rdata) (\<lambda>_.
           bindM (getM (sc_iv \<circ> fst)) (\<lambda>iv.
             if iv \<noteq> rmac then ret (Inl (Sentinel ErrInvalidResponseMAC))
             else ret (ParseResponse plainData)))))))"

definition sc_Send ::
    "prims \<Rightarrow> 'c port \<Rightarrow> command \<Rightarrow> (go_error + response, secureChannel \<times> 'c) gocmd" where
  "sc_Send C P cmd =
     bindM (getM (sc_open \<circ> fst)) (\<lambda>open1.
     bindE (if open1 then sc_wrap C cmd else ret (Inr cmd)) (\<lambda>cmd'.
     bindE (onSnd (Send P cmd')) (\<lambda>resp.
     bindM (getM (sc_open \<circ> fst)) (\<lambda>open2.
       if open2 then sc_unwrap C resp else ret (Inr resp)))))"

definition sc_OneShotEncrypt ::
    "prims \<Rightarrow> 'c port \<Rightarrow> secrets \<Rightarrow> (go_error + bytes, secureChannel \<times> 'c) gocmd" where
  "sc_OneShotEncrypt C P secrets =
     bindM (getM fst) (\<lambda>sc.
       (let pubKeyData = RawPublicKey sc;
            data = string_bytes (sec_pin secrets) @ string_bytes (sec_puk secrets) @
                   sec_pairingToken secrets in
        bindE (onSnd (randRead P 16)) (\<lambda>iv.
          ret (OneShotEncryptWith C iv pubKeyData (sc_secret sc) data))))"

section \<open>The secure channel as a whole\<close>

text \<open>No operation of the secure channel blocks when the port does not.\<close>

lemma nonblocking_crypto [live]:
  "nonblocking I (cryptBlocks n iv d out)" "nonblocking I (EncryptData C d k iv)"
  "nonblocking I (DecryptData C d k iv)" "nonblocking I (CalculateMac C m d k)"
  "nonblocking I (DeriveSessionKeys C secret pk cd)"
proof -
  show c: "nonblocking I (cryptBlocks n iv d out)" for n iv d out
    unfolding cryptBlocks_def by (intro live)
  show "nonblocking I (EncryptData C d k iv)" unfolding EncryptData_def Let_def by (intro live c)
  show "nonblocking I (DecryptData C d k iv)" unfolding DecryptData_def by (intro live c)
  show "nonblocking I (CalculateMac C m d k)" unfolding CalculateMac_def Let_def by (intro live c)
  show "nonblocking I (DeriveSessionKeys C secret pk cd)"
    unfolding DeriveSessionKeys_def Let_def by (intro live)
qed

abbreviation onChan :: "('c \<Rightarrow> bool) \<Rightarrow> 'b \<times> 'c \<Rightarrow> bool" where
  "onChan I \<equiv> \<lambda>(_, c). I c"

lemma nonblocking_updateIV [live]: "nonblocking (onChan I) (updateIV C meta data)"
  unfolding updateIV_def by (intro live) auto

lemma nonblocking_sc_Send [live]:
  assumes "port_live I P"
  shows "nonblocking (onChan I) (sc_Send C P cmd)"
  unfolding sc_Send_def sc_wrap_def sc_unwrap_def Let_def by (intro live assms)

lemma nonblocking_GenerateSecret [live]:
  "port_live I P \<Longrightarrow> nonblocking (onChan I) (GenerateSecret C P k)"
  unfolding GenerateSecret_def by (intro live) auto

lemma nonblocking_sc_Init [live]: "nonblocking (onChan I) (sc_Init iv e m)"
  unfolding sc_Init_def by (intro live) auto

lemma nonblocking_sc_Reset [live]: "nonblocking (onChan I) sc_Reset"
  unfolding sc_Reset_def by (intro live) auto

lemma nonblocking_sc_OneShotEncrypt [live]:
  "port_live I P \<Longrightarrow> nonblocking (onChan I) (sc_OneShotEncrypt C P secrets)"
  unfolding sc_OneShotEncrypt_def Let_def by (intro live)

section \<open>What a card on the other end computes\<close>

text \<open>
  The card's side of the protocol, as a specification: it holds the same keys and IV, sees
  the wrapped command, and answers with the MAC and the ciphertext of its plain answer.
\<close>

definition aes_ok :: "prims \<Rightarrow> bool" where
  "aes_ok C \<longleftrightarrow> (\<forall>k. aesKeyOK k \<longrightarrow> block_cipher 16 (aesEnc C k) (aesDec C k))"

definition sc_ready :: "secureChannel \<Rightarrow> bool" where
  "sc_ready sc \<longleftrightarrow> sc_open sc \<and> aesKeyOK (sc_encKey sc) \<and> aesKeyOK (sc_macKey sc) \<and>
     length (sc_iv sc) = 16"

definition cipherText :: "prims \<Rightarrow> secureChannel \<Rightarrow> bytes \<Rightarrow> bytes" where
  "cipherText C sc d = cbcEncrypt (aesEnc C (sc_encKey sc)) 16 (sc_iv sc) (appendPadding 16 d)"

definition commandMac :: "prims \<Rightarrow> secureChannel \<Rightarrow> command \<Rightarrow> bytes" where
  "commandMac C sc cmd =
     (let e = cipherText C sc (cmd_Data cmd) in mac_of C (sc_macKey sc) (sc_meta cmd e) e)"

definition wrapped :: "prims \<Rightarrow> secureChannel \<Rightarrow> command \<Rightarrow> command" where
  "wrapped C sc cmd = cmd\<lparr>cmd_Data := commandMac C sc cmd @ cipherText C sc (cmd_Data cmd)\<rparr>"

definition answerMac :: "prims \<Rightarrow> secureChannel \<Rightarrow> bytes \<Rightarrow> bytes" where
  "answerMac C sc rdata = mac_of C (sc_macKey sc) (sc_rmeta (replicate (16 + length rdata) 0)) rdata"

definition cardAnswer :: "prims \<Rightarrow> secureChannel \<Rightarrow> bytes \<Rightarrow> bytes" where
  "cardAnswer C sc plain =
     (let e = cipherText C sc plain in answerMac C sc e @ e @ [0x90, 0x00])"

lemma length_metas [simp]: "length (sc_meta cmd e) = 16" "length (sc_rmeta d) = 16"
  by (simp_all add: sc_meta_def sc_rmeta_def)

lemma sc_rmeta_cong: "length a = length b \<Longrightarrow> sc_rmeta a = sc_rmeta b"
  by (simp add: sc_rmeta_def)

lemma aes_block_length:
  "aes_ok C \<Longrightarrow> aesKeyOK k \<Longrightarrow> length b = 16 \<Longrightarrow> length (aesEnc C k b) = 16"
  by (simp add: aes_ok_def block_cipher_def)

lemma cipherText_facts:
  assumes "aes_ok C" and "sc_ready sc"
  shows "16 dvd length (cipherText C sc d)" and "cipherText C sc d \<noteq> []"
    and "EncryptData C d (sc_encKey sc) (sc_iv sc) = ret (Inr (cipherText C sc d))"
    and "DecryptData C (cipherText C sc d) (sc_encKey sc) (sc_iv sc) = ret (Inr d)"
proof -
  have k: "aesKeyOK (sc_encKey sc)" and iv: "length (sc_iv sc) = 16"
    using assms(2) by (simp_all add: sc_ready_def)
  have full: "16 dvd length (appendPadding 16 d)" by (simp add: appendPadding_full)
  have len: "length (cipherText C sc d) = length (appendPadding 16 d)"
    unfolding cipherText_def
    using length_cbcEncrypt [OF aes_block_length [OF assms(1) k] _ full iv] by simp
  show "16 dvd length (cipherText C sc d)" unfolding len by (rule full)
  show "cipherText C sc d \<noteq> []" using len appendPadding_nonempty [of 16 d] by auto
  show "EncryptData C d (sc_encKey sc) (sc_iv sc) = ret (Inr (cipherText C sc d))"
    unfolding cipherText_def by (rule EncryptData_ok [OF k iv])
  show "DecryptData C (cipherText C sc d) (sc_encKey sc) (sc_iv sc) = ret (Inr d)"
    unfolding cipherText_def
    using assms(1) k iv by (intro DecryptData_EncryptData) (simp_all add: aes_ok_def)
qed

lemma updateIV_ok:
  assumes "aes_ok C" and "aesKeyOK (sc_macKey sc)" and "length meta = 16"
    and "d \<noteq> []" and "16 dvd length d"
  shows "updateIV C meta d (sc, c) =
    Ret (Inr ()) (sc\<lparr>sc_iv := mac_of C (sc_macKey sc) meta d\<rparr>, c)"
  by (simp add: updateIV_def bindM_def bindE_def getM_def thenM_def modifyM_def ret_def
      CalculateMac_ok(1) [OF aes_block_length [OF assms(1,2)] assms(2-5)])

lemma sc_wrap_ok:
  assumes "aes_ok C" and "sc_ready sc"
  shows "sc_wrap C cmd (sc, c) =
    Ret (Inr (wrapped C sc cmd)) (sc\<lparr>sc_iv := commandMac C sc cmd\<rparr>, c)"
proof -
  note ct = cipherText_facts [OF assms, of "cmd_Data cmd"]
  have "aesKeyOK (sc_macKey sc)" using assms(2) by (simp add: sc_ready_def)
  then show ?thesis
    by (simp add: sc_wrap_def bindM_def bindE_def getM_def ret_def ct(3) wrapped_def commandMac_def Let_def
        updateIV_ok [OF assms(1) _ _ ct(2,1)])
qed

lemma length_commandMac:
  "aes_ok C \<Longrightarrow> sc_ready sc \<Longrightarrow> length (commandMac C sc cmd) = 16"
  unfolding commandMac_def Let_def
  by (rule CalculateMac_ok(2) [OF aes_block_length])
    (simp_all add: cipherText_facts sc_ready_def)

text \<open>
  Unwrapping an answer of full blocks is a comparison of MACs: the plain answer is handed
  on exactly when the MAC received is the one computed over the ciphertext received.
\<close>

lemma sc_unwrap_eq:
  assumes "aes_ok C" and "sc_ready sc" and "Sw resp = SwOK"
    and "resp_Data resp = rmac @ rdata" and "length rmac = 16"
    and "rdata = cipherText C sc plain"
  shows "sc_unwrap C resp (sc, c) =
    Ret (if rmac = answerMac C sc rdata then ParseResponse plain
         else Inl (Sentinel ErrInvalidResponseMAC))
      (sc\<lparr>sc_iv := answerMac C sc rdata\<rparr>, c)"
proof -
  note ct = cipherText_facts [OF assms(1,2), of plain, folded assms(6)]
  have len: "length (sc_iv sc) = 16" and mk: "aesKeyOK (sc_macKey sc)"
    using assms(2) by (simp_all add: sc_ready_def)
  have rm: "sc_rmeta (resp_Data resp) = sc_rmeta (replicate (16 + length rdata) 0)"
    by (rule sc_rmeta_cong) (simp add: assms(4,5))
  have "answerMac C sc rdata = mac_of C (sc_macKey sc) (sc_rmeta (resp_Data resp)) rdata"
    unfolding answerMac_def rm by (rule refl)
  then show ?thesis
    using assms(3,4,5) len
    by (auto simp: sc_unwrap_def bindM_def bindE_def getM_def ret_def ct(4)
        updateIV_ok [OF assms(1) mk _ ct(2,1)])
qed

text \<open>
  The same for any data at all.  The data are decrypted before the MAC is looked at, and there
  a wrong length is a panic: fewer than the 16 bytes of a MAC, a ciphertext that is not full
  blocks, and one that is empty.
\<close>

definition plainText :: "prims \<Rightarrow> secureChannel \<Rightarrow> bytes \<Rightarrow> bytes option" where
  "plainText C sc rdata = removePadding 16 (cbcDecrypt (aesDec C (sc_encKey sc)) 16 (sc_iv sc) rdata)"

lemma plainText_total:
  assumes "aes_ok C" and "sc_ready sc" and "16 dvd length rdata" and "rdata \<noteq> []"
  shows "\<exists>d. plainText C sc rdata = Some d"
proof -
  have "length b = 16 \<Longrightarrow> length (aesDec C (sc_encKey sc) b) = 16" for b
    using assms(1,2) by (simp add: aes_ok_def sc_ready_def block_cipher_def)
  from length_cbcDecrypt [where n = 16 and data = rdata and iv = "sc_iv sc", OF this] assms(2,3)
  have "length (cbcDecrypt (aesDec C (sc_encKey sc)) 16 (sc_iv sc) rdata) = length rdata"
    by (simp add: sc_ready_def)
  moreover have "16 \<le> length rdata" using assms(3,4) by (auto intro: dvd_imp_le)
  ultimately show ?thesis unfolding plainText_def by (intro removePadding_total) simp_all
qed

lemma sc_unwrap_total:
  assumes "aes_ok C" and "sc_ready sc" and "Sw resp = SwOK"
    and "rmac = take 16 (resp_Data resp)" and "rdata = drop 16 (resp_Data resp)"
  shows "sc_unwrap C resp (sc, c) =
    (if length (resp_Data resp) < 16 then Fault (Panicked ''slice bounds out of range'') (sc, c)
     else if \<not> 16 dvd length rdata then Fault (Panicked ''crypto/cipher: input not full blocks'') (sc, c)
     else case plainText C sc rdata of
       None \<Rightarrow> Fault (Panicked ''index out of range'') (sc, c)
     | Some plain \<Rightarrow>
         Ret (if rmac = answerMac C sc rdata then ParseResponse plain else Inl (Sentinel ErrInvalidResponseMAC))
           (sc\<lparr>sc_iv := answerMac C sc rdata\<rparr>, c))"
    and "plainText C sc [] = None"
proof -
  have iv: "length (sc_iv sc) = 16" and ek: "aesKeyOK (sc_encKey sc)" and mk: "aesKeyOK (sc_macKey sc)"
    using assms(2) by (simp_all add: sc_ready_def)
  show empty: "plainText C sc [] = None"
    by (simp add: plainText_def cbcDecrypt.simps [of _ _ _ "[]"] removePadding_def padScan.simps [of _ _ "-1"])
  have rm: "sc_rmeta (resp_Data resp) = sc_rmeta (replicate (16 + length rdata) 0)" if "\<not> length (resp_Data resp) < 16"
    by (rule sc_rmeta_cong) (use that assms(5) in simp)
  have up: "updateIV C (sc_rmeta (resp_Data resp)) rdata (sc, c) = Ret (Inr ()) (sc\<lparr>sc_iv := answerMac C sc rdata\<rparr>, c)"
    if "\<not> length (resp_Data resp) < 16" "16 dvd length rdata" "rdata \<noteq> []"
    unfolding answerMac_def rm [OF that(1)] by (rule updateIV_ok [OF assms(1) mk _ that(3,2)]) simp
  show "sc_unwrap C resp (sc, c) =
    (if length (resp_Data resp) < 16 then Fault (Panicked ''slice bounds out of range'') (sc, c)
     else if \<not> 16 dvd length rdata then Fault (Panicked ''crypto/cipher: input not full blocks'') (sc, c)
     else case plainText C sc rdata of
       None \<Rightarrow> Fault (Panicked ''index out of range'') (sc, c)
     | Some plain \<Rightarrow>
         Ret (if rmac = answerMac C sc rdata then ParseResponse plain else Inl (Sentinel ErrInvalidResponseMAC))
           (sc\<lparr>sc_iv := answerMac C sc rdata\<rparr>, c))"
  proof (cases "length (resp_Data resp) < 16 \<or> \<not> 16 dvd length rdata \<or> rdata = []")
    case True
    then show ?thesis
      using assms(3,5) iv ek empty
      by (auto simp: sc_unwrap_def DecryptData_def cryptBlocks_def plainText_def [symmetric] bindE_def Let_def cmd_defs)
  next
    case False
    with plainText_total [OF assms(1,2)] obtain plain where "plainText C sc rdata = Some plain" by blast
    with False up show ?thesis
      using assms(3,4,5) iv ek
      by (auto simp: sc_unwrap_def DecryptData_def cryptBlocks_def plainText_def [symmetric] bindE_def Let_def cmd_defs)
  qed
qed

lemma sc_ready_iv: "sc_ready sc \<Longrightarrow> length m = 16 \<Longrightarrow> sc_ready (sc\<lparr>sc_iv := m\<rparr>)"
  by (simp add: sc_ready_def)

lemma length_answerMac:
  assumes "aes_ok C" and "sc_ready sc"
  shows "length (answerMac C sc (cipherText C sc plain)) = 16"
  unfolding answerMac_def
  using assms by (intro CalculateMac_ok(2) [OF aes_block_length])
    (simp_all add: cipherText_facts sc_ready_def)

text \<open>
  The round trip: with a card that holds the same keys, \<open>Send\<close> over the secure channel
  returns the card's plain answer, and both sides end with the same IV.
\<close>

lemma sc_Send_round_trip:
  assumes "aes_ok C" and "sc_ready sc"
    and "sc1 = sc\<lparr>sc_iv := commandMac C sc cmd\<rparr>"
    and "transmit P (SerializeCommand (wrapped C sc cmd)) c = Ret (Inr (cardAnswer C sc1 plain)) c'"
  shows "sc_Send C P cmd (sc, c) =
    Ret (ParseResponse plain)
      (sc\<lparr>sc_iv := answerMac C sc1 (cipherText C sc1 plain)\<rparr>, c')"
proof -
  let ?e = "cipherText C sc1 plain"
  have r1: "sc_ready sc1"
    unfolding assms(3) by (rule sc_ready_iv [OF assms(2) length_commandMac [OF assms(1,2)]])
  let ?r = "\<lparr>resp_Data = answerMac C sc1 ?e @ ?e, Sw1 = 0x90, Sw2 = 0x00, Sw = SwOK\<rparr>"
  have "ParseResponse (cardAnswer C sc1 plain) = Inr ?r"
    using ParseResponse_append [of "answerMac C sc1 ?e @ ?e" "0x90" "0x00"]
    by (simp add: cardAnswer_def Let_def mkSw_def SwOK_def)
  from Send_once [OF assms(4) this]
  have send: "Send P (wrapped C sc cmd) c = Ret (Inr ?r) c'"
    by (simp add: Sw1ResponseDataIncomplete_def)
  have "sc_open sc" "sc_open sc1" using assms(2) r1 by (simp_all add: sc_ready_def)
  then show ?thesis
    using sc_unwrap_eq [OF assms(1) r1 _ _ length_answerMac [OF assms(1) r1] refl, where resp = ?r and c = c']
    by (simp add: sc_Send_def bindM_def bindE_def getM_def ret_def sc_wrap_ok [OF assms(1,2)]
        zoom_def send assms(3))
qed

end
