(* ===== verification/CommandSet.thy ===== *)
theory CommandSet
  imports Channel
begin

text \<open>
  The keycard command set: the command constructors of \<open>commands.go\<close>, the signature reader
  of \<open>types/signature.go\<close>, and the operations of \<open>command_set.go\<close>.  An operation is a
  command on the pair of the \<open>CommandSet\<close> struct and the port's state, so by its type it
  can change nothing else of the program.
\<close>

section \<open>Commands\<close>

definition InsInit :: byte where "InsInit = 0xFE"
definition InsFactoryReset :: byte where "InsFactoryReset = 0xFD"
definition InsOpenSecureChannel :: byte where "InsOpenSecureChannel = 0x10"
definition InsMutuallyAuthenticate :: byte where "InsMutuallyAuthenticate = 0x11"
definition InsPair :: byte where "InsPair = 0x12"
definition InsUnpair :: byte where "InsUnpair = 0x13"
definition InsIdentify :: byte where "InsIdentify = 0x14"
definition InsGetStatus :: byte where "InsGetStatus = 0xF2"
definition InsGenerateKey :: byte where "InsGenerateKey = 0xD4"
definition InsRemoveKey :: byte where "InsRemoveKey = 0xD3"
definition InsVerifyPIN :: byte where "InsVerifyPIN = 0x20"
definition InsChangePIN :: byte where "InsChangePIN = 0x21"
definition InsUnblockPIN :: byte where "InsUnblockPIN = 0x22"
definition InsDeriveKey :: byte where "InsDeriveKey = 0xD1"
definition InsExportKey :: byte where "InsExportKey = 0xC2"
definition InsSign :: byte where "InsSign = 0xC0"
definition InsSetPinlessPath :: byte where "InsSetPinlessPath = 0xC1"
definition InsGetData :: byte where "InsGetData = 0xCA"
definition InsLoadKey :: byte where "InsLoadKey = 0xD0"
definition InsGenerateMnemonic :: byte where "InsGenerateMnemonic = 0xD2"
definition InsStoreData :: byte where "InsStoreData = 0xE2"
definition InsSelect :: byte where "InsSelect = 0xA4"

definition P1PairingFirstStep :: byte where "P1PairingFirstStep = 0x00"
definition P1PairingFinalStep :: byte where "P1PairingFinalStep = 0x01"
definition P1GetStatusApplication :: byte where "P1GetStatusApplication = 0x00"
definition P1GetStatusKeyPath :: byte where "P1GetStatusKeyPath = 0x01"
definition P1DeriveKeyFromMaster :: byte where "P1DeriveKeyFromMaster = 0x00"
definition P1DeriveKeyFromParent :: byte where "P1DeriveKeyFromParent = 0x40"
definition P1DeriveKeyFromCurrent :: byte where "P1DeriveKeyFromCurrent = 0x80"
definition P1ChangePinPIN :: byte where "P1ChangePinPIN = 0x00"
definition P1ChangePinPUK :: byte where "P1ChangePinPUK = 0x01"
definition P1ChangePinPairingSecret :: byte where "P1ChangePinPairingSecret = 0x02"
definition P1SignCurrentKey :: byte where "P1SignCurrentKey = 0x00"
definition P1SignDerive :: byte where "P1SignDerive = 0x01"
definition P1SignDeriveAndMakeCurrent :: byte where "P1SignDeriveAndMakeCurrent = 0x02"
definition P1SignPinless :: byte where "P1SignPinless = 0x03"
definition P1StoreDataPublic :: byte where "P1StoreDataPublic = 0x00"
definition P1ExportKeyCurrent :: byte where "P1ExportKeyCurrent = 0x00"
definition P1ExportKeyDerive :: byte where "P1ExportKeyDerive = 0x01"
definition P1ExportKeyDeriveAndMakeCurrent :: byte where "P1ExportKeyDeriveAndMakeCurrent = 0x02"
definition P2ExportKeyPrivateAndPublic :: byte where "P2ExportKeyPrivateAndPublic = 0x00"
definition P2ExportKeyPublicOnly :: byte where "P2ExportKeyPublicOnly = 0x01"
definition P2ExportKeyExtendedPublic :: byte where "P2ExportKeyExtendedPublic = 0x02"
definition P1LoadKeySeed :: byte where "P1LoadKeySeed = 0x03"
definition P1FactoryResetMagic :: byte where "P1FactoryResetMagic = 0xAA"
definition P2FactoryResetMagic :: byte where "P2FactoryResetMagic = 0x55"
definition SwNoAvailablePairingSlots :: uint16 where "SwNoAvailablePairingSlots = 0x6A84"

definition KeycardInstanceAID :: bytes where \<comment> \<open>\<open>KeycardInstanceAID(1)\<close>\<close>
  "KeycardInstanceAID = [0xA0, 0x00, 0x00, 0x08, 0x04, 0x00, 0x01, 0x01, 0x01]"

definition NewCommandSelect :: "bytes \<Rightarrow> command" where
  "NewCommandSelect aid = NewCommand ClaISO7816 InsSelect 0x04 0 aid"

definition NewCommandInit :: "bytes \<Rightarrow> command" where
  "NewCommandInit data = NewCommand ClaGp InsInit 0 0 data"

definition NewCommandPairFirstStep :: "bytes \<Rightarrow> command" where
  "NewCommandPairFirstStep challenge = NewCommand ClaGp InsPair P1PairingFirstStep 0 challenge"

definition NewCommandPairFinalStep :: "bytes \<Rightarrow> command" where
  "NewCommandPairFinalStep cryptogramHash = NewCommand ClaGp InsPair P1PairingFinalStep 0 cryptogramHash"

definition NewCommandUnpair :: "byte \<Rightarrow> command" where
  "NewCommandUnpair index = NewCommand ClaGp InsUnpair index 0 []"

definition NewCommandIdentify :: "bytes \<Rightarrow> command" where
  "NewCommandIdentify challenge = NewCommand ClaGp InsIdentify 0 0 challenge"

definition NewCommandOpenSecureChannel :: "byte \<Rightarrow> bytes \<Rightarrow> command" where
  "NewCommandOpenSecureChannel pairingIndex pubKey =
     NewCommand ClaGp InsOpenSecureChannel pairingIndex 0 pubKey"

definition NewCommandMutuallyAuthenticate :: "bytes \<Rightarrow> command" where
  "NewCommandMutuallyAuthenticate data = NewCommand ClaGp InsMutuallyAuthenticate 0 0 data"

definition NewCommandGetStatus :: "byte \<Rightarrow> command" where
  "NewCommandGetStatus p1 = NewCommand ClaGp InsGetStatus p1 0 []"

definition NewCommandGenerateKey :: command where
  "NewCommandGenerateKey = NewCommand ClaGp InsGenerateKey 0 0 []"

definition NewCommandGenerateMnemonic :: "byte \<Rightarrow> command" where
  "NewCommandGenerateMnemonic checksumSize = NewCommand ClaGp InsGenerateMnemonic checksumSize 0 []"

definition NewCommandRemoveKey :: command where
  "NewCommandRemoveKey = NewCommand ClaGp InsRemoveKey 0 0 []"

definition NewCommandVerifyPIN :: "string \<Rightarrow> command" where
  "NewCommandVerifyPIN pin = NewCommand ClaGp InsVerifyPIN 0 0 (string_bytes pin)"

definition NewCommandChangePIN :: "string \<Rightarrow> command" where
  "NewCommandChangePIN pin = NewCommand ClaGp InsChangePIN P1ChangePinPIN 0 (string_bytes pin)"

definition NewCommandUnblockPIN :: "string \<Rightarrow> string \<Rightarrow> command" where
  "NewCommandUnblockPIN puk newPIN = NewCommand ClaGp InsUnblockPIN 0 0 (string_bytes (puk @ newPIN))"

definition NewCommandChangePUK :: "string \<Rightarrow> command" where
  "NewCommandChangePUK puk = NewCommand ClaGp InsChangePIN P1ChangePinPUK 0 (string_bytes puk)"

definition NewCommandChangePairingSecret :: "bytes \<Rightarrow> command" where
  "NewCommandChangePairingSecret secret = NewCommand ClaGp InsChangePIN P1ChangePinPairingSecret 0 secret"

definition NewCommandLoadSeed :: "bytes \<Rightarrow> command" where
  "NewCommandLoadSeed seed = NewCommand ClaGp InsLoadKey P1LoadKeySeed 0 seed"

text \<open>\<open>binary.Write\<close> of the segments, each a big-endian word of 32 bits.\<close>

definition be_bytes :: "uint32 \<Rightarrow> bytes" where
  "be_bytes n = [ucast (drop_bit 24 n), ucast (drop_bit 16 n), ucast (drop_bit 8 n), ucast n]"

definition pathBytes :: "uint32 list \<Rightarrow> bytes" where
  "pathBytes path = concat (map be_bytes path)"

definition derivationP1FromStartingPoint :: "StartingPoint \<Rightarrow> byte" where
  "derivationP1FromStartingPoint s =
     (case s of
        StartingPointMaster \<Rightarrow> P1DeriveKeyFromMaster
      | StartingPointParent \<Rightarrow> P1DeriveKeyFromParent
      | StartingPointCurrent \<Rightarrow> P1DeriveKeyFromCurrent)"

definition NewCommandDeriveKey :: "string \<Rightarrow> go_error + command" where
  "NewCommandDeriveKey pathStr =
     (case Decode pathStr of
        (startingPoint, path, Some e) \<Rightarrow> Inl e
      | (startingPoint, path, None) \<Rightarrow>
          Inr (NewCommand ClaGp InsDeriveKey (derivationP1FromStartingPoint startingPoint) 0
            (pathBytes path)))"

definition NewCommandExportKey :: "byte \<Rightarrow> byte \<Rightarrow> string \<Rightarrow> go_error + command" where
  "NewCommandExportKey p1 p2 pathStr =
     (case Decode pathStr of
        (startingPoint, path, Some e) \<Rightarrow> Inl e
      | (startingPoint, path, None) \<Rightarrow>
          Inr (NewCommand ClaGp InsExportKey (p1 OR derivationP1FromStartingPoint startingPoint) p2
            (pathBytes path)))"

definition NewCommandSetPinlessPath :: "string \<Rightarrow> go_error + command" where
  "NewCommandSetPinlessPath pathStr =
     (case Decode pathStr of
        (startingPoint, path, Some e) \<Rightarrow> Inl e
      | (startingPoint, path, None) \<Rightarrow>
          if path \<noteq> [] \<and> startingPoint \<noteq> StartingPointMaster
          then Inl (ErrorString ''pinless path must be set with an absolute path'')
          else Inr (NewCommand ClaGp InsSetPinlessPath 0 0 (pathBytes path)))"

definition NewCommandSign :: "bytes \<Rightarrow> byte \<Rightarrow> string \<Rightarrow> go_error + command" where
  "NewCommandSign data p1 pathStr =
     (if length data \<noteq> 32
      then Inl (ErrorString (''data length must be 32, got '' @ show_nat (length data)))
      else if p1 = P1SignDerive \<or> p1 = P1SignDeriveAndMakeCurrent then
        (case Decode pathStr of
           (_, path, Some e) \<Rightarrow> Inl e
         | (_, path, None) \<Rightarrow> Inr (NewCommand ClaGp InsSign p1 1 (data @ pathBytes path)))
      else Inr (NewCommand ClaGp InsSign p1 1 data))"

definition NewCommandGetData :: "byte \<Rightarrow> command" where
  "NewCommandGetData typ = NewCommand ClaGp InsGetData typ 0 []"

definition NewCommandStoreData :: "byte \<Rightarrow> bytes \<Rightarrow> command" where
  "NewCommandStoreData typ data = NewCommand ClaGp InsStoreData typ 0 data"

definition NewCommandFactoryReset :: command where
  "NewCommandFactoryReset = NewCommand ClaGp InsFactoryReset P1FactoryResetMagic P2FactoryResetMagic []"

section \<open>Signatures\<close>

definition ParseRecoverableSignature :: "prims \<Rightarrow> bytes \<Rightarrow> bytes \<Rightarrow> go_error + ktSignature" where
  "ParseRecoverableSignature C message sig =
     (if length sig \<noteq> 65 then Inl (ErrorString ''invalid signature'')
      else (case ecrecover C message sig of
              Inl e \<Rightarrow> Inl e
            | Inr pubKey \<Rightarrow> Inr \<lparr>ks_r = take 32 sig, ks_s = take 32 (drop 32 sig), ks_v = sig ! 64\<rparr>))"

definition last32 :: "bytes \<Rightarrow> bytes" where
  "last32 r = (if length r > 32 then drop (length r - 32) r else r)"

definition DERSignatureToRS :: "bytes \<Rightarrow> go_error + bytes \<times> bytes" where
  "DERSignatureToRS d =
     (case FindTagN d 0 [[0x30], [0x02]] of
        Inl e \<Rightarrow> Inl e
      | Inr r \<Rightarrow>
          (case FindTagN d 1 [[0x30], [0x02]] of
             Inl e \<Rightarrow> Inl e
           | Inr s \<Rightarrow> Inr (last32 r, last32 s)))"

text \<open>\<open>Ecrecover\<close> answers with 65 bytes; on fewer the access to \<open>pubKey[64]\<close> would panic.\<close>

definition compressPublicKey :: "bytes \<Rightarrow> bytes" where
  "compressPublicKey pubKey =
     (if length pubKey = 33 then pubKey
      else (if pubKey ! 64 AND 1 = 1 then 3 else 2) # take 32 (drop 1 pubKey))"

text \<open>The loop over the four recovery ids; when none fits the last is returned, with no error.\<close>

fun calculateVLoop :: "prims \<Rightarrow> bytes \<Rightarrow> bytes \<Rightarrow> bytes \<Rightarrow> byte list \<Rightarrow> byte \<Rightarrow> go_error + byte" where
  "calculateVLoop C message pubKey rs [] v = Inr v"
| "calculateVLoop C message pubKey rs (i # is) v =
     (case ecrecover C message (rs @ [i]) of
        Inl e \<Rightarrow> Inl e
      | Inr rec \<Rightarrow>
          if pubKey = (if length pubKey = 33 then compressPublicKey rec else rec) then Inr i
          else calculateVLoop C message pubKey rs is i)"

definition calculateV :: "prims \<Rightarrow> bytes \<Rightarrow> bytes \<Rightarrow> bytes \<Rightarrow> bytes \<Rightarrow> go_error + byte" where
  "calculateV C message pubKey r s = calculateVLoop C message pubKey (r @ s) [0, 1, 2, 3] 0"

definition parseLegacySignature :: "prims \<Rightarrow> bytes \<Rightarrow> bytes \<Rightarrow> go_error + ktSignature" where
  "parseLegacySignature C message tpl =
     (case FindTag tpl [[0x80]] of
        Inl e \<Rightarrow> Inl e
      | Inr pubKey \<Rightarrow>
          (case DERSignatureToRS tpl of
             Inl e \<Rightarrow> Inl e
           | Inr (r, s) \<Rightarrow>
               (case calculateV C message pubKey r s of
                  Inl e \<Rightarrow> Inl e
                | Inr v \<Rightarrow> Inr \<lparr>ks_r = r, ks_s = s, ks_v = v\<rparr>)))"

definition ParseSignature :: "prims \<Rightarrow> bytes \<Rightarrow> bytes \<Rightarrow> go_error + ktSignature" where
  "ParseSignature C message resp =
     (case FindTag resp [[0xA0]] of
        Inr tpl \<Rightarrow> parseLegacySignature C message tpl
      | Inl _ \<Rightarrow>
          (case FindTag resp [[0x80]] of
             Inl e \<Rightarrow> Inl e
           | Inr sig \<Rightarrow> ParseRecoverableSignature C message sig))"

section \<open>The command set\<close>

record commandSet =
  cs_sc :: secureChannel
  cs_ApplicationInfo :: "appInfo option"
  cs_PairingInfo :: "pairingInfo option"

type_synonym ('a, 'c) csop = "(go_error + 'a, commandSet \<times> 'c) gocmd"

definition NewCommandSet :: commandSet where
  "NewCommandSet = \<lparr>cs_sc = NewSecureChannel, cs_ApplicationInfo = Some emptyAppInfo,
     cs_PairingInfo = None\<rparr>"

text \<open>Operations of the secure channel, run on the one inside the command set.\<close>

definition onSc :: "('a, secureChannel \<times> 'c) gocmd \<Rightarrow> ('a, commandSet \<times> 'c) gocmd" where
  "onSc m = zoom (\<lambda>(cs, c). (cs_sc cs, c)) (\<lambda>(sc, c) (cs, _). (cs\<lparr>cs_sc := sc\<rparr>, c)) m"

lemma preserves_onSc:
  assumes "\<And>cs c sc c'. P (cs, c) \<Longrightarrow> P (cs\<lparr>cs_sc := sc\<rparr>, c')"
  shows "preserves P (onSc m)"
  unfolding onSc_def by (rule preserves_zoom) (auto intro: assms)

definition csSend :: "prims \<Rightarrow> 'c port \<Rightarrow> command \<Rightarrow> (response, 'c) csop" where
  "csSend C P cmd = onSc (sc_Send C P cmd)"

definition checkOK :: "uint16 list \<Rightarrow> go_error + response \<Rightarrow> go_error + response" where
  "checkOK allowed r =
     (case r of
        Inl e \<Rightarrow> Inl e
      | Inr resp \<Rightarrow>
          if Sw resp \<in> set (if allowed = [] then [SwOK] else allowed) then Inr resp
          else Inl (NewErrBadResponse (Sw resp) ''unexpected response''))"

text \<open>\<open>resp, err := send; err = checkOK(resp, err)\<close>, and the operation that ends there.\<close>

definition sendOK :: "(go_error + response, 's) gocmd \<Rightarrow> (go_error + response, 's) gocmd" where
  "sendOK m = bindM m (\<lambda>r. ret (checkOK [] r))"

definition sendOnly :: "(go_error + response, 's) gocmd \<Rightarrow> (go_error + unit, 's) gocmd" where
  "sendOnly m = bindE (sendOK m) (\<lambda>_. ret (Inr ()))"

definition SetPairingInfo :: "bytes \<Rightarrow> int \<Rightarrow> (unit, commandSet \<times> 'c) gocmd" where
  "SetPairingInfo key index =
     modifyM (\<lambda>(cs, c). (cs\<lparr>cs_PairingInfo := Some \<lparr>pi_Key = key, pi_Index = index\<rparr>\<rparr>, c))"

definition Select :: "prims \<Rightarrow> 'c port \<Rightarrow> (unit, 'c) csop" where
  "Select C P =
     bindE (sendOK (onSnd (Send P (SetLe 0 (NewCommandSelect KeycardInstanceAID))))) (\<lambda>resp.
       case ParseApplicationInfo (resp_Data resp) of
         None \<Rightarrow> panicM ''index out of range''
       | Some (Inl e) \<Rightarrow> ret (Inl e)
       | Some (Inr appInfo) \<Rightarrow>
           thenM (modifyM (\<lambda>(cs, c). (cs\<lparr>cs_ApplicationInfo := Some appInfo\<rparr>, c)))
           (if HasSecureChannelCapability appInfo then
              bindE (onSc (GenerateSecret C P (ai_SecureChannelPublicKey appInfo))) (\<lambda>_.
                thenM (onSc sc_Reset) (ret (Inr ())))
            else ret (Inr ())))"

definition cs_Init :: "prims \<Rightarrow> 'c port \<Rightarrow> secrets \<Rightarrow> (unit, 'c) csop" where
  "cs_Init C P secrets =
     bindE (onSc (sc_OneShotEncrypt C P secrets)) (\<lambda>data.
       sendOnly (onSnd (Send P (NewCommandInit data))))"

definition cs_Pair :: "prims \<Rightarrow> 'c port \<Rightarrow> string \<Rightarrow> (unit, 'c) csop" where
  "cs_Pair C P pairingPass =
     bindE (onSnd (randRead P 32)) (\<lambda>challenge.
     bindM (onSnd (Send P (NewCommandPairFirstStep challenge))) (\<lambda>r.
       if (case r of Inr resp \<Rightarrow> Sw resp = SwNoAvailablePairingSlots | Inl _ \<Rightarrow> False)
       then ret (Inl (Sentinel ErrNoAvailablePairingSlots))
       else bindE (ret (checkOK [] r)) (\<lambda>resp.
         if length (resp_Data resp) < 32 then panicM ''slice bounds out of range''
         else
           (let cardCryptogram = take 32 (resp_Data resp); cardChallenge = drop 32 (resp_Data resp) in
            case VerifyCryptogram C challenge pairingPass cardCryptogram of
              Inl e \<Rightarrow> ret (Inl e)
            | Inr secretHash \<Rightarrow>
                bindE (sendOK (onSnd (Send P
                    (NewCommandPairFinalStep (sha256 C (secretHash @ cardChallenge)))))) (\<lambda>resp.
                  case resp_Data resp of
                    [] \<Rightarrow> panicM ''slice bounds out of range''
                  | pairingIndex # salt \<Rightarrow>
                      thenM (SetPairingInfo (sha256 C (secretHash @ salt)) (uint pairingIndex))
                        (ret (Inr ())))))))"

definition cs_Unpair :: "prims \<Rightarrow> 'c port \<Rightarrow> byte \<Rightarrow> (unit, 'c) csop" where
  "cs_Unpair C P index = sendOnly (csSend C P (NewCommandUnpair index))"

definition cs_Identify :: "prims \<Rightarrow> 'c port \<Rightarrow> (bytes, 'c) csop" where
  "cs_Identify C P =
     bindE (onSnd (randRead P 32)) (\<lambda>challenge.
     bindE (sendOK (csSend C P (NewCommandIdentify challenge))) (\<lambda>resp.
       ret (verifyIdentity C challenge (resp_Data resp))))"

definition mutualAuthenticate :: "prims \<Rightarrow> 'c port \<Rightarrow> (unit, 'c) csop" where
  "mutualAuthenticate C P =
     bindE (onSnd (randRead P 32)) (\<lambda>data.
       sendOnly (csSend C P (NewCommandMutuallyAuthenticate data)))"

definition cs_OpenSecureChannel :: "prims \<Rightarrow> 'c port \<Rightarrow> (unit, 'c) csop" where
  "cs_OpenSecureChannel C P =
     bindM (getM fst) (\<lambda>cs.
       if cs_ApplicationInfo cs = None
       then ret (Inl (ErrorString ''cannot open secure channel without setting PairingInfo''))
       else case cs_PairingInfo cs of
              None \<Rightarrow> panicM ''nil pointer dereference''
            | Some pinfo \<Rightarrow>
                bindE (sendOK (onSnd (Send P
                    (NewCommandOpenSecureChannel (of_int (pi_Index pinfo)) (RawPublicKey (cs_sc cs))))))
                  (\<lambda>resp.
                  bindM (DeriveSessionKeys C (sc_secret (cs_sc cs)) (pi_Key pinfo) (resp_Data resp))
                    (\<lambda>(encKey, macKey, iv).
                    thenM (onSc (sc_Init iv encKey macKey)) (mutualAuthenticate C P))))"

definition cs_GetStatus :: "prims \<Rightarrow> 'c port \<Rightarrow> byte \<Rightarrow> (appStatus, 'c) csop" where
  "cs_GetStatus C P info =
     bindE (sendOK (csSend C P (NewCommandGetStatus info))) (\<lambda>resp.
       ret (Inr (ParseApplicationStatus (resp_Data resp))))"

definition cs_GetStatusApplication :: "prims \<Rightarrow> 'c port \<Rightarrow> (appStatus, 'c) csop" where
  "cs_GetStatusApplication C P = cs_GetStatus C P P1GetStatusApplication"

definition cs_GetStatusKeyPath :: "prims \<Rightarrow> 'c port \<Rightarrow> (appStatus, 'c) csop" where
  "cs_GetStatusKeyPath C P = cs_GetStatus C P P1GetStatusKeyPath"

text \<open>The status word that announces a wrong PIN or PUK, and the attempts it leaves.\<close>

definition isRetrySw :: "uint16 \<Rightarrow> bool" where
  "isRetrySw sw \<longleftrightarrow> sw AND 0x63C0 = 0x63C0"

definition attemptsOf :: "uint16 \<Rightarrow> int" where
  "attemptsOf sw = uint (sw AND 0x000F)"

definition retryCheck :: "(int \<Rightarrow> go_error) \<Rightarrow> go_error + response \<Rightarrow> go_error + unit" where
  "retryCheck wrong r =
     (case checkOK [] r of
        Inr _ \<Rightarrow> Inr ()
      | Inl e \<Rightarrow>
          (case r of
             Inr resp \<Rightarrow> if isRetrySw (Sw resp) then Inl (wrong (attemptsOf (Sw resp))) else Inl e
           | Inl _ \<Rightarrow> Inl e))"

definition cs_VerifyPIN :: "prims \<Rightarrow> 'c port \<Rightarrow> string \<Rightarrow> (unit, 'c) csop" where
  "cs_VerifyPIN C P pin =
     bindM (csSend C P (NewCommandVerifyPIN pin)) (\<lambda>r. ret (retryCheck WrongPINError r))"

definition cs_ChangePIN :: "prims \<Rightarrow> 'c port \<Rightarrow> string \<Rightarrow> (unit, 'c) csop" where
  "cs_ChangePIN C P pin = sendOnly (csSend C P (NewCommandChangePIN pin))"

definition cs_UnblockPIN :: "prims \<Rightarrow> 'c port \<Rightarrow> string \<Rightarrow> string \<Rightarrow> (unit, 'c) csop" where
  "cs_UnblockPIN C P puk newPIN =
     bindM (csSend C P (NewCommandUnblockPIN puk newPIN)) (\<lambda>r. ret (retryCheck WrongPUKError r))"

definition cs_ChangePUK :: "prims \<Rightarrow> 'c port \<Rightarrow> string \<Rightarrow> (unit, 'c) csop" where
  "cs_ChangePUK C P puk = sendOnly (csSend C P (NewCommandChangePUK puk))"

definition cs_ChangePairingSecret :: "prims \<Rightarrow> 'c port \<Rightarrow> string \<Rightarrow> (unit, 'c) csop" where
  "cs_ChangePairingSecret C P password =
     sendOnly (csSend C P (NewCommandChangePairingSecret (generatePairingToken C password)))"

definition respData :: "(go_error + response, 's) gocmd \<Rightarrow> (go_error + bytes, 's) gocmd" where
  "respData m = bindE (sendOK m) (\<lambda>resp. ret (Inr (resp_Data resp)))"

definition cs_GenerateKey :: "prims \<Rightarrow> 'c port \<Rightarrow> (bytes, 'c) csop" where
  "cs_GenerateKey C P = respData (csSend C P NewCommandGenerateKey)"

text \<open>\<open>binary.Read\<close> of 16-bit signed numbers until the buffer has fewer than two bytes.\<close>

fun be_int16s :: "bytes \<Rightarrow> int list" where
  "be_int16s (a # b # r) = sint (mkSw a b) # be_int16s r"
| "be_int16s _ = []"

definition cs_GenerateMnemonic :: "prims \<Rightarrow> 'c port \<Rightarrow> int \<Rightarrow> (int list, 'c) csop" where
  "cs_GenerateMnemonic C P checksumSize =
     (if checksumSize < 4 \<or> checksumSize > 8 then ret (Inl (Sentinel ErrBadChecksumSize))
      else bindE (sendOK (csSend C P (NewCommandGenerateMnemonic (of_int checksumSize)))) (\<lambda>resp.
        ret (Inr (be_int16s (resp_Data resp)))))"

definition cs_RemoveKey :: "prims \<Rightarrow> 'c port \<Rightarrow> (unit, 'c) csop" where
  "cs_RemoveKey C P = sendOnly (csSend C P NewCommandRemoveKey)"

definition cs_DeriveKey :: "prims \<Rightarrow> 'c port \<Rightarrow> string \<Rightarrow> (unit, 'c) csop" where
  "cs_DeriveKey C P path =
     (case NewCommandDeriveKey path of
        Inl e \<Rightarrow> ret (Inl e)
      | Inr cmd \<Rightarrow> sendOnly (csSend C P cmd))"

definition exportKeyP1 :: "bool \<Rightarrow> bool \<Rightarrow> byte" where
  "exportKeyP1 derive makeCurrent =
     (if \<not> derive then P1ExportKeyCurrent
      else if \<not> makeCurrent then P1ExportKeyDerive
      else P1ExportKeyDeriveAndMakeCurrent)"

definition cs_ExportKeyExtended ::
    "prims \<Rightarrow> 'c port \<Rightarrow> bool \<Rightarrow> bool \<Rightarrow> byte \<Rightarrow> string \<Rightarrow> (exportedKey, 'c) csop" where
  "cs_ExportKeyExtended C P derive makeCurrent p2 path =
     (case NewCommandExportKey (exportKeyP1 derive makeCurrent) p2 path of
        Inl e \<Rightarrow> ret (Inl e)
      | Inr cmd \<Rightarrow> bindE (sendOK (csSend C P cmd)) (\<lambda>resp.
          ret (ParseExportKeyResponse (pubFromPriv C) (resp_Data resp))))"

definition cs_ExportKey ::
    "prims \<Rightarrow> 'c port \<Rightarrow> bool \<Rightarrow> bool \<Rightarrow> bool \<Rightarrow> string \<Rightarrow> (bytes option \<times> bytes option, 'c) csop" where
  "cs_ExportKey C P derive makeCurrent onlyPublic path =
     bindE (cs_ExportKeyExtended C P derive makeCurrent
         (if onlyPublic then P2ExportKeyPublicOnly else P2ExportKeyPrivateAndPublic) path) (\<lambda>key.
       ret (Inr (ek_privKey key, ek_pubKey key)))"

definition cs_SetPinlessPath :: "prims \<Rightarrow> 'c port \<Rightarrow> string \<Rightarrow> (unit, 'c) csop" where
  "cs_SetPinlessPath C P path =
     (case NewCommandSetPinlessPath path of
        Inl e \<Rightarrow> ret (Inl e)
      | Inr cmd \<Rightarrow> sendOnly (csSend C P cmd))"

definition signVia ::
    "prims \<Rightarrow> (command \<Rightarrow> (go_error + response, 's) gocmd) \<Rightarrow> bytes \<Rightarrow> byte \<Rightarrow> string \<Rightarrow>
       (go_error + ktSignature, 's) gocmd" where
  "signVia C send data p1 path =
     (case NewCommandSign data p1 path of
        Inl e \<Rightarrow> ret (Inl e)
      | Inr cmd \<Rightarrow> bindE (sendOK (send cmd)) (\<lambda>resp. ret (ParseSignature C data (resp_Data resp))))"

definition cs_Sign :: "prims \<Rightarrow> 'c port \<Rightarrow> bytes \<Rightarrow> (ktSignature, 'c) csop" where
  "cs_Sign C P data = signVia C (csSend C P) data P1SignCurrentKey ''''"

definition cs_SignWithPath :: "prims \<Rightarrow> 'c port \<Rightarrow> bytes \<Rightarrow> string \<Rightarrow> (ktSignature, 'c) csop" where
  "cs_SignWithPath C P data path = signVia C (csSend C P) data P1SignDerive path"

definition cs_SignPinless :: "prims \<Rightarrow> 'c port \<Rightarrow> bytes \<Rightarrow> (ktSignature, 'c) csop" where
  "cs_SignPinless C P data = signVia C (\<lambda>cmd. onSnd (Send P cmd)) data P1SignPinless ''''"

definition cs_LoadSeed :: "prims \<Rightarrow> 'c port \<Rightarrow> bytes \<Rightarrow> (bytes, 'c) csop" where
  "cs_LoadSeed C P seed = respData (csSend C P (NewCommandLoadSeed seed))"

definition cs_GetData :: "prims \<Rightarrow> 'c port \<Rightarrow> byte \<Rightarrow> (bytes, 'c) csop" where
  "cs_GetData C P typ = respData (csSend C P (NewCommandGetData typ))"

definition cs_StoreData :: "prims \<Rightarrow> 'c port \<Rightarrow> byte \<Rightarrow> bytes \<Rightarrow> (unit, 'c) csop" where
  "cs_StoreData C P typ data = sendOnly (csSend C P (NewCommandStoreData typ data))"

definition cs_FactoryReset :: "prims \<Rightarrow> 'c port \<Rightarrow> (unit, 'c) csop" where
  "cs_FactoryReset C P = sendOnly (onSnd (Send P NewCommandFactoryReset))"

section \<open>No operation blocks\<close>

lemma nonblocking_onSc [live]:
  "nonblocking (onChan I) m \<Longrightarrow> nonblocking (onChan I) (onSc m)"
  unfolding onSc_def by (rule nonblocking_zoom [where J = "onChan I"]) auto

lemma nonblocking_csSend [live]: "port_live I P \<Longrightarrow> nonblocking (onChan I) (csSend C P cmd)"
  unfolding csSend_def by (intro live)

lemma nonblocking_sends [live]:
  "nonblocking I m \<Longrightarrow> nonblocking I (sendOK m)"
  "nonblocking I m \<Longrightarrow> nonblocking I (sendOnly m)"
  "nonblocking I m \<Longrightarrow> nonblocking I (respData m)"
  by (simp_all add: sendOK_def sendOnly_def respData_def nonblocking_bindM nonblocking_bindE
      nonblocking_ret)

lemma nonblocking_SetPairingInfo [live]: "nonblocking (onChan I) (SetPairingInfo k i)"
  unfolding SetPairingInfo_def by (intro live) auto

lemma nonblocking_mutualAuthenticate [live]:
  "port_live I P \<Longrightarrow> nonblocking (onChan I) (mutualAuthenticate C P)"
  unfolding mutualAuthenticate_def by (intro live)

lemma nonblocking_Select [live]:
  assumes "port_live I P" shows "nonblocking (onChan I) (Select C P)"
  unfolding Select_def by (intro live assms | simp)+ auto

lemma nonblocking_signVia [live]:
  assumes "\<And>cmd. nonblocking I (send cmd)" shows "nonblocking I (signVia C send d p1 path)"
  unfolding signVia_def by (intro live assms)

lemma nonblocking_cs_GetStatus [live]:
  "port_live I P \<Longrightarrow> nonblocking (onChan I) (cs_GetStatus C P info)"
  unfolding cs_GetStatus_def by (intro live)

lemma nonblocking_cs_ExportKeyExtended [live]:
  "port_live I P \<Longrightarrow> nonblocking (onChan I) (cs_ExportKeyExtended C P d m p2 path)"
  unfolding cs_ExportKeyExtended_def by (intro live)

lemma nonblocking_cs_Pair [live]:
  assumes "port_live I P" shows "nonblocking (onChan I) (cs_Pair C P pass)"
proof -
  have tl: "nonblocking (onChan I)
      (case d of [] \<Rightarrow> panicM ''slice bounds out of range''
       | pairingIndex # salt \<Rightarrow> thenM (SetPairingInfo (sha256 C (h @ salt)) (uint pairingIndex))
           (ret (Inr ())))" for d h
    by (cases d) (simp_all, (intro live)+)
  show ?thesis unfolding cs_Pair_def Let_def by (intro live assms tl)
qed

lemma nonblocking_cs_OpenSecureChannel [live]:
  assumes "port_live I P" shows "nonblocking (onChan I) (cs_OpenSecureChannel C P)"
  unfolding cs_OpenSecureChannel_def by (intro live assms)

lemma nonblocking_csops [live]:
  assumes "port_live I P"
  shows "nonblocking (onChan I) (cs_Init C P secrets)"
    and "nonblocking (onChan I) (cs_Unpair C P index)"
    and "nonblocking (onChan I) (cs_Identify C P)"
    and "nonblocking (onChan I) (cs_GetStatusApplication C P)"
    and "nonblocking (onChan I) (cs_GetStatusKeyPath C P)"
    and "nonblocking (onChan I) (cs_VerifyPIN C P pin)"
    and "nonblocking (onChan I) (cs_ChangePIN C P pin)"
    and "nonblocking (onChan I) (cs_UnblockPIN C P puk pin)"
    and "nonblocking (onChan I) (cs_ChangePUK C P puk)"
    and "nonblocking (onChan I) (cs_ChangePairingSecret C P password)"
    and "nonblocking (onChan I) (cs_GenerateKey C P)"
    and "nonblocking (onChan I) (cs_GenerateMnemonic C P n)"
    and "nonblocking (onChan I) (cs_RemoveKey C P)"
    and "nonblocking (onChan I) (cs_LoadSeed C P seed)"
    and "nonblocking (onChan I) (cs_GetData C P typ)"
    and "nonblocking (onChan I) (cs_StoreData C P typ data)"
    and "nonblocking (onChan I) (cs_FactoryReset C P)"
    and "nonblocking (onChan I) (cs_SignWithPath C P data path)"
    and "nonblocking (onChan I) (cs_DeriveKey C P path)"
  unfolding cs_Init_def cs_Unpair_def cs_Identify_def cs_GetStatusApplication_def
    cs_GetStatusKeyPath_def cs_VerifyPIN_def cs_ChangePIN_def cs_UnblockPIN_def cs_ChangePUK_def
    cs_ChangePairingSecret_def cs_GenerateKey_def cs_GenerateMnemonic_def cs_RemoveKey_def
    cs_LoadSeed_def cs_GetData_def cs_StoreData_def cs_FactoryReset_def cs_SignWithPath_def
    cs_DeriveKey_def
  by (intro live assms)+

section \<open>What the operations return\<close>

lemma checkOK_Inr [simp]:
  "checkOK [] r = Inr x \<longleftrightarrow> r = Inr x \<and> Sw x = SwOK"
  by (auto simp: checkOK_def split: sum.splits)

lemma retryCheck_Inr: "retryCheck W r = Inr u \<longleftrightarrow> (\<exists>x. r = Inr x \<and> Sw x = SwOK)"
  by (auto simp: retryCheck_def checkOK_def split: sum.splits if_splits)

lemma retrySw_low: "isRetrySw (0x63C0 OR (sw AND 0x000F))" and
  attemptsOf_low: "attemptsOf (0x63C0 OR (sw AND 0x000F)) = uint (sw AND 0x000F)"
proof -
  have "(0x63C0 OR (sw AND 0x000F)) AND 0x63C0 = (0x63C0 :: uint16)"
    by (simp add: bit.conj_disj_distrib2 and.assoc)
  then show "isRetrySw (0x63C0 OR (sw AND 0x000F))" by (simp add: isRetrySw_def)
  have "(0x63C0 OR (sw AND 0x000F)) AND 0x000F = (sw AND 0x000F :: uint16)"
    by (simp add: bit.conj_disj_distrib2 and.assoc)
  then show "attemptsOf (0x63C0 OR (sw AND 0x000F)) = uint (sw AND 0x000F)"
    by (simp add: attemptsOf_def)
qed

text \<open>The count of attempts is four bits.\<close>

lemma attemptsOf_bound: "0 \<le> attemptsOf sw \<and> attemptsOf sw < 16"
proof -
  have "uint (sw AND 0x000F) \<le> 15"
    using word_and_le1 [of sw "0x000F"] by (simp add: word_le_def)
  then show ?thesis by (simp add: attemptsOf_def)
qed

lemma retrySw_not_OK: "isRetrySw sw \<Longrightarrow> sw \<noteq> SwOK"
  by (auto simp: isRetrySw_def SwOK_def)

lemma retryCheck_wrong:
  "retryCheck W (Inr x) = (if Sw x = SwOK then Inr ()
     else if isRetrySw (Sw x) then Inl (W (attemptsOf (Sw x)))
     else Inl (ErrBadResponse (Sw x) ''unexpected response''))"
  by (simp add: retryCheck_def checkOK_def NewErrBadResponse_def)

lemma csSend_round_trip:
  assumes "aes_ok C" and "sc_ready (cs_sc cs)"
    and "sc1 = (cs_sc cs)\<lparr>sc_iv := commandMac C (cs_sc cs) cmd\<rparr>"
    and "transmit P (SerializeCommand (wrapped C (cs_sc cs) cmd)) c = Ret (Inr (cardAnswer C sc1 plain)) c'"
  shows "csSend C P cmd (cs, c) =
    Ret (ParseResponse plain)
      (cs\<lparr>cs_sc := (cs_sc cs)\<lparr>sc_iv := answerMac C sc1 (cipherText C sc1 plain)\<rparr>\<rparr>, c')"
  using sc_Send_round_trip [OF assms] by (simp add: csSend_def onSc_def zoom_def)

section \<open>Paths on the wire\<close>

lemma bytes4:
  assumes "m < (2 ^ 32 :: nat)"
  shows "((m div 2 ^ 24 mod 256 * 256 + m div 2 ^ 16 mod 256) * 256 + m div 2 ^ 8 mod 256) * 256
    + m mod 256 = m"
proof -
  define q where "q = m div 256"
  have "m div 2 ^ 24 = q div 2 ^ 16" "m div 2 ^ 16 = q div 2 ^ 8" "m div 2 ^ 8 = q"
    by (simp_all add: q_def flip: div_mult2_eq)
  moreover have "((0 * 256 + q div 2 ^ 16 mod 256) * 256 + q div 2 ^ 8 mod 256) * 256 + q mod 256 = q"
    using assms by (intro bytes3) (simp add: q_def)
  moreover have "q * 256 + m mod 256 = m" unfolding q_def by (rule div_mult_mod_eq)
  ultimately show ?thesis by simp
qed

lemma be_uint32_be_bytes: "be_uint32 (be_bytes n) = n"
proof -
  have "unat n < 2 ^ 32" using unsigned_less [of n] by simp
  then show ?thesis
    unfolding be_bytes_def byteOf_def [symmetric]
    by (intro be_uint32_eqI) (simp only: length_bytes bytes4)
qed

lemma be_words_pathBytes: "be_words (pathBytes ps) = ps"
proof (induction ps)
  case (Cons p ps)
  then show ?case
    using be_uint32_be_bytes [of p] by (simp add: pathBytes_def be_bytes_def)
qed (simp add: pathBytes_def)

lemma NewCommandExportKey_Encode:
  "NewCommandExportKey p1 p2 (Encode ps) =
     Inr (NewCommand ClaGp InsExportKey p1 p2 (pathBytes (dropTrailingHardened ps)))"
  by (simp add: NewCommandExportKey_def Decode_Encode derivationP1FromStartingPoint_def
      P1DeriveKeyFromMaster_def)

lemma unat_mkSw: "unat (mkSw a b) = unat a * 256 + unat b"
proof -
  have "(push_bit 8 (ucast a)) AND (ucast b :: uint16) = 0"
    by (rule bit_word_eqI) (auto simp: bit_simps dest: bit_imp_le_length)
  then have "mkSw a b = push_bit 8 (ucast a) + ucast b"
    using word_plus_and_or [of "push_bit 8 (ucast a)" "ucast b :: uint16"] by (simp add: mkSw_def)
  then have m: "mkSw a b = ucast a * 256 + ucast b" by (simp add: push_bit_eq_mult)
  have "unat a < 256" "unat b < 256" using unsigned_less [of a] unsigned_less [of b] by simp_all
  then have "unat a * 256 + unat b < 65536" by simp
  with \<open>unat a < 256\<close> show ?thesis
    unfolding m by (simp add: unat_word_ariths unsigned_ucast_eq take_bit_nat_eq_self mod_less)
qed

lemma mkSw_split: "i < 65536 \<Longrightarrow> mkSw (of_nat (i div 256)) (of_nat (i mod 256)) = of_nat i"
  by (simp add: word_unat_eq_iff unat_mkSw unat_of_nat div_mult_mod_eq)

text \<open>The word indexes of a mnemonic, as the card sends them.\<close>

definition index_bytes :: "nat \<Rightarrow> bytes" where
  "index_bytes i = [of_nat (i div 256), of_nat (i mod 256)]"

lemma be_int16s_indexes:
  "\<forall>i \<in> set is. i < 32768 \<Longrightarrow> be_int16s (concat (map index_bytes is)) = map int is"
proof (induction "is")
  case (Cons i "is")
  have "sint (mkSw (of_nat (i div 256)) (of_nat (i mod 256))) = int i"
  proof -
    have i: "i < 32768" using Cons.prems by simp
    have "mkSw (of_nat (i div 256)) (of_nat (i mod 256)) = (of_nat i :: uint16)"
      by (rule mkSw_split) (use i in simp)
    moreover have "sint (of_nat i :: uint16) = int i"
      using i by (simp add: sint_uint unsigned_of_nat take_bit_nat_eq_self signed_take_bit_int_eq_self_iff)
    ultimately show ?thesis by simp
  qed
  with Cons show ?case by (simp add: index_bytes_def)
qed simp

end
