(* ===== verification/GlobalPlatform.thy ===== *)
theory GlobalPlatform
  imports CommandSet
begin

text \<open>
  The GlobalPlatform command set of keycard-go, as far as the factory reset uses it:
  \<open>globalplatform/crypto/crypto.go\<close>, \<open>session.go\<close>, \<open>scp02_wrapper.go\<close>,
  \<open>secure_channel.go\<close>, \<open>commands.go\<close> and \<open>command_set.go\<close>.  The DES ciphers are those of
  \<open>prims\<close>.
\<close>

section \<open>Keys and MACs\<close>

definition GlobalPlatformDefaultKey :: bytes where
  "GlobalPlatformDefaultKey =
     [0x40, 0x41, 0x42, 0x43, 0x44, 0x45, 0x46, 0x47, 0x48, 0x49, 0x4a, 0x4b, 0x4c, 0x4d, 0x4e, 0x4f]"

definition KeycardDevelopmentKey :: bytes where
  "KeycardDevelopmentKey =
     [0xc2, 0x12, 0xe0, 0x73, 0xff, 0x8b, 0x4b, 0xbf, 0xaf, 0xf4, 0xde, 0x8a, 0xb6, 0x55, 0x22, 0x1f]"

definition PackageAID :: bytes where
  "PackageAID = [0xA0, 0x00, 0x00, 0x08, 0x04, 0x00, 0x01]"

definition KeycardAID :: bytes where
  "KeycardAID = [0xA0, 0x00, 0x00, 0x08, 0x04, 0x00, 0x01, 0x01]"

definition NullBytes8 :: bytes where "NullBytes8 = [0, 0, 0, 0, 0, 0, 0, 0]"
definition DerivationPurposeEnc :: bytes where "DerivationPurposeEnc = [0x01, 0x82]"
definition DerivationPurposeMac :: bytes where "DerivationPurposeMac = [0x01, 0x01]"

definition resizeKey24 :: "bytes \<Rightarrow> bytes" where
  "resizeKey24 key = take 16 key @ take 8 key"

definition resizeKey8 :: "bytes \<Rightarrow> bytes" where
  "resizeKey8 key = take 8 key"

definition AppendDESPadding :: "bytes \<Rightarrow> bytes" where
  "AppendDESPadding data = appendPadding 8 data"

definition DeriveKey3DES :: "prims \<Rightarrow> bytes \<Rightarrow> bytes \<Rightarrow> bytes \<Rightarrow> bytes" where
  "DeriveKey3DES C cardKey seq purpose =
     cbcEncrypt (des3Enc C (resizeKey24 cardKey)) 8 NullBytes8
       (take 2 purpose @ take 2 seq @ replicate 12 0)"

definition Mac3DES :: "prims \<Rightarrow> bytes \<Rightarrow> bytes \<Rightarrow> bytes \<Rightarrow> bytes" where
  "Mac3DES C key data iv = drop 16 (cbcEncrypt (des3Enc C (resizeKey24 key)) 8 iv data)"

definition gpVerifyCryptogram :: "prims \<Rightarrow> bytes \<Rightarrow> bytes \<Rightarrow> bytes \<Rightarrow> bytes \<Rightarrow> bool" where
  "gpVerifyCryptogram C encKey hostChallenge cardChallenge cardCryptogram \<longleftrightarrow>
     Mac3DES C encKey (AppendDESPadding (hostChallenge @ cardChallenge)) NullBytes8 = cardCryptogram"

definition MacFull3DES :: "prims \<Rightarrow> bytes \<Rightarrow> bytes \<Rightarrow> bytes \<Rightarrow> bytes" where
  "MacFull3DES C key data iv =
     (let data = AppendDESPadding data; n = length data - 8;
          tmp = cbcEncrypt (desEnc C (resizeKey8 key)) 8 iv (take n data);
          des3IV = (if length data > 8 then drop (n - 8) tmp else iv) in
      cbcEncrypt (des3Enc C (resizeKey24 key)) 8 des3IV (drop n data))"

definition EncryptICV :: "prims \<Rightarrow> bytes \<Rightarrow> bytes \<Rightarrow> bytes" where
  "EncryptICV C macKey icv = cbcEncrypt (desEnc C (resizeKey8 macKey)) 8 NullBytes8 icv"

section \<open>Sessions and the SCP02 wrapper\<close>

record gpSession =
  gp_enc :: bytes
  gp_mac :: bytes
  gp_cardChallenge :: bytes
  gp_hostChallenge :: bytes

datatype session_result =
    SessionOK gpSession
  | BadCryptogram
  | SessionError go_error

definition NewSession :: "prims \<Rightarrow> bytes \<Rightarrow> response \<Rightarrow> bytes \<Rightarrow> session_result" where
  "NewSession C cardKey resp hostChallenge =
     (if Sw resp = SwSecurityConditionNotSatisfied
      then SessionError (NewErrBadResponse (Sw resp) ''security condition not satisfied'')
      else if Sw resp = SwAuthenticationMethodBlocked
      then SessionError (NewErrBadResponse (Sw resp) ''authentication method blocked'')
      else if length (resp_Data resp) \<noteq> 28
      then SessionError (NewErrBadResponse (Sw resp)
        (''bad data length, expected 28, got '' @ show_nat (length (resp_Data resp))))
      else if resp_Data resp ! 11 \<noteq> 2
      then SessionError (ErrorString
        (''scp version '' @ show_nat (unat (resp_Data resp ! 11)) @ '' not supported''))
      else
        (let cardChallenge = take 8 (drop 12 (resp_Data resp));
             cardCryptogram = take 8 (drop 20 (resp_Data resp));
             seq = take 2 (drop 12 (resp_Data resp));
             sessionEncKey = DeriveKey3DES C cardKey seq DerivationPurposeEnc;
             sessionMacKey = DeriveKey3DES C cardKey seq DerivationPurposeMac in
         if gpVerifyCryptogram C sessionEncKey hostChallenge cardChallenge cardCryptogram
         then SessionOK \<lparr>gp_enc = sessionEncKey, gp_mac = sessionMacKey,
           gp_cardChallenge = cardChallenge, gp_hostChallenge = hostChallenge\<rparr>
         else BadCryptogram))"

text \<open>The two key sets the code tries; a bad cryptogram with the last is the error returned.\<close>

definition errBadCryptogram :: go_error where
  "errBadCryptogram = ErrorString ''bad card cryptogram''"

fun initializeSession :: "prims \<Rightarrow> response \<Rightarrow> bytes \<Rightarrow> bytes list \<Rightarrow> go_error + gpSession" where
  "initializeSession C resp hostChallenge [] = Inl errBadCryptogram"
| "initializeSession C resp hostChallenge (key # keys) =
     (case NewSession C key resp hostChallenge of
        SessionOK s \<Rightarrow> Inr s
      | BadCryptogram \<Rightarrow> initializeSession C resp hostChallenge keys
      | SessionError e \<Rightarrow> Inl e)"

definition gpKeySets :: "bytes list" where
  "gpKeySets = [KeycardDevelopmentKey, GlobalPlatformDefaultKey]"

record scp02Wrapper =
  scp_macKey :: bytes
  scp_icv :: bytes

definition NewSCP02Wrapper :: "bytes \<Rightarrow> scp02Wrapper" where
  "NewSCP02Wrapper macKey = \<lparr>scp_macKey = macKey, scp_icv = NullBytes8\<rparr>"

definition Wrap :: "prims \<Rightarrow> scp02Wrapper \<Rightarrow> command \<Rightarrow> command \<times> scp02Wrapper" where
  "Wrap C w cmd =
     (let cla = Cla cmd OR 0x04;
          macData = [cla, Ins cmd, P1 cmd, P2 cmd, of_nat (length (cmd_Data cmd) + 8)] @ cmd_Data cmd;
          icv = (if scp_icv w = NullBytes8 then scp_icv w else EncryptICV C (scp_macKey w) (scp_icv w));
          mac = MacFull3DES C (scp_macKey w) macData icv;
          newCmd = NewCommand cla (Ins cmd) (P1 cmd) (P2 cmd) (cmd_Data cmd @ mac) in
      (if cmd_requiresLe cmd then SetLe (cmd_le cmd) newCmd else newCmd, w\<lparr>scp_icv := mac\<rparr>))"

section \<open>Commands\<close>

definition InsInitializeUpdate :: byte where "InsInitializeUpdate = 0x50"
definition InsExternalAuthenticate :: byte where "InsExternalAuthenticate = 0x82"
definition InsDelete :: byte where "InsDelete = 0xE4"
definition InsInstall :: byte where "InsInstall = 0xE6"
definition P1ExternalAuthenticateCMAC :: byte where "P1ExternalAuthenticateCMAC = 0x01"
definition P1InstallForInstall :: byte where "P1InstallForInstall = 0x04"
definition P1InstallForMakeSelectable :: byte where "P1InstallForMakeSelectable = 0x08"
definition P2DeleteObject :: byte where "P2DeleteObject = 0x00"
definition tagDeleteAID :: byte where "tagDeleteAID = 0x4F"

definition NewCommandInitializeUpdate :: "bytes \<Rightarrow> command" where
  "NewCommandInitializeUpdate challenge = SetLe 0 (NewCommand ClaGp InsInitializeUpdate 0 0 challenge)"

definition calculateHostCryptogram :: "prims \<Rightarrow> bytes \<Rightarrow> bytes \<Rightarrow> bytes \<Rightarrow> bytes" where
  "calculateHostCryptogram C encKey cardChallenge hostChallenge =
     Mac3DES C encKey (AppendDESPadding (cardChallenge @ hostChallenge)) NullBytes8"

definition NewCommandExternalAuthenticate :: "prims \<Rightarrow> bytes \<Rightarrow> bytes \<Rightarrow> bytes \<Rightarrow> command" where
  "NewCommandExternalAuthenticate C encKey cardChallenge hostChallenge =
     NewCommand ClaMac InsExternalAuthenticate P1ExternalAuthenticateCMAC 0
       (calculateHostCryptogram C encKey cardChallenge hostChallenge)"

definition NewCommandDelete :: "bytes \<Rightarrow> byte \<Rightarrow> command" where
  "NewCommandDelete aid p2 =
     NewCommand ClaGp InsDelete 0 p2 (tagDeleteAID # of_nat (length aid) # aid)"

definition NewCommandInstallForInstall :: "bytes \<Rightarrow> bytes \<Rightarrow> bytes \<Rightarrow> bytes \<Rightarrow> command" where
  "NewCommandInstallForInstall pkgAID appletAID instanceAID params =
     (let fullParams = 0xC9 # of_nat (length params) # params in
      NewCommand ClaGp InsInstall (P1InstallForInstall OR P1InstallForMakeSelectable) 0
        (of_nat (length pkgAID) # pkgAID @ of_nat (length appletAID) # appletAID @
         of_nat (length instanceAID) # instanceAID @ [1, 0x00] @
         of_nat (length fullParams) # fullParams @ [0x00]))"

section \<open>The command set\<close>

record gpCommandSet =
  gp_sc :: "scp02Wrapper option"
  gp_session :: "gpSession option"

type_synonym ('a, 'c) gpop = "(go_error + 'a, gpCommandSet \<times> 'c) gocmd"

definition NewGpCommandSet :: gpCommandSet where
  "NewGpCommandSet = \<lparr>gp_sc = None, gp_session = None\<rparr>"

definition gp_Select :: "'c port \<Rightarrow> (unit, 'c) gpop" where
  "gp_Select P = sendOnly (onSnd (Send P (SetLe 0 (NewCommandSelect []))))"

text \<open>\<open>SecureChannel.Send\<close> wraps the command and sends the wrapped one; a nil channel panics.\<close>

definition gpSend :: "prims \<Rightarrow> 'c port \<Rightarrow> command \<Rightarrow> (response, 'c) gpop" where
  "gpSend C P cmd =
     bindM (getM (gp_sc \<circ> fst)) (\<lambda>w.
       case w of
         None \<Rightarrow> panicM ''nil pointer dereference''
       | Some w \<Rightarrow>
           (let (cmd', w') = Wrap C w cmd in
            thenM (modifyM (\<lambda>(gp, c). (gp\<lparr>gp_sc := Some w'\<rparr>, c))) (onSnd (Send P cmd'))))"

definition initializeUpdate :: "prims \<Rightarrow> 'c port \<Rightarrow> bytes \<Rightarrow> (unit, 'c) gpop" where
  "initializeUpdate C P hostChallenge =
     bindE (sendOK (onSnd (Send P (NewCommandInitializeUpdate hostChallenge)))) (\<lambda>resp.
       case initializeSession C resp hostChallenge gpKeySets of
         Inl e \<Rightarrow> ret (Inl e)
       | Inr session \<Rightarrow>
           thenM (modifyM (\<lambda>(gp, c). (gp\<lparr>gp_sc := Some (NewSCP02Wrapper (gp_mac session)),
             gp_session := Some session\<rparr>, c)))
           (ret (Inr ())))"

definition externalAuthenticate :: "prims \<Rightarrow> 'c port \<Rightarrow> (unit, 'c) gpop" where
  "externalAuthenticate C P =
     bindM (getM (gp_session \<circ> fst)) (\<lambda>session.
       case session of
         None \<Rightarrow> ret (Inl (ErrorString ''session must be initialized using initializeUpdate''))
       | Some session \<Rightarrow>
           sendOnly (gpSend C P (NewCommandExternalAuthenticate C (gp_enc session)
             (gp_cardChallenge session) (gp_hostChallenge session))))"

definition gp_OpenSecureChannel :: "prims \<Rightarrow> 'c port \<Rightarrow> (unit, 'c) gpop" where
  "gp_OpenSecureChannel C P =
     bindE (onSnd (randRead P 8)) (\<lambda>hostChallenge.
     bindE (initializeUpdate C P hostChallenge) (\<lambda>_.
       externalAuthenticate C P))"

definition gp_DeleteObject :: "prims \<Rightarrow> 'c port \<Rightarrow> bytes \<Rightarrow> (unit, 'c) gpop" where
  "gp_DeleteObject C P aid =
     bindM (gpSend C P (NewCommandDelete aid P2DeleteObject)) (\<lambda>r.
     bindE (ret (checkOK [SwOK, SwReferencedDataNotFound] r)) (\<lambda>_. ret (Inr ())))"

definition gp_InstallKeycardApplet :: "prims \<Rightarrow> 'c port \<Rightarrow> (unit, 'c) gpop" where
  "gp_InstallKeycardApplet C P =
     sendOnly (gpSend C P (NewCommandInstallForInstall PackageAID KeycardAID KeycardInstanceAID []))"

section \<open>No operation blocks\<close>

lemma nonblocking_gpSend [live]:
  assumes "port_live I P" shows "nonblocking (onChan I) (gpSend C P cmd)"
  unfolding gpSend_def Let_def by (intro live assms) auto

lemma nonblocking_initializeUpdate [live]:
  assumes "port_live I P" shows "nonblocking (onChan I) (initializeUpdate C P h)"
proof -
  have m: "nonblocking (onChan I) (modifyM (\<lambda>(gp, c). (gp\<lparr>gp_sc := a, gp_session := b\<rparr>, c)))" for a b
    by (intro live) auto
  show ?thesis unfolding initializeUpdate_def by (intro live assms m)
qed

lemma nonblocking_gpops [live]:
  assumes "port_live I P"
  shows "nonblocking (onChan I) (gp_Select P)"
    and "nonblocking (onChan I) (externalAuthenticate C P)"
    and "nonblocking (onChan I) (gp_OpenSecureChannel C P)"
    and "nonblocking (onChan I) (gp_DeleteObject C P aid)"
    and "nonblocking (onChan I) (gp_InstallKeycardApplet C P)"
proof -
  show e: "nonblocking (onChan I) (externalAuthenticate C P)"
    unfolding externalAuthenticate_def by (intro live assms)
  show "nonblocking (onChan I) (gp_OpenSecureChannel C P)"
    unfolding gp_OpenSecureChannel_def by (intro live assms e)
qed (unfold gp_Select_def gp_DeleteObject_def gp_InstallKeycardApplet_def, (intro live assms)+)

end
