(* ===== verification/KeycardOps.thy ===== *)
theory KeycardOps
  imports GlobalPlatform
begin

text \<open>
  The operations of \<open>internal/keycard\_context.go\<close> on the connected card.  They are shared by
  the flow context and, through embedding, by the session context.  Each works on
  \<open>kc.cmdSet\<close> and \<open>kc.c\<close> only, so it is a command on a command set and the port's state;
  the lifting to a context, with the nil check Go's dereference makes, is where the
  context is.  Logging is left out.
\<close>

text \<open>The type assertion \<open>err.(*apdu.ErrBadResponse)\<close> and the comparison of its status word.\<close>

fun isFileNotFound :: "go_error \<Rightarrow> bool" where
  "isFileNotFound (ErrBadResponse sw msg) = (sw = SwFileNotFound)"
| "isFileNotFound _ = False"

definition kc_SelectApplet :: "prims \<Rightarrow> 'c port \<Rightarrow> (appInfo option, 'c) csop" where
  "kc_SelectApplet C P =
     bindM (Select C P) (\<lambda>r.
       case r of
         Inr _ \<Rightarrow> bindM (getM (cs_ApplicationInfo \<circ> fst)) (\<lambda>info. ret (Inr info))
       | Inl e \<Rightarrow>
           if isFileNotFound e then
             thenM (modifyM (\<lambda>(cs, c). (cs\<lparr>cs_ApplicationInfo := Some emptyAppInfo\<rparr>, c)))
               (bindM (getM (cs_ApplicationInfo \<circ> fst)) (\<lambda>info. ret (Inr info)))
           else ret (Inl e))"

definition kc_Identify :: "prims \<Rightarrow> 'c port \<Rightarrow> (string, 'c) csop" where
  "kc_Identify C P = bindE (cs_Identify C P) (\<lambda>ca. ret (Inr (Btox ca)))"

definition kc_Pair :: "prims \<Rightarrow> 'c port \<Rightarrow> string \<Rightarrow> (pairingInfo option, 'c) csop" where
  "kc_Pair C P pairingPassword =
     bindE (cs_Pair C P pairingPassword) (\<lambda>_.
       bindM (getM (cs_PairingInfo \<circ> fst)) (\<lambda>p. ret (Inr p)))"

definition kc_OpenSecureChannel :: "prims \<Rightarrow> 'c port \<Rightarrow> int \<Rightarrow> bytes \<Rightarrow> (unit, 'c) csop" where
  "kc_OpenSecureChannel C P index key =
     thenM (SetPairingInfo key index) (cs_OpenSecureChannel C P)"

definition kc_VerifyPin :: "prims \<Rightarrow> 'c port \<Rightarrow> string \<Rightarrow> (unit, 'c) csop" where
  "kc_VerifyPin C P pin = cs_VerifyPIN C P pin"

definition kc_UnblockPIN :: "prims \<Rightarrow> 'c port \<Rightarrow> string \<Rightarrow> string \<Rightarrow> (unit, 'c) csop" where
  "kc_UnblockPIN C P puk newPIN = cs_UnblockPIN C P puk newPIN"

definition kc_GenerateKey :: "prims \<Rightarrow> 'c port \<Rightarrow> (bytes, 'c) csop" where
  "kc_GenerateKey C P =
     bindE (cs_GetStatusApplication C P) (\<lambda>appStatus.
       if as_KeyInitialized appStatus then ret (Inl (ErrorString ''key already generated''))
       else cs_GenerateKey C P)"

definition kc_GenerateMnemonic :: "prims \<Rightarrow> 'c port \<Rightarrow> int \<Rightarrow> (int list, 'c) csop" where
  "kc_GenerateMnemonic C P checksumSize = cs_GenerateMnemonic C P checksumSize"

definition kc_RemoveKey :: "prims \<Rightarrow> 'c port \<Rightarrow> (unit, 'c) csop" where
  "kc_RemoveKey C P = cs_RemoveKey C P"

definition kc_DeriveKey :: "prims \<Rightarrow> 'c port \<Rightarrow> string \<Rightarrow> (unit, 'c) csop" where
  "kc_DeriveKey C P path = cs_DeriveKey C P path"

definition kc_SignWithPath :: "prims \<Rightarrow> 'c port \<Rightarrow> bytes \<Rightarrow> string \<Rightarrow> (ktSignature, 'c) csop" where
  "kc_SignWithPath C P data path = cs_SignWithPath C P data path"

text \<open>A nil slice of a field is the empty \<open>HexString\<close>.\<close>

definition orEmpty :: "bytes option \<Rightarrow> bytes" where
  "orEmpty x = (case x of None \<Rightarrow> [] | Some b \<Rightarrow> b)"

text \<open>
  \<open>exportedKeyToAddress\<close>, and the address computation inlined in \<open>ExportKey\<close>: no public
  key gives the empty address.
\<close>

definition exportedKeyToAddress :: "prims \<Rightarrow> exportedKey \<Rightarrow> go_error + string" where
  "exportedKeyToAddress C key =
     (case ek_pubKey key of
        None \<Rightarrow> Inr ''''
      | Some pk \<Rightarrow>
          (case unmarshalPubkey C pk of
             Inl e \<Rightarrow> Inl e
           | Inr ecdsaPubKey \<Rightarrow> Inr (pubkeyToAddress C ecdsaPubKey)))"

definition mkKeyPair :: "string \<Rightarrow> exportedKey \<Rightarrow> keyPair" where
  "mkKeyPair address key =
     \<lparr>kp_Address = address, kp_PublicKey = orEmpty (ek_pubKey key),
      kp_PrivateKey = orEmpty (ek_privKey key), kp_ChainCode = orEmpty (ek_chainCode key)\<rparr>"

definition kc_ExportKey ::
    "prims \<Rightarrow> 'c port \<Rightarrow> bool \<Rightarrow> bool \<Rightarrow> byte \<Rightarrow> string \<Rightarrow> (keyPair, 'c) csop" where
  "kc_ExportKey C P derive makeCurrent p2 path =
     bindE (cs_ExportKeyExtended C P derive makeCurrent p2 path) (\<lambda>exportedKey.
       case exportedKeyToAddress C exportedKey of
         Inl e \<Rightarrow> ret (Inl e)
       | Inr address \<Rightarrow> ret (Inr (mkKeyPair address exportedKey)))"

definition loadSeed :: "prims \<Rightarrow> 'c port \<Rightarrow> bytes \<Rightarrow> (bytes, 'c) csop" where
  "loadSeed C P seed = cs_LoadSeed C P seed"

definition bip39Salt :: string where "bip39Salt = ''mnemonic''"

definition mnemonicToBinarySeed :: "prims \<Rightarrow> string \<Rightarrow> string \<Rightarrow> bytes" where
  "mnemonicToBinarySeed C mnemonic password =
     pbkdf2Sha512 C (nfkd C (string_bytes mnemonic)) (nfkd C (string_bytes (bip39Salt @ password))) 2048 64"

definition kc_LoadMnemonic :: "prims \<Rightarrow> 'c port \<Rightarrow> string \<Rightarrow> string \<Rightarrow> (bytes, 'c) csop" where
  "kc_LoadMnemonic C P mnemonic password = loadSeed C P (mnemonicToBinarySeed C mnemonic password)"

definition kc_Init :: "prims \<Rightarrow> 'c port \<Rightarrow> string \<Rightarrow> string \<Rightarrow> string \<Rightarrow> (unit, 'c) csop" where
  "kc_Init C P pin puk pairingPassword = cs_Init C P (NewSecrets C pin puk pairingPassword)"

definition kc_Unpair :: "prims \<Rightarrow> 'c port \<Rightarrow> byte \<Rightarrow> (unit, 'c) csop" where
  "kc_Unpair C P index = cs_Unpair C P index"

definition kc_UnpairCurrent :: "prims \<Rightarrow> 'c port \<Rightarrow> (unit, 'c) csop" where
  "kc_UnpairCurrent C P =
     bindM (getM (cs_PairingInfo \<circ> fst)) (\<lambda>p.
       case p of
         None \<Rightarrow> panicM ''nil pointer dereference''
       | Some p \<Rightarrow> kc_Unpair C P (of_int (pi_Index p)))"

definition kc_GetStatusApplication :: "prims \<Rightarrow> 'c port \<Rightarrow> (appStatus, 'c) csop" where
  "kc_GetStatusApplication C P = cs_GetStatusApplication C P"

definition kc_ChangePin :: "prims \<Rightarrow> 'c port \<Rightarrow> string \<Rightarrow> (unit, 'c) csop" where
  "kc_ChangePin C P pin = cs_ChangePIN C P pin"

definition kc_ChangePuk :: "prims \<Rightarrow> 'c port \<Rightarrow> string \<Rightarrow> (unit, 'c) csop" where
  "kc_ChangePuk C P puk = cs_ChangePUK C P puk"

definition kc_ChangePairingPassword :: "prims \<Rightarrow> 'c port \<Rightarrow> string \<Rightarrow> (unit, 'c) csop" where
  "kc_ChangePairingPassword C P pairingPassword = cs_ChangePairingSecret C P pairingPassword"

definition kc_StoreMetadata :: "prims \<Rightarrow> 'c port \<Rightarrow> metadata \<Rightarrow> (unit, 'c) csop" where
  "kc_StoreMetadata C P md = cs_StoreData C P P1StoreDataPublic (Serialize md)"

text \<open>\<open>ParseMetadata\<close> always ends, so its \<open>None\<close> (a loop that does not) is not taken.\<close>

definition kc_GetMetadata :: "prims \<Rightarrow> 'c port \<Rightarrow> (metadata, 'c) csop" where
  "kc_GetMetadata C P =
     bindE (cs_GetData C P P1StoreDataPublic) (\<lambda>data.
       case ParseMetadata data of
         None \<Rightarrow> blockM ''metadata loop''
       | Some r \<Rightarrow> ret r)"

section \<open>Factory reset\<close>

text \<open>
  \<open>FactoryReset\<close> and \<open>factoryResetFallback\<close> call each other: the fallback starts the whole
  reset again when the deletion of the applet fails, once.  The fallback's own command set
  is a local variable, so it starts fresh at each call.
\<close>

definition withGp :: "('a, gpCommandSet \<times> 'c) gocmd \<Rightarrow> ('a, commandSet \<times> 'c) gocmd" where
  "withGp m = (\<lambda>(cs, c).
     case m (NewGpCommandSet, c) of
       Ret x (_, c') \<Rightarrow> Ret x (cs, c')
     | Fault e (_, c') \<Rightarrow> Fault e (cs, c'))"

text \<open>What the fallback does up to the deletion; the result says how far it got.\<close>

datatype fallback =
    FailedBefore go_error
  | DeleteFailed go_error
  | Installed "go_error + unit"

definition fallbackSteps :: "prims \<Rightarrow> 'c port \<Rightarrow> (fallback, gpCommandSet \<times> 'c) gocmd" where
  "fallbackSteps C P =
     bindM (gp_Select P) (\<lambda>r. case r of Inl e \<Rightarrow> ret (FailedBefore e) | Inr _ \<Rightarrow>
     bindM (gp_OpenSecureChannel C P) (\<lambda>r. case r of Inl e \<Rightarrow> ret (FailedBefore e) | Inr _ \<Rightarrow>
     bindM (gp_DeleteObject C P KeycardInstanceAID) (\<lambda>r. case r of Inl e \<Rightarrow> ret (DeleteFailed e) | Inr _ \<Rightarrow>
     bindM (gp_InstallKeycardApplet C P) (\<lambda>r. ret (Installed r)))))"

function factoryResetFallback :: "prims \<Rightarrow> 'c port \<Rightarrow> bool \<Rightarrow> (unit, 'c) csop"
  and kc_FactoryReset :: "prims \<Rightarrow> 'c port \<Rightarrow> bool \<Rightarrow> (unit, 'c) csop" where
  "factoryResetFallback C P retry =
     bindM (withGp (fallbackSteps C P)) (\<lambda>r.
       case r of
         FailedBefore e \<Rightarrow> ret (Inl e)
       | DeleteFailed e \<Rightarrow> if retry then kc_FactoryReset C P False else ret (Inl e)
       | Installed r \<Rightarrow> ret r)"
| "kc_FactoryReset C P retry =
     bindM (kc_SelectApplet C P) (\<lambda>r.
       if (case r of Inl _ \<Rightarrow> True
           | Inr info \<Rightarrow> (case info of None \<Rightarrow> True | Some i \<Rightarrow> \<not> HasFactoryResetCapability i))
       then factoryResetFallback C P retry
       else bindM (cs_FactoryReset C P) (\<lambda>r.
         case r of Inl _ \<Rightarrow> factoryResetFallback C P retry | Inr _ \<Rightarrow> ret (Inr ())))"
  by pat_completeness auto

text \<open>Only the fallback with \<open>retry\<close> calls back, and it passes \<open>False\<close>.\<close>

termination
  by (relation "measure (\<lambda>x. case x of Inl (C, P, retry) \<Rightarrow> (if retry then 2 else 0)
                                      | Inr (C, P, retry) \<Rightarrow> (if retry then 3 else 1))") auto

declare factoryResetFallback.simps [simp del] kc_FactoryReset.simps [simp del]

section \<open>No operation blocks\<close>

lemma nonblocking_kc_SelectApplet [live]:
  "port_live I P \<Longrightarrow> nonblocking (onChan I) (kc_SelectApplet C P)"
  unfolding kc_SelectApplet_def by (intro live) auto

lemma nonblocking_withGp [live]:
  fixes I :: "'a \<Rightarrow> bool"
  assumes "nonblocking (onChan I) m" shows "nonblocking (onChan I) (withGp m)"
proof (rule nonblockingI)
  fix s :: "commandSet \<times> 'a" assume "onChan I s"
  then have "onChan I (NewGpCommandSet, snd s)" by (cases s) simp
  from nonblockingD [OF assms this]
  show "runs (withGp m) (\<lambda>_. onChan I) (\<lambda>e _. \<exists>msg. e = Panicked msg) s"
    by (cases s) (auto simp: runs_def withGp_def split: outcome.splits prod.splits)
qed

lemma nonblocking_fallbackSteps [live]:
  "port_live I P \<Longrightarrow> nonblocking (onChan I) (fallbackSteps C P)"
  unfolding fallbackSteps_def by (intro live)

lemma nonblocking_reset:
  assumes "port_live I P"
  shows "nonblocking (onChan I) (factoryResetFallback C P False)"
    and "nonblocking (onChan I) (kc_FactoryReset C P False)"
    and "nonblocking (onChan I) (factoryResetFallback C P True)"
    and "nonblocking (onChan I) (kc_FactoryReset C P True)"
proof -
  have b: "nonblocking (onChan I) (case r of
         FailedBefore e \<Rightarrow> ret (Inl e)
       | DeleteFailed e \<Rightarrow> if retry then m else ret (Inl e)
       | Installed r \<Rightarrow> ret r)" if "retry \<Longrightarrow> nonblocking (onChan I) m"
    for r :: fallback and retry and m :: "(unit, 'a) csop"
    using that by (auto split: fallback.split intro: live)
  show f: "nonblocking (onChan I) (factoryResetFallback C P False)"
    unfolding factoryResetFallback.simps [of C P False] by (intro live assms b) simp
  show r: "nonblocking (onChan I) (kc_FactoryReset C P False)"
    unfolding kc_FactoryReset.simps [of C P False] by (intro live assms f)
  show g: "nonblocking (onChan I) (factoryResetFallback C P True)"
    unfolding factoryResetFallback.simps [of C P True] by (intro live assms b r)
  show "nonblocking (onChan I) (kc_FactoryReset C P True)"
    unfolding kc_FactoryReset.simps [of C P True] by (intro live assms g)
qed

lemma nonblocking_kc_FactoryReset [live]:
  "port_live I P \<Longrightarrow> nonblocking (onChan I) (kc_FactoryReset C P retry)"
  by (cases retry) (simp_all add: nonblocking_reset)

lemma nonblocking_kcops [live]:
  assumes "port_live I P"
  shows "nonblocking (onChan I) (kc_Pair C P pass)"
    and "nonblocking (onChan I) (kc_OpenSecureChannel C P index key)"
    and "nonblocking (onChan I) (loadSeed C P seed)"
  unfolding kc_Pair_def kc_OpenSecureChannel_def loadSeed_def by (intro live assms)+

end
