(* ===== verification/ReadersStates.thy ===== *)
theory ReadersStates
  imports Prelude
begin

text \<open>
  \<open>internal/readers\_states.go\<close>: the states of the card readers, with the flags of the PC/SC
  binding, and the choice of the reader to work with.
\<close>

definition StateUnaware :: uint32 where "StateUnaware = 0x0"
definition StateChanged :: uint32 where "StateChanged = 0x2"
definition StateUnknown :: uint32 where "StateUnknown = 0x4"
definition StateEmpty :: uint32 where "StateEmpty = 0x10"
definition StatePresent :: uint32 where "StatePresent = 0x20"
definition StateExclusive :: uint32 where "StateExclusive = 0x80"

lemmas reader_flags = StateUnaware_def StateChanged_def StateUnknown_def StateEmpty_def
  StatePresent_def StateExclusive_def

record readerState =
  Reader :: string
  CurrentState :: uint32
  EventState :: uint32

type_synonym readersStates = "readerState list"

definition hasFlag :: "uint32 \<Rightarrow> uint32 \<Rightarrow> bool" where
  "hasFlag state flag \<longleftrightarrow> state AND flag \<noteq> 0"

fun Contains :: "readersStates \<Rightarrow> string \<Rightarrow> bool" where
  "Contains [] reader = False"
| "Contains (r # rs) reader = (if Reader r = reader then True else Contains rs reader)"

definition Update :: "readersStates \<Rightarrow> readersStates" where
  "Update rs = map (\<lambda>r. r\<lparr>CurrentState := EventState r\<rparr>) rs"

text \<open>A reader whose card can be used: a card is present and nobody holds it exclusively.\<close>

definition usable :: "readerState \<Rightarrow> bool" where
  "usable r \<longleftrightarrow> \<not> (EventState r AND StatePresent = 0 \<or> EventState r AND StateExclusive \<noteq> 0)"

fun readerWithCardFrom :: "nat \<Rightarrow> readersStates \<Rightarrow> nat option" where
  "readerWithCardFrom i [] = None"
| "readerWithCardFrom i (r # rs) = (if usable r then Some i else readerWithCardFrom (i + 1) rs)"

definition ReaderWithCardIndex :: "readersStates \<Rightarrow> nat option" where
  "ReaderWithCardIndex rs = readerWithCardFrom 0 rs"

definition Append :: "readersStates \<Rightarrow> readerState \<Rightarrow> readersStates" where
  "Append rs reader = rs @ [reader]"

fun ReaderHasCard :: "readersStates \<Rightarrow> string \<Rightarrow> bool" where
  "ReaderHasCard [] reader = False"
| "ReaderHasCard (r # rs) reader =
     (if Reader r = reader \<and> hasFlag (EventState r) StatePresent then True
      else ReaderHasCard rs reader)"

definition Empty :: "readersStates \<Rightarrow> bool" where
  "Empty rs \<longleftrightarrow> length rs = 0"

fun HasChanges :: "readersStates \<Rightarrow> bool" where
  "HasChanges [] = False"
| "HasChanges (r # rs) = (if hasFlag (EventState r) StateChanged then True else HasChanges rs)"

definition Names :: "readersStates \<Rightarrow> string list" where
  "Names rs = map Reader rs"

text \<open>The readers that are not unknown, in their order: the loop of \<open>getCurrentReadersState\<close>.\<close>

fun knownReaders :: "readersStates \<Rightarrow> readersStates \<Rightarrow> readersStates" where
  "knownReaders acc [] = acc"
| "knownReaders acc (r # rs) =
     knownReaders (if hasFlag (EventState r) StateUnknown then acc else Append acc r) rs"

section \<open>What they compute\<close>

lemma readerWithCardFrom_Some:
  "readerWithCardFrom i rs = Some j \<longleftrightarrow>
     (\<exists>k. j = i + k \<and> k < length rs \<and> usable (rs ! k) \<and> (\<forall>m < k. \<not> usable (rs ! m)))"
proof (induction rs arbitrary: i)
  case (Cons r rs)
  show ?case
  proof (cases "usable r")
    case True
    then show ?thesis by (auto intro: exI [of _ 0] simp: less_Suc_eq_0_disj)
  next
    case False
    show ?thesis
    proof
      assume "readerWithCardFrom i (r # rs) = Some j"
      with False Cons.IH [of "i + 1"] obtain k where
        "j = i + 1 + k" "k < length rs" "usable (rs ! k)" "\<forall>m < k. \<not> usable (rs ! m)" by auto
      then show "\<exists>k. j = i + k \<and> k < length (r # rs) \<and> usable ((r # rs) ! k) \<and>
          (\<forall>m < k. \<not> usable ((r # rs) ! m))"
        using False by (intro exI [of _ "Suc k"]) (auto simp: less_Suc_eq_0_disj)
    next
      assume "\<exists>k. j = i + k \<and> k < length (r # rs) \<and> usable ((r # rs) ! k) \<and>
          (\<forall>m < k. \<not> usable ((r # rs) ! m))"
      then obtain k where k: "j = i + k" "k < length (r # rs)" "usable ((r # rs) ! k)"
          "\<forall>m < k. \<not> usable ((r # rs) ! m)" by blast
      with False obtain k' where k': "k = Suc k'" by (cases k) auto
      have "\<forall>m < k'. \<not> usable (rs ! m)" using k(4) k' by (metis Suc_mono nth_Cons_Suc)
      with False k k' Cons.IH [of "i + 1"] show "readerWithCardFrom i (r # rs) = Some j" by auto
    qed
  qed
qed simp

lemma readerWithCardFrom_None: "readerWithCardFrom i rs = None \<longleftrightarrow> (\<forall>r \<in> set rs. \<not> usable r)"
  by (induction rs arbitrary: i) auto

lemma ReaderWithCardIndex_Some:
  "ReaderWithCardIndex rs = Some i \<longleftrightarrow>
     i < length rs \<and> usable (rs ! i) \<and> (\<forall>m < i. \<not> usable (rs ! m))"
  by (simp add: ReaderWithCardIndex_def readerWithCardFrom_Some)

lemma ReaderWithCardIndex_None:
  "ReaderWithCardIndex rs = None \<longleftrightarrow> (\<forall>r \<in> set rs. \<not> usable r)"
  by (simp add: ReaderWithCardIndex_def readerWithCardFrom_None)

lemma knownReaders_filter:
  "knownReaders acc rs = acc @ filter (\<lambda>r. \<not> hasFlag (EventState r) StateUnknown) rs"
  by (induction acc rs rule: knownReaders.induct) (simp_all add: Append_def)

lemma Contains_set: "Contains rs reader \<longleftrightarrow> reader \<in> set (Names rs)"
  by (induction rs) (auto simp: Names_def)

lemma Names_Update [simp]: "Names (Update rs) = Names rs"
  by (simp add: Names_def Update_def)

end
