(* ===== verification/Host.thy ===== *)
theory Host
  imports KeycardOps ReadersStates
begin

text \<open>
  What surrounds the session layer: the PC/SC binding, the random sources, the file system,
  JSON and the request validator, as operations on a world of type \<open>'w\<close>.  They are the
  parameters of the session model; a property that needs something of them says so.
\<close>

record info = \<comment> \<open>\<open>pairing.Info\<close>\<close>
  info_Key :: bytes
  info_Index :: int

text \<open>
  The value of \<open>map[string]*Info\<close>: \<open>None\<close> is the nil map (the JSON \<open>null\<close>), and an entry
  may hold a nil pointer.
\<close>

type_synonym pairs = "(string \<rightharpoonup> info option) option"

text \<open>
  The same as \<open>encoding/json\<close> has it: the members \<open>key\<close>, as the text \<open>HexString\<close> marshals to, and
  \<open>index\<close>, or \<open>null\<close>.  Of a text it gives the members in their order.
\<close>

type_synonym jsonInfo = "(string \<times> int) option"

datatype readResult =
    FileData bytes
  | NotExist
  | ReadError go_error

record 'w host =
  h_prims :: prims
  h_EstablishContext :: "'w \<Rightarrow> (go_error + nat) \<times> 'w"
  h_Release :: "nat \<Rightarrow> 'w \<Rightarrow> error \<times> 'w"
  h_Cancel :: "nat \<Rightarrow> 'w \<Rightarrow> error \<times> 'w"
  h_ListReaders :: "nat \<Rightarrow> 'w \<Rightarrow> (string list \<times> error) \<times> 'w"
  h_GetStatusChange :: "nat \<Rightarrow> bool \<Rightarrow> readersStates \<Rightarrow> 'w \<Rightarrow> (readersStates \<times> error) \<times> 'w"
    \<comment> \<open>\<open>True\<close>: infinite timeout; the answer has the event states filled in\<close>
  h_Connect :: "nat \<Rightarrow> string \<Rightarrow> 'w \<Rightarrow> (go_error + nat) \<times> 'w"
  h_Status :: "nat \<Rightarrow> 'w \<Rightarrow> (go_error + uint32) \<times> 'w"  \<comment> \<open>the active protocol\<close>
  h_Disconnect :: "nat \<Rightarrow> 'w \<Rightarrow> error \<times> 'w"
  h_CardTransmit :: "nat \<Rightarrow> bytes \<Rightarrow> 'w \<Rightarrow> (go_error + bytes) \<times> 'w"
  h_RandRead :: "nat \<Rightarrow> 'w \<Rightarrow> (go_error + bytes) \<times> 'w"
  h_GenerateKey :: "'w \<Rightarrow> (go_error + bytes \<times> bytes) \<times> 'w"
  h_ReadFile :: "string \<Rightarrow> 'w \<Rightarrow> readResult"
  h_Dir :: "string \<Rightarrow> string"
  h_MkdirAll :: "string \<Rightarrow> 'w \<Rightarrow> error \<times> 'w"
  h_WriteFile :: "string \<Rightarrow> bytes \<Rightarrow> 'w \<Rightarrow> error \<times> 'w"
  h_MarshalPairs :: "(string \<rightharpoonup> jsonInfo) option \<Rightarrow> go_error + bytes"
  h_UnmarshalPairs :: "bytes \<Rightarrow> go_error + (string \<times> jsonInfo) list option"
  h_BuildLogger :: "bool \<Rightarrow> string list \<Rightarrow> 'w \<Rightarrow> error \<times> 'w"
    \<comment> \<open>\<open>zap\<close>'s \<open>Build\<close>, of the production configuration or the development one, with output paths\<close>
  h_RuneCount :: "string \<Rightarrow> nat"
  h_MnemonicValid :: "string \<Rightarrow> bool"
  h_ValidationErrors :: "(string \<times> string) list \<Rightarrow> go_error"

text \<open>An operation of the world as a command.\<close>

definition worldM :: "('w \<Rightarrow> 'a \<times> 'w) \<Rightarrow> ('a, 'w) gocmd" where
  "worldM f = (\<lambda>w. case f w of (x, w') \<Rightarrow> Ret x w')"

lemma runs_worldM [wp]: "runs (worldM f) Q F w = (case f w of (x, w') \<Rightarrow> Q x w')"
  by (simp add: runs_def worldM_def split: prod.splits)

lemma nonblocking_worldM [live]: "nonblocking (\<lambda>_. True) (worldM f)"
  by (simp add: nonblocking_def wp split: prod.splits)

end
