(* ===== verification/PairingStore.thy ===== *)
theory PairingStore
  imports Host
begin

text \<open>
  \<open>pkg/pairing\<close>: the pairings with known cards, a map from a card's instance UID kept in a
  JSON file.
\<close>

definition ToPairInfo :: "pairingInfo \<Rightarrow> info" where
  "ToPairInfo r = \<lparr>info_Key = pi_Key r, info_Index = pi_Index r\<rparr>"

record store =
  st_path :: string
  st_values :: pairs

text \<open>The JSON of an \<open>Info\<close>, with its key as a \<open>HexString\<close>; of several wrong keys the first is reported.\<close>

definition infoToJSON :: "info \<Rightarrow> string \<times> int" where
  "infoToJSON i = (Btox (info_Key i), info_Index i)"

fun infosFromJSON :: "(string \<times> jsonInfo) list \<Rightarrow> go_error + (string \<times> info option) list" where
  "infosFromJSON [] = Inr []"
| "infosFromJSON ((k, None) # l) =
     (case infosFromJSON l of Inl e \<Rightarrow> Inl e | Inr r \<Rightarrow> Inr ((k, None) # r))"
| "infosFromJSON ((k, Some (x, i)) # l) =
     (case Xtob x of
        Inl e \<Rightarrow> Inl e
      | Inr b \<Rightarrow> (case infosFromJSON l of Inl e \<Rightarrow> Inl e
                 | Inr r \<Rightarrow> Inr ((k, Some \<lparr>info_Key = b, info_Index = i\<rparr>) # r)))"

definition marshalPairs :: "'w host \<Rightarrow> pairs \<Rightarrow> go_error + bytes" where
  "marshalPairs H v = h_MarshalPairs H (map_option (\<lambda>m. map_option (map_option infoToJSON) \<circ> m) v)"

definition unmarshalPairs :: "'w host \<Rightarrow> bytes \<Rightarrow> go_error + pairs" where
  "unmarshalPairs H b =
     (case h_UnmarshalPairs H b of
        Inl e \<Rightarrow> Inl e
      | Inr None \<Rightarrow> Inr None
      | Inr (Some l) \<Rightarrow>
          (case infosFromJSON l of Inl e \<Rightarrow> Inl e | Inr r \<Rightarrow> Inr (Some (map_of (rev r)))))"

definition NewStore :: "'w host \<Rightarrow> string \<Rightarrow> (go_error + store, 'w) gocmd" where
  "NewStore H storage =
     bindM (getM (h_ReadFile H storage)) (\<lambda>b.
       case b of
         NotExist \<Rightarrow>
           bindM (worldM (h_MkdirAll H (h_Dir H storage))) (\<lambda>err.
             case err of
               Some e \<Rightarrow> ret (Inl e)
             | None \<Rightarrow> ret (Inr \<lparr>st_path = storage, st_values = Some Map.empty\<rparr>))
       | ReadError e \<Rightarrow> ret (Inl e)
       | FileData b \<Rightarrow>
           (case unmarshalPairs H b of
              Inl e \<Rightarrow> ret (Inl e)
            | Inr values \<Rightarrow> ret (Inr \<lparr>st_path = storage, st_values = values\<rparr>)))"

definition store_save :: "'w host \<Rightarrow> (error, store \<times> 'w) gocmd" where
  "store_save H =
     bindM (getM fst) (\<lambda>p.
       case marshalPairs H (st_values p) of
         Inl e \<Rightarrow> ret (Some e)
       | Inr b \<Rightarrow> onSnd (worldM (h_WriteFile H (st_path p) b)))"

text \<open>An assignment to an entry of a nil map panics.\<close>

definition storePut :: "string \<Rightarrow> info \<Rightarrow> store \<Rightarrow> store option" where
  "storePut k v p =
     (case st_values p of
        None \<Rightarrow> None
      | Some m \<Rightarrow> Some (p\<lparr>st_values := Some (m(k \<mapsto> Some v))\<rparr>))"

definition store_Store :: "'w host \<Rightarrow> string \<Rightarrow> info \<Rightarrow> (error, store \<times> 'w) gocmd" where
  "store_Store H instanceUID pairing =
     bindM (getM fst) (\<lambda>p.
       case storePut instanceUID pairing p of
         None \<Rightarrow> panicM ''assignment to entry in nil map''
       | Some p' \<Rightarrow> thenM (modifyM (\<lambda>(_, w). (p', w))) (store_save H))"

text \<open>\<open>Store\<close> with a pointer that may be nil.\<close>

definition store_StorePtr :: "'w host \<Rightarrow> string \<Rightarrow> info option \<Rightarrow> (error, store \<times> 'w) gocmd" where
  "store_StorePtr H instanceUID pairing =
     bindM (getM fst) (\<lambda>p.
       case st_values p of
         None \<Rightarrow> panicM ''assignment to entry in nil map''
       | Some m \<Rightarrow>
           thenM (modifyM (\<lambda>(_, w). (p\<lparr>st_values := Some (m(instanceUID \<mapsto> pairing))\<rparr>, w))) (store_save H))"

lemma store_StorePtr_Some: "store_StorePtr H k (Some v) = store_Store H k v"
  by (auto simp: fun_eq_iff store_StorePtr_def store_Store_def storePut_def bindM_def getM_def
      split: option.split)

definition store_Get :: "string \<Rightarrow> store \<Rightarrow> info option" where
  "store_Get instanceUID p =
     (case st_values p of None \<Rightarrow> None | Some m \<Rightarrow> Option.bind (m instanceUID) (\<lambda>v. v))"

definition store_Delete :: "string \<Rightarrow> store \<Rightarrow> store" where
  "store_Delete instanceUID p = p\<lparr>st_values := map_option (\<lambda>m. m(instanceUID := None)) (st_values p)\<rparr>"

section \<open>The interface of a keyed store\<close>

text \<open>What a client of the store relies on: a lookup sees the last write of its key.\<close>

locale keyed_store =
  fixes get :: "'k \<Rightarrow> 's \<Rightarrow> 'v option"
    and put :: "'k \<Rightarrow> 'v \<Rightarrow> 's \<Rightarrow> 's option"
    and del :: "'k \<Rightarrow> 's \<Rightarrow> 's"
  assumes get_put: "put k v s = Some s' \<Longrightarrow> get k' s' = (if k' = k then Some v else get k' s)"
    and put_again: "put k v s = Some s' \<Longrightarrow> put k' v' s' \<noteq> None"
    and get_del: "get k' (del k s) = (if k' = k then None else get k' s)"
begin

fun puts :: "('k \<times> 'v) list \<Rightarrow> 's \<Rightarrow> 's option" where
  "puts [] s = Some s"
| "puts ((k, v) # kvs) s = (case put k v s of None \<Rightarrow> None | Some s' \<Rightarrow> puts kvs s')"

text \<open>After a series of writes a lookup gives the last value written for its key.\<close>

lemma get_puts:
  "puts kvs s = Some s' \<Longrightarrow>
     get k s' = (case map_of (rev kvs) k of None \<Rightarrow> get k s | Some v \<Rightarrow> Some v)"
proof (induction kvs arbitrary: s)
  case (Cons kv kvs)
  obtain k0 v0 where kv: "kv = (k0, v0)" by (cases kv)
  from Cons.prems kv obtain s1 where s1: "put k0 v0 s = Some s1" "puts kvs s1 = Some s'"
    by (auto split: option.splits)
  from Cons.IH [OF s1(2)] get_put [OF s1(1), of k] show ?case
    by (auto simp: kv map_add_def split: option.splits)
qed simp

lemma puts_defined: "put k v s \<noteq> None \<Longrightarrow> puts ((k, v) # kvs) s \<noteq> None"
proof (induction kvs arbitrary: k v s)
  case (Cons kv kvs)
  obtain k0 v0 where kv: "kv = (k0, v0)" by (cases kv)
  from Cons.prems obtain s1 where s1: "put k v s = Some s1" by auto
  from put_again [OF s1] have "put k0 v0 s1 \<noteq> None" by blast
  from Cons.IH [OF this] s1 show ?case by (simp add: kv)
qed auto

lemma get_after_del: "get k (del k s) = None"
  by (simp add: get_del)

end

interpretation pstore: keyed_store store_Get storePut store_Delete
proof
  show "storePut k v s = Some s' \<Longrightarrow>
      store_Get k' s' = (if k' = k then Some v else store_Get k' s)" for k v s s' k'
    by (auto simp: storePut_def store_Get_def split: option.splits)
  show "storePut k v s = Some s' \<Longrightarrow> storePut k' v' s' \<noteq> None" for k v s s' k' v'
    by (auto simp: storePut_def split: option.splits)
  show "store_Get k' (store_Delete k s) = (if k' = k then None else store_Get k' s)" for k' k s
    by (auto simp: store_Get_def store_Delete_def split: option.splits)
qed

section \<open>Persistence\<close>

text \<open>
  What the store relies on of \<open>encoding/json\<close>, that it reads what it has written, each member once,
  and of the file system.
\<close>

definition json_ok :: "'w host \<Rightarrow> bool" where
  "json_ok H \<longleftrightarrow> (\<forall>v b. h_MarshalPairs H v = Inr b \<longrightarrow>
     (case v of
        None \<Rightarrow> h_UnmarshalPairs H b = Inr None
      | Some m \<Rightarrow> (\<exists>l. h_UnmarshalPairs H b = Inr (Some l) \<and> distinct (map fst l) \<and> map_of l = m)))"

definition files_ok :: "'w host \<Rightarrow> bool" where
  "files_ok H \<longleftrightarrow>
     (\<forall>p b w w'. h_WriteFile H p b w = (None, w') \<longrightarrow> h_ReadFile H p w' = FileData b)"

lemma infosFromJSON_toJSON:
  "infosFromJSON (map (\<lambda>(k, i). (k, map_option infoToJSON i)) l) = Inr l"
proof (induction l)
  case (Cons p l)
  obtain k i where "p = (k, i)" by (cases p)
  with Cons show ?case by (cases i) (simp_all add: infoToJSON_def hex.dec_enc_whole)
qed simp

text \<open>So the pairings with their keys come back as well.\<close>

lemma unmarshal_marshal:
  assumes "json_ok H" and "marshalPairs H v = Inr b"
  shows "unmarshalPairs H b = Inr v"
proof (cases v)
  case None
  with assms(2) have "h_MarshalPairs H None = Inr b" by (simp add: marshalPairs_def)
  with assms(1) have "h_UnmarshalPairs H b = Inr None" by (auto simp: json_ok_def split: option.splits)
  with None show ?thesis by (simp add: unmarshalPairs_def)
next
  case (Some m)
  let ?j = "map_option (map_option infoToJSON) \<circ> m"
  from assms Some obtain l where l: "h_UnmarshalPairs H b = Inr (Some l)" "distinct (map fst l)" "map_of l = ?j"
    by (force simp: json_ok_def marshalPairs_def split: option.splits)
  define r where "r = map (\<lambda>(k, x). (k, the (m k))) l"
  have keys: "m k \<noteq> None \<and> x = map_option infoToJSON (the (m k))" if "(k, x) \<in> set l" for k x
    using l(2,3) that map_of_is_SomeI [OF l(2) that] by (auto simp: fun_eq_iff)
  then have "l = map (\<lambda>(k, i). (k, map_option infoToJSON i)) r"
    by (auto simp: r_def intro!: map_idI [symmetric])
  then have "infosFromJSON l = Inr r" using infosFromJSON_toJSON by metis
  moreover have "map_of (rev r) = m"
  proof
    fix k
    have r: "distinct (map fst (rev r))" using l(2) by (simp add: r_def rev_map [symmetric] o_def case_prod_beta)
    have dom: "m k \<noteq> None \<longleftrightarrow> k \<in> fst ` set l" for k
      using l(3) by (metis comp_apply domIff dom_map_of_conv_image_fst option.map_disc_iff)
    have mem: "(k, v) \<in> set r \<longleftrightarrow> m k = Some v" for k v
    proof
      assume "(k, v) \<in> set r"
      then obtain x where "(k, x) \<in> set l" "v = the (m k)" by (auto simp: r_def)
      with keys [OF this(1)] show "m k = Some v" by auto
    next
      assume m: "m k = Some v"
      then obtain x where "(k, x) \<in> set l" using dom [of k] by auto
      then show "(k, v) \<in> set r" using m by (force simp: r_def)
    qed
    show "map_of (rev r) k = m k"
      using mem [of k] map_of_eq_Some_iff [OF r, of k] by (cases "m k"; cases "map_of (rev r) k") auto
  qed
  ultimately show ?thesis using l(1) Some by (simp add: unmarshalPairs_def)
qed

lemma store_Store_reopen:
  assumes "json_ok H" and "files_ok H"
    and "store_Store H k v (p, w) = Ret None (p', w')"
  shows "NewStore H (st_path p) w' = Ret (Inr p') w'" and "store_Get k p' = Some v"
proof -
  from assms(3) obtain b where p': "storePut k v p = Some p'"
    and b: "marshalPairs H (st_values p') = Inr b"
    and w: "h_WriteFile H (st_path p') b w = (None, w')"
    by (auto simp: store_Store_def store_save_def bindM_def thenM_def getM_def modifyM_def ret_def
        panicM_def zoom_def worldM_def split: option.splits sum.splits prod.splits)
  from p' have path: "st_path p' = st_path p" by (auto simp: storePut_def split: option.splits)
  have "h_ReadFile H (st_path p) w' = FileData b"
    using assms(2) w unfolding files_ok_def path by blast
  moreover have "unmarshalPairs H b = Inr (st_values p')"
    by (rule unmarshal_marshal [OF assms(1) b])
  ultimately show "NewStore H (st_path p) w' = Ret (Inr p') w'"
    by (simp add: NewStore_def bindM_def getM_def ret_def flip: path)
  show "store_Get k p' = Some v" using pstore.get_put [OF p', of k] by simp
qed

lemma nonblocking_onSnd_worldM [live]: "nonblocking (\<lambda>_. True) (onSnd (worldM f))"
  by (rule nonblocking_zoom [OF nonblocking_worldM]) simp_all

lemma nonblocking_store_Store [live]: "nonblocking (\<lambda>_. True) (store_Store H k v)"
  unfolding store_Store_def store_save_def by (intro live) auto

end
