(* ===== verification/FlowTypes.thy ===== *)
theory FlowTypes
  imports PairingStore KeycardOps
begin

text \<open>
  The data of the flow API: \<open>pkg/flow/types.go\<close>, the struct \<open>KeycardFlow\<close> of
  \<open>pkg/flow/flow.go\<close> and the keys of \<open>internal/error.go\<close>.
\<close>

section \<open>Values\<close>

text \<open>
  What a Go \<open>interface{}\<close> holds here: the JSON values a client sends, and the values of a
  signal.  Of a \<open>float64\<close> the code reads the integer part only.
\<close>

datatype val =
    VStr string
  | VBool bool
  | VInt int
  | VFloat int
  | VList "val list"
  | VNull
  | VObject
  | VInts "int list"
  | VKey keyPair
  | VKeys "keyPair list"
  | VSignature signature
  | VMetadata cardMetadata
  | VAppInfo applicationInfo

type_synonym params = "string \<rightharpoonup> val" \<comment> \<open>\<open>FlowParams\<close> and \<open>FlowStatus\<close>, when not nil\<close>

text \<open>The parameters a client passes: \<open>None\<close> is the nil map; the keys are distinct.\<close>

type_synonym clientParams = "(string \<times> val) list option"

datatype flowType =
    FlowGetAppInfo
  | FlowRecoverAccount
  | FlowLoadAccount
  | FlowLogin
  | FlowExportPublic
  | FlowSign
  | FlowChangePIN
  | FlowChangePUK
  | FlowChangePairing
  | FlowUnpairThis
  | FlowUnpairOthers
  | FlowDeleteAccountAndUnpair
  | FlowStoreMetadata
  | FlowGetMetadata
  | FlowUnknown int

datatype runState = Idle | Running | Paused | Resuming | Cancelling

text \<open>The names of the signals.\<close>

datatype action =
    FlowResult
  | InsertCard
  | CardInserted
  | SwapCard
  | EnterPairing
  | EnterPIN
  | EnterPUK
  | EnterNewPair
  | EnterNewPIN
  | EnterNewPUK
  | EnterTXHash
  | EnterPath
  | EnterMnemonic
  | EnterName
  | EnterWallets

section \<open>Keys of parameters and results\<close>

definition keyAppInfo :: string where "keyAppInfo = ''application-info''"
definition keyInstanceUID :: string where "keyInstanceUID = ''instance-uid''"
definition keyFactoryReset :: string where "keyFactoryReset = ''factory reset''"
definition keyKeyUID :: string where "keyKeyUID = ''key-uid''"
definition keyFreeSlots :: string where "keyFreeSlots = ''free-pairing-slots''"
definition keyPINRetries :: string where "keyPINRetries = ''pin-retries''"
definition keyPUKRetries :: string where "keyPUKRetries = ''puk-retries''"
definition keyPairingPass :: string where "keyPairingPass = ''pairing-pass''"
definition keyPaired :: string where "keyPaired = ''paired''"
definition keyNewPairing :: string where "keyNewPairing = ''new-pairing-pass''"
definition keyPIN :: string where "keyPIN = ''pin''"
definition keyNewPIN :: string where "keyNewPIN = ''new-pin''"
definition keyPUK :: string where "keyPUK = ''puk''"
definition keyNewPUK :: string where "keyNewPUK = ''new-puk''"
definition keyMasterKey :: string where "keyMasterKey = ''master-key''"
definition keyMasterAddr :: string where "keyMasterAddr = ''master-key-address''"
definition keyWalleRootKey :: string where "keyWalleRootKey = ''wallet-root-key''"
definition keyWalletKey :: string where "keyWalletKey = ''wallet-key''"
definition keyEIP1581Key :: string where "keyEIP1581Key = ''eip1581-key''"
definition keyWhisperKey :: string where "keyWhisperKey = ''whisper-key''"
definition keyEncKey :: string where "keyEncKey = ''encryption-key''"
definition keyExportedKey :: string where "keyExportedKey = ''exported-key''"
definition keyMnemonic :: string where "keyMnemonic = ''mnemonic''"
definition keyMnemonicLen :: string where "keyMnemonicLen = ''mnemonic-length''"
definition keyMnemonicIdxs :: string where "keyMnemonicIdxs = ''mnemonic-indexes''"
definition keyTXHash :: string where "keyTXHash = ''tx-hash''"
definition keyBIP44Path :: string where "keyBIP44Path = ''bip44-path''"
definition keyTXSignature :: string where "keyTXSignature = ''tx-signature''"
definition keyOverwrite :: string where "keyOverwrite = ''overwrite''"
definition keyResolveAddr :: string where "keyResolveAddr = ''resolve-addresses''"
definition keyExportMaster :: string where "keyExportMaster = ''export-master-address''"
definition keyExportPriv :: string where "keyExportPriv = ''export-private''"
definition keyCardMeta :: string where "keyCardMeta = ''card-metadata''"
definition keyCardName :: string where "keyCardName = ''card-name''"
definition keyWalletPaths :: string where "keyWalletPaths = ''wallet-paths''"
definition keySkipAuthUID :: string where "keySkipAuthUID = ''skip-auth-uid''"

definition ErrorKey :: string where "ErrorKey = ''error''"
definition ErrorOK :: string where "ErrorOK = ''ok''"
definition ErrorConnection :: string where "ErrorConnection = ''connection-error''"
definition ErrorUnknownFlow :: string where "ErrorUnknownFlow = ''unknown-flow''"
definition ErrorNotAKeycard :: string where "ErrorNotAKeycard = ''not-a-keycard''"
definition ErrorNoKeys :: string where "ErrorNoKeys = ''no-keys''"
definition ErrorHasKeys :: string where "ErrorHasKeys = ''has-keys''"
definition ErrorRequireInit :: string where "ErrorRequireInit = ''require-init''"
definition ErrorPairing :: string where "ErrorPairing = ''pairing''"
definition ErrorUnblocking :: string where "ErrorUnblocking = ''unblocking''"
definition ErrorSigning :: string where "ErrorSigning = ''signing''"
definition ErrorExporting :: string where "ErrorExporting = ''exporting''"
definition ErrorChanging :: string where "ErrorChanging = ''changing-credentials''"
definition ErrorLoading :: string where "ErrorLoading = ''loading-keys''"
definition ErrorStoreMeta :: string where "ErrorStoreMeta = ''storing-metadata''"
definition ErrorNoData :: string where "ErrorNoData = ''no-data''"

lemmas flow_keys = keyAppInfo_def keyInstanceUID_def keyFactoryReset_def keyKeyUID_def keyFreeSlots_def
  keyPINRetries_def keyPUKRetries_def keyPairingPass_def keyPaired_def keyNewPairing_def keyPIN_def
  keyNewPIN_def keyPUK_def keyNewPUK_def keyMasterKey_def keyMasterAddr_def keyWalleRootKey_def
  keyWalletKey_def keyEIP1581Key_def keyWhisperKey_def keyEncKey_def keyExportedKey_def
  keyMnemonic_def keyMnemonicLen_def keyMnemonicIdxs_def keyTXHash_def keyBIP44Path_def
  keyTXSignature_def keyOverwrite_def keyResolveAddr_def keyExportMaster_def keyExportPriv_def
  keyCardMeta_def keyCardName_def keyWalletPaths_def keySkipAuthUID_def ErrorKey_def

section \<open>The connection to a card\<close>

text \<open>
  \<open>internal.KeycardContext\<close>.  The channels \<open>command\<close> and \<open>connected\<close> and the fields \<open>apdu\<close>,
  \<open>rpdu\<close> and \<open>runErr\<close> hand values between the caller and the context's goroutine; in the
  model a call of the goroutine is a call.  \<open>kc.c\<close> is set with \<open>kc.cmdSet\<close>.
\<close>

record kcontext =
  kx_cardCtx :: nat
  kx_readers :: "string list"
  kx_card :: "nat option"
  kx_cmdSet :: "commandSet option"

section \<open>The flow\<close>

record cardStatus =
  c_instanceUID :: string
  c_keyUID :: string
  c_freeSlots :: int
  c_pinRetries :: int
  c_pukRetries :: int
  c_version :: int

text \<open>
  What happens around the flow's goroutine, in the order in which it happens: calls of the
  client, the timer of \<open>connect\<close>, a change of the readers, and \<open>Tick\<close>, by which the
  flow's goroutine runs on from where it can be interrupted or receives from \<open>wakeUp\<close>.
\<close>

datatype call =
    CallStart flowType clientParams
  | CallResume clientParams
  | CallCancel

datatype event =
    Call call
  | Tick
  | TimerFires
  | ReaderEvent

text \<open>
  The log of what can be observed: the signals, what the client's calls return, and the
  attempts with a PIN, a PUK or an initialisation and how the card took them.
\<close>

datatype attempt =
    TryPIN string
  | TryPUK string string
  | TryInit string string string

datatype logEntry =
    Signal action params
  | Reply call error
  | Tried attempt error

record 'w flow =
  f_flowType :: flowType
  f_state :: runState
  f_senders :: nat  \<comment> \<open>clients that wait to send on \<open>wakeUp\<close>\<close>
  f_pairings :: store
  f_params :: "params option"
  f_cardInfo :: cardStatus
  f_knownCA :: "string list"
  f_kc :: "kcontext option"  \<comment> \<open>the local variable \<open>kc\<close> of \<open>connectedFlow\<close>\<close>
  f_goroutines :: nat  \<comment> \<open>goroutines of \<open>runFlow\<close> that have been started and have not ended\<close>
  f_script :: "event list"
  f_log :: "logEntry list"
  f_world :: 'w

type_synonym ('a, 'w) fcmd = "('a, 'w flow) gocmd"

end
