(* ===== verification/FlowContext.thy ===== *)
theory FlowContext
  imports FlowTypes
begin

text \<open>
  The connection part of \<open>internal/keycard\_context.go\<close>, the context of the flow API: \<open>run\<close>
  with \<open>start\<close>, \<open>connect\<close> and \<open>waitForCard\<close>, \<open>Transmit\<close> and \<open>Stop\<close>.  The operations on the
  connected card are in \<open>KeycardOps\<close>.

  The goroutine \<open>run\<close> waits in three places: it hands over \<open>true\<close> after \<open>start\<close>, which
  \<open>StartKeycardContext\<close> takes, and after \<open>connect\<close>, which the flow takes, and it waits for
  a change of the readers.  So the part up to the first wait for the readers is the
  command \<open>StartKeycardContext\<close>, and what happens on a change of the readers is \<open>readersChanged\<close>.
\<close>

section \<open>Starting\<close>

definition context_start :: "'w host \<Rightarrow> (go_error + kcontext, 'w) gocmd" where
  "context_start H =
     bindM (worldM (h_EstablishContext H)) (\<lambda>r.
       case r of
         Inl _ \<Rightarrow> ret (Inl (ErrorString ErrorPCSC))
       | Inr cardCtx \<Rightarrow>
           bindM (worldM (h_ListReaders H cardCtx)) (\<lambda>(readers, err).
             if err \<noteq> None then ret (Inl (ErrorString ErrorReaderList))
             else if readers = [] then ret (Inl (ErrorString ErrorNoReader))
             else ret (Inr \<lparr>kx_cardCtx = cardCtx, kx_readers = readers, kx_card = None, kx_cmdSet = None\<rparr>)))"

text \<open>
  An error of \<open>start\<close> is the \<open>runErr\<close> that \<open>StartKeycardContext\<close> returns.  \<open>kc.cardCtx\<close> is
  set last, so nothing is released then.
\<close>

definition StartKeycardContext :: "'w host \<Rightarrow> (go_error + kcontext, 'w) gocmd" where
  "StartKeycardContext H = context_start H"

section \<open>Waiting for a card\<close>

definition initialStates :: "string list \<Rightarrow> readersStates" where
  "initialStates readers = map (\<lambda>r. \<lparr>Reader = r, CurrentState = StateUnaware, EventState = 0\<rparr>) readers"

text \<open>
  The inner loop of \<open>waitForCard\<close>: the first reader with a card, or the states with their
  current state brought up to date.
\<close>

fun scanReaders :: "readersStates \<Rightarrow> nat + readersStates" where
  "scanReaders [] = Inr []"
| "scanReaders (r # rs) =
     (if EventState r AND StatePresent \<noteq> 0 then Inl 0
      else
        (case scanReaders rs of
           Inl i \<Rightarrow> Inl (i + 1)
         | Inr rs' \<Rightarrow> Inr (r\<lparr>CurrentState := EventState r\<rparr> # rs')))"

text \<open>
  \<open>connect\<close> once \<open>waitForCard\<close> has found a card; \<open>readers[index]\<close> is in range, as the states
  are those of the readers.
\<close>

definition context_connect :: "'w host \<Rightarrow> nat \<Rightarrow> kcontext \<Rightarrow> (go_error + kcontext, 'w) gocmd" where
  "context_connect H index kc =
     (if \<not> index < length (kx_readers kc) then panicM ''index out of range''
      else
        bindE (worldM (h_Connect H (kx_cardCtx kc) (kx_readers kc ! index))) (\<lambda>handle.
        bindE (worldM (h_Status H handle)) (\<lambda>_.
        ret (Inr (kc\<lparr>kx_card := Some handle, kx_cmdSet := Some NewCommandSet\<rparr>)))))"

text \<open>The end of \<open>run\<close>: the context is released.\<close>

definition context_release :: "'w host \<Rightarrow> kcontext \<Rightarrow> (unit, 'w) gocmd" where
  "context_release H kc = bindM (worldM (h_Release H (kx_cardCtx kc))) (\<lambda>_. ret ())"

datatype waiting =
    StillWaiting readersStates
  | RunErr go_error
  | ConnectedTo kcontext

text \<open>
  What \<open>run\<close> does from one wait for the readers to the next, or to its end: the call of
  \<open>GetStatusChange\<close>, the loop over the states, and, with a card found, the rest of
  \<open>connect\<close>.
\<close>

definition readersChanged :: "'w host \<Rightarrow> kcontext \<Rightarrow> readersStates \<Rightarrow> (waiting, 'w) gocmd" where
  "readersChanged H kc rs =
     bindM (worldM (h_GetStatusChange H (kx_cardCtx kc) True rs)) (\<lambda>(rs, err).
       case err of
         Some e \<Rightarrow> thenM (context_release H kc) (ret (RunErr e))
       | None \<Rightarrow>
           (case scanReaders rs of
              Inr rs \<Rightarrow> ret (StillWaiting rs)
            | Inl index \<Rightarrow>
                bindM (context_connect H index kc) (\<lambda>r.
                  case r of
                    Inl e \<Rightarrow> thenM (context_release H kc) (ret (RunErr e))
                  | Inr kc \<Rightarrow> ret (ConnectedTo kc))))"

section \<open>Using the card\<close>

text \<open>
  \<open>Transmit\<close> hands the bytes to the goroutine, which passes them to the card and hands the
  answer back.
\<close>

definition context_Transmit :: "'w host \<Rightarrow> nat \<Rightarrow> bytes \<Rightarrow> (go_error + bytes, 'w) gocmd" where
  "context_Transmit H handle apdu = worldM (h_CardTransmit H handle apdu)"

definition cardPort :: "'w host \<Rightarrow> nat \<Rightarrow> 'w port" where
  "cardPort H handle = \<lparr>transmit = context_Transmit H handle,
     randRead = (\<lambda>n. worldM (h_RandRead H n)), ecGenerateKey = worldM (h_GenerateKey H)\<rparr>"

text \<open>\<open>Stop\<close> closes the channel of the commands: the loop of \<open>run\<close> ends.\<close>

definition context_Stop :: "'w host \<Rightarrow> kcontext \<Rightarrow> (unit, 'w) gocmd" where
  "context_Stop H kc = context_release H kc"

lemma initialStates_scan [simp]: "scanReaders (initialStates readers) = Inr (initialStates readers)"
  by (induction readers) (simp_all add: initialStates_def StateUnaware_def)

lemma scanReaders_Inl:
  "scanReaders rs = Inl i \<Longrightarrow> i < length rs \<and> EventState (rs ! i) AND StatePresent \<noteq> 0"
  by (induction rs arbitrary: i) (auto split: if_splits sum.splits)

lemma scanReaders_Inr:
  "scanReaders rs = Inr rs' \<longleftrightarrow> (\<forall>r \<in> set rs. EventState r AND StatePresent = 0) \<and> rs' = Update rs"
proof (induction rs arbitrary: rs')
  case (Cons a rs)
  show ?case
  proof (cases "scanReaders rs")
    case (Inl i)
    with Cons.IH [of "Update rs"] show ?thesis by (simp add: Update_def)
  next
    case (Inr b)
    with Cons.IH [of b] show ?thesis by (auto simp: Update_def)
  qed
qed (auto simp: Update_def)

end
