(* ===== verification/FlowEngine.thy ===== *)
theory FlowEngine
  imports FlowContext
begin

text \<open>
  \<open>pkg/flow/flow.go\<close>, the machine below the flows: the calls of the client, pausing, waiting
  for the client, and connecting to a card.  The length of the script bounds the rounds of a loop that
  takes an event in each.

  The flow's goroutine is a command on the state \<open>flow\<close>.  The client's calls come from the
  script in the state.  Where the goroutine waits, it takes events until it is woken.  Where
  it reads or writes \<open>f.state\<close> while it runs, the command \<open>poll\<close> stands for the calls
  that happen there, up to the next \<open>Tick\<close>: calls during other statements have the effect
  of calls at the next of these places, as nothing else touches the run state, and the parameters
  change only while it is \<open>Paused\<close>.  When the script is at its end, a wait is a wait for
  ever.  The calls are taken to be atomic, but for the send on \<open>wakeUp\<close>, in which a client
  waits until the goroutine receives.
\<close>

section \<open>Fields\<close>

definition setRunState :: "runState \<Rightarrow> (unit, 'w) fcmd" where
  "setRunState st = modifyM (\<lambda>f. f\<lparr>f_state := st\<rparr>)"

definition setCardInfo :: "(cardStatus \<Rightarrow> cardStatus) \<Rightarrow> (unit, 'w) fcmd" where
  "setCardInfo g = modifyM (\<lambda>f. f\<lparr>f_cardInfo := g (f_cardInfo f)\<rparr>)"

definition setContext :: "kcontext option \<Rightarrow> (unit, 'w) fcmd" where
  "setContext kc = modifyM (\<lambda>f. f\<lparr>f_kc := kc\<rparr>)"

definition emit :: "logEntry \<Rightarrow> (unit, 'w) fcmd" where
  "emit e = modifyM (\<lambda>f. f\<lparr>f_log := f_log f @ [e]\<rparr>)"

definition setScript :: "event list \<Rightarrow> (unit, 'w) fcmd" where
  "setScript evs = modifyM (\<lambda>f. f\<lparr>f_script := evs\<rparr>)"

text \<open>\<open>f.params[k]\<close>, \<open>f.params[k] = v\<close> and \<open>delete(f.params, k)\<close>; the map may be nil.\<close>

definition param :: "string \<Rightarrow> (val option, 'w) fcmd" where
  "param k = getM (\<lambda>f. Option.bind (f_params f) (\<lambda>m. m k))"

definition setParam :: "string \<Rightarrow> val \<Rightarrow> (unit, 'w) fcmd" where
  "setParam k v = bindM (getM f_params) (\<lambda>p.
     case p of
       None \<Rightarrow> panicM ''assignment to entry in nil map''
     | Some m \<Rightarrow> modifyM (\<lambda>f. f\<lparr>f_params := Some (m(k \<mapsto> v))\<rparr>))"

definition delParam :: "string \<Rightarrow> (unit, 'w) fcmd" where
  "delParam k = modifyM (\<lambda>f. f\<lparr>f_params := map_option (\<lambda>m. m(k := None)) (f_params f)\<rparr>)"

text \<open>Type assertions without the second result.\<close>

definition asString :: "val \<Rightarrow> (string, 's) gocmd" where
  "asString v = (case v of VStr s \<Rightarrow> ret s | _ \<Rightarrow> panicM ''interface conversion'')"

definition asBool :: "val \<Rightarrow> (bool, 's) gocmd" where
  "asBool v = (case v of VBool b \<Rightarrow> ret b | _ \<Rightarrow> panicM ''interface conversion'')"

definition asList :: "val \<Rightarrow> (val list, 's) gocmd" where
  "asList v = (case v of VList vs \<Rightarrow> ret vs | _ \<Rightarrow> panicM ''interface conversion'')"

text \<open>\<open>if b, ok := f.params[k]; ok && b.(bool)\<close>.\<close>

definition flag :: "string \<Rightarrow> (bool, 'w) fcmd" where
  "flag k = bindM (param k) (\<lambda>v. case v of None \<Rightarrow> ret False | Some v \<Rightarrow> asBool v)"

text \<open>\<open>if err := m; err != nil { return err }\<close>, in functions with one result and with two.\<close>

definition andThen :: "(error, 's) gocmd \<Rightarrow> (error, 's) gocmd \<Rightarrow> (error, 's) gocmd" where
  "andThen m n = bindM m (\<lambda>err. case err of Some e \<Rightarrow> ret (Some e) | None \<Rightarrow> n)"

definition andThenE :: "(error, 's) gocmd \<Rightarrow> (go_error + 'a, 's) gocmd \<Rightarrow> (go_error + 'a, 's) gocmd" where
  "andThenE m n = bindM m (\<lambda>err. case err of Some e \<Rightarrow> ret (Inl e) | None \<Rightarrow> n)"

section \<open>The client's calls\<close>

definition flow_Start :: "flowType \<Rightarrow> clientParams \<Rightarrow> (error, 'w) fcmd" where
  "flow_Start flowType params =
     bindM (getM f_state) (\<lambda>st.
       if st \<noteq> Idle then ret (Some (ErrorString ''already running''))
       else
         thenM (modifyM (\<lambda>f. f\<lparr>f_flowType := flowType, f_params := map_option map_of params,
           f_state := Running, f_goroutines := f_goroutines f + 1\<rparr>))
           (ret None))"

definition mergeParams :: "clientParams \<Rightarrow> (unit, 'w) fcmd" where
  "mergeParams params =
     (case params of
        None \<Rightarrow> ret ()
      | Some [] \<Rightarrow> ret ()
      | Some ps \<Rightarrow> bindM (getM f_params) (\<lambda>p.
          case p of
            None \<Rightarrow> panicM ''assignment to entry in nil map''
          | Some m \<Rightarrow> modifyM (\<lambda>f. f\<lparr>f_params := Some (m ++ map_of ps)\<rparr>)))"

text \<open>
  The send on \<open>wakeUp\<close>, which has no buffer, has two halves here.  The call's own half ends at the send:
  it adds the caller to \<open>f\_senders\<close>, those who wait in a send, and gives the value the
  call returns once it has been received from.  The goroutine's half is \<open>receive\<close> below, which lets
  one of them go.  A caller still counted in \<open>f\_senders\<close> has not returned; one who is never
  received from never does, and is counted to the end.
\<close>

definition flow_Resume :: "clientParams \<Rightarrow> (error, 'w) fcmd" where
  "flow_Resume params =
     bindM (getM f_state) (\<lambda>st.
       if st \<noteq> Paused then ret (Some (ErrorString ''only paused flows can be resumed''))
       else
         thenM (mergeParams params)
        (thenM (setRunState Resuming)
        (thenM (modifyM (\<lambda>f. f\<lparr>f_senders := f_senders f + 1\<rparr>))
        (ret None))))"

definition flow_Cancel :: "(error, 'w) fcmd" where
  "flow_Cancel =
     bindM (getM f_state) (\<lambda>prevState.
       if prevState = Idle then ret (Some (ErrorString ''cannot cancel idle flow''))
       else
         thenM (setRunState Cancelling)
        (thenM (if prevState = Paused then modifyM (\<lambda>f. f\<lparr>f_senders := f_senders f + 1\<rparr>) else ret ())
        (ret None)))"

fun clientCall :: "call \<Rightarrow> (error, 'w) fcmd" where
  "clientCall (CallStart t ps) = flow_Start t ps"
| "clientCall (CallResume ps) = flow_Resume ps"
| "clientCall CallCancel = flow_Cancel"

text \<open>The log records a call where it is decided: refused, or accepted and, if it wakes the flow, at its send.\<close>

definition client :: "call \<Rightarrow> (unit, 'w) fcmd" where
  "client c = bindM (clientCall c) (\<lambda>err. emit (Reply c err))"

text \<open>The next event; at the end of the script nothing happens any more.\<close>

definition nextEvent :: "string \<Rightarrow> (event, 'w) fcmd" where
  "nextEvent why = bindM (getM f_script) (\<lambda>evs.
     case evs of [] \<Rightarrow> blockM why | ev # evs \<Rightarrow> thenM (setScript evs) (ret ev))"

definition remaining :: "(nat, 'w) fcmd" where
  "remaining = getM (length \<circ> f_script)"

primrec pollCalls :: "nat \<Rightarrow> (unit, 'w) fcmd" where
  "pollCalls 0 = ret ()"
| "pollCalls (Suc n) =
     bindM (getM f_script) (\<lambda>evs.
       case evs of
         Call c # evs \<Rightarrow> thenM (setScript evs) (thenM (client c) (pollCalls n))
       | Tick # evs \<Rightarrow> setScript evs
       | _ \<Rightarrow> ret ())"

definition poll :: "(unit, 'w) fcmd" where
  "poll = bindM remaining pollCalls"

text \<open>A receive on \<open>wakeUp\<close>, if a client waits to send.\<close>

definition receive :: "(bool, 'w) fcmd" where
  "receive = bindM (getM f_senders) (\<lambda>n.
     if n = 0 then ret False
     else thenM (modifyM (\<lambda>f. f\<lparr>f_senders := n - 1\<rparr>)) (ret True))"

section \<open>Pausing\<close>

definition statusOfCard :: "cardStatus \<Rightarrow> params" where
  "statusOfCard c =
     (\<lambda>k. if c_freeSlots c \<noteq> -1 \<and> k = keyInstanceUID then Some (VStr (c_instanceUID c))
          else if c_freeSlots c \<noteq> -1 \<and> k = keyKeyUID then Some (VStr (c_keyUID c))
          else if c_freeSlots c \<noteq> -1 \<and> k = keyFreeSlots then Some (VInt (c_freeSlots c))
          else if c_pinRetries c \<noteq> -1 \<and> k = keyPINRetries then Some (VInt (c_pinRetries c))
          else if c_pinRetries c \<noteq> -1 \<and> k = keyPUKRetries then Some (VInt (c_pukRetries c))
          else None)"

definition pause :: "action \<Rightarrow> string \<Rightarrow> params \<Rightarrow> (unit, 'w) fcmd" where
  "pause action errMsg status =
     bindM (getM f_cardInfo) (\<lambda>c.
     thenM (emit (Signal action (status(ErrorKey \<mapsto> VStr errMsg) ++ statusOfCard c)))
    (thenM poll
    (setRunState Paused)))"

text \<open>\<open><-f.wakeUp\<close>: the events up to the one at which the goroutine receives.\<close>

primrec awaitWake :: "nat \<Rightarrow> (unit, 'w) fcmd" where
  "awaitWake 0 = blockM ''waiting for the client''"
| "awaitWake (Suc n) =
     bindM (nextEvent ''waiting for the client'') (\<lambda>ev.
       case ev of
         Call c \<Rightarrow> thenM (client c) (awaitWake n)
       | Tick \<Rightarrow> bindM receive (\<lambda>got. if got then ret () else awaitWake n)
       | _ \<Rightarrow> awaitWake n)"

definition pauseAndWaitWithStatus :: "action \<Rightarrow> string \<Rightarrow> params \<Rightarrow> (error, 'w) fcmd" where
  "pauseAndWaitWithStatus action errMsg status =
     thenM poll
    (bindM (getM f_state) (\<lambda>st.
       if st = Cancelling then ret (Some GiveupError)
       else
         thenM (pause action errMsg status)
        (thenM (bindM remaining awaitWake)
        (thenM poll
        (bindM (getM f_state) (\<lambda>st.
           if st = Resuming then thenM (setRunState Running) (ret None)
           else ret (Some GiveupError)))))))"

definition pauseAndWait :: "action \<Rightarrow> string \<Rightarrow> (error, 'w) fcmd" where
  "pauseAndWait action errMsg = pauseAndWaitWithStatus action errMsg Map.empty"

definition pauseAndRestart :: "action \<Rightarrow> string \<Rightarrow> (error, 'w) fcmd" where
  "pauseAndRestart action errMsg = andThen (pauseAndWait action errMsg) (ret (Some RestartError))"

definition requireKeys :: "(error, 'w) fcmd" where
  "requireKeys =
     bindM (getM (c_keyUID \<circ> f_cardInfo)) (\<lambda>keyUID.
       if keyUID \<noteq> '''' then ret None else pauseAndRestart SwapCard ErrorNoKeys)"

definition requireNoKeys :: "(error, 'w) fcmd" where
  "requireNoKeys =
     bindM (getM (c_keyUID \<circ> f_cardInfo)) (\<lambda>keyUID.
       if keyUID = '''' then ret None
       else bindM (flag keyOverwrite) (\<lambda>overwrite.
         if overwrite then ret None else pauseAndRestart SwapCard ErrorHasKeys))"

section \<open>Connecting\<close>

definition onFlowWorld :: "('a, 'w) gocmd \<Rightarrow> ('a, 'w) fcmd" where
  "onFlowWorld m = zoom f_world (\<lambda>w f. f\<lparr>f_world := w\<rparr>) m"

definition closeKeycard :: "'w host \<Rightarrow> kcontext option \<Rightarrow> (unit, 'w) fcmd" where
  "closeKeycard H kc =
     (case kc of None \<Rightarrow> ret () | Some kc \<Rightarrow> onFlowWorld (context_Stop H kc))"

text \<open>
  The \<open>select\<close> of \<open>connect\<close>.  The timer is one-shot: once it has fired, it does not fire
  again.  A client that waits to send is received from at a \<open>Tick\<close>; a change of the readers
  lets the context's goroutine go on.  Each round takes an event, so the length of the
  script is enough for the number of rounds.
\<close>

primrec connectLoop :: "'w host \<Rightarrow> kcontext \<Rightarrow> nat \<Rightarrow> bool \<Rightarrow> readersStates \<Rightarrow> (go_error + kcontext, 'w) fcmd" where
  "connectLoop H kc 0 fired rs = blockM ''waiting for a card''"
| "connectLoop H kc (Suc n) fired rs =
     bindM (nextEvent ''waiting for a card'') (\<lambda>ev.
       case ev of
         Call c \<Rightarrow> thenM (client c) (connectLoop H kc n fired rs)
       | Tick \<Rightarrow>
           bindM receive (\<lambda>got.
             if \<not> got then connectLoop H kc n fired rs
             else bindM (getM f_state) (\<lambda>st.
               if st \<noteq> Cancelling then panicM ''Resuming is not expected during connection''
               else ret (Inl GiveupError)))
       | TimerFires \<Rightarrow>
           if fired then connectLoop H kc n fired rs
           else thenM (pause InsertCard ErrorConnection Map.empty) (connectLoop H kc n True rs)
       | ReaderEvent \<Rightarrow>
           bindM (onFlowWorld (readersChanged H kc rs)) (\<lambda>w.
             case w of
               StillWaiting rs \<Rightarrow> connectLoop H kc n fired rs
             | RunErr e \<Rightarrow> ret (Inl RestartError)
             | ConnectedTo kc \<Rightarrow>
                 bindM (getM f_state) (\<lambda>st.
                   if st = Paused then
                     thenM (setRunState Running)
                    (thenM (emit (Signal CardInserted Map.empty)) (ret (Inr kc)))
                   else ret (Inr kc))))"

definition flow_connect :: "'w host \<Rightarrow> (go_error + kcontext, 'w) fcmd" where
  "flow_connect H =
     bindE (onFlowWorld (StartKeycardContext H)) (\<lambda>kc.
     bindM remaining (\<lambda>n.
     connectLoop H kc n False (initialStates (kx_readers kc))))"

section \<open>The card and the store\<close>

text \<open>An operation of the connected card; a nil pointer panics.\<close>

definition onCard :: "'w host \<Rightarrow> ('w port \<Rightarrow> ('a, commandSet \<times> 'w) gocmd) \<Rightarrow> ('a, 'w) fcmd" where
  "onCard H m = (\<lambda>f.
     case f_kc f of
       None \<Rightarrow> Fault (Panicked ''nil pointer dereference'') f
     | Some kc \<Rightarrow>
         (case (kx_card kc, kx_cmdSet kc) of
            (Some handle, Some cs) \<Rightarrow>
              zoom (\<lambda>f. (cs, f_world f)) (\<lambda>(cs, w) f. f\<lparr>f_kc := Some (kc\<lparr>kx_cmdSet := Some cs\<rparr>), f_world := w\<rparr>)
                (m (cardPort H handle)) f
          | _ \<Rightarrow> Fault (Panicked ''nil pointer dereference'') f))"

text \<open>\<open>kc.ApplicationInfo()\<close> and \<open>kc.PairingInfo()\<close>.\<close>

definition kc_ApplicationInfo :: "(appInfo option, commandSet \<times> 'c) gocmd" where
  "kc_ApplicationInfo = getM (cs_ApplicationInfo \<circ> fst)"

definition kc_PairingInfo :: "(pairingInfo option, commandSet \<times> 'c) gocmd" where
  "kc_PairingInfo = getM (cs_PairingInfo \<circ> fst)"

definition onStore :: "('a, store \<times> 'w) gocmd \<Rightarrow> ('a, 'w) fcmd" where
  "onStore m = zoom (\<lambda>f. (f_pairings f, f_world f)) (\<lambda>(p, w) f. f\<lparr>f_pairings := p, f_world := w\<rparr>) m"

text \<open>\<open>if internal.IsSCardError(err) { return restartErr() }\<close>, then the error itself.\<close>

definition restartOnSCard :: "error \<Rightarrow> error" where
  "restartOnSCard err = (if IsSCardError err then Some RestartError else err)"

definition restartSum :: "go_error + 'a \<Rightarrow> go_error + 'a" where
  "restartSum r = (if IsSCardError (errOf r) then Inl RestartError else r)"

end
