(* ===== verification/MockTypes.thy ===== *)
theory MockTypes
  imports FlowEngine
begin

text \<open>
  The data of the mocked flow: \<open>pkg/flow/mocked/mocked\_types.go\<close> and the struct
  \<open>MockedKeycardFlow\<close> of \<open>mocked\_flow.go\<close>.  A mocked flow is the double of a flow: it answers
  the client without a card, from cards registered before.

  Cards are reached through pointers, and the map of exported keys of a card is a reference:
  the helper cards registered without one of their own all have the map of the package
  variable \<open>mockedKeycardHelper\<close>.  So the maps are in a store, by address.  The pointer
  \<open>insertedKeycard\<close> always points to a registered card, and is modelled by its index.
\<close>

section \<open>Cards\<close>

datatype readerState = NoReader | NoKeycard | KeycardInserted | OtherReaderState int

datatype keycardState =
    NotStatusKeycard
  | EmptyKeycard
  | MaxPairingSlotsReached
  | MaxPINRetriesReached
  | MaxPUKRetriesReached
  | KeycardWithMnemonicOnly
  | KeycardWithMnemonicAndMedatada
  | CustomKeycard int

record 'm mockedKeycard =
  mk_PairingInfo :: "info option"
  mk_NotStatusKeycard :: bool
  mk_InstanceUID :: string
  mk_KeyUID :: string
  mk_FreePairingSlots :: int
  mk_PinRetries :: int
  mk_PukRetries :: int
  mk_Pin :: string
  mk_Puk :: string
  mk_Metadata :: cardMetadata
  mk_MasterKeyAddress :: string
  mk_ExportedKey :: 'm

type_synonym keyMap = "string \<rightharpoonup> keyPair"

text \<open>
  The addresses of the maps: the one of the package variable, those made for the cards read
  from the file (helpers and cards by index), and those made later.
\<close>

datatype mapAddr =
    TemplateMap
  | LoadedMap bool int
  | NewMap nat

type_synonym card = "mapAddr option mockedKeycard"
type_synonym cardData = "keyMap option mockedKeycard" \<comment> \<open>a card as JSON has it, with its own map\<close>

definition emptyKeyPair :: keyPair where
  "emptyKeyPair = \<lparr>kp_Address = '''', kp_PublicKey = [], kp_PrivateKey = [], kp_ChainCode = []\<rparr>"

definition emptyKeycard :: card where
  "emptyKeycard =
     \<lparr>mk_PairingInfo = None, mk_NotStatusKeycard = False, mk_InstanceUID = '''', mk_KeyUID = '''',
      mk_FreePairingSlots = 0, mk_PinRetries = 0, mk_PukRetries = 0, mk_Pin = '''', mk_Puk = '''',
      mk_Metadata = \<lparr>cm_Name = '''', cm_Wallets = []\<rparr>, mk_MasterKeyAddress = '''',
      mk_ExportedKey = None\<rparr>"

definition zeros :: "nat \<Rightarrow> string" where
  "zeros n = replicate n (CHR ''0'')"

definition templateWallets :: "wallet list" where
  "templateWallets =
     [\<lparr>w_Path = WalletRoothPath @ ''/0'', w_Address = ''0x'' @ zeros 39 @ ''1'',
       w_PublicKey = string_bytes (zeros 129 @ ''1'')\<rparr>,
      \<lparr>w_Path = WalletRoothPath @ ''/1'', w_Address = ''0x'' @ zeros 39 @ ''2'',
       w_PublicKey = string_bytes (zeros 129 @ ''2'')\<rparr>]"

definition templateKeycard :: card where
  "templateKeycard =
     \<lparr>mk_PairingInfo = Some \<lparr>info_Key = string_bytes (zeros 54 @ ''1111111111''), info_Index = 0\<rparr>,
      mk_NotStatusKeycard = False, mk_InstanceUID = zeros 22 @ ''1234567890'',
      mk_KeyUID = zeros 54 @ ''1234567890'', mk_FreePairingSlots = MaxFreeSlots - 1,
      mk_PinRetries = MaxPINRetries, mk_PukRetries = MaxPUKRetries, mk_Pin = ''111111'',
      mk_Puk = ''111111111111'',
      mk_Metadata = \<lparr>cm_Name = ''Card-1 Name'', cm_Wallets = templateWallets\<rparr>,
      mk_MasterKeyAddress = '''', mk_ExportedKey = None\<rparr>"

definition templateHelper :: card where
  "templateHelper = templateKeycard
     \<lparr>mk_MasterKeyAddress := ''0x'' @ zeros 37 @ ''100'', mk_ExportedKey := Some TemplateMap\<rparr>"

definition templateKeys :: keyMap where
  "templateKeys =
     [WalletRoothPath @ ''/0'' \<mapsto>
        \<lparr>kp_Address = ''0x'' @ zeros 39 @ ''1'', kp_PublicKey = string_bytes (zeros 129 @ ''1''),
         kp_PrivateKey = string_bytes (zeros 63 @ ''1''), kp_ChainCode = []\<rparr>,
      WalletRoothPath @ ''/1'' \<mapsto>
        \<lparr>kp_Address = ''0x'' @ zeros 39 @ ''2'', kp_PublicKey = string_bytes (zeros 129 @ ''2''),
         kp_PrivateKey = string_bytes (zeros 63 @ ''2''), kp_ChainCode = []\<rparr>]"

section \<open>The mocked flow\<close>

record 'w mockedFlow =
  m_flowType :: flowType
  m_state :: runState
  m_params :: "params option"
  m_pairings :: store
  m_storePath :: string  \<comment> \<open>\<open>mockedKeycardsStoreFilePath\<close>\<close>
  m_initialReaderState :: readerState
  m_currentReaderState :: readerState
  m_cards :: "int \<rightharpoonup> card"  \<comment> \<open>\<open>registeredKeycards\<close>; a nil pointer is no entry\<close>
  m_helpers :: "int \<rightharpoonup> card"  \<comment> \<open>\<open>registeredKeycardHelpers\<close>\<close>
  m_inserted :: "int option"  \<comment> \<open>the index of \<open>insertedKeycard\<close> and \<open>insertedKeycardHelper\<close>\<close>
  m_maps :: "mapAddr \<Rightarrow> keyMap"
  m_nextMap :: nat
  m_goroutines :: nat  \<comment> \<open>goroutines of \<open>runFlow\<close> that have been started and have not run\<close>
  m_signals :: "(action \<times> params) list"
  m_world :: 'w

type_synonym ('a, 'w) mcmd = "('a, 'w mockedFlow) gocmd"

text \<open>
  The surroundings: those of the pairing store, \<open>filepath.Join\<close>, \<open>rand.Intn\<close>, and JSON for the
  file of the registered cards; what is read before an error has been read.
\<close>

record 'w mockEnv =
  e_host :: "'w host"
  e_Join :: "string \<Rightarrow> string \<Rightarrow> string"
  e_Intn :: "nat \<Rightarrow> 'w \<Rightarrow> int \<times> 'w"
  e_MarshalCards :: "(int \<rightharpoonup> cardData) \<Rightarrow> (int \<rightharpoonup> cardData) \<Rightarrow> go_error + bytes"
  e_UnmarshalCards :: "bytes \<Rightarrow> (int \<rightharpoonup> cardData) \<times> (int \<rightharpoonup> cardData) \<times> error"

end
