(* ===== verification/MockHandlers.thy ===== *)
theory MockHandlers
  imports MockTypes
begin

text \<open>
  The handlers of the mocked flows: \<open>pkg/flow/mocked/mocked\_flow\_*.go\<close>.  A handler looks at
  the inserted card and at the parameters, changes the card, sends one signal and sets the
  state to \<open>Paused\<close> or \<open>Idle\<close>; a change of the PIN sets no state, and a pairing that cannot be
  stored ends a handler without either.
\<close>

section \<open>The inserted card\<close>

definition nilPointer :: "('a, 's) gocmd" where
  "nilPointer = panicM ''nil pointer dereference''"

definition atInserted :: "(int \<rightharpoonup> card) \<Rightarrow> 'w mockedFlow \<Rightarrow> card option" where
  "atInserted cards f = Option.bind (m_inserted f) cards"

definition theCard :: "(card, 'w) mcmd" where
  "theCard = bindM (getM (\<lambda>f. atInserted (m_cards f) f)) (\<lambda>c. case c of None \<Rightarrow> nilPointer | Some c \<Rightarrow> ret c)"

definition theHelper :: "(card, 'w) mcmd" where
  "theHelper = bindM (getM (\<lambda>f. atInserted (m_helpers f) f)) (\<lambda>c. case c of None \<Rightarrow> nilPointer | Some c \<Rightarrow> ret c)"

definition atIndex :: "int option \<Rightarrow> (card \<Rightarrow> card) \<Rightarrow> (int \<rightharpoonup> card) \<Rightarrow> (int \<rightharpoonup> card)" where
  "atIndex i g cards = (case i of None \<Rightarrow> cards | Some i \<Rightarrow> cards(i := map_option g (cards i)))"

text \<open>Assignments through the pointers; only reached where \<open>theCard\<close> has been.\<close>

definition updCard :: "(card \<Rightarrow> card) \<Rightarrow> (unit, 'w) mcmd" where
  "updCard g = modifyM (\<lambda>f. f\<lparr>m_cards := atIndex (m_inserted f) g (m_cards f)\<rparr>)"

definition updHelper :: "(card \<Rightarrow> card) \<Rightarrow> (unit, 'w) mcmd" where
  "updHelper g = modifyM (\<lambda>f. f\<lparr>m_helpers := atIndex (m_inserted f) g (m_helpers f)\<rparr>)"

text \<open>\<open>helper.ExportedKey[path]\<close>: the zero value where there is no key, or no map.\<close>

definition exportedKey :: "string \<Rightarrow> (keyPair, 'w) mcmd" where
  "exportedKey path =
     bindM theHelper (\<lambda>h.
     getM (\<lambda>f. case mk_ExportedKey h of
        None \<Rightarrow> emptyKeyPair
      | Some a \<Rightarrow> (case m_maps f a path of None \<Rightarrow> emptyKeyPair | Some k \<Rightarrow> k)))"

section \<open>Parameters and signals\<close>

definition mockParam :: "string \<Rightarrow> (val option, 'w) mcmd" where
  "mockParam k = getM (\<lambda>f. Option.bind (m_params f) (\<lambda>m. m k))"

text \<open>\<open>if v, ok := mkf.params[k]; ok { x = v.(string) }\<close>, from the empty string, and for a flag.\<close>

definition entered :: "string \<Rightarrow> (string, 'w) mcmd" where
  "entered k = bindM (mockParam k) (\<lambda>v. case v of None \<Rightarrow> ret '''' | Some v \<Rightarrow> asString v)"

definition enteredFlag :: "string \<Rightarrow> (bool, 'w) mcmd" where
  "enteredFlag k = bindM (mockParam k) (\<lambda>v. case v of None \<Rightarrow> ret False | Some v \<Rightarrow> asBool v)"

definition mockSend :: "action \<Rightarrow> params \<Rightarrow> (unit, 'w) mcmd" where
  "mockSend a status = modifyM (\<lambda>f. f\<lparr>m_signals := m_signals f @ [(a, status)]\<rparr>)"

definition setMockState :: "runState \<Rightarrow> (unit, 'w) mcmd" where
  "setMockState st = modifyM (\<lambda>f. f\<lparr>m_state := st\<rparr>)"

definition sendPaused :: "action \<Rightarrow> params \<Rightarrow> (unit, 'w) mcmd" where
  "sendPaused a status = thenM (setMockState Paused) (mockSend a status)"

definition sendIdle :: "params \<Rightarrow> (unit, 'w) mcmd" where
  "sendIdle status = thenM (setMockState Idle) (mockSend FlowResult status)"

text \<open>The first test of every handler.\<close>

definition notAKeycard :: "(unit, 'w) mcmd" where
  "notAKeycard = sendPaused SwapCard [ErrorKey \<mapsto> VStr ErrorNotAKeycard, keyInstanceUID \<mapsto> VStr '''',
     keyKeyUID \<mapsto> VStr '''', keyFreeSlots \<mapsto> VInt 0]"

definition ifKeycard :: "(card \<Rightarrow> (unit, 'w) mcmd) \<Rightarrow> (unit, 'w) mcmd" where
  "ifKeycard m = bindM theCard (\<lambda>c. if mk_NotStatusKeycard c then notAKeycard else m c)"

definition idsOf :: "card \<Rightarrow> params" where
  "idsOf c = [keyInstanceUID \<mapsto> VStr (mk_InstanceUID c), keyKeyUID \<mapsto> VStr (mk_KeyUID c)]"

definition noKeys :: "params \<Rightarrow> (unit, 'w) mcmd" where
  "noKeys status = sendPaused SwapCard (status(ErrorKey \<mapsto> VStr ErrorNoKeys, keyFreeSlots \<mapsto> VInt 0))"

definition noSlots :: "card \<Rightarrow> params \<Rightarrow> (unit, 'w) mcmd" where
  "noSlots c status = sendPaused SwapCard
     (status(ErrorKey \<mapsto> VStr keyFreeSlots, keyFreeSlots \<mapsto> VInt (mk_FreePairingSlots c)))"

text \<open>The end of a handler that asks the client: the slots and the retries of the card as it is now.\<close>

definition askAgain :: "action \<Rightarrow> params \<Rightarrow> (unit, 'w) mcmd" where
  "askAgain finalType status =
     bindM theCard (\<lambda>c. sendPaused finalType
       (status(keyFreeSlots \<mapsto> VInt (mk_FreePairingSlots c), keyPINRetries \<mapsto> VInt (mk_PinRetries c),
         keyPUKRetries \<mapsto> VInt (mk_PukRetries c))))"

section \<open>The PIN\<close>

text \<open>
  The dialogue that six handlers share, word for word: what to ask next, with the retries
  taken down for a wrong PUK or PIN.
\<close>

definition pinDialogue :: "string \<Rightarrow> string \<Rightarrow> string \<Rightarrow> params \<Rightarrow> (action \<times> params, 'w) mcmd" where
  "pinDialogue enteredPIN enteredNewPIN enteredPUK status =
     bindM theCard (\<lambda>c.
       if mk_PukRetries c = 0 then ret (SwapCard, status(ErrorKey \<mapsto> VStr keyPUKRetries))
       else if mk_PinRetries c = 0 then
         (if length enteredPUK = DefPUKLen then
            (if length enteredPIN = DefPINLen \<and> enteredPIN = enteredNewPIN then
               (if enteredPUK \<noteq> mk_Puk c then
                  thenM (updCard (\<lambda>c. c\<lparr>mk_PukRetries := mk_PukRetries c - 1\<rparr>))
                    (if mk_PukRetries c - 1 = 0
                     then ret (SwapCard, status(ErrorKey \<mapsto> VStr keyPUKRetries))
                     else ret (EnterPUK, status(ErrorKey \<mapsto> VStr keyPUK)))
                else ret (EnterPIN, status))
             else ret (EnterNewPIN, status(ErrorKey \<mapsto> VStr ErrorUnblocking)))
          else ret (EnterPUK, status(ErrorKey \<mapsto> VStr '''')))
       else if enteredNewPIN = '''' \<and> length enteredPIN = DefPINLen \<and> enteredPIN \<noteq> mk_Pin c then
         thenM (updCard (\<lambda>c. c\<lparr>mk_PinRetries := mk_PinRetries c - 1\<rparr>))
           (if mk_PinRetries c - 1 = 0
            then ret (EnterPUK, status(ErrorKey \<mapsto> VStr ''''))
            else ret (EnterPIN, status(ErrorKey \<mapsto> VStr keyPIN)))
       else ret (EnterPIN, status))"

definition pinAccepted :: "card \<Rightarrow> string \<Rightarrow> string \<Rightarrow> string \<Rightarrow> bool" where
  "pinAccepted c enteredPIN enteredNewPIN enteredPUK \<longleftrightarrow>
     mk_PinRetries c > 0 \<and> length enteredPIN = DefPINLen \<and> enteredPIN = mk_Pin c \<or>
     mk_PinRetries c = 0 \<and> mk_PukRetries c > 0 \<and> length enteredPUK = DefPUKLen \<and>
       enteredPUK = mk_Puk c \<and> length enteredPIN = DefPINLen \<and> enteredPIN = enteredNewPIN"

definition retriesReset :: "card \<Rightarrow> card" where
  "retriesReset c = c\<lparr>mk_PinRetries := MaxPINRetries, mk_PukRetries := MaxPUKRetries\<rparr>"

text \<open>The dialogue, then \<open>accept\<close> with the card reset, or asking again.\<close>

definition withPIN :: "(params \<Rightarrow> (unit, 'w) mcmd) \<Rightarrow> params \<Rightarrow> (unit, 'w) mcmd" where
  "withPIN accept status =
     bindM (entered keyPIN) (\<lambda>pin.
     bindM (entered keyNewPIN) (\<lambda>newPIN.
     bindM (entered keyPUK) (\<lambda>puk.
     bindM (pinDialogue pin newPIN puk status) (\<lambda>(finalType, status).
     bindM theCard (\<lambda>c.
       if pinAccepted c pin newPIN puk then
         thenM (updCard (\<lambda>c. (retriesReset c)\<lparr>mk_Pin := pin\<rparr>)) (accept status)
       else askAgain finalType status)))))"

section \<open>The handlers\<close>

definition exportInto :: "string \<Rightarrow> string \<Rightarrow> params \<Rightarrow> (params, 'w) mcmd" where
  "exportInto k path status = bindM (exportedKey path) (\<lambda>key. ret (status(k \<mapsto> VKey key)))"

definition handleLoginFlow :: "(unit, 'w) mcmd" where
  "handleLoginFlow = ifKeycard (\<lambda>c.
     if mk_InstanceUID c = '''' \<or> mk_KeyUID c = '''' then noKeys (idsOf c)
     else withPIN (\<lambda>status.
       bindM (exportInto keyWhisperKey WhisperPath (status(ErrorKey \<mapsto> VStr ''''))) (\<lambda>status.
       bindM (exportInto keyEncKey EncryptionPath status) sendIdle)) (idsOf c))"

definition handleRecoverAccountFlow :: "(unit, 'w) mcmd" where
  "handleRecoverAccountFlow = ifKeycard (\<lambda>c.
     if mk_InstanceUID c = '''' \<or> mk_KeyUID c = '''' then noKeys (idsOf c)
     else withPIN (\<lambda>status.
       bindM (exportInto keyMasterKey MasterPath (status(ErrorKey \<mapsto> VStr ''''))) (\<lambda>status.
       bindM (exportInto keyWalleRootKey WalletRoothPath status) (\<lambda>status.
       bindM (exportInto keyWalletKey WalletPath status) (\<lambda>status.
       bindM (exportInto keyEIP1581Key Eip1581Path status) (\<lambda>status.
       bindM (exportInto keyWhisperKey WhisperPath status) (\<lambda>status.
       bindM (exportInto keyEncKey EncryptionPath status) sendIdle)))))) (idsOf c))"

text \<open>\<open>strings.Repeat("0", n-len(s)) + s\<close>, of a number.\<close>

definition zeroPadded :: "nat \<Rightarrow> nat \<Rightarrow> (string, 's) gocmd" where
  "zeroPadded n i =
     (let s = show_nat i in
      if n < length s then panicM ''strings: negative Repeat count''
      else ret (zeros (n - length s) @ s))"

definition mockIntn :: "'w mockEnv \<Rightarrow> nat \<Rightarrow> (int, 'w) mcmd" where
  "mockIntn E n = zoom m_world (\<lambda>w f. f\<lparr>m_world := w\<rparr>) (worldM (e_Intn E n))"

definition mockMasterAddr :: "'w mockEnv \<Rightarrow> params \<Rightarrow> (params, 'w) mcmd" where
  "mockMasterAddr E status =
     bindM theHelper (\<lambda>h.
     thenM
       (if mk_MasterKeyAddress h = '''' then
          bindM (mockIntn E 100) (\<lambda>i.
          bindM (zeroPadded 40 (nat (i + 100))) (\<lambda>s.
          updHelper (\<lambda>h. h\<lparr>mk_MasterKeyAddress := ''0x'' @ s\<rparr>)))
        else ret ())
    (bindM theHelper (\<lambda>h. ret (status(keyMasterAddr \<mapsto> VStr (mk_MasterKeyAddress h))))))"

text \<open>
  The key for a path in \<open>ExportPublic\<close>; \<open>i\<close> is the number in the values that are made up.
  The key goes into the helper's map, the private part only if it is asked for.
\<close>

definition storeKey :: "string \<Rightarrow> keyPair \<Rightarrow> (unit, 'w) mcmd" where
  "storeKey path key =
     bindM theHelper (\<lambda>h.
       case mk_ExportedKey h of
         None \<Rightarrow> panicM ''assignment to entry in nil map''
       | Some a \<Rightarrow> modifyM (\<lambda>f. f\<lparr>m_maps := (m_maps f)(a := (m_maps f a)(path \<mapsto> key))\<rparr>))"

definition publicKey :: "nat \<Rightarrow> bool \<Rightarrow> string \<Rightarrow> (keyPair, 'w) mcmd" where
  "publicKey i exportPrivate path =
     bindM (exportedKey path) (\<lambda>k.
     bindM (if kp_Address k = '''' then bindM (zeroPadded 40 i) (\<lambda>s. ret (k\<lparr>kp_Address := ''0x'' @ s\<rparr>))
            else ret k) (\<lambda>k.
     bindM (if kp_PublicKey k = [] then bindM (zeroPadded 130 i) (\<lambda>s. ret (k\<lparr>kp_PublicKey := string_bytes s\<rparr>))
            else ret k) (\<lambda>k.
     bindM (if \<not> exportPrivate then ret (k\<lparr>kp_PrivateKey := []\<rparr>)
            else if kp_PrivateKey k = [] then
              bindM (zeroPadded 64 i) (\<lambda>s. ret (k\<lparr>kp_PrivateKey := string_bytes s\<rparr>))
            else ret k) (\<lambda>k.
     thenM (storeKey path k) (ret k)))))"

primrec publicKeys :: "nat \<Rightarrow> bool \<Rightarrow> val list \<Rightarrow> (keyPair list, 'w) mcmd" where
  "publicKeys i exportPrivate [] = ret []"
| "publicKeys i exportPrivate (p # ps) =
     bindM (asString p) (\<lambda>path.
     bindM (publicKey (i + 1) exportPrivate path) (\<lambda>k.
     bindM (publicKeys (i + 1) exportPrivate ps) (\<lambda>ks. ret (k # ks))))"

definition makeKeyMap :: "(unit, 'w) mcmd" where
  "makeKeyMap =
     bindM theHelper (\<lambda>h.
       if mk_ExportedKey h \<noteq> None then ret ()
       else bindM (getM m_nextMap) (\<lambda>n.
         thenM (modifyM (\<lambda>f. f\<lparr>m_nextMap := n + 1, m_maps := (m_maps f)(NewMap n := Map.empty)\<rparr>))
               (updHelper (\<lambda>h. h\<lparr>mk_ExportedKey := Some (NewMap n)\<rparr>))))"

definition handleExportPublicFlow :: "'w mockEnv \<Rightarrow> (unit, 'w) mcmd" where
  "handleExportPublicFlow E = ifKeycard (\<lambda>c.
     if mk_InstanceUID c = '''' \<or> mk_KeyUID c = '''' then noKeys (idsOf c)
     else
       bindM (entered keyPIN) (\<lambda>pin.
       bindM (entered keyNewPIN) (\<lambda>newPIN.
       bindM (entered keyPUK) (\<lambda>puk.
       bindM (enteredFlag keyExportMaster) (\<lambda>exportMaster.
       bindM (enteredFlag keyExportPriv) (\<lambda>exportPrivate.
       bindM (pinDialogue pin newPIN puk (idsOf c)) (\<lambda>(finalType, status).
       bindM theCard (\<lambda>c.
         if pinAccepted c pin newPIN puk then
           thenM (updCard (\<lambda>c. (retriesReset c)\<lparr>mk_Pin := pin\<rparr>))
          (bindM (if exportMaster then mockMasterAddr E status else ret status) (\<lambda>status.
           bindM (mockParam keyBIP44Path) (\<lambda>path.
           bindM (case path of
                    None \<Rightarrow> ret status
                  | Some path \<Rightarrow>
                      thenM makeKeyMap
                        (case path of
                           VStr p \<Rightarrow> bindM (publicKey 1 exportPrivate p) (\<lambda>k.
                             ret (status(keyExportedKey \<mapsto> VKey k)))
                         | VList ps \<Rightarrow> bindM (publicKeys 0 exportPrivate ps) (\<lambda>ks.
                             ret (status(keyExportedKey \<mapsto> VKeys ks)))
                         | _ \<Rightarrow> ret status)) sendIdle)))
         else askAgain finalType status))))))))"

definition publicMetadata :: "cardMetadata \<Rightarrow> cardMetadata" where
  "publicMetadata m = \<lparr>cm_Name = cm_Name m,
     cm_Wallets = map (\<lambda>w. \<lparr>w_Path = w_Path w, w_Address = '''', w_PublicKey = []\<rparr>) (cm_Wallets m)\<rparr>"

definition mockGetMetadataFlow :: "'w mockEnv \<Rightarrow> (unit, 'w) mcmd" where
  "mockGetMetadataFlow E = ifKeycard (\<lambda>c.
     if mk_InstanceUID c = '''' \<or> mk_KeyUID c = '''' then sendIdle [ErrorKey \<mapsto> VStr ErrorNoKeys]
     else
       bindM (enteredFlag keyResolveAddr) (\<lambda>resolveAddr.
         if \<not> resolveAddr then
           sendIdle ((idsOf c)(keyCardMeta \<mapsto> VMetadata (publicMetadata (mk_Metadata c))))
         else if mk_FreePairingSlots c = 0 then noSlots c (idsOf c)
         else
           bindM (entered keyPIN) (\<lambda>pin.
           bindM (entered keyNewPIN) (\<lambda>newPIN.
           bindM (entered keyPUK) (\<lambda>puk.
           bindM (enteredFlag keyExportMaster) (\<lambda>exportMaster.
           bindM (pinDialogue pin newPIN puk (idsOf c)) (\<lambda>(finalType, status).
           bindM theCard (\<lambda>c.
             if pinAccepted c pin newPIN puk then
               bindM (if exportMaster then mockMasterAddr E status else ret status) (\<lambda>status.
               thenM (updCard (\<lambda>c. (retriesReset c)\<lparr>mk_Pin := pin\<rparr>))
              (bindM theCard (\<lambda>c.
               sendIdle (status(ErrorKey \<mapsto> VStr '''', keyCardMeta \<mapsto> VMetadata (mk_Metadata c))))))
             else askAgain finalType status))))))))"

definition requireInit :: "card \<Rightarrow> params \<Rightarrow> (unit, 'w) mcmd" where
  "requireInit c status = sendPaused EnterNewPIN
     (status(ErrorKey \<mapsto> VStr ErrorRequireInit, keyFreeSlots \<mapsto> VInt (mk_FreePairingSlots c)))"

text \<open>The success of \<open>ChangePIN\<close> leaves the state as it is.\<close>

definition handleChangePinFlow :: "(unit, 'w) mcmd" where
  "handleChangePinFlow = ifKeycard (\<lambda>c.
     if mk_InstanceUID c = '''' \<and> mk_KeyUID c = '''' then requireInit c (idsOf c)
     else if mk_FreePairingSlots c = 0 then noSlots c (idsOf c)
     else
       bindM (entered keyPIN) (\<lambda>pin.
       bindM (entered keyNewPIN) (\<lambda>newPIN.
       bindM (entered keyPUK) (\<lambda>puk.
       bindM (enteredFlag keyOverwrite) (\<lambda>overwrite.
       bindM (pinDialogue pin newPIN puk (idsOf c)) (\<lambda>(finalType, status).
       bindM theCard (\<lambda>c.
         if newPIN = '''' then
           (if mk_PinRetries c > 0 \<and> length pin = DefPINLen \<and> pin = mk_Pin c then
              thenM (updCard (\<lambda>c. (retriesReset c)\<lparr>mk_Pin := pin\<rparr>))
                (askAgain EnterNewPIN (status(ErrorKey \<mapsto> VStr ErrorChanging)))
            else askAgain finalType status)
         else if overwrite \<and> length pin = DefPINLen \<and> pin = newPIN \<or>
             mk_PinRetries c = 0 \<and> mk_PukRetries c > 0 \<and> length puk = DefPUKLen \<and> puk = mk_Puk c \<and>
               length pin = DefPINLen \<and> pin = newPIN then
           thenM (updCard (\<lambda>c. (retriesReset c)\<lparr>mk_Pin := pin\<rparr>)) (mockSend FlowResult status)
         else askAgain finalType status)))))))"

definition handleChangePukFlow :: "(unit, 'w) mcmd" where
  "handleChangePukFlow = ifKeycard (\<lambda>c.
     if mk_InstanceUID c = '''' \<and> mk_KeyUID c = '''' then requireInit c (idsOf c)
     else if mk_FreePairingSlots c = 0 then noSlots c (idsOf c)
     else
       bindM (entered keyPIN) (\<lambda>pin.
       bindM (entered keyNewPIN) (\<lambda>newPIN.
       bindM (entered keyPUK) (\<lambda>puk.
       bindM (entered keyNewPUK) (\<lambda>newPUK.
       bindM (enteredFlag keyOverwrite) (\<lambda>overwrite.
       bindM (pinDialogue pin newPIN puk (idsOf c)) (\<lambda>(finalType, status).
       bindM theCard (\<lambda>c.
         if pinAccepted c pin newPIN puk \<and> newPUK = '''' then
           thenM (updCard (\<lambda>c. (retriesReset c)\<lparr>mk_Pin := pin\<rparr>))
             (askAgain EnterNewPUK (status(ErrorKey \<mapsto> VStr ErrorChanging)))
         else if pinAccepted c pin newPIN puk \<and> overwrite \<and> length puk = DefPUKLen \<and> puk = newPUK then
           thenM (updCard (\<lambda>c. (retriesReset c)\<lparr>mk_Puk := puk\<rparr>))
             (sendIdle (status(ErrorKey \<mapsto> VStr '''')))
         else askAgain finalType status))))))))"

section \<open>Application info, loading, and metadata\<close>

definition handleGetAppInfoFlow :: "(unit, 'w) mcmd" where
  "handleGetAppInfoFlow = ifKeycard (\<lambda>c.
     let status = [keyPINRetries \<mapsto> VInt (mk_PinRetries c), keyPUKRetries \<mapsto> VInt (mk_PukRetries c)];
         storesKeys = mk_InstanceUID c \<noteq> '''' \<and> mk_KeyUID c \<noteq> '''' in
     if mk_InstanceUID c = '''' \<or> mk_KeyUID c = '''' then noKeys status
     else
       bindM (entered keyPIN) (\<lambda>pin.
       bindM (enteredFlag keyFactoryReset) (\<lambda>factoryReset.
         if factoryReset then
           thenM (setMockState Idle)
          (thenM (updCard (\<lambda>_. emptyKeycard))
          (mockSend FlowResult [ErrorKey \<mapsto> VStr ErrorOK, keyPaired \<mapsto> VBool False,
             keyAppInfo \<mapsto> VAppInfo \<lparr>Initialized = False, InstanceUID = [], Version = 0,
               AvailableSlots = 0, KeyUID = []\<rparr>]))
         else if length pin = DefPINLen \<and> pin = mk_Pin c \<or> \<not> storesKeys then
           sendIdle (status(ErrorKey \<mapsto> VStr ErrorOK, keyPaired \<mapsto> VBool storesKeys,
             keyAppInfo \<mapsto> VAppInfo \<lparr>Initialized = storesKeys, InstanceUID = string_bytes (mk_InstanceUID c),
               Version = 123, AvailableSlots = mk_FreePairingSlots c,
               KeyUID = string_bytes (mk_KeyUID c)\<rparr>))
         else
           sendPaused EnterPIN (status(keyFreeSlots \<mapsto> VInt (mk_FreePairingSlots c),
             keyInstanceUID \<mapsto> VStr (mk_InstanceUID c), keyKeyUID \<mapsto> VStr (mk_KeyUID c))))))"

definition splitSpaces :: "string \<Rightarrow> string list" where
  "splitSpaces = splitOn (CHR '' '')"

definition enteredLength :: "(int, 'w) mcmd" where
  "enteredLength = bindM (mockParam keyMnemonicLen) (\<lambda>v. ret
     (case v of Some (VInt t) \<Rightarrow> t | Some (VFloat t) \<Rightarrow> t | _ \<Rightarrow> DefMnemoLen))"

primrec randomIndexes :: "'w mockEnv \<Rightarrow> nat \<Rightarrow> (int list, 'w) mcmd" where
  "randomIndexes E 0 = ret []"
| "randomIndexes E (Suc n) =
     bindM (mockIntn E 2048) (\<lambda>i. bindM (randomIndexes E n) (\<lambda>is'. ret (i # is')))"

definition storePairing :: "'w mockEnv \<Rightarrow> (error, 'w) mcmd" where
  "storePairing E =
     bindM theCard (\<lambda>c.
     zoom (\<lambda>f. (m_pairings f, m_world f)) (\<lambda>(p, w) f. f\<lparr>m_pairings := p, m_world := w\<rparr>)
       (store_StorePtr (e_host E) (mk_InstanceUID c) (mk_PairingInfo c)))"

definition enterMnemonic :: "'w mockEnv \<Rightarrow> int \<Rightarrow> params \<Rightarrow> (unit, 'w) mcmd" where
  "enterMnemonic E n status =
     bindM theHelper (\<lambda>h.
     thenM (updCard (\<lambda>c. if mk_InstanceUID c = ''''
         then c\<lparr>mk_InstanceUID := mk_InstanceUID h, mk_PairingInfo := mk_PairingInfo h\<rparr> else c))
    (bindM (storePairing E) (\<lambda>err.
       if err \<noteq> None then ret ()
       else
         bindM (randomIndexes E (nat n)) (\<lambda>indexes.
         bindM theCard (\<lambda>c.
         sendPaused EnterMnemonic (status(ErrorKey \<mapsto> VStr ErrorLoading, keyMnemonicIdxs \<mapsto> VInts indexes,
           keyInstanceUID \<mapsto> VStr (mk_InstanceUID c), keyFreeSlots \<mapsto> VInt (mk_FreePairingSlots c),
           keyPINRetries \<mapsto> VInt (mk_PinRetries c), keyPUKRetries \<mapsto> VInt (mk_PukRetries c))))))))"

definition loadMnemonic :: "'w mockEnv \<Rightarrow> string \<Rightarrow> string \<Rightarrow> params \<Rightarrow> (unit, 'w) mcmd" where
  "loadMnemonic E pin newPUK status =
     bindM theHelper (\<lambda>h.
     thenM (updCard (\<lambda>c. c\<lparr>mk_InstanceUID := mk_InstanceUID h, mk_PairingInfo := mk_PairingInfo h,
         mk_KeyUID := mk_KeyUID h, mk_Pin := pin, mk_Puk := newPUK, mk_PinRetries := MaxPINRetries,
         mk_PukRetries := MaxPUKRetries, mk_FreePairingSlots := MaxFreeSlots - 1\<rparr>))
    (bindM (storePairing E) (\<lambda>err.
       if err \<noteq> None then ret ()
       else
         bindM theCard (\<lambda>c.
         sendIdle (status(keyInstanceUID \<mapsto> VStr (mk_InstanceUID c), keyKeyUID \<mapsto> VStr (mk_KeyUID c)))))))"

definition handleLoadAccountFlow :: "'w mockEnv \<Rightarrow> (unit, 'w) mcmd" where
  "handleLoadAccountFlow E = ifKeycard (\<lambda>c.
     let status = idsOf c in
     bindM (enteredFlag keyFactoryReset) (\<lambda>factoryReset.
     bindM (enteredFlag keyOverwrite) (\<lambda>overwrite.
     bindM enteredLength (\<lambda>mnemonicLength.
     bindM (entered keyMnemonic) (\<lambda>mnemonic.
     bindM (entered keyNewPUK) (\<lambda>newPUK.
     bindM (entered keyPIN) (\<lambda>pin.
     bindM (entered keyNewPIN) (\<lambda>newPIN.
     thenM (if factoryReset then updCard (\<lambda>_. emptyKeycard) else ret ())
    (bindM theCard (\<lambda>c.
       if mk_InstanceUID c \<noteq> '''' \<and> mk_KeyUID c \<noteq> '''' then
         sendPaused SwapCard (status(ErrorKey \<mapsto> VStr ErrorHasKeys, keyFreeSlots \<mapsto> VInt (mk_FreePairingSlots c)))
       else if length pin = DefPINLen \<and> pin = newPIN \<and> length newPUK = DefPUKLen \<and> overwrite \<and> mnemonic = '''' then
         enterMnemonic E mnemonicLength status
       else if length pin = DefPINLen \<and> pin = newPIN \<and> length newPUK = DefPUKLen \<and>
           mnemonicLength = int (length (splitSpaces mnemonic)) then
         loadMnemonic E pin newPUK status
       else sendPaused EnterNewPIN (status(ErrorKey \<mapsto> VStr ErrorRequireInit))))))))))))"

text \<open>A wallet of the helper, or one made up and added to it.\<close>

definition walletFor :: "nat \<Rightarrow> string \<Rightarrow> (wallet, 'w) mcmd" where
  "walletFor i path =
     bindM theHelper (\<lambda>h.
       case find (\<lambda>w. w_Path w = path) (cm_Wallets (mk_Metadata h)) of
         Some w \<Rightarrow> ret w
       | None \<Rightarrow>
           bindM (zeroPadded 40 (i + 1)) (\<lambda>a.
           bindM (zeroPadded 130 (i + 1)) (\<lambda>k.
           let w = \<lparr>w_Path = path, w_Address = ''0x'' @ a, w_PublicKey = string_bytes k\<rparr> in
           thenM (updHelper (\<lambda>h. h\<lparr>mk_Metadata := (mk_Metadata h)\<lparr>cm_Wallets := cm_Wallets (mk_Metadata h) @ [w]\<rparr>\<rparr>))
             (ret w))))"

primrec storeWallets :: "nat \<Rightarrow> val list \<Rightarrow> (unit, 'w) mcmd" where
  "storeWallets i [] = ret ()"
| "storeWallets i (p # ps) =
     bindM (asString p) (\<lambda>path.
       if take (length WalletRoothPath) path \<noteq> WalletRoothPath then
         panicM (''path must start with '' @ WalletRoothPath)
       else
         bindM (walletFor i path) (\<lambda>w.
         thenM (updCard (\<lambda>c. c\<lparr>mk_Metadata := (mk_Metadata c)\<lparr>cm_Wallets := cm_Wallets (mk_Metadata c) @ [w]\<rparr>\<rparr>))
           (storeWallets (i + 1) ps)))"

definition mockStoreMetadataFlow :: "(unit, 'w) mcmd" where
  "mockStoreMetadataFlow = ifKeycard (\<lambda>c.
     bindM (entered keyPIN) (\<lambda>pin.
     bindM (entered keyCardName) (\<lambda>name.
       if length pin = DefPINLen \<and> pin = mk_Pin c \<and> name \<noteq> '''' then
         thenM (updCard (\<lambda>c. c\<lparr>mk_Metadata := \<lparr>cm_Name = name, cm_Wallets = []\<rparr>\<rparr>))
        (bindM (mockParam keyWalletPaths) (\<lambda>v.
         thenM (case v of None \<Rightarrow> ret () | Some v \<Rightarrow> bindM (asList v) (storeWallets 0))
           (sendIdle (idsOf c))))
       else if length pin \<noteq> DefPINLen \<or> pin \<noteq> mk_Pin c then askAgain EnterPIN (idsOf c)
       else askAgain EnterName (idsOf c))))"

end
