(* ===== verification/MockFlow.thy ===== *)
theory MockFlow
  imports MockHandlers
begin

text \<open>
  \<open>pkg/flow/mocked/mocked\_flow.go\<close>: the calls of the client and of the tests that drive the
  double, the goroutine \<open>runFlow\<close>, and the file of the registered cards.  A call that starts a
  goroutine of \<open>runFlow\<close> counts it; \<open>mock_step\<close> runs one.
\<close>

section \<open>The file of the registered cards\<close>

definition cardData :: "(mapAddr \<Rightarrow> keyMap) \<Rightarrow> card \<Rightarrow> cardData" where
  "cardData maps c =
     \<lparr>mk_PairingInfo = mk_PairingInfo c, mk_NotStatusKeycard = mk_NotStatusKeycard c,
      mk_InstanceUID = mk_InstanceUID c, mk_KeyUID = mk_KeyUID c,
      mk_FreePairingSlots = mk_FreePairingSlots c, mk_PinRetries = mk_PinRetries c,
      mk_PukRetries = mk_PukRetries c, mk_Pin = mk_Pin c, mk_Puk = mk_Puk c,
      mk_Metadata = mk_Metadata c, mk_MasterKeyAddress = mk_MasterKeyAddress c,
      mk_ExportedKey = map_option maps (mk_ExportedKey c)\<rparr>"

text \<open>A card read from JSON, with its map at an address of its own.\<close>

definition cardAt :: "mapAddr \<Rightarrow> cardData \<Rightarrow> card" where
  "cardAt a d =
     \<lparr>mk_PairingInfo = mk_PairingInfo d, mk_NotStatusKeycard = mk_NotStatusKeycard d,
      mk_InstanceUID = mk_InstanceUID d, mk_KeyUID = mk_KeyUID d,
      mk_FreePairingSlots = mk_FreePairingSlots d, mk_PinRetries = mk_PinRetries d,
      mk_PukRetries = mk_PukRetries d, mk_Pin = mk_Pin d, mk_Puk = mk_Puk d,
      mk_Metadata = mk_Metadata d, mk_MasterKeyAddress = mk_MasterKeyAddress d,
      mk_ExportedKey = map_option (\<lambda>_. a) (mk_ExportedKey d)\<rparr>"

definition mapOf :: "cardData option \<Rightarrow> keyMap" where
  "mapOf d = (case Option.bind d mk_ExportedKey of None \<Rightarrow> Map.empty | Some m \<Rightarrow> m)"

definition storeRegisteredKeycards :: "'w mockEnv \<Rightarrow> (error, 'w) mcmd" where
  "storeRegisteredKeycards E =
     bindM (getM (\<lambda>f. f)) (\<lambda>f.
       case e_MarshalCards E (map_option (cardData (m_maps f)) \<circ> m_cards f)
              (map_option (cardData (m_maps f)) \<circ> m_helpers f) of
         Inl e \<Rightarrow> ret (Some e)
       | Inr b \<Rightarrow>
           zoom m_world (\<lambda>w f. f\<lparr>m_world := w\<rparr>) (worldM (h_WriteFile (e_host E) (m_storePath f) b)))"

text \<open>The cards are read into the maps of the flow, which are empty then.\<close>

definition loadRegisteredKeycards :: "'w mockEnv \<Rightarrow> (error, 'w) mcmd" where
  "loadRegisteredKeycards E =
     bindM (getM (\<lambda>f. h_ReadFile (e_host E) (m_storePath f) (m_world f))) (\<lambda>b.
     bindM (getM m_storePath) (\<lambda>path.
       case b of
         NotExist \<Rightarrow> ret (Some (ErrorString (''open '' @ path @ '': no such file or directory'')))
       | ReadError e \<Rightarrow> ret (Some e)
       | FileData b \<Rightarrow>
           (case e_UnmarshalCards E b of
              (cards, helpers, err) \<Rightarrow>
                thenM (modifyM (\<lambda>f. f
                  \<lparr>m_cards := (\<lambda>i. map_option (cardAt (LoadedMap False i)) (cards i)),
                   m_helpers := (\<lambda>i. map_option (cardAt (LoadedMap True i)) (helpers i)),
                   m_maps := (\<lambda>a. case a of
                      LoadedMap b i \<Rightarrow> mapOf ((if b then helpers else cards) i)
                    | _ \<Rightarrow> m_maps f a)\<rparr>))
                  (ret err))))"

text \<open>The flow is returned together with the error of reading the cards.\<close>

definition newMock :: "string \<Rightarrow> store \<Rightarrow> 'w \<Rightarrow> 'w mockedFlow" where
  "newMock path p w =
     \<lparr>m_flowType = FlowGetAppInfo, m_state = Idle, m_params = None, m_pairings = p, m_storePath = path,
      m_initialReaderState = NoReader, m_currentReaderState = NoReader, m_cards = Map.empty,
      m_helpers = Map.empty, m_inserted = None,
      m_maps = (\<lambda>a. if a = TemplateMap then templateKeys else Map.empty), m_nextMap = 0,
      m_goroutines = 0, m_signals = [], m_world = w\<rparr>"

definition NewMockedFlow :: "'w mockEnv \<Rightarrow> string \<Rightarrow> (go_error + 'w mockedFlow \<times> error, 'w) gocmd" where
  "NewMockedFlow E storageDir =
     bindE (NewStore (e_host E) storageDir) (\<lambda>p w.
       case loadRegisteredKeycards E
              (newMock (e_Join E (h_Dir (e_host E) storageDir) ''mocked_keycards.json'') p w) of
         Ret err f \<Rightarrow> Ret (Inr (f, err)) (m_world f)
       | Fault x f \<Rightarrow> Fault x (m_world f))"

section \<open>The calls\<close>

definition goRunFlow :: "(unit, 'w) mcmd" where
  "goRunFlow = modifyM (\<lambda>f. f\<lparr>m_goroutines := m_goroutines f + 1\<rparr>)"

definition mock_Start :: "flowType \<Rightarrow> clientParams \<Rightarrow> (error, 'w) mcmd" where
  "mock_Start flowType params =
     bindM (getM m_state) (\<lambda>st.
       if st \<noteq> Idle then ret (Some (ErrorString ''already running''))
       else
         thenM (modifyM (\<lambda>f. f\<lparr>m_flowType := flowType, m_params := map_option map_of params, m_state := Running\<rparr>))
        (thenM goRunFlow (ret None)))"

definition mock_Resume :: "clientParams \<Rightarrow> (error, 'w) mcmd" where
  "mock_Resume params =
     bindM (getM m_state) (\<lambda>st.
       if st \<noteq> Paused then ret (Some (ErrorString ''only paused flows can be resumed''))
       else
         thenM (modifyM (\<lambda>f. f\<lparr>m_params :=
             Some ((case m_params f of None \<Rightarrow> Map.empty | Some m \<Rightarrow> m) ++
                   (case params of None \<Rightarrow> Map.empty | Some ps \<Rightarrow> map_of ps))\<rparr>))
        (thenM goRunFlow (ret None)))"

definition mock_Cancel :: "(error, 'w) mcmd" where
  "mock_Cancel =
     bindM (getM m_state) (\<lambda>st.
       if st = Idle then ret (Some (ErrorString ''cannot cancel idle flow''))
       else thenM (modifyM (\<lambda>f. f\<lparr>m_state := Idle, m_params := None\<rparr>)) (ret None))"

definition setReader :: "readerState \<Rightarrow> (unit, 'w) mcmd" where
  "setReader st = modifyM (\<lambda>f. f\<lparr>m_currentReaderState := st\<rparr>)"

definition runIfRunning :: "(unit, 'w) mcmd" where
  "runIfRunning = bindM (getM m_state) (\<lambda>st. if st = Running then goRunFlow else ret ())"

definition ReaderPluggedIn :: "(error, 'w) mcmd" where
  "ReaderPluggedIn = thenM (setReader NoKeycard) (thenM runIfRunning (ret None))"

definition ReaderUnplugged :: "(error, 'w) mcmd" where
  "ReaderUnplugged = thenM (setReader NoReader) (thenM goRunFlow (ret None))"

definition mock_KeycardInserted :: "int \<Rightarrow> (error, 'w) mcmd" where
  "mock_KeycardInserted cardIndex =
     bindM (getM (\<lambda>f. (m_cards f cardIndex, m_helpers f cardIndex))) (\<lambda>(c, h).
       if c = None \<or> h = None then ret (Some (ErrorString ''no registered keycards''))
       else
         thenM (setReader KeycardInserted)
        (thenM (modifyM (\<lambda>f. f\<lparr>m_inserted := Some cardIndex\<rparr>))
        (thenM runIfRunning (ret None))))"

definition KeycardRemoved :: "(error, 'w) mcmd" where
  "KeycardRemoved =
     thenM (setReader NoKeycard)
    (thenM (modifyM (\<lambda>f. f\<lparr>m_inserted := None\<rparr>))
    (thenM runIfRunning (ret None)))"

text \<open>The card to register, by the state asked for; \<open>None\<close> for the caller's own.\<close>

fun presetCard :: "keycardState \<Rightarrow> card option" where
  "presetCard NotStatusKeycard = Some (templateKeycard\<lparr>mk_NotStatusKeycard := True\<rparr>)"
| "presetCard EmptyKeycard = Some emptyKeycard"
| "presetCard MaxPairingSlotsReached = Some (templateKeycard\<lparr>mk_FreePairingSlots := 0\<rparr>)"
| "presetCard MaxPINRetriesReached = Some (templateKeycard\<lparr>mk_PinRetries := 0\<rparr>)"
| "presetCard MaxPUKRetriesReached = Some (templateKeycard\<lparr>mk_PukRetries := 0\<rparr>)"
| "presetCard KeycardWithMnemonicOnly = Some (templateKeycard\<lparr>mk_Metadata := \<lparr>cm_Name = '''', cm_Wallets = []\<rparr>\<rparr>)"
| "presetCard KeycardWithMnemonicAndMedatada = Some templateKeycard"
| "presetCard (CustomKeycard _) = None"

definition newCard :: "cardData \<Rightarrow> (card, 'w) mcmd" where
  "newCard d =
     bindM (getM m_nextMap) (\<lambda>n.
     thenM (modifyM (\<lambda>f. f\<lparr>m_nextMap := n + 1, m_maps := (m_maps f)(NewMap n := mapOf (Some d))\<rparr>))
       (ret (cardAt (NewMap n) d)))"

definition registerCard :: "'w mockEnv \<Rightarrow> int \<Rightarrow> readerState \<Rightarrow> card \<Rightarrow> card \<Rightarrow> (error, 'w) mcmd" where
  "registerCard E cardIndex readerState c h =
     thenM (modifyM (\<lambda>f. f
       \<lparr>m_cards := (m_cards f)(cardIndex \<mapsto> c), m_helpers := (m_helpers f)(cardIndex \<mapsto> h),
        m_initialReaderState := readerState, m_currentReaderState := readerState,
        m_inserted := Some cardIndex\<rparr>))
       (storeRegisteredKeycards E)"

definition RegisterKeycard ::
    "'w mockEnv \<Rightarrow> int \<Rightarrow> readerState \<Rightarrow> keycardState \<Rightarrow> cardData option \<Rightarrow> cardData option \<Rightarrow> (error, 'w) mcmd" where
  "RegisterKeycard E cardIndex readerState keycardState keycard keycardHelper =
     thenM (modifyM (\<lambda>f. f\<lparr>m_state := Idle, m_params := None\<rparr>))
       (case presetCard keycardState of
          Some c \<Rightarrow> registerCard E cardIndex readerState c templateHelper
        | None \<Rightarrow>
            (case (keycard, keycardHelper) of
               (Some k, Some h) \<Rightarrow>
                 bindM (newCard k) (\<lambda>c. bindM (newCard h) (\<lambda>h. registerCard E cardIndex readerState c h))
             | _ \<Rightarrow> ret (Some (ErrorString
                 ''keycard and keycard helper must be provided if custom state is used, at least empty `{}`''))))"

section \<open>The goroutine\<close>

fun handlerOf :: "'w mockEnv \<Rightarrow> flowType \<Rightarrow> (unit, 'w) mcmd" where
  "handlerOf E FlowGetAppInfo = handleGetAppInfoFlow"
| "handlerOf E FlowRecoverAccount = handleRecoverAccountFlow"
| "handlerOf E FlowLoadAccount = handleLoadAccountFlow E"
| "handlerOf E FlowLogin = handleLoginFlow"
| "handlerOf E FlowExportPublic = handleExportPublicFlow E"
| "handlerOf E FlowChangePIN = handleChangePinFlow"
| "handlerOf E FlowChangePUK = handleChangePukFlow"
| "handlerOf E FlowStoreMetadata = mockStoreMetadataFlow"
| "handlerOf E FlowGetMetadata = mockGetMetadataFlow E"
| "handlerOf E _ = ret ()"

text \<open>After the handler: the pairing, if there is none; its error is only printed.\<close>

definition keepPairing :: "'w mockEnv \<Rightarrow> (unit, 'w) mcmd" where
  "keepPairing E =
     bindM theCard (\<lambda>c.
       if mk_InstanceUID c = '''' then ret ()
       else
         bindM (getM (store_Get (mk_InstanceUID c) \<circ> m_pairings)) (\<lambda>p.
           if p \<noteq> None then ret () else bindM (storePairing E) (\<lambda>_. ret ())))"

definition mock_runFlow :: "'w mockEnv \<Rightarrow> (unit, 'w) mcmd" where
  "mock_runFlow E =
     bindM (getM m_currentReaderState) (\<lambda>reader.
       if reader = NoReader then mockSend FlowResult [ErrorKey \<mapsto> VStr ErrorNoReader]
       else if reader = NoKeycard then mockSend InsertCard [ErrorKey \<mapsto> VStr ErrorConnection]
       else
         thenM (bindM (getM m_flowType) (handlerOf E))
        (thenM (keepPairing E)
        (bindM (storeRegisteredKeycards E) (\<lambda>_. ret ()))))"

section \<open>All together\<close>

datatype mockCall =
    MockStart flowType clientParams
  | MockResume clientParams
  | MockCancel
  | MockPluggedIn
  | MockUnplugged
  | MockInserted int
  | MockRemoved
  | MockRegister int readerState keycardState "cardData option" "cardData option"

fun mockPerform :: "'w mockEnv \<Rightarrow> mockCall \<Rightarrow> (error, 'w) mcmd" where
  "mockPerform E (MockStart t ps) = mock_Start t ps"
| "mockPerform E (MockResume ps) = mock_Resume ps"
| "mockPerform E MockCancel = mock_Cancel"
| "mockPerform E MockPluggedIn = ReaderPluggedIn"
| "mockPerform E MockUnplugged = ReaderUnplugged"
| "mockPerform E (MockInserted i) = mock_KeycardInserted i"
| "mockPerform E MockRemoved = KeycardRemoved"
| "mockPerform E (MockRegister i r k c h) = RegisterKeycard E i r k c h"

definition mock_step :: "'w mockEnv \<Rightarrow> (unit, 'w) mcmd" where
  "mock_step E =
     thenM (modifyM (\<lambda>f. f\<lparr>m_goroutines := m_goroutines f - 1\<rparr>)) (mock_runFlow E)"

inductive mock_reachable :: "'w mockEnv \<Rightarrow> 'w mockedFlow \<Rightarrow> bool" for E where
  mock_new: "NewMockedFlow E dir w = Ret (Inr (f, err)) w' \<Longrightarrow> mock_reachable E f"
| mock_call: "mock_reachable E f \<Longrightarrow> mockPerform E c f = Ret err g \<Longrightarrow> mock_reachable E g"
| mock_goroutine: "mock_reachable E f \<Longrightarrow> m_goroutines f > 0 \<Longrightarrow> mock_step E f = Ret () g \<Longrightarrow> mock_reachable E g"

end
