(* ===== verification/MockFacts.thy ===== *)
theory MockFacts
  imports MockFlow
begin

text \<open>
  The mocked flow: with an inserted card and parameters of the right types, a run ends; and the
  rules that show it, \<open>returns P m Q\<close>, a triple that includes the return.
\<close>

section \<open>Commands that go through\<close>

definition returns :: "('s \<Rightarrow> bool) \<Rightarrow> ('a, 's) gocmd \<Rightarrow> ('s \<Rightarrow> bool) \<Rightarrow> bool" where
  "returns P m Q \<longleftrightarrow> (\<forall>s. P s \<longrightarrow> runs m (\<lambda>_. Q) (\<lambda>_ _. False) s)"

named_theorems goes "rules on commands that do not panic"

lemma returnsI: "(\<And>s. P s \<Longrightarrow> runs m (\<lambda>_. Q) (\<lambda>_ _. False) s) \<Longrightarrow> returns P m Q"
  by (simp add: returns_def)

lemma returnsD: "returns P m Q \<Longrightarrow> P s \<Longrightarrow> runs m (\<lambda>_. Q) (\<lambda>_ _. False) s"
  by (simp add: returns_def)

lemma returns_seq:
  assumes "returns P m R" and "\<And>x. returns R (g x) Q"
  shows "returns P (bindM m g) Q"
  by (rule returnsI, rule runs_bind [OF returnsD [OF assms(1)] returnsD [OF assms(2)]])

lemma returns_bindM [goes]:
  "returns P m P \<Longrightarrow> (\<And>x. returns P (g x) Q) \<Longrightarrow> returns P (bindM m g) Q"
  by (rule returns_seq)

lemma returns_thenM [goes]: "returns P m P \<Longrightarrow> returns P k Q \<Longrightarrow> returns P (thenM m k) Q"
  unfolding thenM_def by (rule returns_bindM)

lemma returns_ret [goes]: "(\<And>s. P s \<Longrightarrow> Q s) \<Longrightarrow> returns P (ret x) Q"
  by (simp add: returns_def wp)

lemma bindM_ret: "bindM (ret x) g = g x"
  by (simp add: fun_eq_iff bindM_def ret_def)

lemma returns_getM [goes]: "returns P (getM g) P"
  by (simp add: returns_def wp)

lemma returns_modifyM: "(\<And>s. P s \<Longrightarrow> Q (g s)) \<Longrightarrow> returns P (modifyM g) Q"
  by (simp add: returns_def wp)

lemma returns_if [goes]:
  "(b \<Longrightarrow> returns P m Q) \<Longrightarrow> (\<not> b \<Longrightarrow> returns P k Q) \<Longrightarrow> returns P (if b then m else k) Q"
  by simp

lemma returns_case_option [goes]:
  "(x = None \<Longrightarrow> returns P m Q) \<Longrightarrow> (\<And>y. x = Some y \<Longrightarrow> returns P (g y) Q) \<Longrightarrow>
    returns P (case x of None \<Rightarrow> m | Some y \<Rightarrow> g y) Q"
  by (simp split: option.split)

lemma returns_case_prod [goes]:
  "(\<And>a b. returns P (g a b) Q) \<Longrightarrow> returns P (case p of (a, b) \<Rightarrow> g a b) Q"
  by (simp split: prod.split)

section \<open>Typed parameters and conforming states\<close>

fun isStr :: "val \<Rightarrow> bool" where
  "isStr (VStr _) = True"
| "isStr _ = False"

fun isBool :: "val \<Rightarrow> bool" where
  "isBool (VBool _) = True"
| "isBool _ = False"

definition walletPath :: "val \<Rightarrow> bool" where
  "walletPath v \<longleftrightarrow> (\<exists>p. v = VStr p \<and> take (length WalletRoothPath) p = WalletRoothPath)"

text \<open>The numbers in made up addresses have at most forty digits.\<close>

definition numberLimit :: nat where
  "numberLimit = 10 ^ 40"

fun isPaths :: "(val \<Rightarrow> bool) \<Rightarrow> val \<Rightarrow> bool" where
  "isPaths ok (VList vs) = (list_all ok vs \<and> length vs < numberLimit)"
| "isPaths ok _ = False"

definition textKeys :: "string set" where
  "textKeys = {keyPIN, keyNewPIN, keyPUK, keyNewPUK, keyMnemonic, keyCardName}"

definition flagKeys :: "string set" where
  "flagKeys = {keyOverwrite, keyFactoryReset, keyResolveAddr, keyExportMaster, keyExportPriv}"

definition typedParams :: "params \<Rightarrow> bool" where
  "typedParams ps \<longleftrightarrow>
     (\<forall>k \<in> textKeys. pred_option isStr (ps k)) \<and> (\<forall>k \<in> flagKeys. pred_option isBool (ps k)) \<and>
     pred_option (isPaths walletPath) (ps keyWalletPaths) \<and>
     pred_option (\<lambda>v. \<forall>vs. v = VList vs \<longrightarrow> isPaths isStr v) (ps keyBIP44Path)"

definition conforms :: "'w mockedFlow \<Rightarrow> bool" where
  "conforms f \<longleftrightarrow> atInserted (m_cards f) f \<noteq> None \<and> atInserted (m_helpers f) f \<noteq> None \<and>
     pred_option typedParams (m_params f) \<and> st_values (m_pairings f) \<noteq> None"

definition keyed :: "'w mockedFlow \<Rightarrow> bool" where
  "keyed f \<longleftrightarrow> conforms f \<and> Option.bind (atInserted (m_helpers f) f) mk_ExportedKey \<noteq> None"

lemma keyed_conforms: "keyed f \<Longrightarrow> conforms f"
  by (simp add: keyed_def)

definition Intn_ok :: "'w mockEnv \<Rightarrow> bool" where
  "Intn_ok E \<longleftrightarrow> (\<forall>n w. 0 < n \<longrightarrow> 0 \<le> fst (e_Intn E n w) \<and> fst (e_Intn E n w) < int n)"

lemma atIndex_inserted:
  "atInserted (atIndex (m_inserted f) g cards) f = map_option g (atInserted cards f)"
  by (auto simp: atInserted_def atIndex_def split: option.split)

lemma atInserted_update [simp]:
  "atInserted cards (f\<lparr>m_cards := a\<rparr>) = atInserted cards f" "atInserted cards (f\<lparr>m_helpers := a\<rparr>) = atInserted cards f"
  "atInserted cards (f\<lparr>m_maps := b\<rparr>) = atInserted cards f" "atInserted cards (f\<lparr>m_state := st\<rparr>) = atInserted cards f"
  "atInserted cards (f\<lparr>m_signals := ss\<rparr>) = atInserted cards f" "atInserted cards (f\<lparr>m_world := w\<rparr>) = atInserted cards f"
  "atInserted cards (f\<lparr>m_pairings := p\<rparr>) = atInserted cards f" "atInserted cards (f\<lparr>m_nextMap := n\<rparr>) = atInserted cards f"
  "atInserted cards (f\<lparr>m_goroutines := n\<rparr>) = atInserted cards f" "atInserted cards (f\<lparr>m_params := ps\<rparr>) = atInserted cards f"
  by (simp_all add: atInserted_def)

lemmas conform_defs = keyed_def conforms_def atIndex_inserted

section \<open>The steps\<close>

lemma returns_theCard [goes]: "returns conforms theCard conforms" "returns keyed theCard keyed"
  and returns_theHelper [goes]: "returns conforms theHelper conforms" "returns keyed theHelper keyed"
  by (auto simp: returns_def theCard_def theHelper_def wp conform_defs split: option.split)

lemma returns_updCard [goes]: "returns conforms (updCard g) conforms" "returns keyed (updCard g) keyed"
  unfolding updCard_def by (auto intro!: returns_modifyM simp: conform_defs)

lemma returns_updHelper [goes]: "returns conforms (updHelper g) conforms"
  unfolding updHelper_def by (auto intro!: returns_modifyM simp: conform_defs)

lemma returns_signals [goes]:
  "returns conforms (mockSend a status) conforms" "returns conforms (setMockState st) conforms"
  unfolding mockSend_def setMockState_def by (auto intro!: returns_modifyM simp: conform_defs)

lemma returns_sends [goes]:
  "returns conforms (sendPaused a status) conforms" "returns conforms (sendIdle status) conforms"
  "returns conforms (noKeys status) conforms" "returns conforms (noSlots c status) conforms"
  "returns conforms notAKeycard conforms" "returns conforms (requireInit c status) conforms"
  "returns conforms (askAgain a status) conforms"
  unfolding sendPaused_def sendIdle_def noKeys_def noSlots_def notAKeycard_def requireInit_def askAgain_def
  by (intro goes)+

lemma typed_param:
  assumes "conforms f" and "Option.bind (m_params f) (\<lambda>m. m k) = Some v"
  shows "k \<in> textKeys \<Longrightarrow> isStr v" and "k \<in> flagKeys \<Longrightarrow> isBool v"
    and "k = keyWalletPaths \<Longrightarrow> isPaths walletPath v"
    and "k = keyBIP44Path \<Longrightarrow> v = VList vs \<Longrightarrow> isPaths isStr v"
proof -
  from assms obtain m where m: "typedParams m" "m k = Some v"
    by (auto simp: conforms_def split: Option.bind_splits)
  show "k \<in> textKeys \<Longrightarrow> isStr v" and "k \<in> flagKeys \<Longrightarrow> isBool v"
    using m by (fastforce simp: typedParams_def)+
  show "k = keyWalletPaths \<Longrightarrow> isPaths walletPath v"
    and "k = keyBIP44Path \<Longrightarrow> v = VList vs \<Longrightarrow> isPaths isStr v"
    using m by (simp_all add: typedParams_def del: isPaths.simps)
qed

lemma returns_mockParam:
  assumes "\<And>v. (\<And>v'. v = Some v' \<Longrightarrow> k = keyWalletPaths \<Longrightarrow> isPaths walletPath v') \<Longrightarrow>
      (\<And>vs. v = Some (VList vs) \<Longrightarrow> k = keyBIP44Path \<Longrightarrow> isPaths isStr (VList vs)) \<Longrightarrow> returns conforms (g v) Q"
  shows "returns conforms (bindM (mockParam k) g) Q"
proof (rule returnsI)
  fix f :: "'a mockedFlow" assume f: "conforms f"
  have "returns conforms (g (Option.bind (m_params f) (\<lambda>m. m k))) Q"
    by (rule assms) (rule typed_param(3,4) [OF f]; assumption?; simp)+
  from returnsD [OF this f] show "runs (bindM (mockParam k) g) (\<lambda>_. Q) (\<lambda>_ _. False) f"
    by (simp add: mockParam_def wp)
qed

lemma returns_entered [goes]: "k \<in> textKeys \<Longrightarrow> returns conforms (entered k) conforms"
  unfolding entered_def mockParam_def
proof (rule returnsI)
  fix f :: "'a mockedFlow" assume "k \<in> textKeys" and f: "conforms f"
  with typed_param(1) [OF f] show "runs (bindM (getM (\<lambda>f. Option.bind (m_params f) (\<lambda>m. m k)))
      (\<lambda>v. case v of None \<Rightarrow> ret '''' | Some v \<Rightarrow> asString v)) (\<lambda>_. conforms) (\<lambda>_ _. False) f"
    by (auto simp: wp asString_def split: option.split val.split elim: isStr.elims(2))
qed

lemma returns_enteredFlag [goes]: "k \<in> flagKeys \<Longrightarrow> returns conforms (enteredFlag k) conforms"
  unfolding enteredFlag_def mockParam_def
proof (rule returnsI)
  fix f :: "'a mockedFlow" assume "k \<in> flagKeys" and f: "conforms f"
  with typed_param(2) [OF f] show "runs (bindM (getM (\<lambda>f. Option.bind (m_params f) (\<lambda>m. m k)))
      (\<lambda>v. case v of None \<Rightarrow> ret False | Some v \<Rightarrow> asBool v)) (\<lambda>_. conforms) (\<lambda>_ _. False) f"
    by (auto simp: wp asBool_def split: option.split val.split elim: isBool.elims(2))
qed

lemma textKeys [simp]:
  "keyPIN \<in> textKeys" "keyNewPIN \<in> textKeys" "keyPUK \<in> textKeys" "keyNewPUK \<in> textKeys"
  "keyMnemonic \<in> textKeys" "keyCardName \<in> textKeys"
  by (simp_all add: textKeys_def)

lemma flagKeys [simp]:
  "keyOverwrite \<in> flagKeys" "keyFactoryReset \<in> flagKeys" "keyResolveAddr \<in> flagKeys"
  "keyExportMaster \<in> flagKeys" "keyExportPriv \<in> flagKeys"
  by (simp_all add: flagKeys_def)

lemma returns_pinDialogue [goes]: "returns conforms (pinDialogue pin newPIN puk status) conforms"
  unfolding pinDialogue_def by (intro goes; simp)

lemma returns_withPIN [goes]:
  "(\<And>status. returns conforms (accept status) conforms) \<Longrightarrow> returns conforms (withPIN accept status) conforms"
  unfolding withPIN_def by (intro goes; simp)

lemma returns_ifKeycard [goes]:
  "(\<And>c. returns conforms (m c) conforms) \<Longrightarrow> returns conforms (ifKeycard m) conforms"
  unfolding ifKeycard_def by (intro goes)

lemma returns_exportedKey [goes]:
  "returns conforms (exportedKey path) conforms" "returns keyed (exportedKey path) keyed"
  unfolding exportedKey_def by (intro goes)+

lemma returns_exportInto [goes]: "returns conforms (exportInto k path status) conforms"
  unfolding exportInto_def by (intro goes; assumption)

lemma length_show_nat: "0 < n \<Longrightarrow> i < 10 ^ n \<Longrightarrow> length (show_nat i) \<le> n"
proof (induction i arbitrary: n rule: show_nat.induct)
  case (1 i)
  show ?case
  proof (cases "i < 10")
    case True
    with 1 show ?thesis by (simp add: show_nat.simps [of i])
  next
    case False
    with 1(3) obtain m where n: "n = Suc m" "0 < m" by (cases n; cases "n - 1") auto
    with 1(3) have "i div 10 < 10 ^ m" by (simp add: less_mult_imp_div_less mult.commute)
    with 1(1) [OF False n(2)] False n(1) show ?thesis by (simp add: show_nat.simps [of i])
  qed
qed

lemma returns_zeroPadded [goes]:
  assumes "40 \<le> n" and "i < numberLimit"
  shows "returns P (zeroPadded n i) P"
proof -
  have "length (show_nat i) \<le> 40" using assms(2) by (simp add: length_show_nat numberLimit_def)
  with assms(1) show ?thesis by (auto simp: zeroPadded_def Let_def intro: goes)
qed

lemma small_number: "i < 1000 \<Longrightarrow> i < numberLimit"
  by (simp add: numberLimit_def)

text \<open>What the handlers rely on: numbers in the range asked for.\<close>

lemma returns_mockIntn:
  assumes "Intn_ok E" and "0 < n" and "\<And>i. 0 \<le> i \<Longrightarrow> i < int n \<Longrightarrow> returns conforms (g i) Q"
  shows "returns conforms (bindM (mockIntn E n) g) Q"
proof (rule returnsI)
  fix f :: "'a mockedFlow" assume f: "conforms f"
  obtain i w where i: "e_Intn E n (m_world f) = (i, w)" by fastforce
  with assms(1,2) have "0 \<le> i" "i < int n" unfolding Intn_ok_def by (metis fst_conv)+
  from assms(3) [OF this] have "returns conforms (g i) Q" .
  moreover have "conforms (f\<lparr>m_world := w\<rparr>)" using f by (simp add: conform_defs)
  ultimately show "runs (bindM (mockIntn E n) g) (\<lambda>_. Q) (\<lambda>_ _. False) f"
    using i by (auto simp: mockIntn_def wp dest: returnsD)
qed

lemma returns_mockMasterAddr [goes]:
  assumes "Intn_ok E"
  shows "returns conforms (mockMasterAddr E status) conforms"
  unfolding mockMasterAddr_def by (intro goes returns_mockIntn assms small_number; simp)

section \<open>Exporting keys\<close>

lemma returns_makeKeyMap: "returns conforms makeKeyMap keyed"
  by (auto simp: makeKeyMap_def theHelper_def updHelper_def returns_def wp conform_defs
      split: option.split)

lemma returns_storeKey [goes]: "returns keyed (storeKey path key) keyed"
  by (auto simp: storeKey_def theHelper_def returns_def wp conform_defs split: option.split)

lemma returns_publicKey [goes]:
  "i < numberLimit \<Longrightarrow> returns keyed (publicKey i exportPrivate path) keyed"
  unfolding publicKey_def by (intro goes; simp)

lemma returns_publicKeys:
  "list_all isStr ps \<Longrightarrow> i + length ps < numberLimit \<Longrightarrow> returns keyed (publicKeys i exportPrivate ps) keyed"
proof (induction ps arbitrary: i)
  case (Cons p ps)
  then obtain path where p: "p = VStr path" by (auto elim: isStr.elims(2))
  from Cons.prems(2) have "i + 1 < numberLimit" by simp
  with Cons show ?case
    unfolding publicKeys.simps p asString_def val.case bindM_ret by (intro goes; simp)
qed (simp add: goes)

lemma returns_makeKeyMap_then: "returns keyed m Q \<Longrightarrow> returns conforms (thenM makeKeyMap m) Q"
  unfolding thenM_def by (rule returns_seq [OF returns_makeKeyMap])

lemma returns_handleExportPublicFlow [goes]:
  assumes "Intn_ok E"
  shows "returns conforms (handleExportPublicFlow E) conforms"
proof -
  have keys: "returns conforms (thenM makeKeyMap (case path of
      VStr p \<Rightarrow> bindM (publicKey 1 b p) (\<lambda>k. ret (status(keyExportedKey \<mapsto> VKey k)))
    | VList ps \<Rightarrow> bindM (publicKeys 0 b ps) (\<lambda>ks. ret (status(keyExportedKey \<mapsto> VKeys ks)))
    | _ \<Rightarrow> ret status)) conforms"
    if "\<And>vs. path = VList vs \<Longrightarrow> isPaths isStr (VList vs)" for path status b
    using that
    by (intro returns_makeKeyMap_then)
       (auto split: val.split intro!: goes(1-3) keyed_conforms returns_publicKeys
         returns_publicKey [OF small_number])
  show ?thesis
    unfolding handleExportPublicFlow_def
    by (intro returns_mockParam keys goes assms; simp)
qed

section \<open>The other handlers\<close>

lemma returns_small_handlers [goes]:
  "returns conforms handleLoginFlow conforms" "returns conforms handleRecoverAccountFlow conforms"
  "returns conforms handleGetAppInfoFlow conforms" "returns conforms handleChangePinFlow conforms"
  "returns conforms handleChangePukFlow conforms"
  unfolding handleLoginFlow_def handleRecoverAccountFlow_def handleGetAppInfoFlow_def Let_def
    handleChangePinFlow_def handleChangePukFlow_def
  by (intro goes; simp)+

lemma returns_mockGetMetadataFlow [goes]:
  assumes "Intn_ok E"
  shows "returns conforms (mockGetMetadataFlow E) conforms"
  unfolding mockGetMetadataFlow_def by (intro goes assms; simp)

lemma returns_store_save: "returns (\<lambda>(p, w). st_values p \<noteq> None) (store_save H) (\<lambda>(p, w). st_values p \<noteq> None)"
  by (auto simp: returns_def store_save_def wp split: sum.split prod.split)

lemma returns_storePairing [goes]: "returns conforms (storePairing E) conforms"
  unfolding storePairing_def
proof (rule returns_bindM [OF returns_theCard(1)], rule returnsI)
  fix c :: card and f :: "'a mockedFlow" assume f: "conforms f"
  then obtain m where m: "st_values (m_pairings f) = Some m" by (auto simp: conforms_def)
  have "runs (store_save (e_host E)) (\<lambda>_ (p, w). st_values p \<noteq> None) (\<lambda>_ _. False)
      (m_pairings f\<lparr>st_values := Some (m(k \<mapsto> v))\<rparr>, m_world f)" for k v
    by (rule returnsD [OF returns_store_save]) simp
  then have "runs (store_StorePtr (e_host E) k v) (\<lambda>_ (p, w). st_values p \<noteq> None) (\<lambda>_ _. False)
      (m_pairings f, m_world f)" for k v
    by (simp add: store_StorePtr_def wp m)
  then show "runs (zoom (\<lambda>f. (m_pairings f, m_world f)) (\<lambda>(p, w) f. f\<lparr>m_pairings := p, m_world := w\<rparr>)
      (store_StorePtr (e_host E) (mk_InstanceUID c) (mk_PairingInfo c))) (\<lambda>_. conforms) (\<lambda>_ _. False) f"
    unfolding runs_zoom by (rule runs_mono) (use f in \<open>auto simp: conforms_def\<close>)
qed

lemma returns_randomIndexes [goes]: "Intn_ok E \<Longrightarrow> returns conforms (randomIndexes E n) conforms"
  by (induction n; simp; intro returns_mockIntn goes; simp)

lemma returns_handleLoadAccountFlow [goes]:
  assumes "Intn_ok E"
  shows "returns conforms (handleLoadAccountFlow E) conforms"
  unfolding handleLoadAccountFlow_def enterMnemonic_def loadMnemonic_def enteredLength_def Let_def
  by (intro returns_mockParam goes assms; simp)

lemma returns_walletFor [goes]:
  "i + 1 < numberLimit \<Longrightarrow> returns conforms (walletFor i path) conforms"
  unfolding walletFor_def Let_def by (intro goes; simp)

lemma returns_storeWallets:
  "list_all walletPath ps \<Longrightarrow> i + length ps < numberLimit \<Longrightarrow> returns conforms (storeWallets i ps) conforms"
proof (induction ps arbitrary: i)
  case (Cons p ps)
  then obtain path where p: "p = VStr path" "take (length WalletRoothPath) path = WalletRoothPath"
    by (auto simp: walletPath_def)
  with Cons show ?case
    unfolding storeWallets.simps p(1) asString_def val.case bindM_ret p(2) by (intro goes; simp)
qed (simp add: goes)

lemma returns_mockStoreMetadataFlow [goes]: "returns conforms mockStoreMetadataFlow conforms"
proof -
  have wallets: "returns conforms (bindM (asList v) (storeWallets 0)) conforms" if "isPaths walletPath v" for v
    using that by (cases v) (auto simp: asList_def bindM_ret intro!: returns_storeWallets)
  show ?thesis
    unfolding mockStoreMetadataFlow_def by (intro returns_mockParam wallets goes; simp)
qed

section \<open>A run\<close>

lemma returns_handlerOf [goes]: "Intn_ok E \<Longrightarrow> returns conforms (handlerOf E t) conforms"
  by (cases t) (simp_all add: goes)

lemma returns_storeRegisteredKeycards: "returns P (storeRegisteredKeycards E) Q"
  if "\<And>s w. P s \<Longrightarrow> Q (s\<lparr>m_world := w\<rparr>)"
proof (rule returnsI)
  fix f assume "P f"
  from that [OF this] that [OF this, of "m_world f"]
  show "runs (storeRegisteredKeycards E) (\<lambda>_. Q) (\<lambda>_ _. False) f"
    by (auto simp: storeRegisteredKeycards_def wp split: sum.split prod.split)
qed

lemma returns_mock_runFlow:
  assumes "Intn_ok E"
  shows "returns conforms (mock_runFlow E) conforms"
proof -
  have save: "returns conforms (storeRegisteredKeycards E) conforms"
    by (rule returns_storeRegisteredKeycards) (simp add: conform_defs)
  show ?thesis
    unfolding mock_runFlow_def keepPairing_def by (intro goes save assms; simp)
qed

end
