(* ===== verification/MockSystem.thy ===== *)
theory MockSystem
  imports MockFacts
begin

text \<open>
  The mocked flow as a system: what holds in every state that the calls of the client and the
  goroutines can reach.
\<close>

section \<open>The pointers\<close>

text \<open>
  There is an inserted card, with its helper, whenever the reader says so, and the state is
  one of three.
\<close>

definition pointers_ok :: "'w mockedFlow \<Rightarrow> bool" where
  "pointers_ok f \<longleftrightarrow> m_state f \<in> {Idle, Running, Paused} \<and>
     (m_inserted f \<noteq> None \<longrightarrow> atInserted (m_cards f) f \<noteq> None \<and> atInserted (m_helpers f) f \<noteq> None) \<and>
     (m_currentReaderState f \<notin> {NoReader, NoKeycard} \<longrightarrow> m_inserted f \<noteq> None)"

lemma mock_steps [keeps]:
  "preserves pointers_ok theCard" "preserves pointers_ok theHelper" "preserves pointers_ok (mockParam k)"
  "preserves pointers_ok (asString v)" "preserves pointers_ok (asBool v)" "preserves pointers_ok (asList v)"
  "preserves pointers_ok (zeroPadded n i)"
  unfolding theCard_def theHelper_def nilPointer_def mockParam_def zeroPadded_def Let_def
    asString_def asBool_def asList_def
  by (intro keeps | cases v; simp add: keeps)+

lemma mock_updates [keeps]:
  "preserves pointers_ok (updCard g)" "preserves pointers_ok (updHelper g)"
  "preserves pointers_ok (mockSend a status)"
  "st \<in> {Idle, Running, Paused} \<Longrightarrow> preserves pointers_ok (setMockState st)"
  "preserves pointers_ok (storeKey path key)" "preserves pointers_ok makeKeyMap"
  unfolding updCard_def updHelper_def mockSend_def setMockState_def storeKey_def makeKeyMap_def
  by (auto intro!: preserves_modifyM keeps simp: pointers_ok_def atIndex_inserted split: option.split)

lemma mock_worlds [keeps]:
  "preserves pointers_ok (mockIntn E n)" "preserves pointers_ok (storePairing E)"
  "preserves pointers_ok (storeRegisteredKeycards E)"
  unfolding mockIntn_def storePairing_def storeRegisteredKeycards_def
  by (intro keeps preserves_zoom; auto simp: pointers_ok_def)+

lemma mock_sends [keeps]:
  "preserves pointers_ok (sendPaused a status)" "preserves pointers_ok (sendIdle status)"
  "preserves pointers_ok (noKeys status)" "preserves pointers_ok (noSlots c status)"
  "preserves pointers_ok notAKeycard" "preserves pointers_ok (requireInit c status)"
  "preserves pointers_ok (askAgain a status)"
  unfolding sendPaused_def sendIdle_def noKeys_def noSlots_def notAKeycard_def requireInit_def askAgain_def
  by (intro keeps; simp)+

lemma mock_parts [keeps]:
  "preserves pointers_ok (entered k)" "preserves pointers_ok (enteredFlag k)"
  "preserves pointers_ok enteredLength" "preserves pointers_ok (exportedKey path)"
  "preserves pointers_ok (exportInto k path status)" "preserves pointers_ok (pinDialogue pin newPIN puk status)"
  "preserves pointers_ok (mockMasterAddr E status)" "preserves pointers_ok (publicKey i b path)"
  "preserves pointers_ok (walletFor i path)"
  unfolding entered_def enteredFlag_def enteredLength_def exportedKey_def exportInto_def pinDialogue_def
    mockMasterAddr_def publicKey_def walletFor_def Let_def
  by (intro keeps)+

lemma mock_ifKeycard [keeps]:
  "(\<And>c. preserves pointers_ok (m c)) \<Longrightarrow> preserves pointers_ok (ifKeycard m)"
  unfolding ifKeycard_def by (intro keeps)

lemma mock_withPIN [keeps]:
  "(\<And>status. preserves pointers_ok (accept status)) \<Longrightarrow> preserves pointers_ok (withPIN accept status)"
  unfolding withPIN_def by (intro keeps)

lemma mock_loops [keeps]:
  "preserves pointers_ok (publicKeys i b ps)" "preserves pointers_ok (storeWallets j ps)"
  "preserves pointers_ok (randomIndexes E n)"
  subgoal by (induction ps arbitrary: i) (auto intro!: keeps)
  subgoal by (induction ps arbitrary: j) (auto intro!: keeps)
  subgoal by (induction n) (auto intro!: keeps)
  done

lemma mock_loading [keeps]:
  "preserves pointers_ok (enterMnemonic E n status)" "preserves pointers_ok (loadMnemonic E pin puk status)"
  unfolding enterMnemonic_def loadMnemonic_def by (intro keeps)+

lemma mock_case_val [keeps]:
  "(\<And>p. preserves P (a p)) \<Longrightarrow> (\<And>ps. preserves P (b ps)) \<Longrightarrow> preserves P m \<Longrightarrow>
    preserves P (case v of VStr p \<Rightarrow> a p | VList ps \<Rightarrow> b ps | _ \<Rightarrow> m)"
  by (simp split: val.split)

lemma mock_handlers [keeps]:
  "preserves pointers_ok handleLoginFlow" "preserves pointers_ok handleRecoverAccountFlow"
  "preserves pointers_ok handleGetAppInfoFlow" "preserves pointers_ok handleChangePinFlow"
  "preserves pointers_ok handleChangePukFlow" "preserves pointers_ok mockStoreMetadataFlow"
  "preserves pointers_ok (mockGetMetadataFlow E)" "preserves pointers_ok (handleLoadAccountFlow E)"
  "preserves pointers_ok (handleExportPublicFlow E)"
  unfolding handleLoginFlow_def handleRecoverAccountFlow_def handleGetAppInfoFlow_def Let_def
    handleChangePinFlow_def handleChangePukFlow_def mockGetMetadataFlow_def handleLoadAccountFlow_def
    mockStoreMetadataFlow_def handleExportPublicFlow_def
  by (intro keeps; simp)+

lemma mock_handlerOf [keeps]: "preserves pointers_ok (handlerOf E t)"
  by (cases t) (simp_all add: keeps)

lemma mock_step_keeps: "preserves pointers_ok (mock_step E)"
  unfolding mock_step_def mock_runFlow_def keepPairing_def
  by (intro keeps preserves_modifyM) (auto simp: pointers_ok_def)

lemma mockPerform_keeps: "preserves pointers_ok (mockPerform E c)"
proof (rule preservesI)
  fix f :: "'a mockedFlow" assume f: "pointers_ok f"
  have save: "runs (storeRegisteredKeycards E) (\<lambda>_. pointers_ok) (\<lambda>_. pointers_ok) g"
    if "pointers_ok g" for g :: "'a mockedFlow"
    using mock_worlds(3) that by (rule preservesD)
  show "runs (mockPerform E c) (\<lambda>_. pointers_ok) (\<lambda>_. pointers_ok) f"
  proof (cases c)
    case (MockRegister i r k c h)
    with f save show ?thesis
      by (auto simp: RegisterKeycard_def registerCard_def newCard_def wp pointers_ok_def atInserted_def
          split: option.split)
  qed (use f in \<open>auto simp: mock_Start_def mock_Resume_def mock_Cancel_def ReaderPluggedIn_def ReaderUnplugged_def
      mock_KeycardInserted_def KeycardRemoved_def setReader_def runIfRunning_def goRunFlow_def wp
      pointers_ok_def atInserted_def\<close>)
qed

lemma NewMockedFlow_pointers:
  "NewMockedFlow E dir w = Ret (Inr (f, err)) w' \<Longrightarrow> pointers_ok f"
  by (auto simp: NewMockedFlow_def bindE_def bindM_def ret_def loadRegisteredKeycards_def getM_def thenM_def
      modifyM_def newMock_def pointers_ok_def split: outcome.splits sum.splits readResult.splits prod.splits)

lemma reachable_pointers: "mock_reachable E f \<Longrightarrow> pointers_ok f"
proof (induction rule: mock_reachable.induct)
  case mock_new
  then show ?case by (rule NewMockedFlow_pointers)
next
  case (mock_call f c err g)
  then show ?case using runs_RetD [OF preservesD [OF mockPerform_keeps]] by blast
next
  case (mock_goroutine f g)
  then show ?case using runs_RetD [OF preservesD [OF mock_step_keeps]] by blast
qed

end
