(* ===== verification/MockCard.thy ===== *)
theory MockCard
  imports MockSystem
begin

text \<open>
  The card of the double.  Its PIN beside a reference: what one round of a handler does to the
  PIN, the PUK and the retries, as a table of cases.  The change of the PIN, and the map of keys
  that cards share.
\<close>

section \<open>The reference\<close>

record pinState =
  ps_Pin :: string
  ps_Puk :: string
  ps_PinRetries :: int
  ps_PukRetries :: int

definition pinState :: "card \<Rightarrow> pinState" where
  "pinState c = \<lparr>ps_Pin = mk_Pin c, ps_Puk = mk_Puk c, ps_PinRetries = mk_PinRetries c,
     ps_PukRetries = mk_PukRetries c\<rparr>"

definition unblocked :: "string \<Rightarrow> pinState \<Rightarrow> pinState" where
  "unblocked pin s = s\<lparr>ps_Pin := pin, ps_PinRetries := MaxPINRetries, ps_PukRetries := MaxPUKRetries\<rparr>"

text \<open>
  A card takes a PIN while it has retries for it, and a PUK with a new PIN, given twice, when it
  has none.  The second result says whether it has opened.
\<close>

definition refRound :: "string \<Rightarrow> string \<Rightarrow> string \<Rightarrow> pinState \<Rightarrow> pinState \<times> bool" where
  "refRound pin newPIN puk s =
     (if length pin \<noteq> DefPINLen then (s, False)
      else if ps_PinRetries s \<noteq> 0 then
        (if pin = ps_Pin s then (unblocked pin s, True)
         else if newPIN = '''' \<and> ps_PukRetries s \<noteq> 0
         then (s\<lparr>ps_PinRetries := ps_PinRetries s - 1\<rparr>, False)
         else (s, False))
      else if ps_PukRetries s = 0 \<or> length puk \<noteq> DefPUKLen \<or> pin \<noteq> newPIN then (s, False)
      else if puk = ps_Puk s then (unblocked pin s, True)
      else (s\<lparr>ps_PukRetries := ps_PukRetries s - 1\<rparr>, False))"

lemma refRound_puk: "ps_Puk (fst (refRound pin newPIN puk s)) = ps_Puk s"
  by (simp add: refRound_def unblocked_def)

section \<open>A round of a handler\<close>

definition textOf :: "string \<Rightarrow> 'w mockedFlow \<Rightarrow> string" where
  "textOf k f = (case Option.bind (m_params f) (\<lambda>m. m k) of Some (VStr s) \<Rightarrow> s | _ \<Rightarrow> '''')"

definition currentCard :: "'w mockedFlow \<Rightarrow> card option" where
  "currentCard f = atInserted (m_cards f) f"

lemma runs_entered:
  assumes "conforms f" and "k \<in> textKeys" and "Q (textOf k f) f"
  shows "runs (entered k) Q F f"
  using assms(3) typed_param(1) [OF assms(1) _ assms(2)]
  by (auto simp: entered_def mockParam_def textOf_def asString_def wp split: option.split val.split
      elim: isStr.elims(2))

lemma runs_bind_entered:
  "conforms f \<Longrightarrow> k \<in> textKeys \<Longrightarrow> runs (g (textOf k f)) Q F f \<Longrightarrow> runs (bindM (entered k) g) Q F f"
  unfolding runs_bindM by (rule runs_entered)

lemma runs_theCard: "currentCard f = Some c \<Longrightarrow> runs theCard Q F f = Q c f"
  by (simp add: theCard_def currentCard_def wp)

lemma runs_updCard:
  "currentCard f = Some c \<Longrightarrow> runs (updCard g) Q F f =
    Q () (f\<lparr>m_cards := (m_cards f)(the (m_inserted f) \<mapsto> g c)\<rparr>)"
  by (auto simp: updCard_def currentCard_def atInserted_def atIndex_def wp split: Option.bind_splits)

lemma currentCard_upd:
  "currentCard f = Some c \<Longrightarrow> currentCard (f\<lparr>m_cards := (m_cards f)(the (m_inserted f) \<mapsto> d)\<rparr>) = Some d"
  by (auto simp: currentCard_def atInserted_def split: Option.bind_splits)

lemma atInserted_upd:
  "atInserted cards f = Some c \<Longrightarrow> atInserted (cards(the (m_inserted f) \<mapsto> d)) f = Some d"
  by (auto simp: atInserted_def split: Option.bind_splits)

lemma conforms_upd:
  "conforms f \<Longrightarrow> conforms (f\<lparr>m_cards := (m_cards f)(the (m_inserted f) \<mapsto> d)\<rparr>)"
  by (auto simp: conforms_def atInserted_def split: Option.bind_splits)

definition opened :: "pinState \<Rightarrow> 'w mockedFlow \<Rightarrow> bool" where
  "opened s f \<longleftrightarrow> conforms f \<and> map_option pinState (currentCard f) = Some s"

lemma runs_pinDialogue:
  assumes "conforms f" and "currentCard f = Some c" and "0 \<le> mk_PinRetries c" and "0 \<le> mk_PukRetries c"
    and "\<And>a status' g d. conforms g \<Longrightarrow> currentCard g = Some d \<Longrightarrow> m_state g = m_state f \<Longrightarrow>
      (if snd (refRound pin newPIN puk (pinState c))
       then pinAccepted d pin newPIN puk \<and> fst (refRound pin newPIN puk (pinState c)) = unblocked pin (pinState d)
       else \<not> pinAccepted d pin newPIN puk \<and> fst (refRound pin newPIN puk (pinState c)) = pinState d) \<Longrightarrow>
      Q (a, status') g"
  shows "runs (pinDialogue pin newPIN puk status) Q F f"
proof -
  have q: "Q (a, status') f" if "(if snd (refRound pin newPIN puk (pinState c))
       then pinAccepted c pin newPIN puk \<and> fst (refRound pin newPIN puk (pinState c)) = unblocked pin (pinState c)
       else \<not> pinAccepted c pin newPIN puk \<and> fst (refRound pin newPIN puk (pinState c)) = pinState c)"
    for a status'
    using assms(5) [OF assms(1,2) refl that] .
  have u: "Q (a, status') (f\<lparr>m_cards := (m_cards f)(the (m_inserted f) \<mapsto> d)\<rparr>)"
    if "(if snd (refRound pin newPIN puk (pinState c))
       then pinAccepted d pin newPIN puk \<and> fst (refRound pin newPIN puk (pinState c)) = unblocked pin (pinState d)
       else \<not> pinAccepted d pin newPIN puk \<and> fst (refRound pin newPIN puk (pinState c)) = pinState d)"
    for a status' d
    using assms(5) [OF conforms_upd [OF assms(1)] currentCard_upd [OF assms(2)] _ that] by simp
  show ?thesis
    unfolding pinDialogue_def
    using assms(3,4)
    by (auto simp: wp runs_theCard [OF assms(2)] runs_updCard [OF assms(2)] refRound_def pinAccepted_def
        pinState_def unblocked_def DefPINLen_def DefPUKLen_def intro!: q u)
qed

lemma runs_askAgain:
  assumes "conforms f" and "currentCard f = Some c"
  shows "runs (askAgain a status) (\<lambda>_ t. opened (pinState c) t \<and> m_state t = Paused) F f"
  using assms
  by (auto simp: askAgain_def sendPaused_def setMockState_def mockSend_def wp runs_theCard opened_def
      currentCard_def conforms_def)

lemma runs_withPIN:
  fixes accept :: "params \<Rightarrow> (unit, 'w) mcmd"
  assumes f: "conforms f" "currentCard f = Some c" "0 \<le> mk_PinRetries c" "0 \<le> mk_PukRetries c"
    and r: "refRound (textOf keyPIN f) (textOf keyNewPIN f) (textOf keyPUK f) (pinState c) = (s, ok)"
    and accept: "\<And>s st. returns (opened s) (accept st) (\<lambda>t. opened s t \<and> m_state t = Idle)"
  shows "runs (withPIN accept status) (\<lambda>_ t. opened s t \<and> (ok \<longleftrightarrow> m_state t = Idle)) (\<lambda>_ _. False) f"
proof -
  let ?pin = "textOf keyPIN f" and ?newPIN = "textOf keyNewPIN f" and ?puk = "textOf keyPUK f"
  define Q where "Q = (\<lambda>_::unit. \<lambda>t :: 'w mockedFlow. opened s t \<and> (ok \<longleftrightarrow> m_state t = Idle))"
  have again: "runs (askAgain a st) Q (\<lambda>_ _. False) g"
    if "conforms g" "currentCard g = Some d" "s = pinState d" "\<not> ok" for a st d and g :: "'w mockedFlow"
    unfolding Q_def by (rule runs_mono [OF runs_askAgain [OF that(1,2)]]) (auto simp: that)
  have accepts: "runs (accept st) Q (\<lambda>_ _. False)
      (g\<lparr>m_cards := (m_cards g)(the (m_inserted g) \<mapsto> (retriesReset d)\<lparr>mk_Pin := ?pin\<rparr>)\<rparr>)"
    if "conforms g" "currentCard g = Some d" "s = unblocked ?pin (pinState d)" ok for st d and g :: "'w mockedFlow"
    unfolding Q_def
  proof (rule runs_mono [OF returnsD [OF accept [of s st]]])
    show "opened s (g\<lparr>m_cards := (m_cards g)(the (m_inserted g) \<mapsto> (retriesReset d)\<lparr>mk_Pin := ?pin\<rparr>)\<rparr>)"
      using that(3) by (simp add: opened_def conforms_upd [OF that(1)] currentCard_upd [OF that(2)] retriesReset_def
          pinState_def unblocked_def)
  qed (use that(4) in simp_all)
  have "runs (bindM (pinDialogue ?pin ?newPIN ?puk status) (\<lambda>(a, st). bindM theCard (\<lambda>c.
       if pinAccepted c ?pin ?newPIN ?puk then
         thenM (updCard (\<lambda>c. (retriesReset c)\<lparr>mk_Pin := ?pin\<rparr>)) (accept st)
       else askAgain a st))) Q (\<lambda>_ _. False) f"
    unfolding runs_bindM
    by (rule runs_pinDialogue [OF f])
       (auto simp: r wp runs_theCard runs_updCard intro!: again accepts split: if_splits)
  then have "runs (withPIN accept status) Q (\<lambda>_ _. False) f"
    unfolding withPIN_def by (intro runs_bind_entered f textKeys)
  then show ?thesis by (simp only: Q_def)
qed

section \<open>Login and recovery\<close>

lemma opened_exportInto [goes]: "returns (opened s) (exportInto k path status) (opened s)"
  by (auto simp: returns_def exportInto_def exportedKey_def theHelper_def opened_def conforms_def wp
      split: option.split)

lemma opened_sendIdle [goes]: "returns (opened s) (sendIdle status) (\<lambda>t. opened s t \<and> m_state t = Idle)"
  by (auto simp: returns_def sendIdle_def setMockState_def mockSend_def opened_def conforms_def
      currentCard_def wp)

lemma runs_round:
  fixes f :: "'w mockedFlow"
  assumes f: "conforms f" "currentCard f = Some c" "0 \<le> mk_PinRetries c" "0 \<le> mk_PukRetries c"
    and c: "\<not> mk_NotStatusKeycard c" "mk_InstanceUID c \<noteq> ''''" "mk_KeyUID c \<noteq> ''''"
    and r: "refRound (textOf keyPIN f) (textOf keyNewPIN f) (textOf keyPUK f) (pinState c) = (s, ok)"
    and t: "t \<in> {FlowLogin, FlowRecoverAccount}"
  shows "runs (handlerOf E t) (\<lambda>_ t. opened s t \<and> (ok \<longleftrightarrow> m_state t = Idle)) (\<lambda>_ _. False) f"
proof -
  have w: "runs (withPIN accept (idsOf c)) (\<lambda>_ t. opened s t \<and> (ok \<longleftrightarrow> m_state t = Idle)) (\<lambda>_ _. False) f"
    if "\<And>s st. returns (opened s) (accept st) (\<lambda>t. opened s t \<and> m_state t = Idle)" for accept
    by (rule runs_withPIN [OF f r that])
  from t show ?thesis
    by (auto simp: handleLoginFlow_def handleRecoverAccountFlow_def ifKeycard_def wp runs_theCard [OF f(2)] c
        intro!: w goes)
qed

section \<open>Changing the PIN\<close>

text \<open>With the new PIN given twice and \<open>overwrite\<close>, the change succeeds; nothing sets the state.\<close>

lemma runs_changePIN:
  fixes f :: "'w mockedFlow"
  assumes f: "conforms f" "currentCard f = Some c" "0 \<le> mk_PinRetries c" "0 \<le> mk_PukRetries c"
    and c: "\<not> mk_NotStatusKeycard c" "mk_InstanceUID c \<noteq> ''''" "mk_FreePairingSlots c \<noteq> 0"
    and pin: "length pin = DefPINLen" "textOf keyPIN f = pin" "textOf keyNewPIN f = pin"
    and o: "Option.bind (m_params f) (\<lambda>m. m keyOverwrite) = Some (VBool True)"
  shows "runs handleChangePinFlow (\<lambda>_ t. m_state t = m_state f \<and>
      map_option pinState (currentCard t) = Some (unblocked pin (pinState c)) \<and>
      (\<exists>status. last (m_signals t) = (FlowResult, status))) (\<lambda>_ _. False) f"
    (is "runs _ ?Q ?F f")
proof -
  have ne: "pin \<noteq> ''''" using pin(1) by (auto simp: DefPINLen_def)
  have state: "pinState ((retriesReset d)\<lparr>mk_Pin := pin\<rparr>) = unblocked pin (pinState c)"
    if "fst (refRound pin pin puk (pinState c)) \<in> {pinState d, unblocked pin (pinState d)}" for d :: card and puk
    using that refRound_puk [of pin pin puk "pinState c"]
    by (auto simp: retriesReset_def pinState_def unblocked_def dest!: arg_cong [where f = ps_Puk])
  have dialogue: "runs (pinDialogue pin pin puk status) (\<lambda>(finalType, st). runs (bindM theCard (\<lambda>c.
         thenM (updCard (\<lambda>c. (retriesReset c)\<lparr>mk_Pin := pin\<rparr>)) (mockSend FlowResult st))) ?Q ?F) ?F f"
    for puk status
    by (rule runs_pinDialogue [OF f])
       (auto simp: wp runs_theCard runs_updCard mockSend_def currentCard_def atInserted_upd intro: state split: if_splits)
  show ?thesis
    unfolding handleChangePinFlow_def ifKeycard_def
    using f(1) dialogue
    by (auto simp: wp runs_theCard [OF f(2)] c pin o ne enteredFlag_def mockParam_def asBool_def split_def
        intro!: runs_entered)
qed

section \<open>The shared map\<close>

text \<open>
  The key exported for a path is stored in the map of the helper, which may be the map of other
  helpers too: what they export afterwards is that key.
\<close>

definition exportedAt :: "card \<Rightarrow> string \<Rightarrow> 'w mockedFlow \<Rightarrow> keyPair" where
  "exportedAt h path f =
     (case Option.bind (mk_ExportedKey h) (\<lambda>a. m_maps f a path) of None \<Rightarrow> emptyKeyPair | Some k \<Rightarrow> k)"

lemma runs_theHelper: "atInserted (m_helpers f) f = Some h \<Longrightarrow> runs theHelper Q F f = Q h f"
  by (simp add: theHelper_def wp)

lemma runs_exportedKey:
  "atInserted (m_helpers f) f = Some h \<Longrightarrow> runs (exportedKey path) Q F f = Q (exportedAt h path f) f"
  by (auto simp: exportedKey_def exportedAt_def runs_theHelper wp split: option.split)

lemma runs_storeKey:
  assumes "atInserted (m_helpers f) f = Some h" and "mk_ExportedKey h = Some a"
  shows "runs (storeKey path k) Q F f =
    Q () (f\<lparr>m_maps := (m_maps f)(a := (m_maps f a)(path \<mapsto> k))\<rparr>)"
  by (simp add: storeKey_def runs_theHelper [OF assms(1)] assms(2) wp)

lemma runs_publicKey:
  assumes "atInserted (m_helpers f) f = Some h" and "mk_ExportedKey h = Some a"
  shows "runs (publicKey i exportPrivate path) (\<lambda>k t. m_helpers t = m_helpers f \<and>
      m_maps t = (m_maps f)(a := (m_maps f a)(path \<mapsto> k)) \<and>
      kp_ChainCode k = kp_ChainCode (exportedAt h path f) \<and>
      (kp_PrivateKey k = [] \<longleftrightarrow> \<not> exportPrivate)) (\<lambda>_ _. True) f"
  unfolding publicKey_def
  by (auto simp: wp runs_exportedKey [OF assms(1)] runs_storeKey [OF assms] zeroPadded_def Let_def
      zeros_def string_bytes_def)

end
