(* ===== verification/FlowControl.thy ===== *)
theory FlowControl
  imports MockFlow
begin

text \<open>
  What a client of the C interface relies on, whether it is linked with the flow or with its
  double: which of its calls are accepted in which run state.
\<close>

locale flow_control =
  fixes Start :: "flowType \<Rightarrow> clientParams \<Rightarrow> (error, 's) gocmd"
    and Resume :: "clientParams \<Rightarrow> (error, 's) gocmd"
    and Cancel :: "(error, 's) gocmd"
    and state :: "'s \<Rightarrow> runState"
  assumes start_busy: "state s \<noteq> Idle \<Longrightarrow> Start t ps s = Ret (Some (ErrorString ''already running'')) s"
    and start_idle: "state s = Idle \<Longrightarrow> \<exists>u. Start t ps s = Ret None u \<and> state u = Running"
    and resume_not_paused: "state s \<noteq> Paused \<Longrightarrow>
      Resume ps s = Ret (Some (ErrorString ''only paused flows can be resumed'')) s"
    and cancel_idle: "state s = Idle \<Longrightarrow> Cancel s = Ret (Some (ErrorString ''cannot cancel idle flow'')) s"
    and cancel_busy: "state s \<noteq> Idle \<Longrightarrow> \<exists>u. Cancel s = Ret None u \<and> state u \<in> {Idle, Cancelling}"
begin

lemma start_accepted: "(\<exists>u. Start t ps s = Ret None u) \<longleftrightarrow> state s = Idle"
  using start_busy start_idle by (metis option.distinct(1) outcome.inject(1))

lemma started: "Start t ps s = Ret None u \<Longrightarrow> state u = Running"
  by (metis outcome.inject(1) start_accepted start_idle)

lemma second_start: "Start t ps s = Ret None u \<Longrightarrow>
    Start t' qs u = Ret (Some (ErrorString ''already running'')) u"
  by (rule start_busy) (simp add: started)

lemma resume_started: "Start t ps s = Ret None u \<Longrightarrow>
    Resume qs u = Ret (Some (ErrorString ''only paused flows can be resumed'')) u"
  by (rule resume_not_paused) (simp add: started)

lemma cancel_started: "Start t ps s = Ret None u \<Longrightarrow> \<exists>v. Cancel u = Ret None v"
  using cancel_busy [of u] started [of t ps s u] by auto

end

interpretation engine: flow_control flow_Start flow_Resume flow_Cancel f_state
  by unfold_locales (auto simp: flow_Start_def flow_Resume_def flow_Cancel_def setRunState_def cmd_defs)

interpretation double: flow_control mock_Start mock_Resume mock_Cancel m_state
  by unfold_locales (auto simp: mock_Start_def mock_Resume_def mock_Cancel_def goRunFlow_def cmd_defs)

text \<open>So in the same run state the flow and its double answer alike, except a resume on nil parameters.\<close>

lemma double_answers:
  assumes "f_state f = m_state d" and "f_params f \<noteq> None"
  shows "\<exists>r f' d'. flow_Start t ps f = Ret r f' \<and> mock_Start t qs d = Ret r d'"
    and "\<exists>r f' d'. flow_Resume ps f = Ret r f' \<and> mock_Resume qs d = Ret r d'"
    and "\<exists>r f' d'. flow_Cancel f = Ret r f' \<and> mock_Cancel d = Ret r d'"
proof -
  show "\<exists>r f' d'. flow_Start t ps f = Ret r f' \<and> mock_Start t qs d = Ret r d'"
    using assms(1) engine.start_busy engine.start_idle double.start_busy double.start_idle by metis
  show "\<exists>r f' d'. flow_Resume ps f = Ret r f' \<and> mock_Resume qs d = Ret r d'"
    using assms by (auto simp: flow_Resume_def mock_Resume_def mergeParams_def setRunState_def goRunFlow_def
        cmd_defs split: option.split list.split)
  show "\<exists>r f' d'. flow_Cancel f = Ret r f' \<and> mock_Cancel d = Ret r d'"
    using assms(1) engine.cancel_idle engine.cancel_busy double.cancel_idle double.cancel_busy by metis
qed

end
