(* ===== verification/FlowCommands.thy ===== *)
theory FlowCommands
  imports FlowEngine
begin

text \<open>
  \<open>pkg/flow/commands.go\<close>: the steps the flows are made of.

  The functions that call themselves after a pause are recursions on fuel; a round with a
  pause takes an event of the script, so more fuel than events is enough, and \<open>outOfFuel\<close>
  is not reached.  \<open>openSC\<close> calls itself without a pause once a pairing has been made; its
  rounds have a bound of their own, and \<open>repairing\<close> says that the card has accepted that
  many pairings and refused to open the secure channel with each.
\<close>

definition outOfFuel :: "('a, 's) gocmd" where
  "outOfFuel = blockM ''out of fuel''"

definition repairing :: "('a, 's) gocmd" where
  "repairing = blockM ''pairing again and again''"

text \<open>An operation of the card that is noted in the log.\<close>

definition tryCard ::
    "'w host \<Rightarrow> attempt \<Rightarrow> ('w port \<Rightarrow> (go_error + 'a, commandSet \<times> 'w) gocmd) \<Rightarrow> (go_error + 'a, 'w) fcmd" where
  "tryCard H a m = bindM (onCard H m) (\<lambda>r. thenM (emit (Tried a (errOf r))) (ret r))"

section \<open>Choosing the card\<close>

definition flow_factoryReset :: "'w host \<Rightarrow> (error, 'w) fcmd" where
  "flow_factoryReset H =
     bindM (onCard H (\<lambda>P. kc_FactoryReset (h_prims H) P True)) (\<lambda>r.
       case r of
         Inr _ \<Rightarrow> thenM (delParam keyFactoryReset) (ret (Some RestartError))
       | Inl e \<Rightarrow> ret (restartOnSCard (Some e)))"

text \<open>\<open>f.cardInfo.instanceUID != requiredInstanceUID\<close> compares a string with an interface.\<close>

definition selectKeycard :: "'w host \<Rightarrow> (error, 'w) fcmd" where
  "selectKeycard H =
     bindM (onCard H (kc_SelectApplet (h_prims H))) (\<lambda>r.
       case r of
         Inl _ \<Rightarrow> ret (Some RestartError)
       | Inr None \<Rightarrow> panicM ''nil pointer dereference''
       | Inr (Some appInfo) \<Rightarrow>
           thenM (setCardInfo (\<lambda>c. c\<lparr>c_instanceUID := Btox (ai_InstanceUID appInfo),
             c_keyUID := Btox (ai_KeyUID appInfo), c_freeSlots := BytesToInt (ai_AvailableSlots appInfo),
             c_version := BytesToInt (ai_Version appInfo)\<rparr>))
          (if \<not> ai_Installed appInfo then pauseAndRestart SwapCard ErrorNotAKeycard
           else
             bindM (param keyInstanceUID) (\<lambda>requiredInstanceUID.
             bindM (getM f_cardInfo) (\<lambda>c.
               if requiredInstanceUID \<noteq> None \<and> requiredInstanceUID \<noteq> Some (VStr (c_instanceUID c))
               then pauseAndRestart SwapCard keyInstanceUID
               else
                 bindM (param keyKeyUID) (\<lambda>requiredKeyUID.
                 bindM (getM f_cardInfo) (\<lambda>c.
                   if requiredKeyUID \<noteq> None \<and> requiredKeyUID \<noteq> Some (VStr (c_keyUID c))
                   then pauseAndRestart SwapCard keyKeyUID
                   else ret None))))))"

section \<open>Pairing and the secure channel\<close>

primrec flow_pair :: "nat \<Rightarrow> 'w host \<Rightarrow> (error, 'w) fcmd" where
  "flow_pair 0 H = outOfFuel"
| "flow_pair (Suc n) H =
     bindM (getM f_cardInfo) (\<lambda>c.
       if c_freeSlots c = 0 then pauseAndRestart SwapCard keyFreeSlots
       else
         bindM (param keyPairingPass) (\<lambda>v.
         bindM (asString (case v of None \<Rightarrow> VStr DefPairing | Some v \<Rightarrow> v)) (\<lambda>pairingPass.
         bindM (onCard H (\<lambda>P. kc_Pair (h_prims H) P pairingPass)) (\<lambda>r.
           case r of
             Inr None \<Rightarrow> panicM ''nil pointer dereference''
           | Inr (Some pair) \<Rightarrow> onStore (store_Store H (c_instanceUID c) (ToPairInfo pair))
           | Inl e \<Rightarrow>
               if IsSCardError (Some e) then ret (Some RestartError)
               else
                 thenM (delParam keyPairingPass)
                   (andThen (pauseAndWait EnterPairing ErrorPairing) (flow_pair n H))))))"

primrec initCard :: "nat \<Rightarrow> 'w host \<Rightarrow> (error, 'w) fcmd" where
  "initCard 0 H = outOfFuel"
| "initCard (Suc n) H =
     bindM (param keyNewPIN) (\<lambda>newPIN.
       case newPIN of
         None \<Rightarrow> andThen (pauseAndWait EnterNewPIN ErrorRequireInit) (initCard n H)
       | Some newPIN \<Rightarrow>
           bindM (param keyNewPUK) (\<lambda>newPUK.
             case newPUK of
               None \<Rightarrow> andThen (pauseAndWait EnterNewPUK ErrorRequireInit) (initCard n H)
             | Some newPUK \<Rightarrow>
                 bindM (param keyNewPairing) (\<lambda>v.
                 let newPairing = (case v of None \<Rightarrow> VStr DefPairing | Some v \<Rightarrow> v) in
                 bindM (asString newPIN) (\<lambda>pin.
                 bindM (asString newPUK) (\<lambda>puk.
                 bindM (asString newPairing) (\<lambda>pairing.
                 bindM (tryCard H (TryInit pin puk pairing) (\<lambda>P. kc_Init (h_prims H) P pin puk pairing)) (\<lambda>r.
                   if IsSCardError (errOf r) then ret (Some RestartError)
                   else if errOf r \<noteq> None then ret (errOf r)
                   else
                     thenM (setParam keyPIN newPIN)
                    (thenM (setParam keyPairingPass newPairing)
                    (thenM (delParam keyNewPIN)
                    (thenM (delParam keyNewPUK)
                    (thenM (delParam keyNewPairing)
                    (ret (Some RestartError)))))))))))))"

definition verifyAuthenticity :: "'w host \<Rightarrow> (error, 'w) fcmd" where
  "verifyAuthenticity H =
     bindM (getM f_knownCA) (\<lambda>knownCA.
     bindM (getM (c_instanceUID \<circ> f_cardInfo)) (\<lambda>uid.
     bindM (param keySkipAuthUID) (\<lambda>skip.
       if knownCA = [] \<or> skip = Some (VStr uid) then ret None
       else
         bindM (onCard H (kc_Identify (h_prims H))) (\<lambda>r.
           case r of
             Inl _ \<Rightarrow> ret (Some AuthenticityError)
           | Inr ca \<Rightarrow> ret (if \<not> ContainsString ca knownCA then Some AuthenticityError else None)))))"

text \<open>The status after the secure channel has been opened.\<close>

definition readRetries :: "'w host \<Rightarrow> (error, 'w) fcmd" where
  "readRetries H =
     bindM (onCard H (kc_GetStatusApplication (h_prims H))) (\<lambda>r.
       case r of
         Inl _ \<Rightarrow> ret (Some RestartError)
       | Inr appStatus \<Rightarrow>
           thenM (setCardInfo (\<lambda>c. c\<lparr>c_pinRetries := as_PinRetryCount appStatus,
             c_pukRetries := as_PUKRetryCount appStatus\<rparr>))
          (ret None))"

text \<open>
  The part of \<open>openSC\<close> that tries a known pairing: \<open>Some err\<close> if \<open>openSC\<close> returns there.
\<close>

definition openKnown :: "'w host \<Rightarrow> (error option, 'w) fcmd" where
  "openKnown H =
     bindM (getM (c_instanceUID \<circ> f_cardInfo)) (\<lambda>uid.
     bindM (getM (store_Get uid \<circ> f_pairings)) (\<lambda>pairing.
       case pairing of
         None \<Rightarrow> ret None
       | Some p \<Rightarrow>
           bindM (onCard H (\<lambda>P. kc_OpenSecureChannel (h_prims H) P (info_Index p) (info_Key p))) (\<lambda>r.
             case r of
               Inr _ \<Rightarrow> bindM (readRetries H) (\<lambda>err. ret (Some err))
             | Inl e \<Rightarrow>
                 if IsSCardError (Some e) then ret (Some (Some RestartError))
                 else thenM (modifyM (\<lambda>f. f\<lparr>f_pairings := store_Delete uid (f_pairings f)\<rparr>)) (ret None))))"

primrec openSC :: "nat \<Rightarrow> 'w host \<Rightarrow> nat \<Rightarrow> bool \<Rightarrow> (error, 'w) fcmd" where
  "openSC 0 H n giveup = repairing"
| "openSC (Suc m) H n giveup =
     bindM (onCard H (\<lambda>_. kc_ApplicationInfo)) (\<lambda>info.
       case info of
         None \<Rightarrow> panicM ''nil pointer dereference''
       | Some info \<Rightarrow>
           if \<not> ai_Initialized info \<and> \<not> giveup then initCard n H
           else
             bindM (openKnown H) (\<lambda>done.
               case done of
                 Some err \<Rightarrow> ret err
               | None \<Rightarrow>
                   andThen (verifyAuthenticity H)
                     (if giveup then ret (Some GiveupError)
                      else andThen (flow_pair n H) (openSC m H n giveup))))"

section \<open>Authentication\<close>

text \<open>
  \<open>again\<close> is the end of \<open>unblockPIN\<close>, reached with one of the two missing: with both given
  and \<open>err\<close> not nil the last \<open>if\<close> returns \<open>err\<close>.
\<close>

primrec unblockPIN :: "nat \<Rightarrow> 'w host \<Rightarrow> (error, 'w) fcmd" where
  "unblockPIN 0 H = outOfFuel"
| "unblockPIN (Suc n) H =
     (let again = (\<lambda>pukError pukOK.
        bindM (getM (c_pukRetries \<circ> f_cardInfo)) (\<lambda>retries.
          if retries = 0 then pauseAndRestart SwapCard keyPUKRetries
          else if \<not> pukOK then andThen (pauseAndWait EnterPUK pukError) (unblockPIN n H)
          else andThen (pauseAndWait EnterNewPIN ErrorUnblocking) (unblockPIN n H))) in
      bindM (getM (c_pukRetries \<circ> f_cardInfo)) (\<lambda>retries.
        if retries = 0 then pauseAndRestart SwapCard keyPUKRetries
        else
          bindM (param keyNewPIN) (\<lambda>newPIN.
          bindM (param keyPUK) (\<lambda>puk.
            case (newPIN, puk) of
              (Some newPIN, Some puk) \<Rightarrow>
                bindM (asString puk) (\<lambda>pukStr.
                bindM (asString newPIN) (\<lambda>pinStr.
                bindM (tryCard H (TryPUK pukStr pinStr) (\<lambda>P. kc_UnblockPIN (h_prims H) P pukStr pinStr)) (\<lambda>r.
                  case r of
                    Inr _ \<Rightarrow>
                      thenM (setCardInfo (\<lambda>c. c\<lparr>c_pinRetries := MaxPINRetries, c_pukRetries := MaxPUKRetries\<rparr>))
                     (thenM (setParam keyPIN newPIN)
                     (thenM (delParam keyNewPIN)
                     (thenM (delParam keyPUK)
                     (ret None))))
                  | Inl e \<Rightarrow>
                      if IsSCardError (Some e) then ret (Some RestartError)
                      else
                        (case GetRetries (Some e) of
                           (leftRetries, True) \<Rightarrow>
                             thenM (setCardInfo (\<lambda>c. c\<lparr>c_pukRetries := leftRetries\<rparr>))
                            (thenM (delParam keyPUK)
                            (again keyPUK False))
                         | (_, False) \<Rightarrow>
                             bindM (getM (c_pukRetries \<circ> f_cardInfo)) (\<lambda>retries.
                               if retries = 0 then pauseAndRestart SwapCard keyPUKRetries
                               else ret (Some e))))))
            | _ \<Rightarrow> again '''' (puk \<noteq> None)))))"

text \<open>\<open>authenticate\<close> with a PIN at hand; \<open>askPIN\<close> is its end.\<close>

definition verifyGiven :: "'w host \<Rightarrow> (string \<Rightarrow> (error, 'w) fcmd) \<Rightarrow> val \<Rightarrow> (error, 'w) fcmd" where
  "verifyGiven H askPIN pin =
     bindM (asString pin) (\<lambda>pin.
     bindM (tryCard H (TryPIN pin) (\<lambda>P. kc_VerifyPin (h_prims H) P pin)) (\<lambda>r.
       case r of
         Inr _ \<Rightarrow> thenM (setCardInfo (\<lambda>c. c\<lparr>c_pinRetries := MaxPINRetries\<rparr>)) (ret None)
       | Inl e \<Rightarrow>
           if IsSCardError (Some e) then ret (Some RestartError)
           else
             (case GetRetries (Some e) of
                (leftRetries, True) \<Rightarrow>
                  thenM (setCardInfo (\<lambda>c. c\<lparr>c_pinRetries := leftRetries\<rparr>))
                 (thenM (delParam keyPIN)
                 (askPIN keyPIN))
              | (_, False) \<Rightarrow> askPIN keyPIN)))"

primrec authenticate :: "nat \<Rightarrow> 'w host \<Rightarrow> (error, 'w) fcmd" where
  "authenticate 0 H = outOfFuel"
| "authenticate (Suc n) H =
     (let askPIN = (\<lambda>pinError.
        bindM (getM (c_pinRetries \<circ> f_cardInfo)) (\<lambda>retries.
          if retries = 0 then unblockPIN (Suc n) H
          else andThen (pauseAndWait EnterPIN pinError) (authenticate n H))) in
      bindM (getM (c_pinRetries \<circ> f_cardInfo)) (\<lambda>retries.
        if retries = 0 then unblockPIN (Suc n) H
        else
          bindM (param keyPIN) (\<lambda>pin.
            case pin of None \<Rightarrow> askPIN '''' | Some pin \<Rightarrow> verifyGiven H askPIN pin)))"

definition openSCAndAuthenticate :: "'w host \<Rightarrow> nat \<Rightarrow> nat \<Rightarrow> bool \<Rightarrow> (error, 'w) fcmd" where
  "openSCAndAuthenticate H m n giveup = andThen (openSC m H n giveup) (authenticate n H)"

end
