(* ===== verification/Flows.thy ===== *)
theory Flows
  imports FlowCommands
begin

text \<open>
  The rest of \<open>pkg/flow/commands.go\<close>, the flows of \<open>pkg/flow/flow.go\<close> and their run.
\<close>

section \<open>Commands of the open session\<close>

definition unpairCurrent :: "'w host \<Rightarrow> (error, 'w) fcmd" where
  "unpairCurrent H = bindM (onCard H (kc_UnpairCurrent (h_prims H))) (\<lambda>r. ret (restartOnSCard (errOf r)))"

definition unpair :: "'w host \<Rightarrow> int \<Rightarrow> (error, 'w) fcmd" where
  "unpair H idx =
     bindM (onCard H (\<lambda>P. kc_Unpair (h_prims H) P (of_int idx))) (\<lambda>r. ret (restartOnSCard (errOf r)))"

definition removeKey :: "'w host \<Rightarrow> (error, 'w) fcmd" where
  "removeKey H = bindM (onCard H (kc_RemoveKey (h_prims H))) (\<lambda>r. ret (restartOnSCard (errOf r)))"

definition metadataError :: "go_error \<Rightarrow> go_error" where
  "metadataError e =
     (if IsSCardError (Some e) then RestartError
      else
        (case e of
           ErrBadResponse sw m \<Rightarrow> if sw = 0x6d00 then ErrorString ErrorNoKeys else e
         | EOF \<Rightarrow> ErrorString ErrorNoData
         | _ \<Rightarrow> e))"

definition flow_getMetadata :: "'w host \<Rightarrow> (go_error + cardMetadata, 'w) fcmd" where
  "flow_getMetadata H =
     bindM (onCard H (kc_GetMetadata (h_prims H))) (\<lambda>r.
       case r of
         Inr m \<Rightarrow> ret (Inr (ToMetadata m))
       | Inl e \<Rightarrow> ret (Inl (metadataError e)))"

text \<open>The loop over the wallet paths.\<close>

fun walletComponents :: "val list \<Rightarrow> (go_error + uint32 list, 'w) fcmd" where
  "walletComponents [] = ret (Inr [])"
| "walletComponents (p # ps) =
     bindM (asString p) (\<lambda>path.
       if take (length WalletRoothPath) path \<noteq> WalletRoothPath
       then ret (Inl (ErrorString (''path must start with '' @ WalletRoothPath)))
       else
         (case Decode path of
            (_, components, Some e) \<Rightarrow> ret (Inl e)
          | (_, components, None) \<Rightarrow>
              if components = [] then panicM ''index out of range''
              else bindE (walletComponents ps) (\<lambda>cs. ret (Inr (last components # cs)))))"

primrec flow_storeMetadata :: "nat \<Rightarrow> 'w host \<Rightarrow> (error, 'w) fcmd" where
  "flow_storeMetadata 0 H = outOfFuel"
| "flow_storeMetadata (Suc n) H =
     bindM (param keyCardName) (\<lambda>cardName.
       case cardName of
         None \<Rightarrow> andThen (pauseAndWait EnterName ErrorStoreMeta) (flow_storeMetadata n H)
       | Some cardName \<Rightarrow>
           bindM (param keyWalletPaths) (\<lambda>w.
             case w of
               None \<Rightarrow> andThen (pauseAndWait EnterWallets ErrorStoreMeta) (flow_storeMetadata n H)
             | Some w \<Rightarrow>
                 bindM (asList w) (\<lambda>wallets.
                 bindM (walletComponents wallets) (\<lambda>r.
                   case r of
                     Inl e \<Rightarrow> ret (Some e)
                   | Inr paths \<Rightarrow>
                       bindM (asString cardName) (\<lambda>name.
                         case NewMetadata name paths of
                           Inl e \<Rightarrow> ret (Some e)
                         | Inr m \<Rightarrow>
                             bindM (onCard H (\<lambda>P. kc_StoreMetadata (h_prims H) P m)) (\<lambda>r.
                               ret (restartOnSCard (errOf r))))))))"

definition exportKeyExtended :: "'w host \<Rightarrow> string \<Rightarrow> byte \<Rightarrow> (go_error + keyPair, 'w) fcmd" where
  "exportKeyExtended H path p2 =
     bindM (onCard H (\<lambda>P. kc_ExportKey (h_prims H) P True (path = MasterPath) p2 path)) (\<lambda>r.
       ret (restartSum r))"

definition flow_exportKey :: "'w host \<Rightarrow> string \<Rightarrow> bool \<Rightarrow> (go_error + keyPair, 'w) fcmd" where
  "flow_exportKey H path onlyPublic =
     exportKeyExtended H path (if onlyPublic then P2ExportKeyPublicOnly else P2ExportKeyPrivateAndPublic)"

fun exportKeyList :: "'w host \<Rightarrow> bool \<Rightarrow> val list \<Rightarrow> (go_error + keyPair list, 'w) fcmd" where
  "exportKeyList H exportPrivate [] = ret (Inr [])"
| "exportKeyList H exportPrivate (p # ps) =
     bindM (asString p) (\<lambda>path.
     bindE (flow_exportKey H path exportPrivate) (\<lambda>key.
     bindE (exportKeyList H exportPrivate ps) (\<lambda>keys.
     ret (Inr (key # keys)))))"

primrec exportBIP44Key :: "nat \<Rightarrow> 'w host \<Rightarrow> (go_error + val, 'w) fcmd" where
  "exportBIP44Key 0 H = outOfFuel"
| "exportBIP44Key (Suc n) H =
     (let askPath = andThenE (pauseAndWait EnterPath ErrorExporting) (exportBIP44Key n H) in
      bindM (param keyBIP44Path) (\<lambda>path.
        case path of
          None \<Rightarrow> askPath
        | Some path \<Rightarrow>
            bindM (param keyExportPriv) (\<lambda>v.
            bindM (case v of None \<Rightarrow> ret True | Some v \<Rightarrow> bindM (asBool v) (\<lambda>b. ret (\<not> b))) (\<lambda>exportPrivate.
              case path of
                VStr pathStr \<Rightarrow>
                  bindE (flow_exportKey H pathStr exportPrivate) (\<lambda>key. ret (Inr (VKey key)))
              | VList paths \<Rightarrow>
                  bindE (exportKeyList H exportPrivate paths) (\<lambda>keys. ret (Inr (VKeys keys)))
              | _ \<Rightarrow> thenM (delParam keyBIP44Path) askPath))))"

definition mnemonicLength :: "val option \<Rightarrow> int" where
  "mnemonicLength v =
     (case v of Some (VInt t) \<Rightarrow> t | Some (VFloat t) \<Rightarrow> t | _ \<Rightarrow> DefMnemoLen)"

text \<open>Go's division rounds towards zero.\<close>

definition divideByThree :: "int \<Rightarrow> int" where
  "divideByThree n = (if n < 0 then - ((- n) div 3) else n div 3)"

primrec loadKeys :: "nat \<Rightarrow> 'w host \<Rightarrow> (error, 'w) fcmd" where
  "loadKeys 0 H = outOfFuel"
| "loadKeys (Suc n) H =
     bindM (param keyMnemonic) (\<lambda>mnemonic.
       case mnemonic of
         Some mnemonic \<Rightarrow>
           bindM (asString mnemonic) (\<lambda>mnemonic.
           bindM (onCard H (\<lambda>P. kc_LoadMnemonic (h_prims H) P mnemonic '''')) (\<lambda>r.
             case restartSum r of
               Inl e \<Rightarrow> ret (Some e)
             | Inr keyUID \<Rightarrow> thenM (setCardInfo (\<lambda>c. c\<lparr>c_keyUID := Btox keyUID\<rparr>)) (ret None)))
       | None \<Rightarrow>
           bindM (param keyMnemonicLen) (\<lambda>len.
           bindM (onCard H (\<lambda>P. kc_GenerateMnemonic (h_prims H) P (divideByThree (mnemonicLength len)))) (\<lambda>r.
             case restartSum r of
               Inl e \<Rightarrow> ret (Some e)
             | Inr indexes \<Rightarrow>
                 andThen (pauseAndWaitWithStatus EnterMnemonic ErrorLoading [keyMnemonicIdxs \<mapsto> VInts indexes])
                   (loadKeys n H))))"

primrec flow_changePIN :: "nat \<Rightarrow> 'w host \<Rightarrow> (error, 'w) fcmd" where
  "flow_changePIN 0 H = outOfFuel"
| "flow_changePIN (Suc n) H =
     bindM (param keyNewPIN) (\<lambda>newPIN.
       case newPIN of
         Some newPIN \<Rightarrow>
           bindM (asString newPIN) (\<lambda>pin.
           bindM (onCard H (\<lambda>P. kc_ChangePin (h_prims H) P pin)) (\<lambda>r. ret (restartOnSCard (errOf r))))
       | None \<Rightarrow> andThen (pauseAndWait EnterNewPIN ErrorChanging) (flow_changePIN n H))"

primrec flow_changePUK :: "nat \<Rightarrow> 'w host \<Rightarrow> (error, 'w) fcmd" where
  "flow_changePUK 0 H = outOfFuel"
| "flow_changePUK (Suc n) H =
     bindM (param keyNewPUK) (\<lambda>newPUK.
       case newPUK of
         Some newPUK \<Rightarrow>
           bindM (asString newPUK) (\<lambda>puk.
           bindM (onCard H (\<lambda>P. kc_ChangePuk (h_prims H) P puk)) (\<lambda>r. ret (restartOnSCard (errOf r))))
       | None \<Rightarrow> andThen (pauseAndWait EnterNewPUK ErrorChanging) (flow_changePUK n H))"

primrec flow_changePairing :: "nat \<Rightarrow> 'w host \<Rightarrow> (error, 'w) fcmd" where
  "flow_changePairing 0 H = outOfFuel"
| "flow_changePairing (Suc n) H =
     bindM (param keyNewPairing) (\<lambda>newPairing.
       case newPairing of
         Some newPairing \<Rightarrow>
           bindM (asString newPairing) (\<lambda>pass.
           bindM (onCard H (\<lambda>P. kc_ChangePairingPassword (h_prims H) P pass)) (\<lambda>r.
             ret (restartOnSCard (errOf r))))
       | None \<Rightarrow> andThen (pauseAndWait EnterNewPair ErrorChanging) (flow_changePairing n H))"

primrec flow_sign :: "nat \<Rightarrow> 'w host \<Rightarrow> (go_error + signature, 'w) fcmd" where
  "flow_sign 0 H = outOfFuel"
| "flow_sign (Suc n) H =
     bindM (param keyBIP44Path) (\<lambda>path.
       case path of
         None \<Rightarrow> andThenE (pauseAndWait EnterPath ErrorSigning) (flow_sign n H)
       | Some path \<Rightarrow>
           bindM (param keyTXHash) (\<lambda>hash.
           bindM (case hash of
                    None \<Rightarrow> ret None
                  | Some hash \<Rightarrow> bindM (asString hash) (\<lambda>h.
                      ret (case Xtob h of Inl _ \<Rightarrow> None | Inr raw \<Rightarrow> Some raw))) (\<lambda>rawHash.
             case rawHash of
               None \<Rightarrow> andThenE (pauseAndWait EnterTXHash ErrorSigning) (flow_sign n H)
             | Some rawHash \<Rightarrow>
                 bindM (asString path) (\<lambda>path.
                 bindM (onCard H (\<lambda>P. kc_SignWithPath (h_prims H) P rawHash path)) (\<lambda>r.
                   case restartSum r of
                     Inl e \<Rightarrow> ret (Inl e)
                   | Inr signature \<Rightarrow> ret (Inr (ToSignature signature)))))))"

section \<open>The flows\<close>

text \<open>\<open>FlowStatus{KeyUID: f.cardInfo.keyUID, InstanceUID: f.cardInfo.instanceUID}\<close>.\<close>

definition cardIds :: "(params, 'w) fcmd" where
  "cardIds = getM (\<lambda>f. [keyKeyUID \<mapsto> VStr (c_keyUID (f_cardInfo f)),
     keyInstanceUID \<mapsto> VStr (c_instanceUID (f_cardInfo f))])"

definition idsAndSlots :: "(params, 'w) fcmd" where
  "idsAndSlots = bindM cardIds (\<lambda>ids. bindM (getM (c_freeSlots \<circ> f_cardInfo)) (\<lambda>n.
     ret (ids(keyFreeSlots \<mapsto> VInt n))))"

definition okIds :: "(go_error + params, 'w) fcmd" where
  "okIds = bindM cardIds (\<lambda>ids. ret (Inr ids))"

definition getAppInfoFlow :: "'w host \<Rightarrow> nat \<Rightarrow> nat \<Rightarrow> (go_error + params, 'w) fcmd" where
  "getAppInfoFlow H m n =
     bindM (onCard H (\<lambda>_. kc_ApplicationInfo)) (\<lambda>info.
     let res = [ErrorKey \<mapsto> VStr ErrorOK, keyAppInfo \<mapsto> VAppInfo (ToAppInfo info)] in
     bindM (openSCAndAuthenticate H m n True) (\<lambda>err.
       if err = None then
         bindM (getM f_cardInfo) (\<lambda>c.
           ret (Inr (res(keyPaired \<mapsto> VBool True, keyPINRetries \<mapsto> VInt (c_pinRetries c),
             keyPUKRetries \<mapsto> VInt (c_pukRetries c)))))
       else if err = Some GiveupError then ret (Inr (res(keyPaired \<mapsto> VBool False)))
       else ret (Inl (the err))))"

definition exportKeysFlow :: "'w host \<Rightarrow> nat \<Rightarrow> nat \<Rightarrow> bool \<Rightarrow> (go_error + params, 'w) fcmd" where
  "exportKeysFlow H m n recover =
     andThenE requireKeys
    (andThenE (openSCAndAuthenticate H m n False)
    (bindM cardIds (\<lambda>result.
     bindE (flow_exportKey H EncryptionPath False) (\<lambda>encKey.
     bindE (flow_exportKey H WhisperPath False) (\<lambda>whisperKey.
     let result = result(keyEncKey \<mapsto> VKey encKey, keyWhisperKey \<mapsto> VKey whisperKey) in
     if \<not> recover then ret (Inr result)
     else
       bindE (flow_exportKey H Eip1581Path True) (\<lambda>eip1581Key.
       bindM (getM (c_version \<circ> f_cardInfo)) (\<lambda>version.
       let exportP2 = (if version < 0x0310 then P2ExportKeyPublicOnly else P2ExportKeyExtendedPublic) in
       bindE (exportKeyExtended H WalletRoothPath exportP2) (\<lambda>walletRootKey.
       bindE (flow_exportKey H WalletPath True) (\<lambda>walletKey.
       bindE (flow_exportKey H MasterPath True) (\<lambda>masterKey.
       ret (Inr (result(keyEIP1581Key \<mapsto> VKey eip1581Key, keyWalleRootKey \<mapsto> VKey walletRootKey,
         keyWalletKey \<mapsto> VKey walletKey, keyMasterKey \<mapsto> VKey masterKey)))))))))))))"

text \<open>
  \<open>masterKey.Address\<close> is read before the error is looked at: with an error the pointer is
  nil.
\<close>

definition masterAddress :: "'w host \<Rightarrow> params \<Rightarrow> (params, 'w) fcmd" where
  "masterAddress H result =
     bindM (flag keyExportMaster) (\<lambda>exportMaster.
       if \<not> exportMaster then ret result
       else
         bindM (flow_exportKey H MasterPath True) (\<lambda>r.
           case r of
             Inl _ \<Rightarrow> panicM ''nil pointer dereference''
           | Inr masterKey \<Rightarrow> ret (result(keyMasterAddr \<mapsto> VStr (kp_Address masterKey)))))"

definition exportPublicFlow :: "'w host \<Rightarrow> nat \<Rightarrow> nat \<Rightarrow> (go_error + params, 'w) fcmd" where
  "exportPublicFlow H m n =
     andThenE requireKeys
    (andThenE (openSCAndAuthenticate H m n False)
    (bindM cardIds (\<lambda>result.
     bindM (masterAddress H result) (\<lambda>result.
     bindE (exportBIP44Key n H) (\<lambda>key.
     ret (Inr (result(keyExportedKey \<mapsto> key))))))))"

definition loadKeysFlow :: "'w host \<Rightarrow> nat \<Rightarrow> nat \<Rightarrow> (go_error + params, 'w) fcmd" where
  "loadKeysFlow H m n =
     andThenE requireNoKeys
    (andThenE (openSCAndAuthenticate H m n False)
    (andThenE (loadKeys n H) okIds))"

definition signFlow :: "'w host \<Rightarrow> nat \<Rightarrow> nat \<Rightarrow> (go_error + params, 'w) fcmd" where
  "signFlow H m n =
     andThenE requireKeys
    (andThenE (openSCAndAuthenticate H m n False)
    (bindE (flow_sign n H) (\<lambda>signature.
     bindM cardIds (\<lambda>ids. ret (Inr (ids(keyTXSignature \<mapsto> VSignature signature)))))))"

definition changePINFlow :: "'w host \<Rightarrow> nat \<Rightarrow> nat \<Rightarrow> (go_error + params, 'w) fcmd" where
  "changePINFlow H m n =
     andThenE (openSCAndAuthenticate H m n False) (andThenE (flow_changePIN n H) okIds)"

definition changePUKFlow :: "'w host \<Rightarrow> nat \<Rightarrow> nat \<Rightarrow> (go_error + params, 'w) fcmd" where
  "changePUKFlow H m n =
     andThenE (openSCAndAuthenticate H m n False) (andThenE (flow_changePUK n H) okIds)"

definition changePairingFlow :: "'w host \<Rightarrow> nat \<Rightarrow> nat \<Rightarrow> (go_error + params, 'w) fcmd" where
  "changePairingFlow H m n =
     andThenE (openSCAndAuthenticate H m n False) (andThenE (flow_changePairing n H) okIds)"

definition unpairThisFlow :: "'w host \<Rightarrow> nat \<Rightarrow> nat \<Rightarrow> (go_error + params, 'w) fcmd" where
  "unpairThisFlow H m n =
     andThenE (openSCAndAuthenticate H m n True)
    (andThenE (unpairCurrent H)
    (thenM (setCardInfo (\<lambda>c. c\<lparr>c_freeSlots := c_freeSlots c + 1\<rparr>))
    (bindM idsAndSlots (\<lambda>res. ret (Inr res)))))"

fun unpairAll :: "'w host \<Rightarrow> int list \<Rightarrow> (error, 'w) fcmd" where
  "unpairAll H [] = ret None"
| "unpairAll H (i # is') =
     bindM (onCard H (\<lambda>_. kc_PairingInfo)) (\<lambda>info.
       case info of
         None \<Rightarrow> panicM ''nil pointer dereference''
       | Some info \<Rightarrow>
           if i = pi_Index info then unpairAll H is'
           else andThen (unpair H i) (unpairAll H is'))"

definition unpairOthersFlow :: "'w host \<Rightarrow> nat \<Rightarrow> nat \<Rightarrow> (go_error + params, 'w) fcmd" where
  "unpairOthersFlow H m n =
     andThenE (openSCAndAuthenticate H m n True)
    (andThenE (unpairAll H [0..MaxFreeSlots - 1])
    (bindM idsAndSlots (\<lambda>res. ret (Inr res))))"

definition deleteUnpairFlow :: "'w host \<Rightarrow> nat \<Rightarrow> nat \<Rightarrow> (go_error + params, 'w) fcmd" where
  "deleteUnpairFlow H m n =
     andThenE (openSCAndAuthenticate H m n True)
    (andThenE (removeKey H)
    (thenM (setCardInfo (\<lambda>c. c\<lparr>c_keyUID := ''''\<rparr>))
    (andThenE (unpairCurrent H)
    (thenM (setCardInfo (\<lambda>c. c\<lparr>c_freeSlots := c_freeSlots c + 1\<rparr>))
    (bindM idsAndSlots (\<lambda>res. ret (Inr res)))))))"

definition storeMetadataFlow :: "'w host \<Rightarrow> nat \<Rightarrow> nat \<Rightarrow> (go_error + params, 'w) fcmd" where
  "storeMetadataFlow H m n =
     andThenE (openSCAndAuthenticate H m n False) (andThenE (flow_storeMetadata n H) okIds)"

text \<open>The loop that resolves the addresses of the wallets.\<close>

fun resolveWallets :: "'w host \<Rightarrow> wallet list \<Rightarrow> (go_error + wallet list, 'w) fcmd" where
  "resolveWallets H [] = ret (Inr [])"
| "resolveWallets H (w # ws) =
     bindE (flow_exportKey H (w_Path w) True) (\<lambda>k.
     bindE (resolveWallets H ws) (\<lambda>ws.
     ret (Inr (w\<lparr>w_Address := kp_Address k, w_PublicKey := kp_PublicKey k\<rparr> # ws))))"

definition getMetadataFlow :: "'w host \<Rightarrow> nat \<Rightarrow> nat \<Rightarrow> (go_error + params, 'w) fcmd" where
  "getMetadataFlow H m n =
     bindE (flow_getMetadata H) (\<lambda>md.
     bindM cardIds (\<lambda>result.
     bindM (flag keyResolveAddr) (\<lambda>resolveAddr.
       if \<not> resolveAddr then ret (Inr (result(keyCardMeta \<mapsto> VMetadata md)))
       else
         bindM (getM (c_keyUID \<circ> f_cardInfo)) (\<lambda>keyUID.
           if keyUID = '''' then
             ret (Inr (result(ErrorKey \<mapsto> VStr ErrorNoKeys, keyCardMeta \<mapsto> VMetadata md)))
           else
             andThenE (openSCAndAuthenticate H m n False)
            (bindM (masterAddress H result) (\<lambda>result.
             bindE (resolveWallets H (cm_Wallets md)) (\<lambda>wallets.
             ret (Inr (result(keyCardMeta \<mapsto> VMetadata (md\<lparr>cm_Wallets := wallets\<rparr>)))))))))))"

fun flowOf :: "'w host \<Rightarrow> nat \<Rightarrow> nat \<Rightarrow> flowType \<Rightarrow> (go_error + params, 'w) fcmd" where
  "flowOf H m n FlowGetAppInfo = getAppInfoFlow H m n"
| "flowOf H m n FlowRecoverAccount = exportKeysFlow H m n True"
| "flowOf H m n FlowLogin = exportKeysFlow H m n False"
| "flowOf H m n FlowExportPublic = exportPublicFlow H m n"
| "flowOf H m n FlowLoadAccount = loadKeysFlow H m n"
| "flowOf H m n FlowSign = signFlow H m n"
| "flowOf H m n FlowChangePIN = changePINFlow H m n"
| "flowOf H m n FlowChangePUK = changePUKFlow H m n"
| "flowOf H m n FlowChangePairing = changePairingFlow H m n"
| "flowOf H m n FlowUnpairThis = unpairThisFlow H m n"
| "flowOf H m n FlowUnpairOthers = unpairOthersFlow H m n"
| "flowOf H m n FlowDeleteAccountAndUnpair = deleteUnpairFlow H m n"
| "flowOf H m n FlowStoreMetadata = storeMetadataFlow H m n"
| "flowOf H m n FlowGetMetadata = getMetadataFlow H m n"
| "flowOf H m n (FlowUnknown _) = ret (Inl (ErrorString ErrorUnknownFlow))"

section \<open>Running a flow\<close>

text \<open>What \<open>connectedFlow\<close> does with the card, before \<open>kc\<close> is closed.\<close>

definition useKeycard :: "'w host \<Rightarrow> nat \<Rightarrow> nat \<Rightarrow> (go_error + params, 'w) fcmd" where
  "useKeycard H m n =
     bindM (flag keyFactoryReset) (\<lambda>factoryReset.
     andThenE (if factoryReset then flow_factoryReset H else ret None)
    (andThenE (selectKeycard H)
    (bindM (getM f_flowType) (flowOf H m n))))"

definition connectedFlow :: "'w host \<Rightarrow> nat \<Rightarrow> nat \<Rightarrow> (go_error + params, 'w) fcmd" where
  "connectedFlow H m n =
     bindE (flow_connect H) (\<lambda>kc.
     thenM (setContext (Some kc))
    (deferM (useKeycard H m n) (\<lambda>_. thenM (closeKeycard H (Some kc)) (setContext None))))"

definition freshCardInfo :: cardStatus where
  "freshCardInfo = \<lparr>c_instanceUID = '''', c_keyUID = '''', c_freeSlots = -1, c_pinRetries = -1,
     c_pukRetries = -1, c_version = 0\<rparr>"

definition errorResult :: "cardStatus \<Rightarrow> go_error \<Rightarrow> params" where
  "errorResult c e =
     (let result = [ErrorKey \<mapsto> VStr (error_text e)] in
      if c_freeSlots c \<noteq> -1
      then result(keyInstanceUID \<mapsto> VStr (c_instanceUID c), keyKeyUID \<mapsto> VStr (c_keyUID c))
      else result)"

text \<open>The loop of \<open>runFlow\<close>: again after every restart.\<close>

primrec runAgain :: "nat \<Rightarrow> 'w host \<Rightarrow> nat \<Rightarrow> nat \<Rightarrow> (params, 'w) fcmd" where
  "runAgain 0 H m n = outOfFuel"
| "runAgain (Suc r) H m n =
     thenM (setCardInfo (\<lambda>_. freshCardInfo))
    (bindM (connectedFlow H m n) (\<lambda>result.
       case result of
         Inr status \<Rightarrow> ret status
       | Inl e \<Rightarrow>
           if e = RestartError then runAgain r H m n
           else bindM (getM f_cardInfo) (\<lambda>c. ret (errorResult c e))))"

text \<open>\<open>m\<close> bounds the pairings in a row, \<open>n\<close> the rounds with a pause and the restarts.\<close>

definition runFlow :: "'w host \<Rightarrow> nat \<Rightarrow> nat \<Rightarrow> (unit, 'w) fcmd" where
  "runFlow H m n =
     bindM (runAgain n H m n) (\<lambda>result.
     thenM poll
    (bindM (getM f_state) (\<lambda>st.
     thenM (if st \<noteq> Cancelling then thenM (emit (Signal FlowResult result)) poll else ret ())
    (modifyM (\<lambda>f. f\<lparr>f_params := None, f_state := Idle, f_goroutines := f_goroutines f - 1\<rparr>)))))"

definition NewFlow :: "'w host \<Rightarrow> string \<Rightarrow> (go_error + 'w flow, 'w) gocmd" where
  "NewFlow H storageDir =
     bindE (NewStore H storageDir) (\<lambda>p.
     bindM (getM (\<lambda>w. w)) (\<lambda>w.
     ret (Inr \<lparr>f_flowType = FlowGetAppInfo, f_state = Idle, f_senders = 0, f_pairings = p, f_params = None,
       f_cardInfo = \<lparr>c_instanceUID = '''', c_keyUID = '''', c_freeSlots = 0, c_pinRetries = 0,
         c_pukRetries = 0, c_version = 0\<rparr>,
       f_knownCA = [], f_kc = None, f_goroutines = 0, f_script = [], f_log = [], f_world = w\<rparr>)))"

definition NewFlowWithCA :: "'w host \<Rightarrow> string \<Rightarrow> string list \<Rightarrow> (go_error + 'w flow, 'w) gocmd" where
  "NewFlowWithCA H storageDir knownCA =
     bindE (NewFlow H storageDir) (\<lambda>f. ret (Inr (f\<lparr>f_knownCA := knownCA\<rparr>)))"

end
