(* ===== verification/SessionState.thy ===== *)
theory SessionState
  imports CardTypes
begin

text \<open>
  \<open>internal/keycard\_context\_v2\_state.go\<close>: the states of the session, the status that is
  published, and the errors that can be simulated.
\<close>

datatype sessionState =
    UnknownReaderState
  | NoPCSC
  | InternalError
  | WaitingForReader
  | WaitingForCard
  | ConnectingCard
  | ConnectionError
  | NotKeycard
  | EmptyKeycard
  | NoAvailablePairingSlots
  | PairingError
  | BlockedPIN
  | BlockedPUK
  | Ready
  | Authorized
  | FactoryResetting

record status =
  State :: sessionState
  AppInfo :: "applicationInfoV2 option"
  AppStatus :: "applicationStatus option"
  Metadata :: "cardMetadata option"

definition Reset :: "sessionState \<Rightarrow> status \<Rightarrow> status" where
  "Reset newState s = s\<lparr>State := newState, AppInfo := None, AppStatus := None, Metadata := None\<rparr>"

definition NewStatus :: status where
  "NewStatus = Reset UnknownReaderState
     \<lparr>State = UnknownReaderState, AppInfo = None, AppStatus = None, Metadata = None\<rparr>"

definition KeycardSupportsExtendedKeys :: "status \<Rightarrow> bool" where
  "KeycardSupportsExtendedKeys s =
     (case AppInfo s of None \<Rightarrow> False | Some i \<Rightarrow> v2_versionRaw i \<ge> 0x0310)"

definition simulatedErrors :: "sentinel list" where
  "simulatedErrors = [SimulatedNoPCSC, SimulatedListReadersError, SimulatedGetStatusChangeError,
     SimulatedCardConnectError, SimulatedSelectAppletError, SimulatedOpenSecureChannelError]"

text \<open>The lookup in the map from texts to errors; a missing key gives nil.\<close>

definition GetSimulatedError :: "string \<Rightarrow> error" where
  "GetSimulatedError message =
     map_of (map (\<lambda>s. (sentinel_text s, Sentinel s)) simulatedErrors) message"

text \<open>
  What a state promises of the status published with it: the parts that are present, and
  the counts of attempts.  The first four are the states in which a card and its status
  have been read.
\<close>

definition session_open :: "sessionState \<Rightarrow> bool" where
  "session_open st \<longleftrightarrow> st \<in> {Ready, Authorized, BlockedPIN, BlockedPUK}"

definition status_ok :: "status \<Rightarrow> bool" where
  "status_ok s \<longleftrightarrow>
     (session_open (State s) \<longrightarrow> AppInfo s \<noteq> None \<and> AppStatus s \<noteq> None) \<and>
     (State s \<in> {Ready, Authorized} \<longrightarrow>
        (\<forall>a. AppStatus s = Some a \<longrightarrow> RemainingAttemptsPIN a \<noteq> 0 \<and> RemainingAttemptsPUK a \<noteq> 0)) \<and>
     (State s = BlockedPUK \<longrightarrow> (\<forall>a. AppStatus s = Some a \<longrightarrow> RemainingAttemptsPUK a = 0)) \<and>
     (State s = BlockedPIN \<longrightarrow> (\<forall>a. AppStatus s = Some a \<longrightarrow>
        RemainingAttemptsPIN a = 0 \<and> RemainingAttemptsPUK a \<noteq> 0)) \<and>
     (State s \<in> {UnknownReaderState, WaitingForReader, WaitingForCard, FactoryResetting} \<longrightarrow>
        AppInfo s = None \<and> AppStatus s = None \<and> Metadata s = None)"

lemma status_ok_Reset: "st \<notin> {Ready, Authorized, BlockedPIN, BlockedPUK} \<Longrightarrow> status_ok (Reset st s)"
  by (simp add: status_ok_def Reset_def session_open_def)

lemma status_ok_NewStatus: "status_ok NewStatus"
  by (simp add: NewStatus_def status_ok_Reset)

lemma GetSimulatedError_text:
  "GetSimulatedError m = Some e \<longleftrightarrow> (\<exists>s \<in> set simulatedErrors. m = sentinel_text s \<and> e = Sentinel s)"
proof -
  let ?kvs = "map (\<lambda>s. (sentinel_text s, Sentinel s)) simulatedErrors"
  have "distinct (map fst ?kvs)" by (simp add: simulatedErrors_def)
  from map_of_eq_Some_iff [OF this, of m e] show ?thesis
    unfolding GetSimulatedError_def by auto
qed

end
