(* ===== verification/SessionContext.thy ===== *)
theory SessionContext
  imports PairingStore SessionState
begin

text \<open>
  \<open>internal/keycard\_context\_v2.go\<close>: the session context.

  The state is the record \<open>ctx\<close>.  Go's \<open>kc.card\<close> and what the goroutine that talks to the
  card holds are in its part \<open>link\<close>, on which the command set runs; \<open>kc.cmdSet\<close> and \<open>kc.c\<close>
  are set and cleared together, so \<open>k\_cmdSet\<close> stands for both.  The goroutines of the
  detection are the list \<open>k\_monitors\<close>, each with the place it is at: about to look for a
  card, waiting for a change of the readers, or watching the reader in use.  A step of a
  goroutine or a command of the client is atomic, but for the two places where a
  goroutine waits for another: the mutex \<open>cmdSetMutex\<close>, and the send on the unbuffered
  channel \<open>forceScanC\<close>, which only a goroutine that watches receives.  A command that has
  to wait there for ever ends in the fault \<open>Blocked\<close>, with the state it leaves behind.
\<close>

record 'w link =
  l_card :: "nat option"
  l_running :: bool   \<comment> \<open>\<open>cardCommunicationRoutine\<close> serves requests: the context is not done\<close>
  l_queue :: nat      \<comment> \<open>requests left in the buffered \<open>transmitChannel\<close>\<close>
  l_world :: 'w

datatype monitor =
    Detecting
  | WaitingChange readersStates
  | Watching readerState

datatype scanChannel = ScanOpen | ScanClosed

record 'w ctx =
  k_link :: "'w link"
  k_cmdSet :: "commandSet option"
  k_cardCtx :: "nat option"
  k_shutdown :: bool                   \<comment> \<open>the function \<open>shutdown\<close> is set\<close>
  k_forceScanC :: "scanChannel option" \<comment> \<open>\<open>None\<close>: nil\<close>
  k_pairings :: store
  k_status :: status
  k_mutex :: bool                      \<comment> \<open>\<open>cmdSetMutex\<close> is held\<close>
  k_simulatedError :: error
  k_monitors :: "monitor list"
  k_signals :: "status list"           \<comment> \<open>the \<open>status-changed\<close> signals sent\<close>

type_synonym ('a, 'w) kcmd = "('a, 'w ctx) gocmd"

section \<open>Access to the parts of the state\<close>

definition onWorld :: "('a, 'w) gocmd \<Rightarrow> ('a, 'w link) gocmd" where
  "onWorld m = zoom l_world (\<lambda>w l. l\<lparr>l_world := w\<rparr>) m"

definition kWorld :: "('a, 'w) gocmd \<Rightarrow> ('a, 'w) kcmd" where
  "kWorld m = zoom k_link (\<lambda>l k. k\<lparr>k_link := l\<rparr>) (onWorld m)"

definition setState :: "sessionState \<Rightarrow> (unit, 'w) kcmd" where
  "setState st = modifyM (\<lambda>k. k\<lparr>k_status := (k_status k)\<lparr>State := st\<rparr>\<rparr>)"

definition resetStatus :: "sessionState \<Rightarrow> (unit, 'w) kcmd" where
  "resetStatus st = modifyM (\<lambda>k. k\<lparr>k_status := Reset st (k_status k)\<rparr>)"

definition setAppInfo :: "applicationInfoV2 option \<Rightarrow> (unit, 'w) kcmd" where
  "setAppInfo i = modifyM (\<lambda>k. k\<lparr>k_status := (k_status k)\<lparr>AppInfo := i\<rparr>\<rparr>)"

definition setAppStatus :: "applicationStatus option \<Rightarrow> (unit, 'w) kcmd" where
  "setAppStatus i = modifyM (\<lambda>k. k\<lparr>k_status := (k_status k)\<lparr>AppStatus := i\<rparr>\<rparr>)"

definition setMetadata :: "cardMetadata option \<Rightarrow> (unit, 'w) kcmd" where
  "setMetadata i = modifyM (\<lambda>k. k\<lparr>k_status := (k_status k)\<lparr>Metadata := i\<rparr>\<rparr>)"

definition getState :: "(sessionState, 'w) kcmd" where
  "getState = getM (State \<circ> k_status)"

definition publishStatus :: "(unit, 'w) kcmd" where
  "publishStatus = modifyM (\<lambda>k. k\<lparr>k_signals := k_signals k @ [k_status k]\<rparr>)"

section \<open>Talking to the card\<close>

text \<open>
  \<open>Transmit\<close> puts a request into the channel, which holds ten, and waits for the answer or
  the end of the context.  While the routine runs it takes the request and passes it to
  the card; afterwards the request stays in the channel and the call returns an error,
  unless the channel is full.
\<close>

definition serveRequest :: "'w host \<Rightarrow> bytes \<Rightarrow> (go_error + bytes, 'w link) gocmd" where
  "serveRequest H apdu =
     bindM (getM l_card) (\<lambda>card.
       case card of
         None \<Rightarrow> panicM ''nil pointer dereference''
       | Some handle \<Rightarrow> onWorld (worldM (h_CardTransmit H handle apdu)))"

definition Transmit :: "'w host \<Rightarrow> bytes \<Rightarrow> (go_error + bytes, 'w link) gocmd" where
  "Transmit H apdu =
     bindM (getM (\<lambda>l. l)) (\<lambda>l.
       if l_running l then serveRequest H apdu
       else if l_queue l \<ge> 10 then blockM ''send on a full channel''
       else thenM (modifyM (\<lambda>l. l\<lparr>l_queue := l_queue l + 1\<rparr>))
              (ret (Inl (ErrorString ''transmit context done''))))"

definition kport :: "'w host \<Rightarrow> 'w link port" where
  "kport H = \<lparr>transmit = Transmit H,
     randRead = (\<lambda>n. onWorld (worldM (h_RandRead H n))),
     ecGenerateKey = onWorld (worldM (h_GenerateKey H))\<rparr>"

text \<open>An operation of the command set on \<open>kc.cmdSet\<close>; a nil pointer panics.\<close>

definition withCmdSet :: "('a, commandSet \<times> 'w link) gocmd \<Rightarrow> ('a, 'w) kcmd" where
  "withCmdSet m = (\<lambda>k.
     case k_cmdSet k of
       None \<Rightarrow> Fault (Panicked ''nil pointer dereference'') k
     | Some cs \<Rightarrow>
         (case m (cs, k_link k) of
            Ret x (cs', l) \<Rightarrow> Ret x (k\<lparr>k_cmdSet := Some cs', k_link := l\<rparr>)
          | Fault e (cs', l) \<Rightarrow> Fault e (k\<lparr>k_cmdSet := Some cs', k_link := l\<rparr>)))"

definition lockM :: "(unit, 'w) kcmd" where
  "lockM = bindM (getM k_mutex) (\<lambda>held.
     if held then blockM ''lock of a held mutex'' else modifyM (\<lambda>k. k\<lparr>k_mutex := True\<rparr>))"

definition unlockM :: "(unit, 'w) kcmd" where
  "unlockM = modifyM (\<lambda>k. k\<lparr>k_mutex := False\<rparr>)"

text \<open>\<open>kc.cmdSetMutex.Lock(); defer kc.cmdSetMutex.Unlock()\<close>, and the rest of the function.\<close>

definition locked :: "('a, 'w) kcmd \<Rightarrow> ('a, 'w) kcmd" where
  "locked m = thenM lockM (deferM m (\<lambda>_. unlockM))"

definition resetCardConnection :: "'w host \<Rightarrow> (unit, 'w) kcmd" where
  "resetCardConnection H =
     bindM (getM (l_card \<circ> k_link)) (\<lambda>handle.
     thenM (case handle of
              None \<Rightarrow> ret ()
            | Some c \<Rightarrow> bindM (kWorld (worldM (h_Disconnect H c))) (\<lambda>_. ret ()))
       (modifyM (\<lambda>k. k\<lparr>k_cmdSet := None, k_link := (k_link k)\<lparr>l_card := None\<rparr>\<rparr>)))"

text \<open>
  \<open>forceScan\<close> sends on \<open>forceScanC\<close>.  On a nil channel, or with nobody to receive, the send
  waits for ever; on a closed channel it panics.  The goroutine that receives it stops
  watching and starts the detection anew.
\<close>

fun takeWatcher :: "monitor list \<Rightarrow> monitor list option" where
  "takeWatcher [] = None"
| "takeWatcher (Watching r # ms) = Some (Detecting # ms)"
| "takeWatcher (m # ms) = map_option (\<lambda>ms. m # ms) (takeWatcher ms)"

definition forceScan :: "(unit, 'w) kcmd" where
  "forceScan =
     bindM (getM (\<lambda>k. (k_forceScanC k, takeWatcher (k_monitors k)))) (\<lambda>(c, ms).
       case c of
         None \<Rightarrow> blockM ''send on a nil channel''
       | Some ScanClosed \<Rightarrow> panicM ''send on closed channel''
       | Some ScanOpen \<Rightarrow>
           (case ms of
              None \<Rightarrow> blockM ''send nobody receives''
            | Some ms \<Rightarrow> modifyM (\<lambda>k. k\<lparr>k_monitors := ms\<rparr>)))"

section \<open>Guards and errors\<close>

definition keycardConnected :: "'w ctx \<Rightarrow> bool" where
  "keycardConnected k \<longleftrightarrow> k_cmdSet k \<noteq> None"

definition keycardInitialized :: "'w ctx \<Rightarrow> error" where
  "keycardInitialized k =
     (if \<not> keycardConnected k then Some (Sentinel ErrKeycardNotConnected)
      else if State (k_status k) = EmptyKeycard then Some (Sentinel ErrKeycardNotInitialized)
      else None)"

definition keycardReady :: "'w ctx \<Rightarrow> error" where
  "keycardReady k =
     (case keycardInitialized k of
        Some e \<Rightarrow> Some e
      | None \<Rightarrow>
          if State (k_status k) \<noteq> Ready \<and> State (k_status k) \<noteq> Authorized
          then Some (Sentinel ErrKeycardNotReady) else None)"

definition keycardAuthorized :: "'w ctx \<Rightarrow> error" where
  "keycardAuthorized k =
     (case keycardInitialized k of
        Some e \<Rightarrow> Some e
      | None \<Rightarrow>
          if State (k_status k) \<noteq> Authorized then Some (Sentinel ErrKeycardNotAuthorized) else None)"

text \<open>\<open>kc.status.AppStatus.KeyInitialized\<close>: a nil pointer panics.\<close>

definition keycardHasKeys :: "(error, 'w) kcmd" where
  "keycardHasKeys =
     bindM (getM (AppStatus \<circ> k_status)) (\<lambda>a.
       case a of
         None \<Rightarrow> panicM ''nil pointer dereference''
       | Some a \<Rightarrow> ret (if \<not> KeyInitialized a then Some (Sentinel ErrKeycardNoKeys) else None))"

text \<open>\<open>if err := guard(); err != nil { return err }\<close> in its three result types.\<close>

definition guardErr :: "('w ctx \<Rightarrow> error) \<Rightarrow> (error, 'w) kcmd \<Rightarrow> (error, 'w) kcmd" where
  "guardErr g m = bindM (getM g) (\<lambda>err. case err of Some e \<Rightarrow> ret (Some e) | None \<Rightarrow> m)"

definition guardSum :: "('w ctx \<Rightarrow> error) \<Rightarrow> (go_error + 'a, 'w) kcmd \<Rightarrow> (go_error + 'a, 'w) kcmd" where
  "guardSum g m = bindM (getM g) (\<lambda>err. case err of Some e \<Rightarrow> ret (Inl e) | None \<Rightarrow> m)"

definition checkSCardError :: "'w host \<Rightarrow> error \<Rightarrow> (error, 'w) kcmd" where
  "checkSCardError H err =
     (case err of
        None \<Rightarrow> ret None
      | Some e \<Rightarrow>
          if IsSCardError (Some e)
          then thenM (resetCardConnection H) (thenM forceScan (ret (Some e)))
          else ret (Some e))"

definition checkSum :: "'w host \<Rightarrow> go_error + 'a \<Rightarrow> (go_error + 'a, 'w) kcmd" where
  "checkSum H r =
     (case r of
        Inr x \<Rightarrow> ret (Inr x)
      | Inl e \<Rightarrow> thenM (checkSCardError H (Some e)) (ret (Inl e)))"

definition simulateError :: "'w host \<Rightarrow> error \<Rightarrow> sentinel \<Rightarrow> (error, 'w) kcmd" where
  "simulateError H currentError errorToSimulate =
     bindM (getM k_simulatedError) (\<lambda>sim.
       if \<not> errors_Is sim (Sentinel errorToSimulate) then ret currentError
       else thenM (if errorToSimulate = SimulatedCardConnectError then resetCardConnection H else ret ())
              (ret (Some (Sentinel errorToSimulate))))"

definition SimulateError :: "error \<Rightarrow> (error, 'w) kcmd" where
  "SimulateError err =
     (if (case err of None \<Rightarrow> False | Some e \<Rightarrow> GetSimulatedError (error_text e) = None)
      then ret (Some (ErrorString ''unknown error to simulate''))
      else thenM (modifyM (\<lambda>k. k\<lparr>k_simulatedError := err\<rparr>)) (ret None))"

section \<open>Reading the card\<close>

definition selectApplet :: "'w host \<Rightarrow> (go_error + applicationInfoV2 option, 'w) kcmd" where
  "selectApplet H =
     locked (bindE (withCmdSet (kc_SelectApplet (h_prims H) (kport H))) (\<lambda>info.
       ret (Inr (ToAppInfoV2 info))))"

definition blockedState :: "appStatus \<Rightarrow> sessionState" where
  "blockedState s =
     (let st = (if as_PinRetryCount s = 0 then BlockedPIN else Ready) in
      if as_PUKRetryCount s = 0 then BlockedPUK else st)"

definition updateApplicationStatus :: "'w host \<Rightarrow> (error, 'w) kcmd" where
  "updateApplicationStatus H =
     guardErr keycardInitialized
       (locked (bindM (withCmdSet (cs_GetStatusApplication (h_prims H) (kport H))) (\<lambda>r.
         case r of
           Inl e \<Rightarrow> thenM (setAppStatus None) (thenM (setState ConnectionError) (ret (Some e)))
         | Inr appStatus \<Rightarrow>
             thenM (setAppStatus (ToAppStatus (Some appStatus)))
               (thenM (setState (blockedState appStatus)) (ret None)))))"

definition GetMetadata :: "'w host \<Rightarrow> (go_error + cardMetadata option, 'w) kcmd" where
  "GetMetadata H =
     guardSum keycardInitialized
       (locked (bindM (withCmdSet (cs_GetData (h_prims H) (kport H) P1StoreDataPublic)) (\<lambda>r.
         case r of
           Inl e \<Rightarrow> checkSum H (Inl e)
         | Inr data \<Rightarrow>
             if data = [] then ret (Inr None)
             else (case ParseMetadata data of
                     None \<Rightarrow> blockM ''metadata loop''
                   | Some (Inl e) \<Rightarrow> ret (Inl (Wrapped ''failed to parse metadata'' e))
                   | Some (Inr md) \<Rightarrow> ret (Inr (Some (ToMetadata md)))))))"

definition updateMetadata :: "'w host \<Rightarrow> (error, 'w) kcmd" where
  "updateMetadata H =
     bindM (GetMetadata H) (\<lambda>r.
       case r of
         Inl e \<Rightarrow> thenM (setState ConnectionError) (ret (Some e))
       | Inr md \<Rightarrow> thenM (setMetadata md) (ret None))"

definition GetStatus :: "(status, 'w) kcmd" where
  "GetStatus = getM k_status"

section \<open>The client's commands\<close>

definition Initialize :: "'w host \<Rightarrow> string \<Rightarrow> string \<Rightarrow> string \<Rightarrow> (error, 'w) kcmd" where
  "Initialize H pin puk pairingPassword =
     guardErr (\<lambda>k. if \<not> keycardConnected k then Some (Sentinel ErrKeycardNotConnected) else None)
       (locked (bindM (withCmdSet (cs_Init (h_prims H) (kport H)
           (NewSecrets (h_prims H) pin puk pairingPassword))) (\<lambda>r.
         case r of
           Inl e \<Rightarrow> checkSCardError H (Some e)
         | Inr _ \<Rightarrow> thenM (resetCardConnection H) (thenM forceScan (ret None)))))"

definition onAuthorizeInteractions :: "'w host \<Rightarrow> bool \<Rightarrow> (unit, 'w) kcmd" where
  "onAuthorizeInteractions H authorized =
     bindM (updateApplicationStatus H) (\<lambda>_.
     bindM getState (\<lambda>st.
     thenM (if st = Ready \<and> authorized then setState Authorized else ret ())
       publishStatus))"

text \<open>The type assertion \<open>err.(*keycard.WrongPINError)\<close>.\<close>

fun isWrongPIN :: "go_error \<Rightarrow> bool" where
  "isWrongPIN (WrongPINError _) = True"
| "isWrongPIN _ = False"

text \<open>The deferred call runs after the deferred unlock, with the results as they are then.\<close>

definition VerifyPIN :: "'w host \<Rightarrow> string \<Rightarrow> (error \<times> bool, 'w) kcmd" where
  "VerifyPIN H pin =
     bindM (getM keycardReady) (\<lambda>err.
       case err of
         Some e \<Rightarrow> ret (Some e, False)
       | None \<Rightarrow>
           deferM
             (locked (bindM (withCmdSet (cs_VerifyPIN (h_prims H) (kport H) pin)) (\<lambda>r.
               case r of
                 Inr _ \<Rightarrow> ret (None, True)
               | Inl e \<Rightarrow>
                   if isWrongPIN e then ret (None, False)
                   else bindM (checkSCardError H (Some e)) (\<lambda>err. ret (err, False)))))
             (\<lambda>(err, authorized). onAuthorizeInteractions H authorized))"

definition ChangePIN :: "'w host \<Rightarrow> string \<Rightarrow> (error, 'w) kcmd" where
  "ChangePIN H pin =
     guardErr keycardAuthorized
       (deferM (locked (bindM (withCmdSet (cs_ChangePIN (h_prims H) (kport H) pin))
           (\<lambda>r. checkSCardError H (errOf r))))
         (\<lambda>_. onAuthorizeInteractions H False))"

definition UnblockPIN :: "'w host \<Rightarrow> string \<Rightarrow> string \<Rightarrow> (error, 'w) kcmd" where
  "UnblockPIN H puk newPIN =
     guardErr keycardInitialized
       (bindM getState (\<lambda>st.
         if st \<noteq> BlockedPIN then ret (Some (Sentinel ErrKeycardNotBlocked))
         else deferM (locked (bindM (withCmdSet (cs_UnblockPIN (h_prims H) (kport H) puk newPIN))
                  (\<lambda>r. checkSCardError H (errOf r))))
                (\<lambda>err. onAuthorizeInteractions H (err = None))))"

definition ChangePUK :: "'w host \<Rightarrow> string \<Rightarrow> (error, 'w) kcmd" where
  "ChangePUK H puk =
     guardErr keycardAuthorized
       (deferM (locked (bindM (withCmdSet (cs_ChangePUK (h_prims H) (kport H) puk))
           (\<lambda>r. checkSCardError H (errOf r))))
         (\<lambda>_. onAuthorizeInteractions H False))"

text \<open>Go's integer division truncates towards zero.\<close>

definition quot :: "int \<Rightarrow> int \<Rightarrow> int" where
  "quot a b = (if a < 0 then - (- a div b) else a div b)"

definition GenerateMnemonic :: "'w host \<Rightarrow> int \<Rightarrow> (go_error + int list, 'w) kcmd" where
  "GenerateMnemonic H mnemonicLength =
     guardSum keycardReady
       (locked (bindM (withCmdSet (cs_GenerateMnemonic (h_prims H) (kport H) (quot mnemonicLength 3)))
         (checkSum H)))"

text \<open>
  The deferred function of \<open>LoadMnemonic\<close> writes the key's identifier into the published
  status; the two pointers it follows panic when they are nil.
\<close>

definition noteKeys :: "bytes \<Rightarrow> (unit, 'w) kcmd" where
  "noteKeys keyUID =
     bindM (getM k_status) (\<lambda>s.
       case AppInfo s of
         None \<Rightarrow> panicM ''nil pointer dereference''
       | Some i \<Rightarrow> thenM (setAppInfo (Some (i\<lparr>v2_KeyUID := keyUID\<rparr>)))
           (case AppStatus s of
              None \<Rightarrow> panicM ''nil pointer dereference''
            | Some a \<Rightarrow> thenM (setAppStatus (Some (a\<lparr>KeyInitialized := True\<rparr>))) publishStatus))"

definition LoadMnemonic :: "'w host \<Rightarrow> string \<Rightarrow> string \<Rightarrow> (go_error + bytes, 'w) kcmd" where
  "LoadMnemonic H mnemonic password =
     guardSum keycardAuthorized
       (deferM (locked (bindM (withCmdSet (loadSeed (h_prims H) (kport H)
             (mnemonicToBinarySeed (h_prims H) mnemonic password))) (checkSum H)))
         (\<lambda>r. case r of Inl _ \<Rightarrow> ret () | Inr keyUID \<Rightarrow> noteKeys keyUID))"

definition FactoryReset :: "'w host \<Rightarrow> (error, 'w) kcmd" where
  "FactoryReset H =
     guardErr (\<lambda>k. if \<not> keycardConnected k then Some (Sentinel ErrKeycardNotConnected) else None)
       (thenM (resetStatus FactoryResetting)
       (thenM publishStatus
         (locked (bindM (withCmdSet (kc_FactoryReset (h_prims H) (kport H) True)) (\<lambda>r.
           thenM (resetCardConnection H) (thenM forceScan (ret (errOf r))))))))"

text \<open>\<open>components[len(components)-1]\<close> panics on a path with no component.\<close>

fun parsePaths :: "string list \<Rightarrow> (go_error + uint32 list, 's) gocmd" where
  "parsePaths [] = ret (Inr [])"
| "parsePaths (path # paths) =
     (if take (length WalletRoothPath) path \<noteq> WalletRoothPath
      then ret (Inl (ErrorString (''path '' @ [quote] @ path @ [quote] @ '' does not start with wallet path ''
             @ [quote] @ WalletRoothPath @ [quote])))
      else (case Decode path of
              (_, components, Some e) \<Rightarrow>
                ret (Inl (Wrapped (''failed to parse path '' @ [quote] @ path @ [quote]) e))
            | (_, components, None) \<Rightarrow>
                if components = [] then panicM ''index out of range''
                else bindE (parsePaths paths) (\<lambda>ps. ret (Inr (last components # ps)))))"

definition StoreMetadata :: "'w host \<Rightarrow> string \<Rightarrow> string list \<Rightarrow> (error, 'w) kcmd" where
  "StoreMetadata H name paths =
     guardErr keycardAuthorized
       (bindM (parsePaths paths) (\<lambda>r.
         case r of
           Inl e \<Rightarrow> ret (Some e)
         | Inr pathComponents \<Rightarrow>
             (case NewMetadata name pathComponents of
                Inl e \<Rightarrow> ret (Some (Wrapped ''failed to create metadata'' e))
              | Inr md \<Rightarrow>
                  bindM (locked (bindM (withCmdSet (cs_StoreData (h_prims H) (kport H) P1StoreDataPublic
                      (Serialize md))) (\<lambda>r. checkSCardError H (errOf r)))) (\<lambda>err.
                    case err of
                      Some e \<Rightarrow> ret (Some e)
                    | None \<Rightarrow>
                        bindM (updateMetadata H) (\<lambda>err.
                          case err of
                            Some e \<Rightarrow> ret (Some e)
                          | None \<Rightarrow> thenM publishStatus (ret None))))))"

definition exportKey :: "'w host \<Rightarrow> string \<Rightarrow> byte \<Rightarrow> (go_error + keyPair, 'w) kcmd" where
  "exportKey H path exportOption =
     (let derive = True; makeCurrent = (path = MasterPath) in
      locked (bindM (withCmdSet (cs_ExportKeyExtended (h_prims H) (kport H) derive makeCurrent
          exportOption path)) (\<lambda>r.
        case r of
          Inl e \<Rightarrow> checkSum H (Inl e)
        | Inr exportedKey \<Rightarrow>
            (case exportedKeyToAddress (h_prims H) exportedKey of
               Inl e \<Rightarrow> ret (Inl (Wrapped ''failed to convert key to address''
                   (Wrapped ''failed to unmarshal public key'' e)))
             | Inr address \<Rightarrow> ret (Inr (mkKeyPair address exportedKey))))))"

definition ExportLoginKeys :: "'w host \<Rightarrow> (go_error + loginKeys, 'w) kcmd" where
  "ExportLoginKeys H =
     guardSum keycardAuthorized
       (bindM keycardHasKeys (\<lambda>err.
         case err of
           Some e \<Rightarrow> ret (Inl e)
         | None \<Rightarrow>
             bindE (exportKey H EncryptionPath P2ExportKeyPrivateAndPublic) (\<lambda>ek.
             bindE (exportKey H WhisperPath P2ExportKeyPrivateAndPublic) (\<lambda>wk.
               ret (Inr \<lparr>EncryptionPrivateKey = Some ek, WhisperPrivateKey = Some wk\<rparr>)))))"

definition ExportRecoverKeys :: "'w host \<Rightarrow> (go_error + recoverKeys, 'w) kcmd" where
  "ExportRecoverKeys H =
     guardSum keycardAuthorized
       (bindE (ExportLoginKeys H) (\<lambda>lk.
        bindE (exportKey H Eip1581Path P2ExportKeyPublicOnly) (\<lambda>eip.
        bindM (getM (KeycardSupportsExtendedKeys \<circ> k_status)) (\<lambda>ext.
        bindE (exportKey H WalletRoothPath
            (if ext then P2ExportKeyExtendedPublic else P2ExportKeyPublicOnly)) (\<lambda>root.
        bindE (exportKey H WalletPath P2ExportKeyPublicOnly) (\<lambda>wk.
        bindE (exportKey H MasterPath P2ExportKeyPublicOnly) (\<lambda>mk.
          ret (Inr \<lparr>rk_LoginKeys = lk, EIP1581key = Some eip, WalletRootKey = Some root,
            WalletKey = Some wk, MasterKey = Some mk\<rparr>))))))))"

section \<open>Detection\<close>

definition getCurrentReadersState :: "'w host \<Rightarrow> nat \<Rightarrow> (go_error + readersStates, 'w) kcmd" where
  "getCurrentReadersState H cardCtx =
     bindM (kWorld (worldM (h_ListReaders H cardCtx))) (\<lambda>(readers, err).
     bindM (simulateError H err SimulatedListReadersError) (\<lambda>err.
       if err \<noteq> None \<and> err \<noteq> Some (SCardError 0x8010002E) then ret (Inl (the err))
       else
         (let rs = map (\<lambda>name. \<lparr>Reader = name, CurrentState = StateUnaware, EventState = 0\<rparr>) readers in
          if Empty rs then ret (Inr rs)
          else
            bindM (kWorld (worldM (h_GetStatusChange H cardCtx False rs))) (\<lambda>(rs, err).
            bindM (simulateError H err SimulatedGetStatusChangeError) (\<lambda>err.
              case err of
                Some e \<Rightarrow> ret (Inl e)
              | None \<Rightarrow> ret (Inr (knownReaders [] (Update rs))))))))"

text \<open>
  \<open>connectCard\<close>, in the parts its early returns cut it into: taking the application info of
  a selected card, selecting the applet of an opened card, opening the card of a reader,
  choosing the reader.  The result is the connected card's reader, no card, or an error.
\<close>

definition takeAppInfo ::
    "'w host \<Rightarrow> readerState \<Rightarrow> applicationInfoV2 \<Rightarrow> (go_error + readerState option, 'w) kcmd" where
  "takeAppInfo H activeReader appInfo =
     thenM (setAppInfo (Some appInfo))
     (if \<not> v2_Installed appInfo
      then thenM (resetCardConnection H) (thenM (setState NotKeycard) (ret (Inr None)))
      else thenM (setState ConnectingCard) (ret (Inr (Some activeReader))))"

definition identifyCard :: "'w host \<Rightarrow> readerState \<Rightarrow> (go_error + readerState option, 'w) kcmd" where
  "identifyCard H activeReader =
     thenM (modifyM (\<lambda>k. k\<lparr>k_cmdSet := Some NewCommandSet\<rparr>))
     (bindM (selectApplet H) (\<lambda>r.
      bindM (simulateError H (errOf r) SimulatedSelectAppletError) (\<lambda>err.
        case err of
          Some e \<Rightarrow> thenM (resetCardConnection H) (thenM (setState ConnectionError)
            (ret (Inl (Wrapped ''failed to select applet'' e))))
        | None \<Rightarrow>
            (case r of
               Inl _ \<Rightarrow> panicM ''nil pointer dereference''
             | Inr None \<Rightarrow> panicM ''nil pointer dereference''
             | Inr (Some appInfo) \<Rightarrow> takeAppInfo H activeReader appInfo))))"

definition openCard :: "'w host \<Rightarrow> nat \<Rightarrow> readerState \<Rightarrow> (go_error + readerState option, 'w) kcmd" where
  "openCard H cardCtx activeReader =
     bindM (kWorld (worldM (h_Connect H cardCtx (Reader activeReader)))) (\<lambda>r.
     thenM (modifyM (\<lambda>k. k\<lparr>k_link := (k_link k)\<lparr>l_card :=
       (case r of Inl _ \<Rightarrow> None | Inr c \<Rightarrow> Some c)\<rparr>\<rparr>))
     (bindM (simulateError H (errOf r) SimulatedCardConnectError) (\<lambda>err.
        case err of
          Some e \<Rightarrow> thenM (setState ConnectionError)
            (ret (Inl (Wrapped ''failed to connect to card'' e)))
        | None \<Rightarrow> identifyCard H activeReader)))"

definition chooseReader :: "'w host \<Rightarrow> nat \<Rightarrow> readersStates \<Rightarrow> (go_error + readerState option, 'w) kcmd" where
  "chooseReader H cardCtx readers =
     (if Empty readers then thenM (resetStatus WaitingForReader) (ret (Inr None))
      else
        thenM (modifyM (\<lambda>k. k\<lparr>k_forceScanC := Some ScanOpen\<rparr>))
       (thenM (resetCardConnection H)
         (case ReaderWithCardIndex readers of
            None \<Rightarrow> thenM (resetStatus WaitingForCard) (ret (Inr None))
          | Some i \<Rightarrow> openCard H cardCtx (readers ! i))))"

definition connectCard :: "'w host \<Rightarrow> nat \<Rightarrow> readersStates \<Rightarrow> (go_error + readerState option, 'w) kcmd" where
  "connectCard H cardCtx readers = deferM (chooseReader H cardCtx readers) (\<lambda>_. publishStatus)"

definition kStore :: "('a, store \<times> 'w) gocmd \<Rightarrow> ('a, 'w) kcmd" where
  "kStore m = zoom (\<lambda>k. (k_pairings k, l_world (k_link k)))
     (\<lambda>(p, w) k. k\<lparr>k_pairings := p, k_link := (k_link k)\<lparr>l_world := w\<rparr>\<rparr>) m"

text \<open>
  The last part of \<open>connectKeycard\<close>, once there is a pairing: the secure channel, the
  application status and the metadata.
\<close>

definition openPaired :: "'w host \<Rightarrow> info \<Rightarrow> (error, 'w) kcmd" where
  "openPaired H pair =
     bindM (withCmdSet (kc_OpenSecureChannel (h_prims H) (kport H) (info_Index pair) (info_Key pair))) (\<lambda>r.
     bindM (simulateError H (errOf r) SimulatedOpenSecureChannelError) (\<lambda>err.
       case err of
         Some e \<Rightarrow> thenM (setState ConnectionError)
           (ret (Some (Wrapped ''failed to open secure channel'' e)))
       | None \<Rightarrow>
           bindM (updateApplicationStatus H) (\<lambda>err.
             case err of
               Some e \<Rightarrow> ret (Some (Wrapped ''failed to get application status'' e))
             | None \<Rightarrow>
                 bindM (updateMetadata H) (\<lambda>err. ret (wrapErr ''failed to get metadata'' err)))))"

text \<open>The pairing of a card met for the first time; the new pairing is stored.\<close>

definition pairNow :: "'w host \<Rightarrow> applicationInfoV2 \<Rightarrow> (go_error + info, 'w) kcmd" where
  "pairNow H appInfo =
     bindM (withCmdSet (kc_Pair (h_prims H) (kport H) DefPairing)) (\<lambda>r.
       case r of
         Inl e \<Rightarrow>
           if errors_Is (Some e) (Sentinel ErrNoAvailablePairingSlots)
           then thenM (setState NoAvailablePairingSlots) (ret (Inl e))
           else thenM (setState PairingError) (ret (Inl (Wrapped ''failed to pair keycard'' e)))
       | Inr None \<Rightarrow> panicM ''nil pointer dereference''
       | Inr (Some pairingInfo) \<Rightarrow>
           (let pair = ToPairInfo pairingInfo in
            bindM (kStore (store_Store H (Btox (v2_InstanceUID appInfo)) pair)) (\<lambda>err.
              case err of
                Some e \<Rightarrow> thenM (setState InternalError) (ret (Inl (Wrapped ''failed to store pairing'' e)))
              | None \<Rightarrow>
                  bindM (selectApplet H) (\<lambda>r.
                    case r of
                      Inl e \<Rightarrow> thenM (setState ConnectionError)
                        (ret (Inl (Wrapped ''failed to select applet'' e)))
                    | Inr appInfo \<Rightarrow> thenM (setAppInfo appInfo) (ret (Inr pair))))))"

definition connectKeycard :: "'w host \<Rightarrow> (error, 'w) kcmd" where
  "connectKeycard H =
     bindM (getM (AppInfo \<circ> k_status)) (\<lambda>appInfo.
     deferM
       (case appInfo of
          None \<Rightarrow> panicM ''nil pointer dereference''
        | Some appInfo \<Rightarrow>
            if \<not> v2_Initialized appInfo then thenM (setState EmptyKeycard) (ret None)
            else
              bindM (getM (store_Get (Btox (v2_InstanceUID appInfo)) \<circ> k_pairings)) (\<lambda>pair.
                case pair of
                  Some pair \<Rightarrow> openPaired H pair
                | None \<Rightarrow>
                    bindM (pairNow H appInfo) (\<lambda>r.
                      case r of Inl e \<Rightarrow> ret (Some e) | Inr pair \<Rightarrow> openPaired H pair)))
       (\<lambda>_. publishStatus))"

definition pnpReader :: readerState where
  "pnpReader = \<lparr>Reader = [CHR 0x5C, CHR 0x5C] @ ''?PnP?'' @ [CHR 0x5C] @ ''Notification'',
     CurrentState = StateUnaware, EventState = 0\<rparr>"

text \<open>
  The body of a goroutine of the detection up to its next wait; the result is where it
  then is, \<open>None\<close> that it has ended.
\<close>

definition detectionRoutine :: "'w host \<Rightarrow> nat \<Rightarrow> (monitor option, 'w) kcmd" where
  "detectionRoutine H cardCtx =
     bindM (getCurrentReadersState H cardCtx) (\<lambda>r.
       case r of
         Inl e \<Rightarrow> thenM (resetStatus InternalError) (thenM publishStatus (ret None))
       | Inr readers \<Rightarrow>
           bindM (connectCard H cardCtx readers) (\<lambda>r.
             case r of
               Inr (Some readerState) \<Rightarrow>
                 bindM (connectKeycard H) (\<lambda>_. ret (Some (Watching readerState)))
             | _ \<Rightarrow> ret (Some (WaitingChange (readers @ [pnpReader])))))"

definition waitChange :: "'w host \<Rightarrow> nat \<Rightarrow> readersStates \<Rightarrow> (monitor option, 'w) kcmd" where
  "waitChange H cardCtx rs =
     bindM (kWorld (worldM (h_GetStatusChange H cardCtx True rs))) (\<lambda>(_, err).
       ret (if err = None then Some Detecting else None))"

definition ErrUnknownReader :: go_error where "ErrUnknownReader = SCardError 0x80100009"
definition ErrTimeout :: go_error where "ErrTimeout = SCardError 0x8010000A"

definition watchActiveReader :: "'w host \<Rightarrow> nat \<Rightarrow> readerState \<Rightarrow> (monitor option, 'w) kcmd" where
  "watchActiveReader H cardCtx activeReader =
     bindM (kWorld (worldM (h_GetStatusChange H cardCtx False [activeReader]))) (\<lambda>(rs, err).
       if err = Some ErrUnknownReader then ret (Some Detecting)
       else if err \<noteq> None \<and> err \<noteq> Some ErrTimeout then ret None
       else case rs of
              [] \<Rightarrow> panicM ''index out of range''
            | r # _ \<Rightarrow>
                if hasFlag (EventState r) StateUnknown \<or> hasFlag (EventState r) StateEmpty
                then ret (Some Detecting)
                else bindM (getM k_forceScanC) (\<lambda>c.
                  ret (if c = Some ScanClosed then None
                       else Some (Watching (r\<lparr>CurrentState := EventState r\<rparr>)))))"

definition monitorBody :: "'w host \<Rightarrow> monitor \<Rightarrow> (monitor option, 'w) kcmd" where
  "monitorBody H m =
     bindM (getM k_cardCtx) (\<lambda>c.
       case c of
         None \<Rightarrow> panicM ''card context is nil''
       | Some cardCtx \<Rightarrow>
           (case m of
              Detecting \<Rightarrow> detectionRoutine H cardCtx
            | WaitingChange rs \<Rightarrow> waitChange H cardCtx rs
            | Watching r \<Rightarrow> watchActiveReader H cardCtx r))"

definition dropNth :: "nat \<Rightarrow> 'a list \<Rightarrow> 'a list" where
  "dropNth i xs = take i xs @ drop (Suc i) xs"

text \<open>One step of the \<open>i\<close>-th goroutine: while it runs it is not in the list.\<close>

definition monitorStep :: "'w host \<Rightarrow> nat \<Rightarrow> (unit, 'w) kcmd" where
  "monitorStep H i =
     bindM (getM k_monitors) (\<lambda>ms.
       if i < length ms then
         thenM (modifyM (\<lambda>k. k\<lparr>k_monitors := dropNth i ms\<rparr>))
           (bindM (monitorBody H (ms ! i)) (\<lambda>next.
              modifyM (\<lambda>k. k\<lparr>k_monitors := k_monitors k @ (case next of None \<Rightarrow> [] | Some m \<Rightarrow> [m])\<rparr>)))
       else ret ())"

section \<open>Start and stop\<close>

text \<open>A new context that has its store; how the options give it is in \<open>SessionOptions\<close>.\<close>

definition contextWith :: "store \<Rightarrow> 'w \<Rightarrow> 'w ctx" where
  "contextWith pairings w =
     \<lparr>k_link = \<lparr>l_card = None, l_running = False, l_queue = 0, l_world = w\<rparr>, k_cmdSet = None,
      k_cardCtx = None, k_shutdown = False, k_forceScanC = None, k_pairings = pairings,
      k_status = NewStatus, k_mutex = False, k_simulatedError = None, k_monitors = [],
      k_signals = []\<rparr>"

definition establishContext :: "'w host \<Rightarrow> (error, 'w) kcmd" where
  "establishContext H =
     bindM (kWorld (worldM (h_EstablishContext H))) (\<lambda>r.
       case r of
         Inl _ \<Rightarrow> ret (Some (ErrorString ErrorPCSC))
       | Inr c \<Rightarrow> thenM (modifyM (\<lambda>k. k\<lparr>k_cardCtx := Some c\<rparr>)) (ret None))"

definition startDetectionLoop :: "(unit, 'w) kcmd" where
  "startDetectionLoop =
     bindM (getM k_cardCtx) (\<lambda>c.
       case c of
         None \<Rightarrow> panicM ''card context is nil''
       | Some _ \<Rightarrow> modifyM (\<lambda>k. k\<lparr>k_monitors := k_monitors k @ [Detecting]\<rparr>))"

definition Start :: "'w host \<Rightarrow> (error, 'w) kcmd" where
  "Start H =
     bindM (establishContext H) (\<lambda>err.
     bindM (simulateError H err SimulatedNoPCSC) (\<lambda>err.
       case err of
         Some e \<Rightarrow> thenM (setState NoPCSC) (thenM publishStatus (ret (Some e)))
       | None \<Rightarrow>
           thenM (modifyM (\<lambda>k. k\<lparr>k_shutdown := True, k_forceScanC := None,
             k_link := (k_link k)\<lparr>l_running := True\<rparr>\<rparr>))
          (thenM startDetectionLoop (ret None))))"

text \<open>
  \<open>Stop\<close>.  The goroutine that talks to the card ends with the context and releases the
  PC/SC context on its way out.
\<close>

definition Stop :: "'w host \<Rightarrow> (unit, 'w) kcmd" where
  "Stop H =
     thenM (bindM (getM k_forceScanC) (\<lambda>c.
       case c of
         None \<Rightarrow> ret ()
       | Some ScanClosed \<Rightarrow> panicM ''close of closed channel''
       | Some ScanOpen \<Rightarrow> modifyM (\<lambda>k. k\<lparr>k_forceScanC := Some ScanClosed\<rparr>)))
    (bindM (getM k_cardCtx) (\<lambda>c.
     thenM (case c of
              None \<Rightarrow> ret ()
            | Some c \<Rightarrow> bindM (kWorld (worldM (h_Cancel H c))) (\<lambda>_. ret ()))
    (bindM (getM (\<lambda>k. k_shutdown k \<and> l_running (k_link k))) (\<lambda>running.
       if running
       then thenM (modifyM (\<lambda>k. k\<lparr>k_link := (k_link k)\<lparr>l_running := False\<rparr>\<rparr>))
         (case c of
            None \<Rightarrow> panicM ''nil pointer dereference''
          | Some c \<Rightarrow> bindM (kWorld (worldM (h_Release H c))) (\<lambda>_. ret ()))
       else ret ()))))"

end
