(* ===== verification/SessionFacts.thy ===== *)
theory SessionFacts
  imports SessionContext
begin

text \<open>
  What the operations of the session context leave alone and keep: the frame of the
  operations that do not touch the published status, and the agreement of the published
  status with the state it is in (\<open>status\_ok\<close>), kept by every command and every step of
  the detection.
\<close>

section \<open>Frames\<close>

abbreviation onStatus :: "(status \<Rightarrow> bool) \<Rightarrow> 'w ctx \<Rightarrow> bool" where
  "onStatus R \<equiv> \<lambda>k. R (k_status k)"

lemma runs_withCmdSet:
  assumes "\<And>cs. k_cmdSet k = Some cs \<Longrightarrow>
      runs m (\<lambda>x (cs', l). Q x (k\<lparr>k_cmdSet := Some cs', k_link := l\<rparr>))
        (\<lambda>e (cs', l). F e (k\<lparr>k_cmdSet := Some cs', k_link := l\<rparr>)) (cs, k_link k)"
    and "k_cmdSet k = None \<Longrightarrow> F (Panicked ''nil pointer dereference'') k"
  shows "runs (withCmdSet m) Q F k"
  using assms
  by (cases "k_cmdSet k") (auto simp: runs_def withCmdSet_def split: outcome.splits)

lemma runs_withCmdSet_any:
  assumes "\<And>x cs l. Q x (k\<lparr>k_cmdSet := Some cs, k_link := l\<rparr>)"
    and "\<And>e cs l. F e (k\<lparr>k_cmdSet := Some cs, k_link := l\<rparr>)"
    and "F (Panicked ''nil pointer dereference'') k"
  shows "runs (withCmdSet m) Q F k"
proof (rule runs_withCmdSet)
  fix cs
  show "runs m (\<lambda>x (cs', l). Q x (k\<lparr>k_cmdSet := Some cs', k_link := l\<rparr>))
      (\<lambda>e (cs', l). F e (k\<lparr>k_cmdSet := Some cs', k_link := l\<rparr>)) (cs, k_link k)"
    using assms(1,2) by (simp add: runs_def split: outcome.splits prod.splits)
qed (rule assms(3))

lemma runs_resetCardConnection:
  "(\<And>l. Q () (k\<lparr>k_cmdSet := None, k_link := l\<rparr>)) \<Longrightarrow> runs (resetCardConnection H) Q F k"
proof -
  assume Q: "\<And>l. Q () (k\<lparr>k_cmdSet := None, k_link := l\<rparr>)"
  have e: "k\<lparr>k_link := a, k_cmdSet := None, k_link := b\<rparr> = k\<lparr>k_cmdSet := None, k_link := b\<rparr>" for a b
    by (cases k) simp
  show ?thesis
    by (auto simp: resetCardConnection_def kWorld_def onWorld_def wp e intro: Q
        split: option.split prod.split)
qed

text \<open>
  A property of the context that does not look at the card, the store or the signals, and
  survives the hand-over of a scan, is kept by every operation that only talks to the card;
  it may look at the mutex if it says that the mutex is held, for then nobody gets it.
\<close>

locale card_frame =
  fixes P :: "'w ctx \<Rightarrow> bool"
  assumes frame_card: "P k \<Longrightarrow> P (k\<lparr>k_cmdSet := cs, k_link := l\<rparr>)"
    and frame_mutex: "P k \<Longrightarrow> \<not> k_mutex k \<Longrightarrow> P t \<Longrightarrow> P (t\<lparr>k_mutex := b\<rparr>)"
    and frame_scan: "P k \<Longrightarrow> takeWatcher (k_monitors k) = Some ms \<Longrightarrow> P (k\<lparr>k_monitors := ms\<rparr>)"
    and frame_signals: "P k \<Longrightarrow> P (k\<lparr>k_signals := k_signals k @ [k_status k]\<rparr>)"
    and frame_pairings: "P k \<Longrightarrow> P (k\<lparr>k_pairings := st, k_link := l\<rparr>)"
    and frame_simulated: "P k \<Longrightarrow> P (k\<lparr>k_simulatedError := e\<rparr>)"
begin

lemma frame_link: "P k \<Longrightarrow> P (k\<lparr>k_link := l\<rparr>)"
  using frame_card [where k = k and cs = "k_cmdSet k" and l = l] by simp

lemma keeps_withCmdSet [keeps]: "preserves P (withCmdSet m)"
  by (auto simp: preserves_def intro: runs_withCmdSet_any frame_card)

lemma keeps_kWorld [keeps]: "preserves P (kWorld m)"
  unfolding kWorld_def by (rule preserves_zoom) (rule frame_link)

lemma keeps_kStore [keeps]: "preserves P (kStore m)"
  unfolding kStore_def by (rule preserves_zoom) (auto intro: frame_pairings)

lemma keeps_forceScan [keeps]: "preserves P forceScan"
  by (auto simp: preserves_def forceScan_def wp intro: frame_scan split: option.split scanChannel.split)

lemma keeps_publishStatus [keeps]: "preserves P publishStatus"
  by (auto simp: preserves_def publishStatus_def wp intro: frame_signals)

lemma keeps_getState [keeps]: "preserves P getState"
  unfolding getState_def by (rule preserves_getM)

lemma keeps_locked [keeps]:
  assumes "preserves P m" shows "preserves P (locked m)"
proof (rule preservesI)
  fix k assume k: "P k"
  show "runs (locked m) (\<lambda>_. P) (\<lambda>_. P) k"
  proof (cases "k_mutex k")
    case True
    with k show ?thesis by (simp add: locked_def lockM_def wp)
  next
    case False
    note free = frame_mutex [OF k False]
    have "runs m (\<lambda>_ t. P (t\<lparr>k_mutex := False\<rparr>)) (\<lambda>_. P) (k\<lparr>k_mutex := True\<rparr>)"
      by (rule runs_mono [OF preservesD [OF assms free [OF k]]]) (simp_all add: free)
    with False show ?thesis by (simp add: locked_def lockM_def unlockM_def wp)
  qed
qed

lemma keeps_resetCardConnection [keeps]: "preserves P (resetCardConnection H)"
  by (auto simp: preserves_def intro: runs_resetCardConnection frame_card)

lemma keeps_checkSCardError [keeps]: "preserves P (checkSCardError H err)"
  unfolding checkSCardError_def by (intro keeps)

lemma keeps_checkSum [keeps]: "preserves P (checkSum H r)"
  unfolding checkSum_def by (intro keeps)

lemma keeps_simulateError [keeps]: "preserves P (simulateError H err s)"
  unfolding simulateError_def by (intro keeps)

lemma keeps_guardErr [keeps]: "preserves P m \<Longrightarrow> preserves P (guardErr g m)"
  unfolding guardErr_def by (intro keeps)

lemma keeps_guardSum [keeps]: "preserves P m \<Longrightarrow> preserves P (guardSum g m)"
  unfolding guardSum_def by (intro keeps)

lemma keeps_selectApplet [keeps]: "preserves P (selectApplet H)"
  unfolding selectApplet_def by (intro keeps)

lemma keeps_GetMetadata [keeps]: "preserves P (GetMetadata H)"
  unfolding GetMetadata_def by (intro keeps)

lemma keeps_Initialize [keeps]: "preserves P (Initialize H pin puk pass)"
  unfolding Initialize_def by (intro keeps)

lemma keeps_GenerateMnemonic [keeps]: "preserves P (GenerateMnemonic H n)"
  unfolding GenerateMnemonic_def by (intro keeps)

lemma keeps_exportKey [keeps]: "preserves P (exportKey H path opt)"
  unfolding exportKey_def Let_def by (intro keeps)

lemma keeps_keycardHasKeys [keeps]: "preserves P keycardHasKeys"
  unfolding keycardHasKeys_def by (intro keeps)

lemma keeps_ExportLoginKeys [keeps]: "preserves P (ExportLoginKeys H)"
  unfolding ExportLoginKeys_def by (intro keeps)

lemma keeps_ExportRecoverKeys [keeps]: "preserves P (ExportRecoverKeys H)"
  unfolding ExportRecoverKeys_def by (intro keeps)

lemma keeps_parsePaths [keeps]: "preserves P (parsePaths paths)"
  by (induction paths) (auto split: prod.split option.split intro!: keeps)

lemma keeps_SimulateError [keeps]: "preserves P (SimulateError err)"
  unfolding SimulateError_def by (intro keeps preserves_modifyM) (auto intro: frame_simulated)

lemma keeps_getCurrentReadersState [keeps]: "preserves P (getCurrentReadersState H c)"
  unfolding getCurrentReadersState_def Let_def by (intro keeps)

lemma keeps_waitChange [keeps]: "preserves P (waitChange H c rs)"
  unfolding waitChange_def by (intro keeps)

lemma keeps_watchActiveReader [keeps]: "preserves P (watchActiveReader H c r)"
  unfolding watchActiveReader_def
  by (intro keeps) (auto split: list.split intro!: keeps)

end

interpretation onstatus: card_frame "onStatus R" for R
  by unfold_locales simp_all

text \<open>A property that does not look at the status either is kept by every command of the client.\<close>

locale client_frame = card_frame P for P :: "'w ctx \<Rightarrow> bool" +
  assumes frame_status: "P k \<Longrightarrow> P (k\<lparr>k_status := s\<rparr>)"
begin

lemma keeps_setters [keeps]:
  "preserves P (setState st)" "preserves P (resetStatus st)" "preserves P (setAppInfo i)"
  "preserves P (setAppStatus a)" "preserves P (setMetadata md)"
  unfolding setState_def resetStatus_def setAppInfo_def setAppStatus_def setMetadata_def
  by (intro preserves_modifyM frame_status, assumption)+

lemma keeps_updateApplicationStatus [keeps]: "preserves P (updateApplicationStatus H)"
  unfolding updateApplicationStatus_def by (intro keeps)

lemma keeps_updateMetadata [keeps]: "preserves P (updateMetadata H)"
  unfolding updateMetadata_def by (intro keeps)

lemma keeps_onAuthorizeInteractions [keeps]: "preserves P (onAuthorizeInteractions H authorized)"
  unfolding onAuthorizeInteractions_def by (intro keeps)

lemma keeps_noteKeys [keeps]: "preserves P (noteKeys uid)"
  unfolding noteKeys_def by (intro keeps)

lemma keeps_VerifyPIN [keeps]: "preserves P (VerifyPIN H pin)"
  unfolding VerifyPIN_def by (intro keeps)

lemma keeps_commands [keeps]:
  "preserves P (ChangePIN H pin)" "preserves P (UnblockPIN H puk pin)" "preserves P (ChangePUK H puk)"
  "preserves P (LoadMnemonic H mnemonic password)" "preserves P (FactoryReset H)"
  "preserves P (StoreMetadata H name paths)"
  unfolding ChangePIN_def UnblockPIN_def ChangePUK_def LoadMnemonic_def FactoryReset_def
    StoreMetadata_def
  by (intro keeps)+

lemma keeps_connectKeycard [keeps]: "preserves P (connectKeycard H)"
proof -
  have "preserves P (openPaired H pair)" for pair
    unfolding openPaired_def by (intro keeps)
  moreover have "preserves P (pairNow H i)" for i
    unfolding pairNow_def Let_def by (intro keeps)
  ultimately show ?thesis
    unfolding connectKeycard_def by (intro keeps)
qed

end

lemma onstatus_establishContext [keeps]: "preserves (onStatus R) (establishContext H)"
  unfolding establishContext_def by (intro keeps preserves_modifyM) simp_all

lemma onstatus_startDetectionLoop [keeps]: "preserves (onStatus R) startDetectionLoop"
  unfolding startDetectionLoop_def by (intro keeps preserves_modifyM) simp_all

lemma onstatus_Stop [keeps]: "preserves (onStatus R) (Stop H)"
  unfolding Stop_def
  by (intro keeps preserves_modifyM) (auto split: scanChannel.split intro!: keeps preserves_modifyM)

section \<open>The published status agrees with its state\<close>

definition status_full :: "status \<Rightarrow> bool" where
  "status_full s \<longleftrightarrow> status_ok s \<and> AppInfo s \<noteq> None"

text \<open>The same with all the statuses that were sent as signals.\<close>

abbreviation sok :: "'w ctx \<Rightarrow> bool" where
  "sok \<equiv> \<lambda>k. status_ok (k_status k) \<and> (\<forall>s \<in> set (k_signals k). status_ok s)"

abbreviation sfull :: "'w ctx \<Rightarrow> bool" where
  "sfull \<equiv> \<lambda>k. status_full (k_status k) \<and> (\<forall>s \<in> set (k_signals k). status_ok s)"

interpretation okf: card_frame sok
  by unfold_locales auto

interpretation fullf: card_frame sfull
  by unfold_locales (auto simp: status_full_def)

lemmas good_keeps_GetMetadata = okf.keeps_GetMetadata fullf.keeps_GetMetadata
lemmas good_keeps_checkSCardError = okf.keeps_checkSCardError fullf.keeps_checkSCardError
lemmas good_keeps_checkSum = okf.keeps_checkSum fullf.keeps_checkSum
lemmas good_keeps_forceScan = okf.keeps_forceScan fullf.keeps_forceScan
lemmas good_keeps_getCurrentReadersState = okf.keeps_getCurrentReadersState fullf.keeps_getCurrentReadersState
lemmas good_keeps_guardErr = okf.keeps_guardErr fullf.keeps_guardErr
lemmas good_keeps_kStore = okf.keeps_kStore fullf.keeps_kStore
lemmas good_keeps_kWorld = okf.keeps_kWorld fullf.keeps_kWorld
lemmas good_keeps_locked = okf.keeps_locked fullf.keeps_locked
lemmas good_keeps_parsePaths = okf.keeps_parsePaths fullf.keeps_parsePaths
lemmas good_keeps_publishStatus = okf.keeps_publishStatus fullf.keeps_publishStatus
lemmas good_keeps_resetCardConnection = okf.keeps_resetCardConnection fullf.keeps_resetCardConnection
lemmas good_keeps_selectApplet = okf.keeps_selectApplet fullf.keeps_selectApplet
lemmas good_keeps_simulateError = okf.keeps_simulateError fullf.keeps_simulateError
lemmas good_keeps_waitChange = okf.keeps_waitChange fullf.keeps_waitChange
lemmas good_keeps_watchActiveReader = okf.keeps_watchActiveReader fullf.keeps_watchActiveReader
lemmas good_keeps_withCmdSet = okf.keeps_withCmdSet fullf.keeps_withCmdSet

lemma sfull_sok: "sfull k \<Longrightarrow> sok k"
  by (simp add: status_full_def)

definition plain_state :: "sessionState \<Rightarrow> bool" where
  "plain_state st \<longleftrightarrow> \<not> session_open st \<and>
     st \<notin> {UnknownReaderState, WaitingForReader, WaitingForCard, FactoryResetting}"

lemma status_ok_plain: "plain_state st \<Longrightarrow> status_ok (s\<lparr>State := st\<rparr>)"
  by (simp add: status_ok_def plain_state_def session_open_def)

lemma plain_states [simp]:
  "plain_state ConnectionError" "plain_state NotKeycard" "plain_state EmptyKeycard"
  "plain_state NoAvailablePairingSlots" "plain_state PairingError" "plain_state InternalError"
  "plain_state ConnectingCard" "plain_state NoPCSC"
  by (simp_all add: plain_state_def session_open_def)

lemma preserves_setState_plain:
  "plain_state st \<Longrightarrow> preserves sok (setState st)"
  "plain_state st \<Longrightarrow> preserves sfull (setState st)"
  unfolding setState_def
  by (auto intro!: preserves_modifyM simp: status_ok_plain status_full_def)

lemma status_full_applicationStatus:
  assumes "AppInfo s \<noteq> None"
  shows "status_full (s\<lparr>AppStatus := ToAppStatus (Some a), State := blockedState a\<rparr>)"
  using assms
  by (auto simp: status_full_def status_ok_def session_open_def blockedState_def Let_def)

lemma status_full_more:
  assumes "status_full s"
  shows "status_full (s\<lparr>Metadata := md\<rparr>)"
    and "State s = Ready \<Longrightarrow> status_full (s\<lparr>State := Authorized\<rparr>)"
    and "status_full (s\<lparr>AppStatus := None, State := ConnectionError\<rparr>)"
  using assms by (cases "State s"; simp add: status_full_def status_ok_def session_open_def)+

lemma preserves_full_updateApplicationStatus [keeps]:
  "preserves sfull (updateApplicationStatus H)"
proof -
  have bad: "preserves sfull
      (thenM (setAppStatus None) (thenM (setState ConnectionError) (ret (Some e))))" for e
    by (simp add: preserves_def setAppStatus_def setState_def wp status_full_more(3))
  have good: "preserves sfull
      (thenM (setAppStatus (ToAppStatus (Some a))) (thenM (setState (blockedState a)) (ret None)))" for a
    using status_full_applicationStatus
    by (simp add: preserves_def setAppStatus_def setState_def wp status_full_def del: ToAppStatus_simps)
  show ?thesis
    unfolding updateApplicationStatus_def
    by (intro good_keeps_guardErr good_keeps_locked preserves_bindM good_keeps_withCmdSet
        preserves_case_sum bad good)
qed

lemma preserves_full_onAuthorizeInteractions [keeps]:
  "preserves sfull (onAuthorizeInteractions H authorized)"
proof -
  have "preserves sfull (bindM getState (\<lambda>st.
      thenM (if st = Ready \<and> authorized then setState Authorized else ret ()) publishStatus))"
    using status_full_more(2)
    by (simp add: preserves_def getState_def setState_def publishStatus_def wp status_full_def)
  then show ?thesis
    unfolding onAuthorizeInteractions_def
    by (intro preserves_bindM [OF preserves_full_updateApplicationStatus])
qed

lemma preserves_full_updateMetadata [keeps]:
  "preserves sfull (updateMetadata H)"
proof -
  have "preserves sfull (setMetadata md)" for md
    unfolding setMetadata_def by (rule preserves_modifyM) (simp add: status_full_more)
  then show ?thesis
    unfolding updateMetadata_def
    by (intro preserves_bindM [OF fullf.keeps_GetMetadata] preserves_case_sum preserves_thenM
        preserves_ret preserves_setState_plain) simp_all
qed

text \<open>
  The guard of a command that needs a session tells that the status is complete; the
  command then keeps it complete.
\<close>

lemma session_open_full: "status_ok s \<Longrightarrow> session_open (State s) \<Longrightarrow> status_full s"
  by (simp add: status_full_def status_ok_def)

lemma keycardAuthorized_None:
  "keycardAuthorized k = None \<longleftrightarrow> k_cmdSet k \<noteq> None \<and> State (k_status k) = Authorized"
  by (auto simp: keycardAuthorized_def keycardInitialized_def keycardConnected_def split: option.splits)

lemma keycardReady_None:
  "keycardReady k = None \<longleftrightarrow> k_cmdSet k \<noteq> None \<and> State (k_status k) \<in> {Ready, Authorized}"
  by (auto simp: keycardReady_def keycardInitialized_def keycardConnected_def split: option.splits)

lemma keycardInitialized_None:
  "keycardInitialized k = None \<longleftrightarrow> k_cmdSet k \<noteq> None \<and> State (k_status k) \<noteq> EmptyKeycard"
  by (auto simp: keycardInitialized_def keycardConnected_def split: option.splits)

lemma full_to_ok:
  assumes "preserves sfull m" and "sfull k"
  shows "runs m (\<lambda>_. sok) (\<lambda>_. sok) k"
  by (rule runs_mono [OF preservesD [OF assms]]) (simp_all add: status_full_def)

lemma preserves_guarded:
  fixes g :: "'w ctx \<Rightarrow> error"
  assumes "\<And>k. g k = None \<Longrightarrow> session_open (State (k_status k))" and "preserves sfull m"
  shows "preserves sok (bindM (getM g) (\<lambda>err. case err of Some e \<Rightarrow> ret (r e) | None \<Rightarrow> m))"
proof (rule preserves_getM_bind)
  fix k :: "'w ctx" assume k: "sok k"
  show "runs (case g k of Some e \<Rightarrow> ret (r e) | None \<Rightarrow> m) (\<lambda>_. sok) (\<lambda>_. sok) k"
  proof (cases "g k")
    case None
    with assms(1) [of k] k have "sfull k" by (simp add: session_open_full)
    with None full_to_ok [OF assms(2)] show ?thesis by simp
  qed (use k in \<open>simp add: wp\<close>)
qed

lemma guards_open:
  "keycardReady k = None \<Longrightarrow> session_open (State (k_status k))"
  "keycardAuthorized k = None \<Longrightarrow> session_open (State (k_status k))"
  by (auto simp: keycardReady_None keycardAuthorized_None session_open_def)

lemma preserves_full_noteKeys [keeps]: "preserves sfull (noteKeys uid)"
  by (auto simp: preserves_def noteKeys_def setAppInfo_def setAppStatus_def publishStatus_def wp
      status_full_def status_ok_def split: option.splits)

lemma preserves_ok_VerifyPIN [keeps]: "preserves sok (VerifyPIN H pin)"
  unfolding VerifyPIN_def
  by (intro preserves_guarded guards_open(1) preserves_deferM good_keeps_locked preserves_bindM
      good_keeps_withCmdSet preserves_case_prod preserves_full_onAuthorizeInteractions
      preserves_case_sum preserves_if preserves_ret good_keeps_checkSCardError)

lemmas full_rules = preserves_deferM good_keeps_locked preserves_bindM good_keeps_withCmdSet
  good_keeps_checkSCardError good_keeps_checkSum preserves_full_onAuthorizeInteractions
  preserves_case_sum preserves_case_option preserves_ret preserves_full_noteKeys
  preserves_full_updateMetadata preserves_thenM good_keeps_publishStatus good_keeps_parsePaths

lemma preserves_ok_commands [keeps]:
  shows "preserves sok (ChangePIN H pin)"
    and "preserves sok (ChangePUK H puk)"
    and "preserves sok (LoadMnemonic H mnemonic password)"
    and "preserves sok (StoreMetadata H name paths)"
  unfolding ChangePIN_def ChangePUK_def LoadMnemonic_def StoreMetadata_def guardErr_def guardSum_def
  by (intro preserves_guarded guards_open(2) full_rules; assumption?)+

lemma preserves_ok_UnblockPIN [keeps]: "preserves sok (UnblockPIN H puk pin)"
proof -
  let ?m = "deferM (locked (bindM (withCmdSet (cs_UnblockPIN (h_prims H) (kport H) puk pin))
                  (\<lambda>r. checkSCardError H (errOf r))))
                (\<lambda>err. onAuthorizeInteractions H (err = None))"
  have m: "preserves sfull ?m" by (intro full_rules)
  have "preserves sok (bindM getState (\<lambda>st.
      if st \<noteq> BlockedPIN then ret (Some (Sentinel ErrKeycardNotBlocked)) else ?m))"
    unfolding getState_def
  proof (rule preserves_getM_bind)
    fix k :: "'a ctx" assume k: "sok k"
    show "runs (if (State \<circ> k_status) k \<noteq> BlockedPIN then ret (Some (Sentinel ErrKeycardNotBlocked))
        else ?m) (\<lambda>_. sok) (\<lambda>_. sok) k"
    proof (cases "State (k_status k) = BlockedPIN")
      case True
      then have "sfull k" using k by (simp add: session_open_full session_open_def)
      with True full_to_ok [OF m] show ?thesis by simp
    qed (use k in \<open>simp add: wp\<close>)
  qed
  then show ?thesis unfolding UnblockPIN_def by (rule good_keeps_guardErr)
qed

lemma preserves_resetStatus:
  "\<not> session_open st \<Longrightarrow> preserves sok (resetStatus st)"
  unfolding resetStatus_def
  by (rule preserves_modifyM) (auto simp: session_open_def intro: status_ok_Reset)

lemma preserves_ok_FactoryReset [keeps]: "preserves sok (FactoryReset H)"
  unfolding FactoryReset_def
  by (intro good_keeps_guardErr preserves_thenM preserves_resetStatus good_keeps_publishStatus
      good_keeps_locked preserves_bindM good_keeps_withCmdSet good_keeps_resetCardConnection
      good_keeps_forceScan preserves_ret) (simp add: session_open_def)

section \<open>The detection keeps the agreement\<close>

text \<open>Selecting the applet always leaves an application info, so its conversion is not nil.\<close>

lemma runs_Select_info:
  "runs (Select C P) (\<lambda>r s. r = Inr () \<longrightarrow> cs_ApplicationInfo (fst s) \<noteq> None) (\<lambda>_ _. True) s"
proof -
  let ?P = "\<lambda>s :: commandSet \<times> 'a. cs_ApplicationInfo (fst s) \<noteq> None"
  have tail: "runs (if HasSecureChannelCapability info
      then bindE (onSc (GenerateSecret C P k)) (\<lambda>_. thenM (onSc sc_Reset) (ret (Inr ())))
      else ret (Inr ())) (\<lambda>r t. r = Inr () \<longrightarrow> ?P t) (\<lambda>_ _. True) t" if "?P t" for info k t
  proof -
    have "preserves ?P (if HasSecureChannelCapability info
      then bindE (onSc (GenerateSecret C P k)) (\<lambda>_. thenM (onSc sc_Reset) (ret (Inr ())))
      else ret (Inr ()))"
      by (intro keeps preserves_onSc) auto
    from preservesD [OF this that] show ?thesis by (rule runs_mono) auto
  qed
  show ?thesis
    unfolding Select_def
  proof (rule runs_bind_sum [OF runs_triv])
    fix x :: response and t :: "commandSet \<times> 'a"
    show "runs (case ParseApplicationInfo (resp_Data x) of
         None \<Rightarrow> panicM ''index out of range''
       | Some (Inl e) \<Rightarrow> ret (Inl e)
       | Some (Inr appInfo) \<Rightarrow>
           thenM (modifyM (\<lambda>(cs, c). (cs\<lparr>cs_ApplicationInfo := Some appInfo\<rparr>, c)))
           (if HasSecureChannelCapability appInfo then
              bindE (onSc (GenerateSecret C P (ai_SecureChannelPublicKey appInfo))) (\<lambda>_.
                thenM (onSc sc_Reset) (ret (Inr ())))
            else ret (Inr ()))) (\<lambda>r s. r = Inr () \<longrightarrow> ?P s) (\<lambda>_ _. True) t"
    proof (cases "ParseApplicationInfo (resp_Data x)")
      case (Some y)
      show ?thesis
      proof (cases y)
        case (Inr i)
        show ?thesis
          unfolding Some Inr option.case sum.case runs_thenM runs_modifyM
          by (rule tail) (simp add: case_prod_unfold)
      qed (simp add: Some wp)
    qed (simp add: wp)
  qed simp
qed

lemma runs_kc_SelectApplet_info:
  "runs (kc_SelectApplet C P) (\<lambda>r _. \<forall>x. r = Inr x \<longrightarrow> x \<noteq> None) (\<lambda>_ _. True) s"
  unfolding kc_SelectApplet_def
  by (rule runs_bind [OF runs_Select_info]) (auto simp: wp split: sum.split)

lemma runs_withCmdSet_result:
  assumes "\<And>s. runs m (\<lambda>x _. Q x) (\<lambda>_ _. True) s"
  shows "runs (withCmdSet m) (\<lambda>x _. Q x) (\<lambda>_ _. True) k"
proof (rule runs_withCmdSet)
  fix cs
  show "runs m (\<lambda>x (cs', l). Q x) (\<lambda>e (cs', l). True) (cs, k_link k)"
    by (rule runs_mono [OF assms]) auto
qed simp

lemma runs_locked_result:
  assumes "\<And>k. runs m (\<lambda>x _. Q x) (\<lambda>_ _. True) k"
  shows "runs (locked m) (\<lambda>x _. Q x) (\<lambda>_ _. True) k"
  unfolding locked_def deferM_def
  by (rule runs_then [OF runs_triv], rule runs_bind [OF assms], rule runs_then [OF runs_triv])
    (simp add: wp)

lemma runs_and_preserves:
  assumes "runs m (\<lambda>x _. Q x) (\<lambda>_ _. True) s" and "preserves P m" and "P s"
  shows "runs m (\<lambda>x t. Q x \<and> P t) (\<lambda>_. P) s"
  using assms preservesD [OF assms(2,3)] by (auto simp: runs_def split: outcome.splits)

context card_frame
begin

lemma runs_simulateError: "P k \<Longrightarrow> runs (simulateError H err s) (\<lambda>_. P) (\<lambda>_. P) k"
  by (rule preservesD [OF keeps_simulateError])

lemma runs_selectApplet:
  assumes "P k"
  shows "runs (selectApplet H) (\<lambda>r t. (\<forall>x. r = Inr x \<longrightarrow> x \<noteq> None) \<and> P t)
    (\<lambda>_. P) k"
proof (rule runs_and_preserves [where P = P, OF _ keeps_selectApplet assms])
  have "runs (bindE (withCmdSet (kc_SelectApplet (h_prims H) (kport H))) (\<lambda>info.
       ret (Inr (ToAppInfoV2 info)))) (\<lambda>r _. \<forall>x. r = Inr x \<longrightarrow> x \<noteq> None) (\<lambda>_ _. True) k" for k
    by (rule runs_bind_sum [OF runs_withCmdSet_result [OF runs_kc_SelectApplet_info]])
      (auto simp: wp ToAppInfoV2_def)
  then show "runs (selectApplet H) (\<lambda>r _. \<forall>x. r = Inr x \<longrightarrow> x \<noteq> None) (\<lambda>_ _. True) k"
    unfolding selectApplet_def by (rule runs_locked_result)
qed

end

text \<open>After \<open>connectCard\<close> the status agrees, and it is complete when a card was connected.\<close>

definition connected_post :: "go_error + readerState option \<Rightarrow> 'w ctx \<Rightarrow> bool" where
  "connected_post r k \<longleftrightarrow> sok k \<and> (\<forall>rd. r = Inr (Some rd) \<longrightarrow> sfull k)"

lemma connected_post_none [simp]:
  "connected_post (Inl e) k = sok k" "connected_post (Inr None) k = sok k"
  by (simp_all add: connected_post_def)

lemma status_full_takeAppInfo:
  "status_ok s \<Longrightarrow> plain_state st \<Longrightarrow> status_full (s\<lparr>AppInfo := Some i, State := st\<rparr>)"
  by (cases st) (simp_all add: status_full_def status_ok_def session_open_def plain_state_def)

lemma runs_takeAppInfo:
  assumes "sok k" shows "runs (takeAppInfo H rd i) connected_post (\<lambda>_. sok) k"
proof -
  have full: "status_full ((k_status k)\<lparr>AppInfo := Some i, State := st\<rparr>)" if "plain_state st" for st
    using status_full_takeAppInfo [OF _ that] assms by simp
  then have ok: "status_ok ((k_status k)\<lparr>AppInfo := Some i, State := st\<rparr>)" if "plain_state st" for st
    using that by (simp add: status_full_def)
  from assms show ?thesis
    unfolding takeAppInfo_def setAppInfo_def setState_def
    by (auto simp: wp connected_post_def full ok intro!: runs_resetCardConnection)
qed

lemma runs_setState_ret:
  "plain_state st \<Longrightarrow> connected_post r (k\<lparr>k_status := (k_status k)\<lparr>State := st\<rparr>\<rparr>) \<Longrightarrow>
    runs (thenM (setState st) (ret r)) connected_post (\<lambda>_. sok) k"
  by (simp add: setState_def wp)

lemma runs_identifyCard:
  assumes "sok k" shows "runs (identifyCard H rd) connected_post (\<lambda>_. sok) k"
  unfolding identifyCard_def
proof (rule runs_then)
  show "runs (modifyM (\<lambda>k. k\<lparr>k_cmdSet := Some NewCommandSet\<rparr>)) (\<lambda>_. sok) (\<lambda>_. sok) k"
    by (simp add: wp assms)
  fix k1 :: "'a ctx" assume k1: "sok k1"
  show "runs (bindM (selectApplet H) (\<lambda>r.
      bindM (simulateError H (errOf r) SimulatedSelectAppletError) (\<lambda>err.
        case err of
          Some e \<Rightarrow> thenM (resetCardConnection H) (thenM (setState ConnectionError)
            (ret (Inl (Wrapped ''failed to select applet'' e))))
        | None \<Rightarrow>
            (case r of
               Inl _ \<Rightarrow> panicM ''nil pointer dereference''
             | Inr None \<Rightarrow> panicM ''nil pointer dereference''
             | Inr (Some appInfo) \<Rightarrow> takeAppInfo H rd appInfo)))) connected_post (\<lambda>_. sok) k1"
  proof (rule runs_bind [OF okf.runs_selectApplet [OF k1]], rule runs_bind [OF okf.runs_simulateError])
    fix r :: "go_error + applicationInfoV2 option" and t :: "'a ctx"
    assume "(\<forall>x. r = Inr x \<longrightarrow> x \<noteq> None) \<and> sok t" then show "sok t" by simp
  next
    fix r :: "go_error + applicationInfoV2 option" and err :: error and t :: "'a ctx"
    assume t: "sok t"
    show "runs (case err of
          Some e \<Rightarrow> thenM (resetCardConnection H) (thenM (setState ConnectionError)
            (ret (Inl (Wrapped ''failed to select applet'' e))))
        | None \<Rightarrow>
            (case r of
               Inl _ \<Rightarrow> panicM ''nil pointer dereference''
             | Inr None \<Rightarrow> panicM ''nil pointer dereference''
             | Inr (Some appInfo) \<Rightarrow> takeAppInfo H rd appInfo)) connected_post (\<lambda>_. sok) t"
      using t
      by (auto simp: runs_thenM runs_panicM status_ok_plain
          intro!: runs_resetCardConnection runs_takeAppInfo runs_setState_ret [unfolded runs_thenM]
          split: option.split sum.split)
  qed
qed

lemma runs_openCard:
  assumes "sok k" shows "runs (openCard H c rd) connected_post (\<lambda>_. sok) k"
  unfolding openCard_def
proof (rule runs_bind [OF preservesD [OF okf.keeps_kWorld]], rule assms, rule runs_then)
  fix r :: "go_error + nat" and t :: "'a ctx" assume t: "sok t"
  show "runs (modifyM (\<lambda>k. k\<lparr>k_link := (k_link k)\<lparr>l_card :=
      (case r of Inl _ \<Rightarrow> None | Inr c \<Rightarrow> Some c)\<rparr>\<rparr>)) (\<lambda>_. sok) (\<lambda>_. sok) t"
    using t by (simp add: wp)
next
  fix r :: "go_error + nat" and t :: "'a ctx" assume t: "sok t"
  show "runs (bindM (simulateError H (errOf r) SimulatedCardConnectError) (\<lambda>err.
        case err of
          Some e \<Rightarrow> thenM (setState ConnectionError)
            (ret (Inl (Wrapped ''failed to connect to card'' e)))
        | None \<Rightarrow> identifyCard H rd)) connected_post (\<lambda>_. sok) t"
    by (rule runs_bind [OF okf.runs_simulateError], rule t)
      (auto simp: status_ok_plain intro!: runs_identifyCard runs_setState_ret split: option.split)
qed

lemma runs_connectCard:
  assumes "sok k" shows "runs (connectCard H c rs) connected_post (\<lambda>_. sok) k"
proof -
  have idle: "runs (thenM (resetStatus st) (ret (Inr None))) connected_post (\<lambda>_. sok) t"
    if "\<not> session_open st" "sok t" for st and t :: "'a ctx"
    using status_ok_Reset [of st] that by (simp add: resetStatus_def wp session_open_def)
  have "runs (chooseReader H c rs) connected_post (\<lambda>_. sok) k"
  proof (cases "Empty rs")
    case True
    then show ?thesis using assms by (simp add: chooseReader_def idle session_open_def)
  next
    case False
    have "runs (thenM (resetCardConnection H)
         (case ReaderWithCardIndex rs of
            None \<Rightarrow> thenM (resetStatus WaitingForCard) (ret (Inr None))
          | Some i \<Rightarrow> openCard H c (rs ! i))) connected_post (\<lambda>_. sok) (k\<lparr>k_forceScanC := Some ScanOpen\<rparr>)"
      by (rule runs_then [OF preservesD [OF okf.keeps_resetCardConnection]])
        (use assms in \<open>auto simp: session_open_def intro!: idle runs_openCard split: option.split\<close>)
    with False show ?thesis by (simp add: chooseReader_def runs_thenM runs_modifyM)
  qed
  then show ?thesis
    unfolding connectCard_def runs_deferM
    by (rule runs_mono) (simp_all add: publishStatus_def wp connected_post_def)
qed

lemma preserves_full_openPaired: "preserves sfull (openPaired H pair)"
  unfolding openPaired_def
  by (intro preserves_bindM good_keeps_withCmdSet good_keeps_simulateError preserves_case_option
      preserves_thenM preserves_ret preserves_setState_plain preserves_full_updateApplicationStatus
      preserves_full_updateMetadata) simp

lemma preserves_full_pairNow: "preserves sfull (pairNow H i)"
proof -
  have sel: "preserves sfull (bindM (selectApplet H) (\<lambda>r.
      case r of
        Inl e \<Rightarrow> thenM (setState ConnectionError) (ret (Inl (Wrapped ''failed to select applet'' e)))
      | Inr appInfo \<Rightarrow> thenM (setAppInfo appInfo) (ret (Inr pair))))" for pair :: info
  proof (rule preservesI)
    fix k :: "'a ctx" assume k: "sfull k"
    have state: "runs (thenM (setState ConnectionError) (ret x)) (\<lambda>_. sfull) (\<lambda>_. sfull) t"
      if "sfull t" for x :: "go_error + info" and t :: "'a ctx"
      by (rule preservesD [OF preserves_thenM [OF preserves_setState_plain(2) preserves_ret]])
        (simp_all add: that)
    show "runs (bindM (selectApplet H) (\<lambda>r.
      case r of
        Inl e \<Rightarrow> thenM (setState ConnectionError) (ret (Inl (Wrapped ''failed to select applet'' e)))
      | Inr appInfo \<Rightarrow> thenM (setAppInfo appInfo) (ret (Inr pair)))) (\<lambda>_. sfull) (\<lambda>_. sfull) k"
    proof (rule runs_bind [OF fullf.runs_selectApplet [OF k]])
      fix r :: "go_error + applicationInfoV2 option" and t :: "'a ctx"
      assume t: "(\<forall>x. r = Inr x \<longrightarrow> x \<noteq> None) \<and> sfull t"
      show "runs (case r of
        Inl e \<Rightarrow> thenM (setState ConnectionError) (ret (Inl (Wrapped ''failed to select applet'' e)))
      | Inr appInfo \<Rightarrow> thenM (setAppInfo appInfo) (ret (Inr pair))) (\<lambda>_. sfull) (\<lambda>_. sfull) t"
      proof (cases r)
        case (Inr x)
        with t show ?thesis
          by (cases "State (k_status t)")
            (auto simp: wp setAppInfo_def status_full_def status_ok_def session_open_def)
      next
        case (Inl e)
        with t state [of t] show ?thesis by simp
      qed
    qed
  qed
  show ?thesis
    unfolding pairNow_def Let_def
    by (intro preserves_bindM good_keeps_withCmdSet preserves_case_sum preserves_case_option preserves_if
        preserves_thenM preserves_ret preserves_panicM good_keeps_kStore preserves_setState_plain sel)
      simp_all
qed

lemma preserves_full_connectKeycard: "preserves sfull (connectKeycard H)"
  unfolding connectKeycard_def
  by (intro preserves_bindM preserves_getM preserves_deferM preserves_case_option preserves_panicM
      preserves_if preserves_thenM preserves_setState_plain preserves_ret preserves_case_sum
      preserves_full_openPaired preserves_full_pairNow good_keeps_publishStatus) simp

lemma preserves_ok_detectionRoutine: "preserves sok (detectionRoutine H c)"
proof -
  have conn: "runs (bindM (connectCard H c rs) (\<lambda>r.
             case r of
               Inr (Some readerState) \<Rightarrow>
                 bindM (connectKeycard H) (\<lambda>_. ret (Some (Watching readerState)))
             | _ \<Rightarrow> ret (Some (WaitingChange (rs @ [pnpReader]))))) (\<lambda>_. sok) (\<lambda>_. sok) k"
    if "sok k" for rs and k :: "'a ctx"
  proof (rule runs_bind [OF runs_connectCard [OF that]])
    fix r :: "go_error + readerState option" and t :: "'a ctx"
    assume t: "connected_post r t"
    show "runs (case r of
               Inr (Some readerState) \<Rightarrow>
                 bindM (connectKeycard H) (\<lambda>_. ret (Some (Watching readerState)))
             | _ \<Rightarrow> ret (Some (WaitingChange (rs @ [pnpReader])))) (\<lambda>_. sok) (\<lambda>_. sok) t"
    proof (cases "\<exists>rd. r = Inr (Some rd)")
      case True
      then obtain rd where r: "r = Inr (Some rd)" by blast
      with t have "sfull t" by (simp add: connected_post_def)
      have "runs (bindM (connectKeycard H) (\<lambda>_. ret (Some (Watching rd)))) (\<lambda>_. sfull) (\<lambda>_. sfull) t"
        by (rule preservesD [OF preserves_bindM [OF preserves_full_connectKeycard preserves_ret]])
          (rule \<open>sfull t\<close>)
      then show ?thesis unfolding r by (simp, elim runs_mono) (simp_all add: status_full_def)
    qed (use t in \<open>auto simp: wp connected_post_def split: sum.split option.split\<close>)
  qed
  show ?thesis
    unfolding detectionRoutine_def
  proof (rule preserves_bindM [OF okf.keeps_getCurrentReadersState], rule preserves_case_sum)
    fix e show "preserves sok (thenM (resetStatus InternalError) (thenM publishStatus (ret None)))"
      by (intro preserves_thenM preserves_resetStatus good_keeps_publishStatus preserves_ret)
        (simp add: session_open_def)
  qed (rule preservesI, rule conn)
qed

lemma preserves_ok_monitorStep: "preserves sok (monitorStep H i)"
proof -
  have "preserves sok (monitorBody H m)" for m
    unfolding monitorBody_def
    by (intro preserves_bindM preserves_getM preserves_case_option preserves_panicM,
        cases m, simp_all only: monitor.case,
        (intro preserves_ok_detectionRoutine good_keeps_waitChange good_keeps_watchActiveReader)+)
  then show ?thesis
    unfolding monitorStep_def
    by (intro preserves_bindM [OF preserves_getM] preserves_if preserves_thenM preserves_bindM
        preserves_modifyM preserves_ret) simp_all
qed

lemma ok_start [keeps]:
  "preserves sok (establishContext H)" "preserves sok startDetectionLoop"
  unfolding establishContext_def startDetectionLoop_def
  by (intro keeps preserves_modifyM; simp)+

lemma preserves_ok_Stop: "preserves sok (Stop H)"
  unfolding Stop_def
  by (intro keeps preserves_modifyM; (simp split: scanChannel.split)?; (intro conjI impI keeps preserves_modifyM)?)
    simp_all

lemma preserves_ok_Start: "preserves sok (Start H)"
  unfolding Start_def
  by (intro preserves_bindM ok_start good_keeps_simulateError preserves_case_option
      preserves_thenM preserves_setState_plain good_keeps_publishStatus preserves_ret preserves_modifyM
      ok_start(2)) simp_all

end
