(* ===== verification/SessionSystem.thy ===== *)
theory SessionSystem
  imports SessionFacts
begin

text \<open>
  The session context as a transition system: the client's commands and the steps of the
  detection, in any order.  A command or step that blocks for ever leaves its state behind
  and the others go on; a panic ends the process and has no successor.
\<close>

section \<open>Transition systems and their invariants\<close>

inductive reach :: "('s \<Rightarrow> bool) \<Rightarrow> ('s \<Rightarrow> 's \<Rightarrow> bool) \<Rightarrow> 's \<Rightarrow> bool"
  for init step where
  reach_init: "init s \<Longrightarrow> reach init step s"
| reach_step: "reach init step s \<Longrightarrow> step s t \<Longrightarrow> reach init step t"

locale invariant_system =
  fixes init :: "'s \<Rightarrow> bool" and step :: "'s \<Rightarrow> 's \<Rightarrow> bool" and inv :: "'s \<Rightarrow> bool"
  assumes inv_init: "init s \<Longrightarrow> inv s"
    and inv_step: "inv s \<Longrightarrow> step s t \<Longrightarrow> inv t"
begin

lemma reach_inv: "reach init step s \<Longrightarrow> inv s"
  by (induction rule: reach.induct) (auto intro: inv_init inv_step)

end

section \<open>The client's requests\<close>

datatype request =
    ReqInitialize string string string
  | ReqVerifyPIN string
  | ReqChangePIN string
  | ReqUnblockPIN string string
  | ReqChangePUK string
  | ReqGenerateMnemonic int
  | ReqLoadMnemonic string string
  | ReqFactoryReset
  | ReqGetMetadata
  | ReqStoreMetadata string "string list"
  | ReqExportLoginKeys
  | ReqExportRecoverKeys
  | ReqSimulateError error
  | ReqGetStatus

text \<open>A request carried out, with the error it replies.\<close>

definition replying :: "('a \<Rightarrow> error) \<Rightarrow> ('a, 's) gocmd \<Rightarrow> (error, 's) gocmd" where
  "replying f m = bindM m (\<lambda>x. ret (f x))"

fun perform :: "'w host \<Rightarrow> request \<Rightarrow> (error, 'w) kcmd" where
  "perform H (ReqInitialize pin puk pass) = Initialize H pin puk pass"
| "perform H (ReqVerifyPIN pin) = replying fst (VerifyPIN H pin)"
| "perform H (ReqChangePIN pin) = ChangePIN H pin"
| "perform H (ReqUnblockPIN puk pin) = UnblockPIN H puk pin"
| "perform H (ReqChangePUK puk) = ChangePUK H puk"
| "perform H (ReqGenerateMnemonic n) = replying errOf (GenerateMnemonic H n)"
| "perform H (ReqLoadMnemonic mnemonic password) = replying errOf (LoadMnemonic H mnemonic password)"
| "perform H ReqFactoryReset = FactoryReset H"
| "perform H ReqGetMetadata = replying errOf (GetMetadata H)"
| "perform H (ReqStoreMetadata name paths) = StoreMetadata H name paths"
| "perform H ReqExportLoginKeys = replying errOf (ExportLoginKeys H)"
| "perform H ReqExportRecoverKeys = replying errOf (ExportRecoverKeys H)"
| "perform H (ReqSimulateError err) = SimulateError err"
| "perform H ReqGetStatus = replying (\<lambda>_. None) GetStatus"

text \<open>The state a command leaves behind, unless it panics.\<close>

definition leaves :: "('a, 's) gocmd \<Rightarrow> 's \<Rightarrow> 's \<Rightarrow> bool" where
  "leaves m s t \<longleftrightarrow> (\<exists>x. m s = Ret x t) \<or> (\<exists>msg. m s = Fault (Blocked msg) t)"

definition session_init :: "'w host \<Rightarrow> 'w ctx \<Rightarrow> bool" where
  "session_init H k \<longleftrightarrow>
     (\<exists>st w e. leaves (thenM (SimulateError e) (Start H)) (contextWith st w) k)"

inductive session_step :: "'w host \<Rightarrow> 'w ctx \<Rightarrow> 'w ctx \<Rightarrow> bool" for H where
  by_request: "leaves (perform H req) k t \<Longrightarrow> session_step H k t"
| by_monitor: "leaves (monitorStep H i) k t \<Longrightarrow> session_step H k t"
| by_stop: "leaves (Stop H) k t \<Longrightarrow> session_step H k t"

inductive_cases session_stepE: "session_step H k t"

lemma leaves_preserves: "preserves P m \<Longrightarrow> P s \<Longrightarrow> leaves m s t \<Longrightarrow> P t"
  by (drule (1) preservesD) (auto simp: leaves_def runs_def)

lemma leaves_runs:
  "runs m (\<lambda>_. P) (\<lambda>_. P) s \<Longrightarrow> leaves m s t \<Longrightarrow> P t"
  by (auto simp: leaves_def runs_def)

lemma runs_replying: "runs (replying f m) (\<lambda>_. P) F s = runs m (\<lambda>_. P) F s"
  by (simp add: replying_def runs_def bindM_def ret_def split: outcome.split)

lemma preserves_replying [keeps]: "preserves P m \<Longrightarrow> preserves P (replying f m)"
  unfolding replying_def by (intro keeps)

section \<open>The status agrees with the state, always\<close>

lemma preserves_GetStatus [keeps]: "preserves P GetStatus"
  unfolding GetStatus_def by (rule preserves_getM)

lemma perform_sok: "preserves sok (perform H req)"
  by (cases req; simp only: perform.simps)
    (intro preserves_replying preserves_ok_commands preserves_ok_VerifyPIN preserves_ok_UnblockPIN
      preserves_ok_FactoryReset preserves_GetStatus okf.keeps_Initialize okf.keeps_GenerateMnemonic
      okf.keeps_GetMetadata okf.keeps_ExportLoginKeys okf.keeps_ExportRecoverKeys
      okf.keeps_SimulateError)+

interpretation session_status: invariant_system "session_init H" "session_step H" sok for H
proof
  fix k :: "'a ctx" assume "session_init H k"
  then obtain st w e where l: "leaves (thenM (SimulateError e) (Start H)) (contextWith st w) k"
    by (auto simp: session_init_def)
  have "preserves sok (thenM (SimulateError e) (Start H))"
    by (intro preserves_thenM okf.keeps_SimulateError preserves_ok_Start)
  moreover have "sok (contextWith st w)" by (simp add: contextWith_def status_ok_NewStatus)
  ultimately show "sok k" using l by (rule leaves_preserves)
next
  fix k t :: "'a ctx" assume "sok k" and "session_step H k t"
  then show "sok t"
    by (elim session_stepE) (auto elim!: leaves_preserves [rotated 2]
        intro: perform_sok preserves_ok_monitorStep preserves_ok_Stop)
qed

section \<open>One goroutine of the detection\<close>

lemma takeWatcher_length: "takeWatcher ms = Some ms' \<Longrightarrow> length ms' = length ms"
  by (induction ms arbitrary: ms' rule: takeWatcher.induct) auto

interpretation monitors: client_frame "\<lambda>k. length (k_monitors k) = n" for n
  by unfold_locales (simp_all add: takeWatcher_length)

lemma monitors_connectCard: "preserves (\<lambda>k. length (k_monitors k) = n) (connectCard H c rs)"
  unfolding connectCard_def chooseReader_def openCard_def identifyCard_def takeAppInfo_def
  by (intro monitors.keeps_setters monitors.keeps_kWorld monitors.keeps_resetCardConnection
      monitors.keeps_publishStatus monitors.keeps_simulateError monitors.keeps_selectApplet
      preserves_deferM preserves_thenM preserves_bindM preserves_case_option preserves_case_sum
      preserves_if preserves_ret preserves_panicM preserves_modifyM) simp_all

lemma monitors_monitorBody: "preserves (\<lambda>k. length (k_monitors k) = n) (monitorBody H m)"
proof -
  have "preserves (\<lambda>k. length (k_monitors k) = n) (detectionRoutine H c)" for c
    unfolding detectionRoutine_def
    by (intro monitors_connectCard monitors.keeps_getCurrentReadersState monitors.keeps_setters
        monitors.keeps_publishStatus monitors.keeps_connectKeycard
        preserves_thenM preserves_bindM preserves_case_option preserves_case_sum preserves_ret)
  then show ?thesis
    unfolding monitorBody_def
    by (cases m) (auto intro!: preserves_bindM preserves_getM preserves_case_option preserves_panicM
        monitors.keeps_waitChange monitors.keeps_watchActiveReader)
qed

lemma monitors_perform: "preserves (\<lambda>k. length (k_monitors k) = n) (perform H req)"
  by (cases req) (simp_all add: monitors.keeps_commands monitors.keeps_VerifyPIN keeps)

lemma monitorStep_at_most_one:
  assumes "length (k_monitors k) \<le> 1"
  shows "runs (monitorStep H i) (\<lambda>_ t. length (k_monitors t) \<le> 1) (\<lambda>_ t. length (k_monitors t) \<le> 1) k"
proof (cases "i < length (k_monitors k)")
  case True
  with assms have i: "i = 0" "length (k_monitors k) = 1" by auto
  let ?k = "k\<lparr>k_monitors := dropNth i (k_monitors k)\<rparr>"
  have "length (k_monitors ?k) = 0" using i by (simp add: dropNth_def)
  from preservesD [OF monitors_monitorBody this]
  have "runs (monitorBody H (k_monitors k ! i)) (\<lambda>_ t. length (k_monitors t) = 0)
      (\<lambda>_ t. length (k_monitors t) = 0) ?k" .
  then have "runs (bindM (monitorBody H (k_monitors k ! i)) (\<lambda>next.
      modifyM (\<lambda>k. k\<lparr>k_monitors := k_monitors k @ (case next of None \<Rightarrow> [] | Some m \<Rightarrow> [m])\<rparr>)))
      (\<lambda>_ t. length (k_monitors t) \<le> 1) (\<lambda>_ t. length (k_monitors t) \<le> 1) ?k"
    unfolding runs_bindM by (rule runs_mono) (auto simp: wp split: option.split)
  with True show ?thesis by (simp add: monitorStep_def wp)
qed (use assms in \<open>simp add: monitorStep_def wp\<close>)

lemma monitors_SimulateError: "preserves (\<lambda>k. k_monitors k = []) (SimulateError e)"
  unfolding SimulateError_def by (intro keeps preserves_modifyM) simp

lemma monitors_Start:
  fixes k :: "'w ctx"
  assumes k: "k_monitors k = []"
  shows "runs (Start H) (\<lambda>_ t. length (k_monitors t) \<le> 1) (\<lambda>_ t. length (k_monitors t) \<le> 1) k"
proof -
  let ?P = "\<lambda>k. length (k_monitors k) = 0"
  have 1: "preserves ?P (establishContext H)"
    unfolding establishContext_def
    by (intro monitors.keeps_kWorld preserves_bindM preserves_case_sum preserves_ret preserves_thenM
        preserves_modifyM) simp
  have 2: "preserves ?P (thenM (setState st) (thenM publishStatus (ret (Some e))))" for st e
    by (intro preserves_thenM monitors.keeps_setters monitors.keeps_publishStatus preserves_ret)
  have 3: "runs (thenM (setState st) (thenM publishStatus (ret (Some e))))
      (\<lambda>_ t. length (k_monitors t) \<le> 1) (\<lambda>_ t. length (k_monitors t) \<le> 1) t"
    if "?P t" for st e and t :: "'w ctx"
    by (rule runs_mono [OF preservesD [OF 2 that]]) simp_all
  show "runs (Start H) (\<lambda>_ t. length (k_monitors t) \<le> 1) (\<lambda>_ t. length (k_monitors t) \<le> 1) k"
    unfolding Start_def
  proof (rule runs_bind [where R = "\<lambda>_. ?P"])
    show "runs (establishContext H) (\<lambda>_. ?P) (\<lambda>_ t. length (k_monitors t) \<le> 1) k"
      by (rule runs_mono [OF preservesD [OF 1]]) (use k in simp_all)
    fix err and t :: "'w ctx" assume t: "?P t"
    show "runs (bindM (simulateError H err SimulatedNoPCSC) (\<lambda>err.
      case err of
        Some e \<Rightarrow> thenM (setState NoPCSC) (thenM publishStatus (ret (Some e)))
      | None \<Rightarrow>
          thenM (modifyM (\<lambda>k. k\<lparr>k_shutdown := True, k_forceScanC := None,
            k_link := (k_link k)\<lparr>l_running := True\<rparr>\<rparr>))
         (thenM startDetectionLoop (ret None))))
      (\<lambda>_ t. length (k_monitors t) \<le> 1) (\<lambda>_ t. length (k_monitors t) \<le> 1) t"
    proof (rule runs_bind [where R = "\<lambda>_. ?P"])
      show "runs (simulateError H err SimulatedNoPCSC) (\<lambda>_. ?P) (\<lambda>_ t. length (k_monitors t) \<le> 1) t"
        by (rule runs_mono [OF preservesD [OF monitors.keeps_simulateError [of 0]]]) (use t in auto)
      fix err and t :: "'w ctx" assume t: "?P t"
      show "runs (case err of
        Some e \<Rightarrow> thenM (setState NoPCSC) (thenM publishStatus (ret (Some e)))
      | None \<Rightarrow>
          thenM (modifyM (\<lambda>k. k\<lparr>k_shutdown := True, k_forceScanC := None,
            k_link := (k_link k)\<lparr>l_running := True\<rparr>\<rparr>))
         (thenM startDetectionLoop (ret None)))
      (\<lambda>_ t. length (k_monitors t) \<le> 1) (\<lambda>_ t. length (k_monitors t) \<le> 1) t"
        using t 3 [OF t] by (auto simp: startDetectionLoop_def wp split: option.split)
    qed
  qed
qed

lemma monitors_Stop: "preserves (\<lambda>k. length (k_monitors k) = n) (Stop H)"
  unfolding Stop_def
  by (intro monitors.keeps_kWorld preserves_thenM preserves_bindM preserves_getM preserves_case_option
      preserves_ret preserves_if preserves_panicM preserves_modifyM)
    (auto split: scanChannel.split intro!: preserves_panicM preserves_modifyM)

interpretation session_monitors:
  invariant_system "session_init H" "session_step H" "\<lambda>k. length (k_monitors k) \<le> 1" for H
proof
  fix k :: "'a ctx" assume "session_init H k"
  then obtain st w e where l: "leaves (thenM (SimulateError e) (Start H)) (contextWith st w) k"
    by (auto simp: session_init_def)
  have "runs (thenM (SimulateError e) (Start H)) (\<lambda>_ t. length (k_monitors t) \<le> 1)
      (\<lambda>_ t. length (k_monitors t) \<le> 1) (contextWith st w)"
  proof (rule runs_then [OF _ monitors_Start])
    show "runs (SimulateError e) (\<lambda>_ k. k_monitors k = []) (\<lambda>_ t. length (k_monitors t) \<le> 1)
        (contextWith st w)"
      by (rule runs_mono [OF preservesD [OF monitors_SimulateError]])
        (simp_all add: contextWith_def)
  qed
  then show "length (k_monitors k) \<le> 1" using l by (rule leaves_runs)
next
  fix k t :: "'a ctx" assume k: "length (k_monitors k) \<le> 1" and "session_step H k t"
  from this(2) show "length (k_monitors t) \<le> 1"
  proof cases
    case (by_request req)
    with leaves_preserves [OF monitors_perform refl] k show ?thesis by metis
  next
    case (by_monitor i)
    from monitorStep_at_most_one [OF k] this show ?thesis by (rule leaves_runs)
  next
    case by_stop
    with leaves_preserves [OF monitors_Stop refl] k show ?thesis by metis
  qed
qed

end
