(* ===== verification/SessionAuth.thy ===== *)
theory SessionAuth
  imports SessionSystem
begin

text \<open>
  Who may do what: the commands that need the PIN do nothing without it, and the state
  \<open>Authorized\<close> is entered only by a command that the card has accepted.
\<close>

section \<open>Commands that need the PIN\<close>

fun needs_authorization :: "request \<Rightarrow> bool" where
  "needs_authorization (ReqChangePIN _) = True"
| "needs_authorization (ReqChangePUK _) = True"
| "needs_authorization (ReqLoadMnemonic _ _) = True"
| "needs_authorization (ReqStoreMetadata _ _) = True"
| "needs_authorization ReqExportLoginKeys = True"
| "needs_authorization ReqExportRecoverKeys = True"
| "needs_authorization _ = False"

lemma guardErr_Some: "g k = Some e \<Longrightarrow> guardErr g m k = Ret (Some e) k"
  by (simp add: guardErr_def bindM_def getM_def ret_def)

lemma guardSum_Some: "g k = Some e \<Longrightarrow> guardSum g m k = Ret (Inl e) k"
  by (simp add: guardSum_def bindM_def getM_def ret_def)

lemma unauthorized_Some:
  "\<not> (k_cmdSet k \<noteq> None \<and> State (k_status k) = Authorized) \<Longrightarrow>
    \<exists>e \<in> {ErrKeycardNotConnected, ErrKeycardNotInitialized, ErrKeycardNotAuthorized}.
      keycardAuthorized k = Some (Sentinel e)"
  by (auto simp: keycardAuthorized_def keycardInitialized_def keycardConnected_def)

lemma not_ready_Some:
  "\<not> (k_cmdSet k \<noteq> None \<and> State (k_status k) \<in> {Ready, Authorized}) \<Longrightarrow>
    \<exists>e \<in> {ErrKeycardNotConnected, ErrKeycardNotInitialized, ErrKeycardNotReady}.
      keycardReady k = Some (Sentinel e)"
  by (auto simp: keycardReady_def keycardInitialized_def keycardConnected_def)

lemma perform_unauthorized:
  "needs_authorization req \<Longrightarrow> keycardAuthorized k = Some e \<Longrightarrow> perform H req k = Ret (Some e) k"
  by (cases req) (simp_all add: replying_def bindM_def ret_def guardErr_Some guardSum_Some
      ChangePIN_def ChangePUK_def LoadMnemonic_def StoreMetadata_def ExportLoginKeys_def
      ExportRecoverKeys_def)

lemma perform_not_ready:
  "req = ReqVerifyPIN pin \<or> req = ReqGenerateMnemonic n \<Longrightarrow> keycardReady k = Some e \<Longrightarrow>
    perform H req k = Ret (Some e) k"
  by (auto simp: replying_def bindM_def getM_def ret_def guardSum_Some VerifyPIN_def
      GenerateMnemonic_def)

section \<open>Entering the state Authorized\<close>

abbreviation unauth :: "'w ctx \<Rightarrow> bool" where
  "unauth \<equiv> onStatus (\<lambda>s. State s \<noteq> Authorized)"

lemma unauth_setters:
  "st \<noteq> Authorized \<Longrightarrow> preserves unauth (setState st)"
  "st \<noteq> Authorized \<Longrightarrow> preserves unauth (resetStatus st)"
  "preserves unauth (setAppInfo i)" "preserves unauth (setAppStatus a)" "preserves unauth (setMetadata md)"
  unfolding setState_def resetStatus_def setAppInfo_def setAppStatus_def setMetadata_def
  by (auto intro!: preserves_modifyM simp: Reset_def)

lemma blockedState_not_Authorized: "blockedState a \<noteq> Authorized"
  by (simp add: blockedState_def Let_def)

lemmas unauth_rules = unauth_setters blockedState_not_Authorized
  onstatus.keeps_kWorld onstatus.keeps_kStore onstatus.keeps_resetCardConnection
  onstatus.keeps_publishStatus onstatus.keeps_simulateError onstatus.keeps_selectApplet
  onstatus.keeps_withCmdSet onstatus.keeps_locked onstatus.keeps_checkSCardError
  onstatus.keeps_checkSum onstatus.keeps_forceScan onstatus.keeps_guardErr onstatus.keeps_guardSum
  onstatus.keeps_GetMetadata onstatus.keeps_parsePaths onstatus.keeps_getState
  preserves_deferM preserves_thenM preserves_bindM preserves_getM preserves_case_option
  preserves_case_sum preserves_if preserves_ret preserves_panicM

lemma unauth_updateApplicationStatus: "preserves unauth (updateApplicationStatus H)"
  unfolding updateApplicationStatus_def by (intro unauth_rules) simp_all

lemma unauth_updateMetadata: "preserves unauth (updateMetadata H)"
  unfolding updateMetadata_def by (intro unauth_rules) simp

lemma unauth_onAuthorizeInteractions: "preserves unauth (onAuthorizeInteractions H False)"
  unfolding onAuthorizeInteractions_def
  by (simp, intro unauth_rules unauth_updateApplicationStatus)

lemma unauth_noteKeys: "preserves unauth (noteKeys uid)"
  unfolding noteKeys_def by (intro unauth_rules)

fun unlocks :: "request \<Rightarrow> bool" where
  "unlocks (ReqVerifyPIN _) = True"
| "unlocks (ReqUnblockPIN _ _) = True"
| "unlocks _ = False"

lemma unauth_perform:
  assumes "\<not> unlocks req" shows "preserves unauth (perform H req)"
proof -
  have "preserves unauth (ChangePIN H pin)" "preserves unauth (ChangePUK H puk)"
    "preserves unauth (LoadMnemonic H mn pw)" "preserves unauth (FactoryReset H)"
    "preserves unauth (StoreMetadata H name paths)" for pin puk mn pw name paths
    unfolding ChangePIN_def ChangePUK_def LoadMnemonic_def FactoryReset_def StoreMetadata_def
    by (intro unauth_rules unauth_onAuthorizeInteractions unauth_noteKeys unauth_updateMetadata, simp?)+
  with assms show ?thesis
    by (cases req) (auto intro!: preserves_replying preserves_GetStatus onstatus.keeps_Initialize
        onstatus.keeps_GenerateMnemonic onstatus.keeps_GetMetadata onstatus.keeps_ExportLoginKeys
        onstatus.keeps_ExportRecoverKeys onstatus.keeps_SimulateError)
qed

lemma unauth_connectCard: "preserves unauth (connectCard H c rs)"
  unfolding connectCard_def chooseReader_def openCard_def identifyCard_def takeAppInfo_def
  by (intro unauth_rules preserves_modifyM) simp_all

lemma unauth_connectKeycard: "preserves unauth (connectKeycard H)"
proof -
  have 1: "preserves unauth (openPaired H pair)" for pair
    unfolding openPaired_def
    by (intro unauth_rules unauth_updateApplicationStatus unauth_updateMetadata) simp
  have 2: "preserves unauth (pairNow H i)" for i
    unfolding pairNow_def Let_def by (intro unauth_rules) simp_all
  show ?thesis
    unfolding connectKeycard_def by (intro unauth_rules 1 2) simp
qed

lemma unauth_monitorStep: "preserves unauth (monitorStep H i)"
proof -
  have d: "preserves unauth (detectionRoutine H c)" for c
    unfolding detectionRoutine_def
    by (intro unauth_rules unauth_connectCard unauth_connectKeycard
        onstatus.keeps_getCurrentReadersState) simp
  have "preserves unauth (monitorBody H m)" for m
    unfolding monitorBody_def
    by (cases m) (auto intro!: preserves_bindM preserves_getM preserves_case_option preserves_panicM d
        onstatus.keeps_waitChange onstatus.keeps_watchActiveReader)
  then show ?thesis
    unfolding monitorStep_def
    by (intro preserves_bindM [OF preserves_getM] preserves_if preserves_thenM preserves_bindM
        preserves_modifyM preserves_ret) simp_all
qed

text \<open>The card's word on the PIN or PUK a request carries.\<close>

fun pin_accepted :: "'w host \<Rightarrow> 'w ctx \<Rightarrow> request \<Rightarrow> bool" where
  "pin_accepted H k (ReqVerifyPIN pin) =
     (\<exists>cs s. k_cmdSet k = Some cs \<and>
        cs_VerifyPIN (h_prims H) (kport H) pin (cs, k_link k) = Ret (Inr ()) s)"
| "pin_accepted H k (ReqUnblockPIN puk pin) =
     (\<exists>cs s. k_cmdSet k = Some cs \<and>
        cs_UnblockPIN (h_prims H) (kport H) puk pin (cs, k_link k) = Ret (Inr ()) s)"
| "pin_accepted H k _ = False"

lemma runs_locked:
  assumes "\<not> k_mutex k \<Longrightarrow> runs m (\<lambda>x t. Q x (t\<lparr>k_mutex := False\<rparr>)) F (k\<lparr>k_mutex := True\<rparr>)"
    and "k_mutex k \<Longrightarrow> F (Blocked ''lock of a held mutex'') k"
  shows "runs (locked m) Q F k"
  using assms by (auto simp: locked_def lockM_def unlockM_def wp)

text \<open>A card command under the lock: what the command returns decides the rest.\<close>

lemma runs_locked_card:
  assumes "k_cmdSet k = Some cs"
    and "k_mutex k \<Longrightarrow> F (Blocked ''lock of a held mutex'') k"
    and "\<And>x cs' l. \<not> k_mutex k \<Longrightarrow> m (cs, k_link k) = Ret x (cs', l) \<Longrightarrow>
      runs (f x) (\<lambda>y t. Q y (t\<lparr>k_mutex := False\<rparr>)) F (k\<lparr>k_mutex := True, k_cmdSet := Some cs', k_link := l\<rparr>)"
    and "\<And>e cs' l. \<not> k_mutex k \<Longrightarrow> m (cs, k_link k) = Fault e (cs', l) \<Longrightarrow>
      F e (k\<lparr>k_mutex := True, k_cmdSet := Some cs', k_link := l\<rparr>)"
  shows "runs (locked (bindM (withCmdSet m) f)) Q F k"
proof (rule runs_locked)
  assume nm: "\<not> k_mutex k"
  show "runs (bindM (withCmdSet m) f) (\<lambda>x t. Q x (t\<lparr>k_mutex := False\<rparr>)) F (k\<lparr>k_mutex := True\<rparr>)"
    unfolding runs_bindM
  proof (rule runs_withCmdSet)
    fix cs1 assume "k_cmdSet (k\<lparr>k_mutex := True\<rparr>) = Some cs1"
    with assms(1) have "cs1 = cs" by simp
    then show "runs m
        (\<lambda>x (cs', l). runs (f x) (\<lambda>y t. Q y (t\<lparr>k_mutex := False\<rparr>)) F
          (k\<lparr>k_mutex := True, k_cmdSet := Some cs', k_link := l\<rparr>))
        (\<lambda>e (cs', l). F e (k\<lparr>k_mutex := True, k_cmdSet := Some cs', k_link := l\<rparr>))
        (cs1, k_link (k\<lparr>k_mutex := True\<rparr>))"
      using assms(3,4) nm by (auto simp: runs_def split: outcome.splits)
  qed (simp add: assms(1))
qed (rule assms(2))

lemma runs_VerifyPIN_rejected:
  assumes "unauth k" and "\<not> pin_accepted H k (ReqVerifyPIN pin)"
  shows "runs (VerifyPIN H pin) (\<lambda>_. unauth) (\<lambda>_. unauth) k"
proof (cases "keycardReady k")
  case None
  then obtain cs where cs: "k_cmdSet k = Some cs" by (auto simp: keycardReady_None)
  let ?f = "\<lambda>r. case r of
      Inr _ \<Rightarrow> ret (None, True)
    | Inl e \<Rightarrow>
        if isWrongPIN e then ret (None, False)
        else bindM (checkSCardError H (Some e)) (\<lambda>err. ret (err, False))"
  have rej: "runs (?f (Inl e)) (\<lambda>y t. \<not> snd y \<and> unauth (t\<lparr>k_mutex := False\<rparr>)) (\<lambda>_. unauth) t"
    if "unauth t" for e and t :: "'a ctx"
  proof -
    have "runs (bindM (checkSCardError H (Some e)) (\<lambda>err. ret (err, False)))
        (\<lambda>y t. \<not> snd y \<and> unauth (t\<lparr>k_mutex := False\<rparr>)) (\<lambda>_. unauth) t"
      unfolding runs_bindM
      by (rule runs_mono [OF preservesD [OF onstatus.keeps_checkSCardError
            [where R = "\<lambda>s. State s \<noteq> Authorized"]]]) (use that in \<open>simp_all add: wp\<close>)
    with that show ?thesis by (simp add: wp)
  qed
  have inner: "runs (locked (bindM (withCmdSet (cs_VerifyPIN (h_prims H) (kport H) pin)) ?f))
      (\<lambda>y t. \<not> snd y \<and> unauth t) (\<lambda>_. unauth) k"
  proof (rule runs_locked_card [OF cs])
    fix r cs' l
    assume "cs_VerifyPIN (h_prims H) (kport H) pin (cs, k_link k) = Ret r (cs', l)"
    with assms(2) cs obtain e where r: "r = Inl e" by (cases r) auto
    show "runs (?f r) (\<lambda>y t. \<not> snd y \<and> unauth (t\<lparr>k_mutex := False\<rparr>))
        (\<lambda>_. unauth) (k\<lparr>k_mutex := True, k_cmdSet := Some cs', k_link := l\<rparr>)"
      unfolding r by (rule runs_mono [OF rej]) (use assms(1) in auto)
  qed (use assms(1) in simp_all)
  show ?thesis
    unfolding VerifyPIN_def runs_bindM runs_getM None option.case runs_deferM
    by (rule runs_mono [OF inner])
      (auto intro!: runs_mono [OF preservesD [OF unauth_onAuthorizeInteractions]])
qed (use assms in \<open>simp add: VerifyPIN_def wp\<close>)

lemma runs_UnblockPIN_rejected:
  assumes "unauth k" and "\<not> pin_accepted H k (ReqUnblockPIN puk pin)"
  shows "runs (UnblockPIN H puk pin) (\<lambda>_. unauth) (\<lambda>_. unauth) k"
proof (cases "keycardInitialized k = None \<and> State (k_status k) = BlockedPIN")
  case True
  then obtain cs where cs: "k_cmdSet k = Some cs" by (auto simp: keycardInitialized_None)
  have inner: "runs (locked (bindM (withCmdSet (cs_UnblockPIN (h_prims H) (kport H) puk pin))
      (\<lambda>r. checkSCardError H (errOf r)))) (\<lambda>err t. err \<noteq> None \<and> unauth t) (\<lambda>_. unauth) k"
  proof (rule runs_locked_card [OF cs])
    fix r cs' l
    assume "cs_UnblockPIN (h_prims H) (kport H) puk pin (cs, k_link k) = Ret r (cs', l)"
    with assms(2) cs obtain e where r: "r = Inl e" by (cases r) auto
    have res: "runs (checkSCardError H (Some e)) (\<lambda>x _. x \<noteq> None) (\<lambda>_ _. True) t" for t :: "'a ctx"
      unfolding checkSCardError_def option.case
      by (simp add: runs_ret, intro impI runs_then [OF runs_triv]) (simp add: wp)
    have "runs (checkSCardError H (Some e)) (\<lambda>x t. x \<noteq> None \<and> unauth t) (\<lambda>_. unauth)
        (k\<lparr>k_mutex := True, k_cmdSet := Some cs', k_link := l\<rparr>)"
      by (rule runs_and_preserves [where P = unauth, OF res onstatus.keeps_checkSCardError])
        (use assms(1) in simp)
    then show "runs (checkSCardError H (errOf r)) (\<lambda>y t. y \<noteq> None \<and> unauth (t\<lparr>k_mutex := False\<rparr>))
        (\<lambda>_. unauth) (k\<lparr>k_mutex := True, k_cmdSet := Some cs', k_link := l\<rparr>)"
      unfolding r by (simp only: errOf_simps) (erule runs_mono; simp)
  qed (use assms(1) in simp_all)
  show ?thesis
    using True
    by (auto simp: UnblockPIN_def guardErr_def getState_def wp
        intro!: runs_mono [OF inner] runs_mono [OF preservesD [OF unauth_onAuthorizeInteractions]])
next
  case False
  then show ?thesis
    using assms by (auto simp: UnblockPIN_def guardErr_def getState_def wp split: option.split)
qed

lemma authorized_step:
  assumes "session_step H k t" and "State (k_status k) \<noteq> Authorized" and "State (k_status t) = Authorized"
  shows "\<exists>req. leaves (perform H req) k t \<and> pin_accepted H k req"
  using assms(1)
proof cases
  case (by_request req)
  have "pin_accepted H k req"
  proof (rule ccontr)
    assume n: "\<not> pin_accepted H k req"
    have "runs (perform H req) (\<lambda>_. unauth) (\<lambda>_. unauth) k"
    proof (cases "unlocks req")
      case True
      then show ?thesis
        using n assms(2) runs_VerifyPIN_rejected [of k H] runs_UnblockPIN_rejected [of k H]
        by (cases req) (simp_all add: runs_replying)
    next
      case False
      show ?thesis by (rule preservesD [OF unauth_perform [OF False]]) (rule assms(2))
    qed
    from leaves_runs [OF this by_request] assms(3) show False by simp
  qed
  with by_request show ?thesis by blast
next
  case (by_monitor i)
  from leaves_preserves [OF unauth_monitorStep _ this] assms(2,3) show ?thesis by simp
next
  case by_stop
  have "preserves unauth (Stop H)" by (rule onstatus_Stop)
  from leaves_preserves [OF this _ by_stop] assms(2,3) show ?thesis by simp
qed

end
