(* ===== verification/SessionLive.thy ===== *)
theory SessionLive
  imports SessionAuth
begin

text \<open>
  Which commands return.  While the card communication runs and a goroutine watches the
  reader, every command of the client returns (or panics on what the card sent) and
  leaves the mutex free; without a goroutine that watches, the commands that force a scan
  wait for ever, with the mutex held.
\<close>

section \<open>The situation in which commands return\<close>

definition link_live :: "'w link \<Rightarrow> bool" where
  "link_live l \<longleftrightarrow> l_running l \<and> l_card l \<noteq> None"

definition scan_ok :: "'w ctx \<Rightarrow> bool" where
  "scan_ok k \<longleftrightarrow> k_forceScanC k = Some ScanOpen \<and> takeWatcher (k_monitors k) \<noteq> None"

definition conn_ok :: "'w ctx \<Rightarrow> bool" where
  "conn_ok k \<longleftrightarrow> (k_cmdSet k \<noteq> None \<longrightarrow> link_live (k_link k) \<and> scan_ok k)"

definition calm :: "'w ctx \<Rightarrow> bool" where
  "calm k \<longleftrightarrow> \<not> k_mutex k \<and> conn_ok k"

text \<open>The same inside the lock, and inside the lock with a connected card.\<close>

definition calmL :: "'w ctx \<Rightarrow> bool" where
  "calmL k \<longleftrightarrow> k_mutex k \<and> conn_ok k"

definition calmC :: "'w ctx \<Rightarrow> bool" where
  "calmC k \<longleftrightarrow> k_mutex k \<and> k_cmdSet k \<noteq> None \<and> link_live (k_link k) \<and> scan_ok k"

lemmas calm_defs = calm_def calmL_def calmC_def conn_ok_def scan_ok_def

lemma link_live_port: "port_live link_live (kport H)"
proof -
  have k: "nonblocking link_live (onWorld (worldM f))" for f :: "'a \<Rightarrow> (go_error + bytes \<times> bytes) \<times> 'a"
    unfolding onWorld_def
    by (rule nonblocking_zoom [OF nonblocking_worldM]) (simp_all add: link_live_def)
  have "nonblocking link_live (Transmit H b)" for b
  proof (rule nonblockingI)
    fix l :: "'a link" assume l: "link_live l"
    then obtain c where c: "l_running l" "l_card l = Some c" by (auto simp: link_live_def)
    have "runs (onWorld (worldM (h_CardTransmit H c b))) (\<lambda>_. link_live)
        (\<lambda>e _. \<exists>msg. e = Panicked msg) l"
      unfolding onWorld_def
      by (rule nonblockingD [OF nonblocking_zoom [OF nonblocking_worldM]])
        (use l in \<open>simp_all add: link_live_def\<close>)
    with c show "runs (Transmit H b) (\<lambda>_. link_live) (\<lambda>e _. \<exists>msg. e = Panicked msg) l"
      by (simp add: Transmit_def serveRequest_def wp)
  qed
  moreover have "nonblocking link_live (onWorld (worldM (h_RandRead H n)))" for n
    unfolding onWorld_def
    by (rule nonblocking_zoom [OF nonblocking_worldM]) (simp_all add: link_live_def)
  ultimately show ?thesis using k by (simp add: port_live_def kport_def)
qed

text \<open>\<open>leads I J m\<close>: from \<open>I\<close> the command returns with \<open>J\<close>, or panics.\<close>

definition leads :: "('s \<Rightarrow> bool) \<Rightarrow> ('s \<Rightarrow> bool) \<Rightarrow> ('a, 's) gocmd \<Rightarrow> bool" where
  "leads I J m \<longleftrightarrow> (\<forall>s. I s \<longrightarrow> runs m (\<lambda>_. J) (\<lambda>e _. \<exists>msg. e = Panicked msg) s)"

lemma leadsD: "leads I J m \<Longrightarrow> I s \<Longrightarrow> runs m (\<lambda>_. J) (\<lambda>e _. \<exists>msg. e = Panicked msg) s"
  by (simp add: leads_def)

lemma nonblocking_leads: "nonblocking I m \<longleftrightarrow> leads I I m"
  by (simp add: leads_def nonblocking_def)

lemma leads_ret: "(\<And>s. I s \<Longrightarrow> J s) \<Longrightarrow> leads I J (ret x)"
  and leads_panicM: "leads I J (panicM msg)"
  and leads_modifyM: "(\<And>s. I s \<Longrightarrow> J (f s)) \<Longrightarrow> leads I J (modifyM f)"
  by (simp_all add: leads_def wp)

lemma leads_bindM: "leads I J m \<Longrightarrow> (\<And>x. leads J K (f x)) \<Longrightarrow> leads I K (bindM m f)"
  unfolding leads_def by (blast intro: runs_bind)

lemma leads_thenM: "leads I J m \<Longrightarrow> leads J K n \<Longrightarrow> leads I K (thenM m n)"
  unfolding leads_def by (blast intro: runs_then)

lemma leads_cases:
  "(\<And>e. leads I J (m e)) \<Longrightarrow> (\<And>y. leads I J (f y)) \<Longrightarrow>
    leads I J (case x of Inl e \<Rightarrow> m e | Inr y \<Rightarrow> f y)"
  "leads I J n \<Longrightarrow> (\<And>y. leads I J (g y)) \<Longrightarrow> leads I J (case z of None \<Rightarrow> n | Some y \<Rightarrow> g y)"
  "(b \<Longrightarrow> leads I J n) \<Longrightarrow> (\<not> b \<Longrightarrow> leads I J n') \<Longrightarrow> leads I J (if b then n else n')"
  by (simp_all split: sum.split option.split)

section \<open>Each piece\<close>

lemma calmC_calmL: "calmC k \<Longrightarrow> calmL k"
  by (simp add: calm_defs)

lemma leads_rets: "leads calmC calmL (ret x)" "leads calmL calmL (ret x)"
  by (auto intro: leads_ret calmC_calmL)

lemma nonblocking_locked [live]:
  fixes m :: "('a, 'w) kcmd"
  assumes "nonblocking calmL m" shows "nonblocking calm (locked m)"
proof (rule nonblockingI)
  fix k :: "'w ctx" assume k: "calm k"
  have "runs m (\<lambda>_ t. calm (t\<lparr>k_mutex := False\<rparr>)) (\<lambda>e _. \<exists>msg. e = Panicked msg) (k\<lparr>k_mutex := True\<rparr>)"
    by (rule runs_mono [OF nonblockingD [OF assms]]) (use k in \<open>simp_all add: calm_defs\<close>)
  with k show "runs (locked m) (\<lambda>_. calm) (\<lambda>e _. \<exists>msg. e = Panicked msg) k"
    by (intro runs_locked) (simp_all add: calm_def)
qed

lemma leads_withCmdSet:
  fixes m :: "('a, commandSet \<times> 'w link) gocmd"
  assumes "nonblocking (onChan link_live) m"
  shows "leads calmL calmC (withCmdSet m)"
  unfolding leads_def
proof (intro allI impI runs_withCmdSet)
  fix k :: "'w ctx" and cs assume k: "calmL k" and cs: "k_cmdSet k = Some cs"
  then have "onChan link_live (cs, k_link k)" by (simp add: calm_defs)
  from nonblockingD [OF assms this]
  show "runs m (\<lambda>x (cs', l). calmC (k\<lparr>k_cmdSet := Some cs', k_link := l\<rparr>))
      (\<lambda>e (cs', l). \<exists>msg. e = Panicked msg) (cs, k_link k)"
    by (rule runs_mono) (use k cs in \<open>auto simp: calm_defs\<close>)
qed simp

lemma nonblocking_card [live]:
  fixes m :: "('a, commandSet \<times> 'w link) gocmd"
  assumes "nonblocking (onChan link_live) m" and "\<And>x. leads calmC calmL (f x)"
  shows "nonblocking calmL (bindM (withCmdSet m) f)"
  unfolding nonblocking_leads by (rule leads_bindM [OF leads_withCmdSet [OF assms(1)] assms(2)])

lemma leads_reset_scan:
  fixes H :: "'w host"
  shows "leads calmC calmL (thenM (resetCardConnection H) (thenM forceScan (ret x)))"
  unfolding leads_def
proof (intro allI impI)
  fix k :: "'w ctx" assume "calmC k"
  then show "runs (thenM (resetCardConnection H) (thenM forceScan (ret x))) (\<lambda>_. calmL)
      (\<lambda>e _. \<exists>msg. e = Panicked msg) k"
    unfolding runs_thenM
    by (intro runs_resetCardConnection) (auto simp: forceScan_def wp calm_defs)
qed

lemma leads_checkSCardError: "leads calmC calmL (checkSCardError H err)"
  unfolding checkSCardError_def
  by (intro leads_cases leads_reset_scan leads_rets)

lemma leads_checkSum: "leads calmC calmL (checkSum H r)"
  unfolding checkSum_def
  by (intro leads_cases leads_rets leads_thenM [OF leads_checkSCardError])

lemma calm_setters:
  "leads calmC calmC (setState st)" "leads calmC calmC (setAppStatus a)"
  "nonblocking calm (setState st)" "nonblocking calm (setAppInfo i)" "nonblocking calm (setAppStatus a)"
  "nonblocking calm (setMetadata md)" "nonblocking calm publishStatus" "nonblocking calm getState"
  "nonblocking calm (resetStatus st)"
  unfolding setState_def setAppStatus_def setAppInfo_def setMetadata_def publishStatus_def getState_def
    resetStatus_def
  by (auto intro!: leads_modifyM live simp: calm_defs)

lemma leads_set: "leads calmC calmC m \<Longrightarrow> leads calmC K n \<Longrightarrow> leads calmC K (thenM m n)"
  by (rule leads_thenM)

lemma nonblocking_guards [live]:
  "nonblocking I m \<Longrightarrow> nonblocking I (guardErr g m)"
  "nonblocking I n \<Longrightarrow> nonblocking I (guardSum g n)"
  unfolding guardErr_def guardSum_def by (intro live; assumption)+

lemmas card_ops = nonblocking_csops [OF link_live_port] nonblocking_cs_ExportKeyExtended [OF link_live_port]
  nonblocking_kcops [OF link_live_port] nonblocking_kc_FactoryReset [OF link_live_port]

lemma nonblocking_updateApplicationStatus: "nonblocking calm (updateApplicationStatus H)"
  unfolding updateApplicationStatus_def
  by (intro nonblocking_guards nonblocking_locked nonblocking_card card_ops leads_cases leads_set
      calm_setters leads_rets)

lemma nonblocking_onAuthorizeInteractions: "nonblocking calm (onAuthorizeInteractions H a)"
  unfolding onAuthorizeInteractions_def
  by (intro nonblocking_bindM nonblocking_updateApplicationStatus calm_setters nonblocking_thenM
      nonblocking_if nonblocking_ret)

lemma nonblocking_noteKeys: "nonblocking calm (noteKeys uid)"
  unfolding noteKeys_def
  by (intro nonblocking_bindM nonblocking_getM nonblocking_case_option nonblocking_panicM
      nonblocking_thenM calm_setters)

lemma leads_metadata:
  "leads calmC calmL (case ParseMetadata data of
      None \<Rightarrow> blockM ''metadata loop''
    | Some (Inl e) \<Rightarrow> ret (Inl (Wrapped ''failed to parse metadata'' e))
    | Some (Inr md) \<Rightarrow> ret (Inr (Some (ToMetadata md))))"
proof -
  from ParseMetadata_total [of data] obtain r where "ParseMetadata data = Some r" by blast
  then show ?thesis by (simp add: leads_ret calmC_calmL split: sum.split)
qed

lemma nonblocking_GetMetadata: "nonblocking calm (GetMetadata H)"
  unfolding GetMetadata_def
  by (intro nonblocking_guards nonblocking_locked nonblocking_card card_ops leads_cases
      leads_checkSum leads_metadata leads_rets)

lemma nonblocking_updateMetadata: "nonblocking calm (updateMetadata H)"
  unfolding updateMetadata_def
  by (intro nonblocking_bindM nonblocking_GetMetadata nonblocking_case_sum nonblocking_thenM
      calm_setters nonblocking_ret)

lemma nonblocking_parsePaths: "nonblocking I (parsePaths paths)"
  by (induction paths) (auto split: prod.split option.split intro!: live)

lemma nonblocking_exportKey: "nonblocking calm (exportKey H path opt)"
  unfolding exportKey_def Let_def
  by (intro nonblocking_locked nonblocking_card card_ops leads_cases leads_checkSum leads_rets)

lemma nonblocking_ExportLoginKeys: "nonblocking calm (ExportLoginKeys H)"
  unfolding ExportLoginKeys_def keycardHasKeys_def
  by (intro nonblocking_guards nonblocking_bindM nonblocking_getM nonblocking_case_option
      nonblocking_panicM nonblocking_ret nonblocking_bindE nonblocking_exportKey)

lemma nonblocking_perform: "nonblocking calm (perform H req)"
proof -
  note base = nonblocking_guards nonblocking_locked nonblocking_card card_ops nonblocking_deferM
    nonblocking_onAuthorizeInteractions leads_checkSCardError leads_checkSum nonblocking_bindM
    nonblocking_bindE nonblocking_getM calm_setters nonblocking_case_option nonblocking_case_sum
    nonblocking_ret nonblocking_if nonblocking_thenM nonblocking_case_prod
  have "nonblocking calm (Initialize H pin puk pass)" for pin puk pass
    unfolding Initialize_def by (intro base leads_cases leads_reset_scan)
  moreover have "nonblocking calm (VerifyPIN H pin)" for pin
    unfolding VerifyPIN_def
    by (intro base leads_cases leads_rets leads_bindM [OF leads_checkSCardError])
  moreover have "nonblocking calm (ChangePIN H pin)" "nonblocking calm (ChangePUK H pin)"
    "nonblocking calm (UnblockPIN H puk pin)" for puk pin
    unfolding ChangePIN_def ChangePUK_def UnblockPIN_def by (intro base)+
  moreover have "nonblocking calm (GenerateMnemonic H n)" for n
    unfolding GenerateMnemonic_def by (intro base)
  moreover have "nonblocking calm (LoadMnemonic H mn pw)" for mn pw
    unfolding LoadMnemonic_def by (intro base nonblocking_noteKeys)
  moreover have "nonblocking calm (FactoryReset H)"
    unfolding FactoryReset_def by (intro base leads_reset_scan)
  moreover have "nonblocking calm (StoreMetadata H name paths)" for name paths
    unfolding StoreMetadata_def by (intro base nonblocking_parsePaths nonblocking_updateMetadata)
  moreover have "nonblocking calm (ExportRecoverKeys H)"
    unfolding ExportRecoverKeys_def
    by (intro base nonblocking_ExportLoginKeys nonblocking_exportKey)
  moreover have "nonblocking calm (SimulateError e)" for e
    unfolding SimulateError_def by (intro base nonblocking_modifyM) (simp_all add: calm_defs)
  ultimately show ?thesis
    by (cases req) (auto simp: replying_def GetStatus_def intro!: nonblocking_bindM nonblocking_ret
        nonblocking_getM nonblocking_GetMetadata nonblocking_ExportLoginKeys)
qed

section \<open>Without a goroutine that watches\<close>

definition unwatched :: "'w ctx \<Rightarrow> bool" where
  "unwatched k \<longleftrightarrow> k_forceScanC k = Some ScanOpen \<and> takeWatcher (k_monitors k) = None"

lemma forceScan_unwatched:
  "unwatched k \<Longrightarrow> forceScan k = Fault (Blocked ''send nobody receives'') k"
  by (simp add: unwatched_def forceScan_def bindM_def getM_def blockM_def)

lemma runs_reset_scan_unwatched:
  assumes "unwatched k" and "\<And>l. F (Blocked ''send nobody receives'') (k\<lparr>k_cmdSet := None, k_link := l\<rparr>)"
  shows "runs (thenM (resetCardConnection H) (thenM forceScan (ret x))) Q F k"
  unfolding runs_thenM
  by (rule runs_resetCardConnection)
    (use assms in \<open>simp add: runs_def forceScan_unwatched unwatched_def\<close>)

text \<open>The mutex is left locked, and no later command of the card can run.\<close>

definition stuck_locked :: "fault \<Rightarrow> 'w ctx \<Rightarrow> bool" where
  "stuck_locked e t \<longleftrightarrow> (\<exists>msg. e = Panicked msg) \<or> k_mutex t \<and> k_cmdSet t = None"

lemma running_port: "port_live l_running (kport H)"
proof -
  have w: "nonblocking l_running (onWorld (worldM f))" for f :: "'a \<Rightarrow> (go_error + bytes) \<times> 'a"
    unfolding onWorld_def by (rule nonblocking_zoom [OF nonblocking_worldM]) simp_all
  have k: "nonblocking l_running (onWorld (worldM f))" for f :: "'a \<Rightarrow> (go_error + bytes \<times> bytes) \<times> 'a"
    unfolding onWorld_def by (rule nonblocking_zoom [OF nonblocking_worldM]) simp_all
  have "nonblocking l_running (Transmit H b)" for b
  proof (rule nonblockingI)
    fix l :: "'a link" assume l: "l_running l"
    then show "runs (Transmit H b) (\<lambda>_. l_running) (\<lambda>e _. \<exists>msg. e = Panicked msg) l"
      using nonblockingD [OF w l] by (simp add: Transmit_def serveRequest_def wp split: option.split)
  qed
  with w k show ?thesis by (simp add: port_live_def kport_def)
qed

lemma FactoryReset_unwatched:
  assumes "k_cmdSet k \<noteq> None" and "\<not> k_mutex k" and "unwatched k"
    and "l_running (k_link k)"
  shows "runs (FactoryReset H) (\<lambda>_ _. False) stuck_locked k"
proof -
  let ?k = "k\<lparr>k_status := Reset FactoryResetting (k_status k),
    k_signals := k_signals k @ [Reset FactoryResetting (k_status k)]\<rparr>"
  from assms(1) obtain cs where cs: "k_cmdSet ?k = Some cs" by auto
  have "runs (locked (bindM (withCmdSet (kc_FactoryReset (h_prims H) (kport H) True)) (\<lambda>r.
           thenM (resetCardConnection H) (thenM forceScan (ret (errOf r)))))) (\<lambda>_ _. False) stuck_locked ?k"
  proof (rule runs_locked_card [OF cs])
    fix x cs' l
    show "runs (thenM (resetCardConnection H) (thenM forceScan (ret (errOf x))))
        (\<lambda>_ _. False) stuck_locked (?k\<lparr>k_mutex := True, k_cmdSet := Some cs', k_link := l\<rparr>)"
      by (rule runs_reset_scan_unwatched) (use assms(3) in \<open>simp_all add: unwatched_def stuck_locked_def\<close>)
  next
    fix e cs' l
    assume f: "kc_FactoryReset (h_prims H) (kport H) True (cs, k_link ?k) = Fault e (cs', l)"
    have "onChan l_running (cs, k_link ?k)" using assms(4) by simp
    from nonblockingD [OF nonblocking_kc_FactoryReset [OF running_port] this, of "h_prims H" H True] f
    show "stuck_locked e (?k\<lparr>k_mutex := True, k_cmdSet := Some cs', k_link := l\<rparr>)"
      by (auto simp: runs_def stuck_locked_def)
  qed (use assms(2) in simp)
  with assms(1) show ?thesis
    by (simp add: FactoryReset_def guardErr_def keycardConnected_def resetStatus_def publishStatus_def wp)
qed

text \<open>
  A detection step that finds no reader keeps the connection of the card that was in the
  reader: the state becomes \<open>WaitingForReader\<close>, but the command set is still there.
\<close>

lemma detection_no_readers:
  assumes "k_monitors k = [Detecting]" and "k_cardCtx k = Some c" and "k_simulatedError k = None"
    and "h_ListReaders H c (l_world (k_link k)) = (([], err), w)"
    and "err = None \<or> err = Some (SCardError 0x8010002E)"
  shows "\<exists>t. monitorStep H 0 k = Ret () t \<and> State (k_status t) = WaitingForReader \<and>
    k_cmdSet t = k_cmdSet k \<and> k_mutex t = k_mutex k \<and> k_forceScanC t = k_forceScanC k \<and>
    l_running (k_link t) = l_running (k_link k) \<and> k_monitors t = [WaitingChange [pnpReader]] \<and>
    k_signals t = k_signals k @ [k_status t]"
proof -
  have "runs (monitorStep H 0) (\<lambda>_ t. State (k_status t) = WaitingForReader \<and>
    k_cmdSet t = k_cmdSet k \<and> k_mutex t = k_mutex k \<and> k_forceScanC t = k_forceScanC k \<and>
    l_running (k_link t) = l_running (k_link k) \<and> k_monitors t = [WaitingChange [pnpReader]] \<and>
    k_signals t = k_signals k @ [k_status t]) (\<lambda>_ _. False) k"
    using assms
    by (auto simp: monitorStep_def monitorBody_def detectionRoutine_def getCurrentReadersState_def
        simulateError_def connectCard_def chooseReader_def resetStatus_def publishStatus_def wp
        dropNth_def kWorld_def onWorld_def Empty_def Reset_def Let_def)
  then show ?thesis unfolding runs_total by simp
qed

text \<open>With the mutex held for ever a detection step that finds a card waits for ever too.\<close>

lemma selectApplet_locked:
  "k_mutex k \<Longrightarrow> selectApplet H k = Fault (Blocked ''lock of a held mutex'') k"
  by (simp add: selectApplet_def locked_def thenM_def lockM_def bindM_def getM_def blockM_def)

text \<open>
  Reading the metadata of a card that has gone while nobody watches: the goroutine of the
  detection itself is in that situation.
\<close>

lemma GetMetadata_unwatched:
  assumes "k_cmdSet k = Some cs" and "State (k_status k) \<noteq> EmptyKeycard" and "\<not> k_mutex k"
    and "unwatched k"
    and "cs_GetData (h_prims H) (kport H) P1StoreDataPublic (cs, k_link k) = Ret (Inl (SCardError code)) (cs', l)"
  shows "\<exists>t. GetMetadata H k = Fault (Blocked ''send nobody receives'') t \<and> k_mutex t \<and>
    k_cmdSet t = None"
proof -
  have "runs (GetMetadata H) (\<lambda>_ _. False)
    (\<lambda>e t. e = Blocked ''send nobody receives'' \<and> k_mutex t \<and> k_cmdSet t = None) k"
  proof -
    have g: "keycardInitialized k = None" using assms(1,2) by (simp add: keycardInitialized_None)
    show ?thesis
      unfolding GetMetadata_def guardSum_def runs_bindM runs_getM g option.case
    proof (rule runs_locked_card [OF assms(1)])
      fix x cs1 l1
      assume "cs_GetData (h_prims H) (kport H) P1StoreDataPublic (cs, k_link k) = Ret x (cs1, l1)"
      with assms(5) have x: "x = Inl (SCardError code)" by simp
      have "unwatched (k\<lparr>k_mutex := True, k_cmdSet := Some cs1, k_link := l1\<rparr>)"
        using assms(4) by (simp add: unwatched_def)
      from runs_reset_scan_unwatched [OF this, where x = "Some (SCardError code)"]
      show "runs (case x of
           Inl e \<Rightarrow> checkSum H (Inl e)
         | Inr data \<Rightarrow>
             if data = [] then ret (Inr None)
             else (case ParseMetadata data of
                     None \<Rightarrow> blockM ''metadata loop''
                   | Some (Inl e) \<Rightarrow> ret (Inl (Wrapped ''failed to parse metadata'' e))
                   | Some (Inr md) \<Rightarrow> ret (Inr (Some (ToMetadata md))))) (\<lambda>_ _. False)
        (\<lambda>e t. e = Blocked ''send nobody receives'' \<and> k_mutex t \<and> k_cmdSet t = None)
        (k\<lparr>k_mutex := True, k_cmdSet := Some cs1, k_link := l1\<rparr>)"
        by (simp add: x checkSum_def checkSCardError_def runs_thenM)
    qed (use assms(3,5) in simp_all)
  qed
  then show ?thesis by (auto simp: runs_def split: outcome.splits)
qed

end
