(* ===== verification/SessionOptions.thy ===== *)
theory SessionOptions
  imports SessionContext
begin

text \<open>
  The options of the session context: \<open>internal/keycard\_context\_v2\_options.go\<close> with
  \<open>internal/logging/logging.go\<close>, and \<open>NewKeycardContextV2\<close>, which applies them.  An option is a
  command on the new context.  Of logging the model has what can fail: making the logger.
\<close>

section \<open>Loggers\<close>

text \<open>Of the configurations: production or not, and the output paths.\<close>

definition BuildDevelopmentLogger :: "'w host \<Rightarrow> (error, 'w) gocmd" where
  "BuildDevelopmentLogger H = worldM (h_BuildLogger H False [''stderr''])"

definition BuildProductionLogger :: "'w host \<Rightarrow> string \<Rightarrow> (error, 'w) gocmd" where
  "BuildProductionLogger H outputFilePath = worldM (h_BuildLogger H True [outputFilePath])"

definition buildLogger :: "'w host \<Rightarrow> string \<Rightarrow> (error, 'w) gocmd" where
  "buildLogger H outputFile =
     (if outputFile \<noteq> '''' then BuildProductionLogger H outputFile else BuildDevelopmentLogger H)"

section \<open>Options\<close>

definition WithStorage :: "store \<Rightarrow> (unit, 'w) kcmd" where
  "WithStorage st = modifyM (\<lambda>k. k\<lparr>k_pairings := st\<rparr>)"

text \<open>
  When the logger cannot be made it is nil: the error is printed, and then the deferred
  \<open>zap.ReplaceGlobals\<close> copies it.
\<close>

definition WithLogging :: "'w host \<Rightarrow> bool \<Rightarrow> string \<Rightarrow> (unit, 'w) kcmd" where
  "WithLogging H enabled filePath =
     (if \<not> enabled then ret ()
      else
        bindM (kWorld (buildLogger H filePath)) (\<lambda>err.
          if err \<noteq> None then panicM ''nil pointer dereference'' else ret ()))"

primrec applyOptions :: "(unit, 'w) kcmd list \<Rightarrow> (unit, 'w) kcmd" where
  "applyOptions [] = ret ()"
| "applyOptions (option # options) = thenM option (applyOptions options)"

text \<open>A nil store, which nothing reads before the option \<open>WithStorage\<close> has replaced it.\<close>

definition nilStore :: store where
  "nilStore = \<lparr>st_path = '''', st_values = None\<rparr>"

definition NewKeycardContextV2 :: "(unit, 'w) kcmd list \<Rightarrow> (go_error + 'w ctx, 'w) gocmd" where
  "NewKeycardContextV2 options = (\<lambda>w.
     case applyOptions options (contextWith nilStore w) of
       Ret _ k \<Rightarrow> Ret (Inr k) (l_world (k_link k))
     | Fault x k \<Rightarrow> Fault x (l_world (k_link k)))"

text \<open>The options that the service gives.\<close>

definition serviceOptions :: "'w host \<Rightarrow> store \<Rightarrow> bool \<Rightarrow> string \<Rightarrow> (unit, 'w) kcmd list" where
  "serviceOptions H st enabled filePath = [WithStorage st, WithLogging H enabled filePath]"

lemma NewKeycardContextV2_service:
  "NewKeycardContextV2 (serviceOptions H st enabled filePath) w =
     (if \<not> enabled then Ret (Inr (contextWith st w)) w
      else case buildLogger H filePath w of
        Ret None w' \<Rightarrow> Ret (Inr (contextWith st w')) w'
      | Ret (Some e) w' \<Rightarrow> Fault (Panicked ''nil pointer dereference'') w'
      | Fault x w' \<Rightarrow> Fault x w')"
  by (simp add: NewKeycardContextV2_def serviceOptions_def WithStorage_def WithLogging_def contextWith_def
      kWorld_def onWorld_def zoom_def cmd_defs split: outcome.split option.split)

lemma buildLogger_returns: "\<exists>err w'. buildLogger H filePath w = Ret err w'"
  by (simp add: buildLogger_def BuildProductionLogger_def BuildDevelopmentLogger_def worldM_def split: prod.split)

end
