(* ===== verification/SessionService.thy ===== *)
theory SessionService
  imports SessionLive SessionOptions
begin

text \<open>
  \<open>pkg/session/service.go\<close>: the JSON-RPC service over the session context, with the request
  validation of \<open>pkg/session/validate.go\<close>.  A handler returns its error and its reply.
  The world is inside the context while there is one, and kept beside it otherwise.
\<close>

record 'w service =
  s_context :: "'w ctx option"
  s_simulateError :: error
  s_world :: 'w

definition NewService :: "'w \<Rightarrow> 'w service" where
  "NewService w = \<lparr>s_context = None, s_simulateError = None, s_world = w\<rparr>"

type_synonym ('a, 'w) handler = "('a, 'w service) gocmd"

text \<open>A call on \<open>s.keycardContext\<close>.\<close>

definition onContext :: "('a, 'w) kcmd \<Rightarrow> ('a, 'w) handler" where
  "onContext m = (\<lambda>s.
     case s_context s of
       None \<Rightarrow> Fault (Panicked ''nil pointer dereference'') s
     | Some k \<Rightarrow>
         (case m k of
            Ret x k' \<Rightarrow> Ret x (s\<lparr>s_context := Some k'\<rparr>)
          | Fault e k' \<Rightarrow> Fault e (s\<lparr>s_context := Some k'\<rparr>)))"

section \<open>Validation\<close>

text \<open>
  The validator reports, per field, the first tag that fails; \<open>len\<close> counts the characters
  of a string.
\<close>

definition checkLen :: "'w host \<Rightarrow> string \<Rightarrow> nat \<Rightarrow> string \<Rightarrow> (string \<times> string) list" where
  "checkLen H field n v =
     (if v = '''' then [(field, ''required'')]
      else if h_RuneCount H v \<noteq> n then [(field, ''len'')] else [])"

definition checkMnemonic :: "'w host \<Rightarrow> string \<Rightarrow> (string \<times> string) list" where
  "checkMnemonic H v =
     (if v = '''' then [(''Mnemonic'', ''required'')]
      else if \<not> h_MnemonicValid H v then [(''Mnemonic'', ''mnemonic'')] else [])"

definition validateRequest :: "'w host \<Rightarrow> (string \<times> string) list \<Rightarrow> error" where
  "validateRequest H errs = (if errs = [] then None else Some (h_ValidationErrors H errs))"

definition PINLen :: nat where "PINLen = 6"
definition PUKLen :: nat where "PUKLen = 12"

section \<open>Handlers\<close>

definition notStarted :: go_error where
  "notStarted = Sentinel ErrKeycardServiceNotStarted"

text \<open>\<open>if s.keycardContext == nil { return errKeycardServiceNotStarted }\<close>, then the validation.\<close>

definition started :: "'a \<Rightarrow> (error \<times> 'a, 'w) handler \<Rightarrow> (error \<times> 'a, 'w) handler" where
  "started reply m =
     bindM (getM s_context) (\<lambda>c. case c of None \<Rightarrow> ret (Some notStarted, reply) | Some _ \<Rightarrow> m)"

definition validated :: "'w host \<Rightarrow> (string \<times> string) list \<Rightarrow> 'a \<Rightarrow> (error \<times> 'a, 'w) handler \<Rightarrow>
    (error \<times> 'a, 'w) handler" where
  "validated H errs reply m =
     (case validateRequest H errs of Some e \<Rightarrow> ret (Some e, reply) | None \<Rightarrow> m)"

definition callErr :: "(error, 'w) kcmd \<Rightarrow> (error \<times> unit, 'w) handler" where
  "callErr m = bindM (onContext m) (\<lambda>err. ret (err, ()))"

record startRequest =
  sr_StorageFilePath :: string
  sr_LogEnabled :: bool
  sr_LogFilePath :: string

definition svc_Start :: "'w host \<Rightarrow> startRequest \<Rightarrow> (error \<times> unit, 'w) handler" where
  "svc_Start H args =
     bindM (getM (\<lambda>s. s)) (\<lambda>s.
       if s_context s \<noteq> None
       then ret (Some (ErrorString ''keycard service already started''), ())
       else
         bindM (zoom s_world (\<lambda>w s. s\<lparr>s_world := w\<rparr>) (NewStore H (sr_StorageFilePath args))) (\<lambda>r.
           case r of
             Inl e \<Rightarrow> ret (Some (Wrapped ''failed to create pairing store'' e), ())
           | Inr pairingsStore \<Rightarrow>
               bindM (zoom s_world (\<lambda>w s. s\<lparr>s_world := w\<rparr>) (NewKeycardContextV2
                 (serviceOptions H pairingsStore (sr_LogEnabled args) (sr_LogFilePath args)))) (\<lambda>r.
               case r of
                 Inl e \<Rightarrow> thenM (modifyM (\<lambda>s. s\<lparr>s_context := None\<rparr>)) (ret (Some e, ()))
               | Inr k \<Rightarrow>
                   thenM (modifyM (\<lambda>s. s\<lparr>s_context := Some k\<rparr>))
                  (bindM (onContext (SimulateError (s_simulateError s))) (\<lambda>err.
                     case err of
                       Some e \<Rightarrow> ret (Some e, ())
                     | None \<Rightarrow> callErr (Start H))))))"

definition svc_Stop :: "'w host \<Rightarrow> (error \<times> unit, 'w) handler" where
  "svc_Stop H =
     bindM (getM s_context) (\<lambda>c.
       case c of
         None \<Rightarrow> ret (None, ())
       | Some _ \<Rightarrow>
           thenM (onContext (Stop H))
          (thenM (modifyM (\<lambda>s. s\<lparr>s_world := (case s_context s of None \<Rightarrow> s_world s
                    | Some k \<Rightarrow> l_world (k_link k)), s_context := None\<rparr>))
             (ret (None, ()))))"

definition svc_GetStatus :: "(error \<times> status, 'w) handler" where
  "svc_GetStatus =
     started NewStatus (bindM (onContext GetStatus) (\<lambda>st. ret (None, st)))"

definition svc_Initialize :: "'w host \<Rightarrow> string \<Rightarrow> string \<Rightarrow> string \<Rightarrow> (error \<times> unit, 'w) handler" where
  "svc_Initialize H pin puk pairingPassword =
     started () (validated H (checkLen H ''PIN'' PINLen pin @ checkLen H ''PUK'' PUKLen puk) ()
       (let pairingPassword = (if pairingPassword = '''' then DefPairing else pairingPassword) in
        callErr (Initialize H pin puk pairingPassword)))"

definition svc_Authorize :: "'w host \<Rightarrow> string \<Rightarrow> (error \<times> bool, 'w) handler" where
  "svc_Authorize H pin = started False (onContext (VerifyPIN H pin))"

definition svc_ChangePIN :: "'w host \<Rightarrow> string \<Rightarrow> (error \<times> unit, 'w) handler" where
  "svc_ChangePIN H newPIN =
     started () (validated H (checkLen H ''NewPIN'' PINLen newPIN) () (callErr (ChangePIN H newPIN)))"

definition svc_ChangePUK :: "'w host \<Rightarrow> string \<Rightarrow> (error \<times> unit, 'w) handler" where
  "svc_ChangePUK H newPUK =
     started () (validated H (checkLen H ''NewPUK'' PUKLen newPUK) () (callErr (ChangePUK H newPUK)))"

definition svc_Unblock :: "'w host \<Rightarrow> string \<Rightarrow> string \<Rightarrow> (error \<times> unit, 'w) handler" where
  "svc_Unblock H puk newPIN =
     started () (validated H (checkLen H ''PUK'' PUKLen puk @ checkLen H ''NewPIN'' PINLen newPIN) ()
       (callErr (UnblockPIN H puk newPIN)))"

definition svc_GenerateMnemonic :: "'w host \<Rightarrow> int \<Rightarrow> (error \<times> int list, 'w) handler" where
  "svc_GenerateMnemonic H len =
     started [] (bindM (onContext (GenerateMnemonic H len)) (\<lambda>r.
       case r of Inl e \<Rightarrow> ret (Some e, []) | Inr indexes \<Rightarrow> ret (None, indexes)))"

definition svc_LoadMnemonic :: "'w host \<Rightarrow> string \<Rightarrow> string \<Rightarrow> (error \<times> string, 'w) handler" where
  "svc_LoadMnemonic H mnemonic passphrase =
     started '''' (validated H (checkMnemonic H mnemonic) ''''
       (bindM (onContext (LoadMnemonic H mnemonic passphrase)) (\<lambda>r.
         case r of Inl e \<Rightarrow> ret (Some e, Btox []) | Inr keyUID \<Rightarrow> ret (None, Btox keyUID))))"

definition svc_FactoryReset :: "'w host \<Rightarrow> (error \<times> unit, 'w) handler" where
  "svc_FactoryReset H = started () (callErr (FactoryReset H))"

text \<open>A pair of a pointer and an error in the reply: a nil pointer with the error.\<close>

definition replySum :: "(go_error + 'a, 'w) kcmd \<Rightarrow> (error \<times> 'a option, 'w) handler" where
  "replySum m =
     bindM (onContext m) (\<lambda>r. case r of Inl e \<Rightarrow> ret (Some e, None) | Inr x \<Rightarrow> ret (None, Some x))"

definition svc_GetMetadata :: "'w host \<Rightarrow> (error \<times> cardMetadata option, 'w) handler" where
  "svc_GetMetadata H =
     started None (bindM (replySum (GetMetadata H)) (\<lambda>(err, md).
       ret (err, Option.bind md (\<lambda>m. m))))"

definition svc_StoreMetadata :: "'w host \<Rightarrow> string \<Rightarrow> string list \<Rightarrow> (error \<times> unit, 'w) handler" where
  "svc_StoreMetadata H name paths =
     started () (validated H [] () (callErr (StoreMetadata H name paths)))"

definition svc_ExportLoginKeys :: "'w host \<Rightarrow> (error \<times> loginKeys option, 'w) handler" where
  "svc_ExportLoginKeys H = started None (replySum (ExportLoginKeys H))"

definition svc_ExportRecoverKeys :: "'w host \<Rightarrow> (error \<times> recoverKeys option, 'w) handler" where
  "svc_ExportRecoverKeys H = started None (replySum (ExportRecoverKeys H))"

definition svc_SimulateError :: "'w host \<Rightarrow> string \<Rightarrow> (error \<times> unit, 'w) handler" where
  "svc_SimulateError H errText =
     validated H [] ()
       (let errToSimulate = GetSimulatedError errText in
        if errText \<noteq> '''' \<and> errToSimulate = None
        then ret (Some (ErrorString ''unknown error to simulate''), ())
        else
          thenM (modifyM (\<lambda>s. s\<lparr>s_simulateError := errToSimulate\<rparr>))
         (bindM (getM s_context) (\<lambda>c.
            case c of
              None \<Rightarrow> ret (None, ())
            | Some _ \<Rightarrow> callErr (SimulateError errToSimulate))))"

section \<open>Before the start\<close>

text \<open>The handlers that need a context, with their replies forgotten.\<close>

datatype svcRequest =
    SvcStart startRequest
  | SvcStop
  | SvcGetStatus
  | SvcInitialize string string string
  | SvcAuthorize string
  | SvcChangePIN string
  | SvcChangePUK string
  | SvcUnblock string string
  | SvcGenerateMnemonic int
  | SvcLoadMnemonic string string
  | SvcFactoryReset
  | SvcGetMetadata
  | SvcStoreMetadata string "string list"
  | SvcExportLoginKeys
  | SvcExportRecoverKeys
  | SvcSimulateError string

definition errOnly :: "(error \<times> 'a, 'w) handler \<Rightarrow> (error, 'w) handler" where
  "errOnly m = bindM m (\<lambda>(err, _). ret err)"

fun serve :: "'w host \<Rightarrow> svcRequest \<Rightarrow> (error, 'w) handler" where
  "serve H (SvcStart args) = errOnly (svc_Start H args)"
| "serve H SvcStop = errOnly (svc_Stop H)"
| "serve H SvcGetStatus = errOnly svc_GetStatus"
| "serve H (SvcInitialize pin puk pass) = errOnly (svc_Initialize H pin puk pass)"
| "serve H (SvcAuthorize pin) = errOnly (svc_Authorize H pin)"
| "serve H (SvcChangePIN pin) = errOnly (svc_ChangePIN H pin)"
| "serve H (SvcChangePUK puk) = errOnly (svc_ChangePUK H puk)"
| "serve H (SvcUnblock puk pin) = errOnly (svc_Unblock H puk pin)"
| "serve H (SvcGenerateMnemonic n) = errOnly (svc_GenerateMnemonic H n)"
| "serve H (SvcLoadMnemonic mn pw) = errOnly (svc_LoadMnemonic H mn pw)"
| "serve H SvcFactoryReset = errOnly (svc_FactoryReset H)"
| "serve H SvcGetMetadata = errOnly (svc_GetMetadata H)"
| "serve H (SvcStoreMetadata name paths) = errOnly (svc_StoreMetadata H name paths)"
| "serve H SvcExportLoginKeys = errOnly (svc_ExportLoginKeys H)"
| "serve H SvcExportRecoverKeys = errOnly (svc_ExportRecoverKeys H)"
| "serve H (SvcSimulateError text) = errOnly (svc_SimulateError H text)"

fun needs_context :: "svcRequest \<Rightarrow> bool" where
  "needs_context (SvcStart _) = False"
| "needs_context SvcStop = False"
| "needs_context (SvcSimulateError _) = False"
| "needs_context _ = True"

lemma started_None: "s_context s = None \<Longrightarrow> started reply m s = Ret (Some notStarted, reply) s"
  by (simp add: started_def bindM_def getM_def ret_def)

lemma started_Some: "s_context s \<noteq> None \<Longrightarrow> started reply m s = m s"
  by (auto simp: started_def bindM_def getM_def)

lemma serve_not_started:
  "needs_context req \<Longrightarrow> s_context s = None \<Longrightarrow> serve H req s = Ret (Some notStarted) s"
  by (cases req) (simp_all add: errOnly_def bindM_def ret_def started_None svc_GetStatus_def
      svc_Initialize_def svc_Authorize_def svc_ChangePIN_def svc_ChangePUK_def svc_Unblock_def
      svc_GenerateMnemonic_def svc_LoadMnemonic_def svc_FactoryReset_def svc_GetMetadata_def
      svc_StoreMetadata_def svc_ExportLoginKeys_def svc_ExportRecoverKeys_def)

section \<open>Validation before the card\<close>

lemma validateRequest_None: "validateRequest H errs = None \<longleftrightarrow> errs = []"
  by (simp add: validateRequest_def)

lemma checkLen_ok: "checkLen H f n v = [] \<longleftrightarrow> v \<noteq> '''' \<and> h_RuneCount H v = n"
  by (simp add: checkLen_def)

text \<open>The inputs a request may carry to the card.\<close>

fun well_formed_request :: "'w host \<Rightarrow> svcRequest \<Rightarrow> bool" where
  "well_formed_request H (SvcInitialize pin puk _) =
     (pin \<noteq> '''' \<and> h_RuneCount H pin = 6 \<and> puk \<noteq> '''' \<and> h_RuneCount H puk = 12)"
| "well_formed_request H (SvcChangePIN pin) = (pin \<noteq> '''' \<and> h_RuneCount H pin = 6)"
| "well_formed_request H (SvcChangePUK puk) = (puk \<noteq> '''' \<and> h_RuneCount H puk = 12)"
| "well_formed_request H (SvcUnblock puk pin) =
     (puk \<noteq> '''' \<and> h_RuneCount H puk = 12 \<and> pin \<noteq> '''' \<and> h_RuneCount H pin = 6)"
| "well_formed_request H (SvcLoadMnemonic mn _) = (mn \<noteq> '''' \<and> h_MnemonicValid H mn)"
| "well_formed_request H _ = True"

lemma validated_rejects:
  "errs \<noteq> [] \<Longrightarrow> validated H errs reply m s = Ret (Some (h_ValidationErrors H errs), reply) s"
  by (simp add: validated_def validateRequest_def ret_def)

lemma serve_malformed:
  assumes "\<not> well_formed_request H req" and "s_context s \<noteq> None"
  shows "\<exists>e. serve H req s = Ret (Some e) s"
proof -
  have v: "\<exists>e. errOnly (started reply (validated H errs reply m)) s = Ret (Some e) s"
    if "errs \<noteq> []" for reply :: 'b and errs m
    using that assms(2)
    by (auto simp: errOnly_def bindM_def ret_def started_Some validated_rejects)
  from assms(1) show ?thesis
    by (cases req) (auto simp: svc_Initialize_def svc_ChangePIN_def svc_ChangePUK_def svc_Unblock_def
        svc_LoadMnemonic_def PINLen_def PUKLen_def checkLen_ok checkMnemonic_def intro!: v)
qed

section \<open>Life cycle\<close>

lemma svc_Start_twice:
  "s_context s \<noteq> None \<Longrightarrow>
    svc_Start H args s = Ret (Some (ErrorString ''keycard service already started''), ()) s"
  by (simp add: svc_Start_def bindM_def getM_def ret_def)

lemma svc_Stop_clears:
  "runs (svc_Stop H) (\<lambda>r t. r = (None, ()) \<and> s_context t = None) (\<lambda>_ _. True) s"
proof -
  have "runs (thenM (onContext (Stop H))
          (thenM (modifyM (\<lambda>s. s\<lparr>s_world := (case s_context s of None \<Rightarrow> s_world s
                    | Some k \<Rightarrow> l_world (k_link k)), s_context := None\<rparr>))
             (ret (None, ())))) (\<lambda>r t. r = (None, ()) \<and> s_context t = None) (\<lambda>_ _. True) s"
    by (rule runs_then [OF runs_triv]) (simp add: wp)
  then show ?thesis by (cases "s_context s") (simp_all add: svc_Stop_def wp)
qed

text \<open>
  A start that fails because there is no PC/SC leaves the context in place.
\<close>

lemma svc_Start_no_pcsc:
  assumes "s_context s = None" and "s_simulateError s = None"
    and "NewStore H (sr_StorageFilePath args) (s_world s) = Ret (Inr store) w"
    and "sr_LogEnabled args \<Longrightarrow> buildLogger H (sr_LogFilePath args) w = Ret None w"
    and "h_EstablishContext H w = (Inl e, w')"
  shows "\<exists>t. svc_Start H args s = Ret (Some (ErrorString ErrorPCSC), ()) t \<and> s_context t \<noteq> None"
proof -
  have "NewKeycardContextV2 (serviceOptions H store (sr_LogEnabled args) (sr_LogFilePath args)) w =
      Ret (Inr (contextWith store w)) w"
    using assms(4) by (simp add: NewKeycardContextV2_service)
  then have "runs (svc_Start H args) (\<lambda>r t. r = (Some (ErrorString ErrorPCSC), ()) \<and> s_context t \<noteq> None)
      (\<lambda>_ _. False) s"
    using assms(1-3,5)
    by (auto simp: svc_Start_def callErr_def onContext_def contextWith_def SimulateError_def
        Start_def establishContext_def simulateError_def setState_def publishStatus_def kWorld_def
        onWorld_def zoom_def worldM_def runs_def bindM_def thenM_def getM_def modifyM_def ret_def)
  then show ?thesis unfolding runs_total by auto
qed

text \<open>A log file that cannot be opened is a panic, before there is a context.\<close>

lemma svc_Start_bad_log:
  assumes "s_context s = None" and "NewStore H (sr_StorageFilePath args) (s_world s) = Ret (Inr store) w"
    and "sr_LogEnabled args" and "buildLogger H (sr_LogFilePath args) w = Ret (Some e) w'"
  shows "svc_Start H args s = Fault (Panicked ''nil pointer dereference'') (s\<lparr>s_world := w'\<rparr>)"
  using assms by (simp add: svc_Start_def NewKeycardContextV2_service zoom_def cmd_defs)

end
