(* ===== verification/RpcJson.thy ===== *)
theory RpcJson
  imports SessionService
begin

text \<open>
  The JSON of the RPC interface: what \<open>encoding/json\<close> makes of the request structs of
  \<open>pkg/session/service.go\<close> and of the replies (\<open>internal/types.go\<close>,
  \<open>internal/keycard\_context\_v2\_state.go\<close>).  A decoder takes a value and what is to be
  overwritten; \<open>None\<close> is a value of the wrong type.
\<close>

section \<open>Values\<close>

text \<open>A number is an integer when its text is one; the other texts are kept.\<close>

datatype json =
    JNull
  | JBool bool
  | JInt int
  | JFloat string
  | JStr string
  | JArr "json list"
  | JObj "(string \<times> json) list"

type_synonym 'a decoder = "json \<Rightarrow> 'a \<Rightarrow> 'a option"

fun decString :: "string decoder" where
  "decString JNull old = Some old"
| "decString (JStr s) old = Some s"
| "decString _ old = None"

fun decBool :: "bool decoder" where
  "decBool JNull old = Some old"
| "decBool (JBool b) old = Some b"
| "decBool _ old = None"

fun decInt :: "int decoder" where
  "decInt JNull old = Some old"
| "decInt (JInt n) old = (if - (2 ^ 63) \<le> n \<and> n < 2 ^ 63 then Some n else None)"
| "decInt _ old = None"

text \<open>A slice keeps its elements until they are overwritten; a new one starts empty.\<close>

fun decElems :: "json list \<Rightarrow> string list \<Rightarrow> string list option" where
  "decElems [] old = Some []"
| "decElems (j # js) old =
     (case decString j (case old of [] \<Rightarrow> '''' | s # _ \<Rightarrow> s) of
        None \<Rightarrow> None
      | Some s \<Rightarrow> map_option ((#) s) (decElems js (drop 1 old)))"

fun decStrings :: "string list decoder" where
  "decStrings JNull old = Some []"
| "decStrings (JArr js) old = decElems js old"
| "decStrings _ old = None"

text \<open>A field that may be absent; \<open>null\<close> is the nil pointer.\<close>

definition decRaw :: "json option decoder" where
  "decRaw j old = Some (if j = JNull then None else Some j)"

section \<open>Structs\<close>

definition field :: "('r \<Rightarrow> 'a) \<Rightarrow> (('a \<Rightarrow> 'a) \<Rightarrow> 'r \<Rightarrow> 'r) \<Rightarrow> 'a decoder \<Rightarrow> 'r decoder" where
  "field get upd dec = (\<lambda>j r. map_option (\<lambda>x. upd (\<lambda>_. x) r) (dec j (get r)))"

text \<open>A name is looked up as it is written, and then up to the case of its letters.\<close>

definition fieldOf :: "(string \<Rightarrow> string) \<Rightarrow> (string \<times> 'r decoder) list \<Rightarrow> string \<Rightarrow> 'r decoder option" where
  "fieldOf folded fs name =
     (case map_of fs name of
        Some d \<Rightarrow> Some d
      | None \<Rightarrow> map_option snd (List.find (\<lambda>f. folded (fst f) = folded name) fs))"

fun decMembers :: "(string \<Rightarrow> string) \<Rightarrow> (string \<times> 'r decoder) list \<Rightarrow> (string \<times> json) list \<Rightarrow> 'r \<Rightarrow> 'r option" where
  "decMembers folded fs [] r = Some r"
| "decMembers folded fs ((name, j) # ms) r =
     (case fieldOf folded fs name of
        None \<Rightarrow> decMembers folded fs ms r
      | Some d \<Rightarrow> Option.bind (d j r) (decMembers folded fs ms))"

fun decStruct :: "(string \<Rightarrow> string) \<Rightarrow> (string \<times> 'r decoder) list \<Rightarrow> 'r decoder" where
  "decStruct folded fs JNull r = Some r"
| "decStruct folded fs (JObj ms) r = decMembers folded fs ms r"
| "decStruct folded fs _ r = None"

text \<open>
  The array of one interface with a pointer to the arguments.  A first element \<open>null\<close> makes the
  interface nil and leaves the arguments as they are, and so does an empty array; further
  elements are ignored.
\<close>

fun decParams :: "'r decoder \<Rightarrow> json \<Rightarrow> 'r \<Rightarrow> 'r option" where
  "decParams dec JNull zero = Some zero"
| "decParams dec (JArr []) zero = Some zero"
| "decParams dec (JArr (JNull # _)) zero = Some zero"
| "decParams dec (JArr (j # _)) zero = dec j zero"
| "decParams dec _ zero = None"

section \<open>Requests\<close>

record initializeRequest =
  ir_PIN :: string
  ir_PUK :: string
  ir_PairingPassword :: string

record unblockRequest =
  ur_PUK :: string
  ur_NewPIN :: string

record loadMnemonicRequest =
  lr_Mnemonic :: string
  lr_Passphrase :: string

record storeMetadataRequest =
  mr_Name :: string
  mr_Paths :: "string list"

text \<open>A struct of one field is its field.\<close>

definition authorizeFields :: "(string \<times> string decoder) list" where
  "authorizeFields = [(''pin'', decString)]"

definition changePINFields :: "(string \<times> string decoder) list" where
  "changePINFields = [(''newPin'', decString)]"

definition changePUKFields :: "(string \<times> string decoder) list" where
  "changePUKFields = [(''newPuk'', decString)]"

definition generateMnemonicFields :: "(string \<times> int decoder) list" where
  "generateMnemonicFields = [(''length'', decInt)]"

definition simulateErrorFields :: "(string \<times> string decoder) list" where
  "simulateErrorFields = [(''error'', decString)]"

definition startFields :: "(string \<times> startRequest decoder) list" where
  "startFields =
     [(''storageFilePath'', field sr_StorageFilePath sr_StorageFilePath_update decString),
      (''logEnabled'', field sr_LogEnabled sr_LogEnabled_update decBool),
      (''logFilePath'', field sr_LogFilePath sr_LogFilePath_update decString)]"

definition initializeFields :: "(string \<times> initializeRequest decoder) list" where
  "initializeFields =
     [(''pin'', field ir_PIN ir_PIN_update decString),
      (''puk'', field ir_PUK ir_PUK_update decString),
      (''pairingPassword'', field ir_PairingPassword ir_PairingPassword_update decString)]"

definition unblockFields :: "(string \<times> unblockRequest decoder) list" where
  "unblockFields =
     [(''puk'', field ur_PUK ur_PUK_update decString),
      (''newPin'', field ur_NewPIN ur_NewPIN_update decString)]"

definition loadMnemonicFields :: "(string \<times> loadMnemonicRequest decoder) list" where
  "loadMnemonicFields =
     [(''mnemonic'', field lr_Mnemonic lr_Mnemonic_update decString),
      (''passphrase'', field lr_Passphrase lr_Passphrase_update decString)]"

definition storeMetadataFields :: "(string \<times> storeMetadataRequest decoder) list" where
  "storeMetadataFields =
     [(''name'', field mr_Name mr_Name_update decString),
      (''paths'', field mr_Paths mr_Paths_update decStrings)]"

lemmas request_fields = authorizeFields_def changePINFields_def changePUKFields_def
  generateMnemonicFields_def simulateErrorFields_def startFields_def initializeFields_def unblockFields_def
  loadMnemonicFields_def storeMetadataFields_def

text \<open>
  The methods of the service with their arguments.  The arguments start as the zero of their
  type.
\<close>

type_synonym reader = "json \<Rightarrow> svcRequest option"

definition argsOf :: "(string \<Rightarrow> string) \<Rightarrow> (string \<times> 'r decoder) list \<Rightarrow> 'r \<Rightarrow> ('r \<Rightarrow> svcRequest) \<Rightarrow> reader" where
  "argsOf folded fs zero toReq = (\<lambda>params. map_option toReq (decParams (decStruct folded fs) params zero))"

definition noArgs :: "(string \<Rightarrow> string) \<Rightarrow> svcRequest \<Rightarrow> reader" where
  "noArgs folded req = argsOf folded [] () (\<lambda>_. req)"

definition keycardMethods :: "(string \<Rightarrow> string) \<Rightarrow> (string \<times> reader) list" where
  "keycardMethods folded =
     [(''Authorize'', argsOf folded authorizeFields '''' SvcAuthorize),
      (''ChangePIN'', argsOf folded changePINFields '''' SvcChangePIN),
      (''ChangePUK'', argsOf folded changePUKFields '''' SvcChangePUK),
      (''ExportLoginKeys'', noArgs folded SvcExportLoginKeys),
      (''ExportRecoverKeys'', noArgs folded SvcExportRecoverKeys),
      (''FactoryReset'', noArgs folded SvcFactoryReset),
      (''GenerateMnemonic'', argsOf folded generateMnemonicFields 0 SvcGenerateMnemonic),
      (''GetMetadata'', noArgs folded SvcGetMetadata),
      (''GetStatus'', noArgs folded SvcGetStatus),
      (''Initialize'', argsOf folded initializeFields \<lparr>ir_PIN = '''', ir_PUK = '''', ir_PairingPassword = ''''\<rparr>
         (\<lambda>r. SvcInitialize (ir_PIN r) (ir_PUK r) (ir_PairingPassword r))),
      (''LoadMnemonic'', argsOf folded loadMnemonicFields \<lparr>lr_Mnemonic = '''', lr_Passphrase = ''''\<rparr>
         (\<lambda>r. SvcLoadMnemonic (lr_Mnemonic r) (lr_Passphrase r))),
      (''SimulateError'', argsOf folded simulateErrorFields '''' SvcSimulateError),
      (''Start'', argsOf folded startFields \<lparr>sr_StorageFilePath = '''', sr_LogEnabled = False, sr_LogFilePath = ''''\<rparr>
         SvcStart),
      (''Stop'', noArgs folded SvcStop),
      (''StoreMetadata'', argsOf folded storeMetadataFields \<lparr>mr_Name = '''', mr_Paths = []\<rparr>
         (\<lambda>r. SvcStoreMetadata (mr_Name r) (mr_Paths r))),
      (''Unblock'', argsOf folded unblockFields \<lparr>ur_PUK = '''', ur_NewPIN = ''''\<rparr>
         (\<lambda>r. SvcUnblock (ur_PUK r) (ur_NewPIN r)))]"

section \<open>Replies\<close>

definition encHex :: "bytes \<Rightarrow> json" where
  "encHex b = JStr (Btox b)"

definition encPtr :: "('a \<Rightarrow> json) \<Rightarrow> 'a option \<Rightarrow> json" where
  "encPtr enc p = (case p of None \<Rightarrow> JNull | Some x \<Rightarrow> enc x)"

text \<open>A member with \<open>omitempty\<close>.\<close>

definition omitEmpty :: "string \<Rightarrow> ('a list \<Rightarrow> json) \<Rightarrow> 'a list \<Rightarrow> (string \<times> json) list" where
  "omitEmpty name enc xs = (if xs = [] then [] else [(name, enc xs)])"

fun stateText :: "sessionState \<Rightarrow> string" where
  "stateText UnknownReaderState = ''unknown''"
| "stateText NoPCSC = ''no-pcsc''"
| "stateText InternalError = ''internal-error''"
| "stateText WaitingForReader = ''waiting-for-reader''"
| "stateText WaitingForCard = ''waiting-for-card''"
| "stateText ConnectingCard = ''connecting-card''"
| "stateText ConnectionError = ''connection-error''"
| "stateText NotKeycard = ''not-keycard''"
| "stateText EmptyKeycard = ''empty-keycard''"
| "stateText NoAvailablePairingSlots = ''no-available-pairing-slots''"
| "stateText PairingError = ''pairing-error''"
| "stateText BlockedPIN = ''blocked-pin''"
| "stateText BlockedPUK = ''blocked-puk''"
| "stateText Ready = ''ready''"
| "stateText Authorized = ''authorized''"
| "stateText FactoryResetting = ''factory-resetting''"

definition encAppInfo :: "applicationInfoV2 \<Rightarrow> json" where
  "encAppInfo a = JObj
     [(''installed'', JBool (v2_Installed a)), (''initialized'', JBool (v2_Initialized a)),
      (''instanceUID'', encHex (v2_InstanceUID a)), (''version'', JStr (v2_Version a)),
      (''availableSlots'', JInt (v2_AvailableSlots a)), (''keyUID'', encHex (v2_KeyUID a))]"

definition encAppStatus :: "applicationStatus \<Rightarrow> json" where
  "encAppStatus a = JObj
     [(''remainingAttemptsPIN'', JInt (RemainingAttemptsPIN a)),
      (''remainingAttemptsPUK'', JInt (RemainingAttemptsPUK a)),
      (''keyInitialized'', JBool (KeyInitialized a)), (''path'', JStr (Path a))]"

definition encWallet :: "wallet \<Rightarrow> json" where
  "encWallet w = JObj ([(''path'', JStr (w_Path w))] @ omitEmpty ''address'' JStr (w_Address w) @
     [(''publicKey'', encHex (w_PublicKey w))])"

definition encMetadata :: "cardMetadata \<Rightarrow> json" where
  "encMetadata m = JObj [(''name'', JStr (cm_Name m)), (''wallets'', JArr (map encWallet (cm_Wallets m)))]"

definition encStatus :: "status \<Rightarrow> json" where
  "encStatus s = JObj
     [(''state'', JStr (stateText (State s))), (''keycardInfo'', encPtr encAppInfo (AppInfo s)),
      (''keycardStatus'', encPtr encAppStatus (AppStatus s)), (''metadata'', encPtr encMetadata (Metadata s))]"

definition encKeyPair :: "keyPair \<Rightarrow> json" where
  "encKeyPair k = JObj ([(''address'', JStr (kp_Address k)), (''publicKey'', encHex (kp_PublicKey k))] @
     omitEmpty ''privateKey'' encHex (kp_PrivateKey k) @ omitEmpty ''chainCode'' encHex (kp_ChainCode k))"

text \<open>The members of the embedded struct come first, in the same object.\<close>

definition loginKeysMembers :: "loginKeys \<Rightarrow> (string \<times> json) list" where
  "loginKeysMembers k =
     [(''encryptionPrivateKey'', encPtr encKeyPair (EncryptionPrivateKey k)),
      (''whisperPrivateKey'', encPtr encKeyPair (WhisperPrivateKey k))]"

definition encLoginKeys :: "loginKeys \<Rightarrow> json" where
  "encLoginKeys k = JObj (loginKeysMembers k)"

definition encRecoverKeys :: "recoverKeys \<Rightarrow> json" where
  "encRecoverKeys k = JObj (loginKeysMembers (rk_LoginKeys k) @
     [(''eip1581'', encPtr encKeyPair (EIP1581key k)), (''walletRootKey'', encPtr encKeyPair (WalletRootKey k)),
      (''walletKey'', encPtr encKeyPair (WalletKey k)), (''masterKey'', encPtr encKeyPair (MasterKey k))])"

section \<open>A call on the service\<close>

definition replied :: "('a \<Rightarrow> json) \<Rightarrow> (error \<times> 'a, 'w) handler \<Rightarrow> (error \<times> json, 'w) handler" where
  "replied enc m = bindM m (\<lambda>(err, reply). ret (err, enc reply))"

definition encEmpty :: "unit \<Rightarrow> json" where
  "encEmpty _ = JObj []"

text \<open>The response structs of one field.\<close>

definition encAuthorizeResponse :: "bool \<Rightarrow> json" where
  "encAuthorizeResponse authorized = JObj [(''authorized'', JBool authorized)]"

definition encGenerateMnemonicResponse :: "int list \<Rightarrow> json" where
  "encGenerateMnemonicResponse indexes = JObj [(''indexes'', JArr (map JInt indexes))]"

definition encLoadMnemonicResponse :: "string \<Rightarrow> json" where
  "encLoadMnemonicResponse keyUID = JObj [(''keyUID'', JStr keyUID)]"

definition encGetMetadataResponse :: "cardMetadata option \<Rightarrow> json" where
  "encGetMetadataResponse m = JObj [(''metadata'', encPtr encMetadata m)]"

definition encExportLoginKeysResponse :: "loginKeys option \<Rightarrow> json" where
  "encExportLoginKeysResponse keys = JObj [(''keys'', encPtr encLoginKeys keys)]"

definition encExportRecoveredKeysResponse :: "recoverKeys option \<Rightarrow> json" where
  "encExportRecoveredKeysResponse keys = JObj [(''keys'', encPtr encRecoverKeys keys)]"

lemmas response_defs = encEmpty_def encStatus_def encAuthorizeResponse_def encGenerateMnemonicResponse_def
  encLoadMnemonicResponse_def encGetMetadataResponse_def encExportLoginKeysResponse_def
  encExportRecoveredKeysResponse_def

fun callService :: "'w host \<Rightarrow> svcRequest \<Rightarrow> (error \<times> json, 'w) handler" where
  "callService H (SvcStart args) = replied encEmpty (svc_Start H args)"
| "callService H SvcStop = replied encEmpty (svc_Stop H)"
| "callService H SvcGetStatus = replied encStatus svc_GetStatus"
| "callService H (SvcInitialize pin puk pass) = replied encEmpty (svc_Initialize H pin puk pass)"
| "callService H (SvcAuthorize pin) = replied encAuthorizeResponse (svc_Authorize H pin)"
| "callService H (SvcChangePIN pin) = replied encEmpty (svc_ChangePIN H pin)"
| "callService H (SvcChangePUK puk) = replied encEmpty (svc_ChangePUK H puk)"
| "callService H (SvcUnblock puk pin) = replied encEmpty (svc_Unblock H puk pin)"
| "callService H (SvcGenerateMnemonic n) = replied encGenerateMnemonicResponse (svc_GenerateMnemonic H n)"
| "callService H (SvcLoadMnemonic mn pw) = replied encLoadMnemonicResponse (svc_LoadMnemonic H mn pw)"
| "callService H SvcFactoryReset = replied encEmpty (svc_FactoryReset H)"
| "callService H SvcGetMetadata = replied encGetMetadataResponse (svc_GetMetadata H)"
| "callService H (SvcStoreMetadata name paths) = replied encEmpty (svc_StoreMetadata H name paths)"
| "callService H SvcExportLoginKeys = replied encExportLoginKeysResponse (svc_ExportLoginKeys H)"
| "callService H SvcExportRecoverKeys = replied encExportRecoveredKeysResponse (svc_ExportRecoverKeys H)"
| "callService H (SvcSimulateError text) = replied encEmpty (svc_SimulateError H text)"

lemma errOnly_replied: "errOnly (replied enc m) = errOnly m"
  by (rule ext) (simp add: errOnly_def replied_def cmd_defs split: outcome.split prod.split)

text \<open>A reply is an object.\<close>

lemma callService_object:
  assumes "callService H req v = Ret (err, reply) v'"
  shows "\<exists>ms. reply = JObj ms"
proof -
  have "\<exists>ms. reply = JObj ms" if "replied enc m v = Ret (err, reply) v'" and "\<And>x. \<exists>ms. enc x = JObj ms"
    for enc :: "'b \<Rightarrow> json" and m
    using that by (auto simp: replied_def cmd_defs split: outcome.splits prod.splits)
  note object = this
  show ?thesis
    using assms by (cases req) (auto dest!: object simp: response_defs)
qed

lemma serve_callService: "serve H req = errOnly (callService H req)"
  by (cases req) (simp_all add: errOnly_replied)

section \<open>What a client sends\<close>

fun methodName :: "svcRequest \<Rightarrow> string" where
  "methodName (SvcStart _) = ''Start''"
| "methodName SvcStop = ''Stop''"
| "methodName SvcGetStatus = ''GetStatus''"
| "methodName (SvcInitialize _ _ _) = ''Initialize''"
| "methodName (SvcAuthorize _) = ''Authorize''"
| "methodName (SvcChangePIN _) = ''ChangePIN''"
| "methodName (SvcChangePUK _) = ''ChangePUK''"
| "methodName (SvcUnblock _ _) = ''Unblock''"
| "methodName (SvcGenerateMnemonic _) = ''GenerateMnemonic''"
| "methodName (SvcLoadMnemonic _ _) = ''LoadMnemonic''"
| "methodName SvcFactoryReset = ''FactoryReset''"
| "methodName SvcGetMetadata = ''GetMetadata''"
| "methodName (SvcStoreMetadata _ _) = ''StoreMetadata''"
| "methodName SvcExportLoginKeys = ''ExportLoginKeys''"
| "methodName SvcExportRecoverKeys = ''ExportRecoverKeys''"
| "methodName (SvcSimulateError _) = ''SimulateError''"

text \<open>The arguments as Go encodes the request structs; \<open>omitempty\<close> drops zero members.\<close>

fun encArgs :: "svcRequest \<Rightarrow> json" where
  "encArgs (SvcStart a) = JObj ([(''storageFilePath'', JStr (sr_StorageFilePath a))] @
     (if sr_LogEnabled a then [(''logEnabled'', JBool True)] else []) @
     omitEmpty ''logFilePath'' JStr (sr_LogFilePath a))"
| "encArgs (SvcInitialize pin puk pass) =
     JObj [(''pin'', JStr pin), (''puk'', JStr puk), (''pairingPassword'', JStr pass)]"
| "encArgs (SvcAuthorize pin) = JObj [(''pin'', JStr pin)]"
| "encArgs (SvcChangePIN pin) = JObj [(''newPin'', JStr pin)]"
| "encArgs (SvcChangePUK puk) = JObj [(''newPuk'', JStr puk)]"
| "encArgs (SvcUnblock puk pin) = JObj [(''puk'', JStr puk), (''newPin'', JStr pin)]"
| "encArgs (SvcGenerateMnemonic n) = JObj [(''length'', JInt n)]"
| "encArgs (SvcLoadMnemonic mn pw) = JObj [(''mnemonic'', JStr mn), (''passphrase'', JStr pw)]"
| "encArgs (SvcStoreMetadata name paths) = JObj [(''name'', JStr name), (''paths'', JArr (map JStr paths))]"
| "encArgs (SvcSimulateError text) = JObj [(''error'', JStr text)]"
| "encArgs _ = JObj []"

text \<open>A number that fits Go's \<open>int\<close>.\<close>

fun int_args :: "svcRequest \<Rightarrow> bool" where
  "int_args (SvcGenerateMnemonic n) = (- (2 ^ 63) \<le> n \<and> n < 2 ^ 63)"
| "int_args _ = True"

lemma decElems_strings: "decElems (map JStr ss) old = Some ss"
  by (induction ss arbitrary: old) simp_all

lemmas decode_simps = argsOf_def noArgs_def request_fields fieldOf_def field_def omitEmpty_def decElems_strings

lemma keycardMethods_find:
  "map_of (keycardMethods folded) (methodName req) = Some d \<Longrightarrow> int_args req \<Longrightarrow> d (JArr [encArgs req]) = Some req"
  by (cases req) (auto simp: keycardMethods_def decode_simps)

lemma keycardMethods_some: "\<exists>d. map_of (keycardMethods folded) (methodName req) = Some d"
  by (cases req) (simp_all add: keycardMethods_def)

section \<open>Arguments that are missing\<close>

text \<open>The request with the zero of every field.\<close>

fun zeroed :: "svcRequest \<Rightarrow> svcRequest" where
  "zeroed (SvcStart _) = SvcStart \<lparr>sr_StorageFilePath = '''', sr_LogEnabled = False, sr_LogFilePath = ''''\<rparr>"
| "zeroed (SvcInitialize _ _ _) = SvcInitialize '''' '''' ''''"
| "zeroed (SvcAuthorize _) = SvcAuthorize ''''"
| "zeroed (SvcChangePIN _) = SvcChangePIN ''''"
| "zeroed (SvcChangePUK _) = SvcChangePUK ''''"
| "zeroed (SvcUnblock _ _) = SvcUnblock '''' ''''"
| "zeroed (SvcGenerateMnemonic _) = SvcGenerateMnemonic 0"
| "zeroed (SvcLoadMnemonic _ _) = SvcLoadMnemonic '''' ''''"
| "zeroed (SvcStoreMetadata _ _) = SvcStoreMetadata '''' []"
| "zeroed (SvcSimulateError _) = SvcSimulateError ''''"
| "zeroed req = req"

lemma keycardMethods_zero:
  "map_of (keycardMethods folded) (methodName req) = Some d \<Longrightarrow>
     params \<in> {JNull, JArr [], JArr [JNull], JArr [JObj []]} \<Longrightarrow> d params = Some (zeroed req)"
  by (cases req) (auto simp: keycardMethods_def decode_simps)

text \<open>The methods that validate their arguments.\<close>

fun validates :: "svcRequest \<Rightarrow> bool" where
  "validates (SvcInitialize _ _ _) = True"
| "validates (SvcChangePIN _) = True"
| "validates (SvcChangePUK _) = True"
| "validates (SvcUnblock _ _) = True"
| "validates (SvcLoadMnemonic _ _) = True"
| "validates _ = False"

lemma zeroed_well_formed: "well_formed_request H (zeroed req) \<longleftrightarrow> \<not> validates req"
  by (cases req) simp_all

end
