(* ===== verification/RpcServer.thy ===== *)
theory RpcServer
  imports RpcJson
begin

text \<open>
  \<open>pkg/session/rpc.go\<close> and what it uses of \<open>gorilla/rpc\<close>: the registry of services, the JSON
  codec and the dispatch of a request (\<open>map.go\<close>, \<open>json/server.go\<close>, \<open>server.go\<close>).  Reading
  and writing the text of JSON, Go's quoting and letter case are parameters; the rest is here.
\<close>

section \<open>Surroundings\<close>

record rpcEnv =
  r_ToLower :: "string \<Rightarrow> string"
  r_Fold :: "string \<Rightarrow> string"  \<comment> \<open>equal for names that differ in letter case\<close>
  r_Quote :: "string \<Rightarrow> string"
  r_Decode :: "string \<Rightarrow> go_error + json"  \<comment> \<open>the first value of a text\<close>
  r_Encode :: "json \<Rightarrow> string"
  r_TypeError :: "string \<Rightarrow> json \<Rightarrow> go_error"  \<comment> \<open>of a value for a destination\<close>

record httpRequest =
  hr_Method :: string
  hr_ContentType :: string
  hr_Body :: string

record httpReply =
  hp_Status :: nat
  hp_ContentType :: string
  hp_Body :: string

section \<open>The registry\<close>

type_synonym serviceMap = "string \<rightharpoonup> (string \<rightharpoonup> reader)"

definition register :: "rpcEnv \<Rightarrow> (string \<times> reader) list \<Rightarrow> string \<Rightarrow> serviceMap \<Rightarrow> error \<times> serviceMap" where
  "register R methods name services =
     (if methods = [] then
        (Some (ErrorString (''rpc: '' @ r_Quote R name @ '' has no exported methods of suitable type'')), services)
      else if services name \<noteq> None then
        (Some (ErrorString (''rpc: service already defined: '' @ r_Quote R name)), services)
      else (None, services(name \<mapsto> map_of methods)))"

definition getMethod :: "rpcEnv \<Rightarrow> serviceMap \<Rightarrow> string \<Rightarrow> go_error + reader" where
  "getMethod R services name =
     (case splitOn (CHR ''.'') name of
        [service, meth] \<Rightarrow>
          (case services service of
             None \<Rightarrow> Inl (ErrorString (''rpc: can'' @ [quote] @ ''t find service '' @ r_Quote R name))
           | Some methods \<Rightarrow>
               (case methods meth of
                  None \<Rightarrow> Inl (ErrorString (''rpc: can'' @ [quote] @ ''t find method '' @ r_Quote R name))
                | Some m \<Rightarrow> Inr m))
      | _ \<Rightarrow> Inl (ErrorString (''rpc: service/method request ill-formed: '' @ r_Quote R name)))"

record rpcServer =
  rs_codecs :: "string list"
  rs_services :: serviceMap

definition CreateRPCServer :: "rpcEnv \<Rightarrow> rpcServer \<times> error" where
  "CreateRPCServer R =
     (let (err, services) = register R (keycardMethods (r_Fold R)) ''keycard'' Map.empty in
      (\<lparr>rs_codecs = [r_ToLower R ''application/json''], rs_services = services\<rparr>, err))"

section \<open>The codec\<close>

record serverRequest =
  q_Method :: string
  q_Params :: "json option"
  q_Id :: "json option"

definition serverRequestFields :: "(string \<times> serverRequest decoder) list" where
  "serverRequestFields =
     [(''method'', field q_Method q_Method_update decString),
      (''params'', field q_Params q_Params_update decRaw),
      (''id'', field q_Id q_Id_update decRaw)]"

definition newCodecRequest :: "rpcEnv \<Rightarrow> string \<Rightarrow> go_error + serverRequest" where
  "newCodecRequest R body =
     (case r_Decode R body of
        Inl e \<Rightarrow> Inl e
      | Inr j \<Rightarrow>
          (case decStruct (r_Fold R) serverRequestFields j \<lparr>q_Method = '''', q_Params = None, q_Id = None\<rparr> of
             None \<Rightarrow> Inl (r_TypeError R ''serverRequest'' j)
           | Some q \<Rightarrow> Inr q))"

definition ReadRequest :: "rpcEnv \<Rightarrow> reader \<Rightarrow> serverRequest \<Rightarrow> go_error + svcRequest" where
  "ReadRequest R read q =
     (case q_Params q of
        None \<Rightarrow> Inl (ErrorString ''rpc: method request ill-formed: missing params field'')
      | Some params \<Rightarrow>
          (case read params of None \<Rightarrow> Inl (r_TypeError R (q_Method q) params) | Some req \<Rightarrow> Inr req))"

definition serverResponse :: "error \<Rightarrow> json \<Rightarrow> json \<Rightarrow> json" where
  "serverResponse err reply i = JObj
     (case err of
        None \<Rightarrow> [(''result'', reply), (''error'', JNull), (''id'', i)]
      | Some e \<Rightarrow> [(''result'', JNull), (''error'', JStr (error_text e)), (''id'', i)])"

definition WriteResponse :: "rpcEnv \<Rightarrow> serverRequest \<Rightarrow> json \<Rightarrow> error \<Rightarrow> httpReply" where
  "WriteResponse R q reply err =
     (case q_Id q of
        None \<Rightarrow> \<lparr>hp_Status = 200, hp_ContentType = '''', hp_Body = ''''\<rparr>
      | Some i \<Rightarrow> \<lparr>hp_Status = 200, hp_ContentType = ''application/json; charset=utf-8'',
          hp_Body = r_Encode R (serverResponse err reply i) @ [CHR 0x0A]\<rparr>)"

section \<open>Dispatch\<close>

definition writeError :: "nat \<Rightarrow> string \<Rightarrow> httpReply" where
  "writeError status msg =
     \<lparr>hp_Status = status, hp_ContentType = ''text/plain; charset=utf-8'', hp_Body = msg\<rparr>"

definition mediaType :: "string \<Rightarrow> string" where
  "mediaType contentType = takeWhile (\<lambda>c. c \<noteq> CHR '';'') contentType"

definition codecFound :: "rpcEnv \<Rightarrow> rpcServer \<Rightarrow> string \<Rightarrow> bool" where
  "codecFound R server contentType \<longleftrightarrow>
     contentType = '''' \<and> length (rs_codecs server) = 1 \<or> r_ToLower R contentType \<in> set (rs_codecs server)"

text \<open>The request, up to the call of the method: the answer when it is refused.\<close>

definition readCall :: "rpcEnv \<Rightarrow> rpcServer \<Rightarrow> httpRequest \<Rightarrow> httpReply + serverRequest \<times> svcRequest" where
  "readCall R server r =
     (if hr_Method r \<noteq> ''POST'' then
        Inl (writeError 405 (''rpc: POST method required, received '' @ hr_Method r))
      else if \<not> codecFound R server (mediaType (hr_ContentType r)) then
        Inl (writeError 415 (''rpc: unrecognized Content-Type: '' @ mediaType (hr_ContentType r)))
      else
        (case newCodecRequest R (hr_Body r) of
           Inl e \<Rightarrow> Inl (writeError 400 (error_text e))
         | Inr q \<Rightarrow>
             (case getMethod R (rs_services server) (q_Method q) of
                Inl e \<Rightarrow> Inl (writeError 400 (error_text e))
              | Inr read \<Rightarrow>
                  (case ReadRequest R read q of
                     Inl e \<Rightarrow> Inl (writeError 400 (error_text e))
                   | Inr req \<Rightarrow> Inr (q, req)))))"

definition ServeHTTP :: "rpcEnv \<Rightarrow> 'w host \<Rightarrow> rpcServer \<Rightarrow> httpRequest \<Rightarrow> (httpReply, 'w) handler" where
  "ServeHTTP R H server r =
     (case readCall R server r of
        Inl answer \<Rightarrow> ret answer
      | Inr (q, req) \<Rightarrow>
          bindM (callService H req) (\<lambda>(err, reply). ret (WriteResponse R q reply err)))"

section \<open>The server of the program\<close>

lemma CreateRPCServer_simps [simp]:
  "snd (CreateRPCServer R) = None"
  "rs_codecs (fst (CreateRPCServer R)) = [r_ToLower R ''application/json'']"
  "rs_services (fst (CreateRPCServer R)) = [''keycard'' \<mapsto> map_of (keycardMethods (r_Fold R))]"
  by (simp_all add: CreateRPCServer_def register_def keycardMethods_def)

lemma methodName_no_dot [simp]: "CHR ''.'' \<notin> set (methodName req)"
  by (cases req) simp_all

lemma getMethod_keycard:
  "CHR ''.'' \<notin> set m \<Longrightarrow> getMethod R [''keycard'' \<mapsto> methods] (''keycard.'' @ m) =
     (case methods m of
        None \<Rightarrow> Inl (ErrorString (''rpc: can'' @ [quote] @ ''t find method '' @ r_Quote R (''keycard.'' @ m)))
      | Some d \<Rightarrow> Inr d)"
  using splitOn_append [of "CHR ''.''" "''keycard''" m]
  by (simp add: getMethod_def splitOn_none del: splitOn.simps split: option.split)

text \<open>The body of a request that a client sends for a call.\<close>

definition clientRequest :: "svcRequest \<Rightarrow> json \<Rightarrow> json" where
  "clientRequest req i = JObj
     [(''method'', JStr (''keycard.'' @ methodName req)), (''params'', JArr [encArgs req]), (''id'', i)]"

definition jsonPost :: "string \<Rightarrow> httpRequest" where
  "jsonPost body = \<lparr>hr_Method = ''POST'', hr_ContentType = ''application/json'', hr_Body = body\<rparr>"

lemma codecFound_json [simp]: "codecFound R (fst (CreateRPCServer R)) (mediaType ''application/json'')"
  by (simp add: codecFound_def mediaType_def)

lemma getMethod_client:
  "\<exists>d. map_of (keycardMethods (r_Fold R)) (methodName req) = Some d \<and>
     getMethod R [''keycard'' \<mapsto> map_of (keycardMethods (r_Fold R))] (''keycard.'' @ methodName req) = Inr d"
  using keycardMethods_some [of "r_Fold R" req]
  by (auto simp: getMethod_keycard [OF methodName_no_dot] simp del: append_Cons)

lemma newCodecRequest_client:
  "r_Decode R body = Inr (clientRequest req i) \<Longrightarrow> newCodecRequest R body =
     Inr \<lparr>q_Method = ''keycard.'' @ methodName req, q_Params = Some (JArr [encArgs req]),
       q_Id = (if i = JNull then None else Some i)\<rparr>"
  by (simp add: newCodecRequest_def clientRequest_def serverRequestFields_def field_def fieldOf_def decRaw_def)

lemma readCall_client:
  assumes "r_Decode R body = Inr (clientRequest req i)" and "int_args req"
  shows "readCall R (fst (CreateRPCServer R)) (jsonPost body) =
    Inr (\<lparr>q_Method = ''keycard.'' @ methodName req, q_Params = Some (JArr [encArgs req]),
       q_Id = (if i = JNull then None else Some i)\<rparr>, req)"
proof -
  from getMethod_client obtain d where d: "map_of (keycardMethods (r_Fold R)) (methodName req) = Some d"
    "getMethod R [''keycard'' \<mapsto> map_of (keycardMethods (r_Fold R))] (''keycard.'' @ methodName req) = Inr d"
    by blast
  then show ?thesis
    using keycardMethods_find [OF d(1) assms(2)]
    by (simp add: readCall_def jsonPost_def newCodecRequest_client [OF assms(1)] ReadRequest_def)
qed

section \<open>Refused requests\<close>

lemma readCall_refused: "readCall R server r = Inl answer \<Longrightarrow> hp_Status answer \<in> {400, 405, 415}"
  by (auto simp: readCall_def writeError_def split: if_splits sum.splits)

lemma ServeHTTP_refused:
  "readCall R server r = Inl answer \<Longrightarrow> ServeHTTP R H server r v = Ret answer v"
  by (simp add: ServeHTTP_def ret_def)

lemma ServeHTTP_called:
  "readCall R server r = Inr (q, req) \<Longrightarrow> ServeHTTP R H server r v =
     (case callService H req v of
        Ret (err, reply) v' \<Rightarrow> Ret (WriteResponse R q reply err) v'
      | Fault x v' \<Rightarrow> Fault x v')"
  by (simp add: ServeHTTP_def cmd_defs split: outcome.split prod.split)

lemma WriteResponse_status [simp]: "hp_Status (WriteResponse R q reply err) = 200"
  by (simp add: WriteResponse_def split: option.split)

text \<open>The answer to a call with an id: one of the result and the error is null.\<close>

lemma WriteResponse_shape:
  assumes "reply \<noteq> JNull"
  shows "case q_Id q of
     None \<Rightarrow> hp_Body (WriteResponse R q reply err) = ''''
   | Some i \<Rightarrow> (\<exists>result error. hp_Body (WriteResponse R q reply err) =
       r_Encode R (JObj [(''result'', result), (''error'', error), (''id'', i)]) @ [CHR 0x0A] \<and>
       (result = JNull \<longleftrightarrow> err \<noteq> None) \<and> (error = JNull \<longleftrightarrow> err = None))"
proof (cases "q_Id q")
  case (Some i)
  have "\<exists>result error. serverResponse err reply i = JObj [(''result'', result), (''error'', error), (''id'', i)] \<and>
    (result = JNull \<longleftrightarrow> err \<noteq> None) \<and> (error = JNull \<longleftrightarrow> err = None)"
    using assms by (cases err) (simp_all add: serverResponse_def)
  then obtain result error where
    shape: "serverResponse err reply i = JObj [(''result'', result), (''error'', error), (''id'', i)]"
    "result = JNull \<longleftrightarrow> err \<noteq> None" "error = JNull \<longleftrightarrow> err = None" by blast
  have "hp_Body (WriteResponse R q reply err) = r_Encode R (serverResponse err reply i) @ [CHR 0x0A]"
    by (simp add: WriteResponse_def Some)
  with shape show ?thesis unfolding Some option.case by metis
qed (simp add: WriteResponse_def)

text \<open>Only a request that is not answered 200 stays away from the service.\<close>

lemma readCall_refused_text:
  "readCall R server r = Inl answer \<Longrightarrow> hp_ContentType answer = ''text/plain; charset=utf-8''"
  by (auto simp: readCall_def writeError_def split: if_splits sum.splits)

lemma ServeHTTP_status:
  assumes "ServeHTTP R H server r v = Ret answer v'"
  shows "(hp_Status answer \<noteq> 200 \<longleftrightarrow> readCall R server r = Inl answer) \<and>
    (hp_Status answer \<noteq> 200 \<longrightarrow> v' = v)"
proof (cases "readCall R server r")
  case (Inl a)
  then show ?thesis using assms readCall_refused [OF Inl] by (auto simp: ServeHTTP_refused)
next
  case (Inr qr)
  then show ?thesis using assms by (cases qr) (auto simp: ServeHTTP_called split: outcome.splits prod.splits)
qed

end
