(* ===== verification/ServiceSystem.thy ===== *)
theory ServiceSystem
  imports RpcJson
begin

text \<open>
  The session service as a transition system: its calls and the goroutines of its context, in any
  order.  The context it holds is always in a reachable state of the session, so that what holds
  of all of them holds of what a client of the service sees.
\<close>

section \<open>What a command leaves behind\<close>

text \<open>A command that waits for ever leaves its state behind; a panic ends the process.\<close>

definition stays :: "('s \<Rightarrow> bool) \<Rightarrow> ('a, 's) gocmd \<Rightarrow> bool" where
  "stays P m \<longleftrightarrow> (\<forall>s. P s \<longrightarrow> runs m (\<lambda>_. P) (\<lambda>x t. (\<exists>msg. x = Blocked msg) \<longrightarrow> P t) s)"

lemma staysD: "stays P m \<Longrightarrow> P s \<Longrightarrow> leaves m s t \<Longrightarrow> P t"
  by (auto simp: stays_def leaves_def runs_def)

lemma staysI: "(\<And>s t. P s \<Longrightarrow> leaves m s t \<Longrightarrow> P t) \<Longrightarrow> stays P m"
  by (auto simp: stays_def leaves_def runs_def split: outcome.split)

lemma stays_ret: "stays P (ret x)"
  by (simp add: stays_def wp)

lemma stays_bindM: "stays P m \<Longrightarrow> (\<And>x. stays P (f x)) \<Longrightarrow> stays P (bindM m f)"
proof (rule staysI)
  fix s t assume s: "P s" and m: "stays P m" "\<And>x. stays P (f x)" and l: "leaves (bindM m f) s t"
  show "P t"
  proof (cases "m s")
    case (Ret x u)
    then have "P u" by (intro staysD [OF m(1) s]) (simp add: leaves_def)
    moreover have "leaves (f x) u t" using l Ret by (simp add: leaves_def bindM_def)
    ultimately show ?thesis using staysD [OF m(2)] by blast
  next
    case (Fault e u)
    then have "leaves m s t" using l by (auto simp: leaves_def bindM_def)
    with staysD [OF m(1) s] show ?thesis .
  qed
qed

lemma stays_replied: "stays P m \<Longrightarrow> stays P (replied enc m)"
  unfolding replied_def by (intro stays_bindM) (auto intro: stays_ret)

lemma leaves_replying: "leaves (replying f m) = leaves m"
  by (intro ext) (auto simp: leaves_def replying_def cmd_defs split: outcome.splits)

lemma leaves_bind_ret: "leaves (bindM m (\<lambda>x. ret (f x))) = leaves m"
  by (intro ext) (auto simp: leaves_def cmd_defs split: outcome.splits)

section \<open>The context of the service\<close>

abbreviation session_reach :: "'w host \<Rightarrow> 'w ctx \<Rightarrow> bool" where
  "session_reach H \<equiv> reach (session_init H) (session_step H)"

definition simulatable :: "error \<Rightarrow> bool" where
  "simulatable err \<longleftrightarrow> (\<forall>e. err = Some e \<longrightarrow> GetSimulatedError (error_text e) \<noteq> None)"

definition service_ok :: "'w host \<Rightarrow> 'w service \<Rightarrow> bool" where
  "service_ok H s \<longleftrightarrow> simulatable (s_simulateError s) \<and> (\<forall>k. s_context s = Some k \<longrightarrow> session_reach H k)"

lemma simulatable_GetSimulatedError: "simulatable (GetSimulatedError text)"
  using GetSimulatedError_text [of "text"] by (auto simp: simulatable_def) (metis error_text.simps(7) not_Some_eq)

lemma service_ok_onContext:
  assumes "\<And>k t. leaves m k t \<Longrightarrow> session_step H k t"
  shows "stays (service_ok H) (onContext m)"
proof (rule staysI)
  fix s t assume s: "service_ok H s" "leaves (onContext m) s t"
  then obtain k k' where k: "s_context s = Some k" "leaves m k k'" "t = s\<lparr>s_context := Some k'\<rparr>"
    by (auto simp: leaves_def onContext_def split: option.splits outcome.splits)
  from k(1) s(1) have "session_reach H k" by (simp add: service_ok_def)
  from reach_step [OF this assms [OF k(2)]] s(1) k(3) show "service_ok H t"
    by (simp add: service_ok_def)
qed

lemma steps:
  "leaves GetStatus k t \<Longrightarrow> session_step H k t"
  "leaves (Initialize H pin puk pass) k t \<Longrightarrow> session_step H k t"
  "leaves (VerifyPIN H pin) k t \<Longrightarrow> session_step H k t"
  "leaves (ChangePIN H pin) k t \<Longrightarrow> session_step H k t"
  "leaves (ChangePUK H puk) k t \<Longrightarrow> session_step H k t"
  "leaves (UnblockPIN H puk pin) k t \<Longrightarrow> session_step H k t"
  "leaves (GenerateMnemonic H n) k t \<Longrightarrow> session_step H k t"
  "leaves (LoadMnemonic H mn pw) k t \<Longrightarrow> session_step H k t"
  "leaves (FactoryReset H) k t \<Longrightarrow> session_step H k t"
  "leaves (GetMetadata H) k t \<Longrightarrow> session_step H k t"
  "leaves (StoreMetadata H name paths) k t \<Longrightarrow> session_step H k t"
  "leaves (ExportLoginKeys H) k t \<Longrightarrow> session_step H k t"
  "leaves (ExportRecoverKeys H) k t \<Longrightarrow> session_step H k t"
  "leaves (SimulateError e) k t \<Longrightarrow> session_step H k t"
  "leaves (Stop H) k t \<Longrightarrow> session_step H k t"
  using by_request [of H ReqGetStatus k t] by_request [of H "ReqInitialize pin puk pass" k t]
    by_request [of H "ReqVerifyPIN pin" k t] by_request [of H "ReqChangePIN pin" k t]
    by_request [of H "ReqChangePUK puk" k t] by_request [of H "ReqUnblockPIN puk pin" k t]
    by_request [of H "ReqGenerateMnemonic n" k t] by_request [of H "ReqLoadMnemonic mn pw" k t]
    by_request [of H ReqFactoryReset k t] by_request [of H ReqGetMetadata k t]
    by_request [of H "ReqStoreMetadata name paths" k t] by_request [of H ReqExportLoginKeys k t]
    by_request [of H ReqExportRecoverKeys k t] by_request [of H "ReqSimulateError e" k t]
    by_stop [of H k t]
  by (simp_all add: leaves_replying)

lemma stays_started: "stays P m \<Longrightarrow> stays P (started reply m)"
  by (auto simp: started_def stays_def wp split: option.split)

lemma stays_validated: "stays P m \<Longrightarrow> stays P (validated H errs reply m)"
  by (auto simp: validated_def stays_ret split: option.split)

lemma stays_callErr:
  "(\<And>k t. leaves m k t \<Longrightarrow> session_step H k t) \<Longrightarrow> stays (service_ok H) (callErr m)"
  unfolding callErr_def by (intro stays_bindM stays_ret service_ok_onContext)

lemma stays_replySum:
  "(\<And>k t. leaves m k t \<Longrightarrow> session_step H k t) \<Longrightarrow> stays (service_ok H) (replySum m)"
  unfolding replySum_def by (intro stays_bindM service_ok_onContext) (auto split: sum.split intro: stays_ret)

section \<open>Starting and stopping\<close>

lemma SimulateError_simulatable:
  "simulatable err \<Longrightarrow> SimulateError err k = Ret None (k\<lparr>k_simulatedError := err\<rparr>)"
  by (cases err) (simp_all add: SimulateError_def simulatable_def cmd_defs)

lemma service_ok_init:
  assumes "simulatable e" and "leaves (Start H) ((contextWith st w)\<lparr>k_simulatedError := e\<rparr>) k"
  shows "session_reach H k"
proof -
  have "leaves (thenM (SimulateError e) (Start H)) (contextWith st w) k"
    using assms by (simp add: leaves_def SimulateError_simulatable cmd_defs)
  then show ?thesis by (intro reach_init) (auto simp: session_init_def)
qed

lemma NewStore_keeps_world: "\<exists>r w'. NewStore H path w = Ret r w'"
  by (auto simp: NewStore_def bindE_def worldM_def cmd_defs split: readResult.split sum.split option.split prod.split)

lemma service_ok_svc_Start: "stays (service_ok H) (svc_Start H args)"
proof (rule staysI)
  fix s t assume s: "service_ok H s" "leaves (svc_Start H args) s t"
  obtain r w where store: "NewStore H (sr_StorageFilePath args) (s_world s) = Ret r w"
    using NewStore_keeps_world [of H "sr_StorageFilePath args" "s_world s"] by auto
  obtain err w' where log: "buildLogger H (sr_LogFilePath args) w = Ret err w'"
    using buildLogger_returns [of H "sr_LogFilePath args" w] by auto
  show "service_ok H t"
  proof (cases "s_context s \<noteq> None \<or> (\<exists>e. r = Inl e) \<or> sr_LogEnabled args \<and> err \<noteq> None")
    case True
    then show ?thesis
      using s store log by (cases r) (auto simp: svc_Start_def NewKeycardContextV2_service leaves_def zoom_def cmd_defs
          service_ok_def split: if_splits)
  next
    case False
    then obtain st where st: "r = Inr st" by (cases r) auto
    let ?w = "if sr_LogEnabled args then w' else w"
    let ?k = "(contextWith st ?w)\<lparr>k_simulatedError := s_simulateError s\<rparr>"
    have "simulatable (s_simulateError s)" using s(1) by (simp add: service_ok_def)
    then have "svc_Start H args s = callErr (Start H) (s\<lparr>s_world := ?w, s_context := Some ?k\<rparr>)"
      using False store log st by (simp add: svc_Start_def NewKeycardContextV2_service zoom_def cmd_defs
          onContext_def SimulateError_simulatable)
    with s(2) have "leaves (callErr (Start H)) (s\<lparr>s_world := ?w, s_context := Some ?k\<rparr>) t"
      by (simp add: leaves_def)
    then obtain k where "leaves (Start H) ?k k" "t = s\<lparr>s_world := ?w, s_context := Some k\<rparr>"
      by (auto simp: callErr_def leaves_bind_ret leaves_def onContext_def split: outcome.splits)
    with service_ok_init [OF \<open>simulatable (s_simulateError s)\<close>, of H st ?w] s(1) show ?thesis
      by (simp add: service_ok_def)
  qed
qed

lemma service_ok_svc_Stop: "stays (service_ok H) (svc_Stop H)"
proof -
  have "stays (service_ok H) (onContext (Stop H))" by (rule service_ok_onContext) (rule steps)
  then show ?thesis
    by (fastforce simp: svc_Stop_def stays_def wp service_ok_def runs_def cmd_defs split: outcome.splits option.splits)
qed

lemma service_ok_svc_SimulateError: "stays (service_ok H) (svc_SimulateError H text)"
proof -
  have "stays (service_ok H) (callErr (SimulateError e))" for e by (rule stays_callErr) (rule steps)
  then show ?thesis
    unfolding svc_SimulateError_def
    by (intro stays_validated)
       (auto simp: stays_def wp service_ok_def Let_def simulatable_GetSimulatedError split: option.split)
qed

section \<open>The system\<close>

lemma service_ok_call: "stays (service_ok H) (callService H req)"
proof (cases req)
  case (SvcStart args)
  then show ?thesis by (simp add: stays_replied service_ok_svc_Start)
next
  case SvcStop
  then show ?thesis by (simp add: stays_replied service_ok_svc_Stop)
next
  case (SvcSimulateError t)
  then show ?thesis by (simp add: stays_replied service_ok_svc_SimulateError)
qed (auto simp: svc_GetStatus_def svc_Initialize_def svc_Authorize_def svc_ChangePIN_def svc_ChangePUK_def
      svc_Unblock_def svc_GenerateMnemonic_def svc_LoadMnemonic_def svc_FactoryReset_def svc_GetMetadata_def
      svc_StoreMetadata_def svc_ExportLoginKeys_def svc_ExportRecoverKeys_def Let_def split: sum.split
      intro!: stays_replied stays_started stays_validated stays_callErr stays_replySum stays_bindM stays_ret
        service_ok_onContext intro: steps)

lemma service_ok_goroutine:
  assumes "service_ok H s" and "s_context s = Some k" and "leaves (monitorStep H i) k k'"
  shows "service_ok H (s\<lparr>s_context := Some k'\<rparr>)"
  using assms(1,2) reach_step [of "session_init H" "session_step H" k k'] by_monitor [OF assms(3)]
  by (simp add: service_ok_def)

lemma service_ok_new: "service_ok H (NewService w)"
  by (simp add: service_ok_def NewService_def simulatable_def)

inductive service_step :: "'w host \<Rightarrow> 'w service \<Rightarrow> 'w service \<Rightarrow> bool" for H where
  service_call: "leaves (callService H req) s t \<Longrightarrow> service_step H s t"
| service_goroutine: "s_context s = Some k \<Longrightarrow> leaves (monitorStep H i) k k' \<Longrightarrow>
    service_step H s (s\<lparr>s_context := Some k'\<rparr>)"

interpretation service: invariant_system "\<lambda>s. \<exists>w. s = NewService w" "service_step H" "service_ok H" for H
proof
  fix s t :: "'a service" assume "service_ok H s" and "service_step H s t"
  from this(2,1) show "service_ok H t"
    by (cases rule: service_step.cases) (auto intro: staysD [OF service_ok_call] service_ok_goroutine)
qed (auto simp: service_ok_new)

text \<open>What holds in every state of the session holds of the context of the service.\<close>

lemma service_ok_context:
  assumes "service_ok H s" and "s_context s = Some k"
  shows "status_ok (k_status k)" and "\<forall>st \<in> set (k_signals k). status_ok st" and "length (k_monitors k) \<le> 1"
proof -
  from assms have r: "session_reach H k" by (simp add: service_ok_def)
  from session_status.reach_inv [OF r] show "status_ok (k_status k)" "\<forall>st \<in> set (k_signals k). status_ok st" by auto
  from session_monitors.reach_inv [OF r] show "length (k_monitors k) \<le> 1" by simp
qed

end
