(* ===== verification/SharedApi.thy ===== *)
theory SharedApi
  imports Flows RpcServer ServiceSystem MockFlow
begin

text \<open>
  The C interface: \<open>shared/main.go\<close>, \<open>api\_flow.go\<close> and \<open>api\_session.go\<close>, and its double
  \<open>shared-mocked/main.go\<close>.  The library holds a flow or an RPC server in package variables, and
  at most one of them.  A flow that is replaced or forgotten goes on with its goroutines, so the
  state keeps it: \<open>g_lost\<close> has no variable in the code.

  The JSON of the flow's parameters and of the answer to an error is a parameter.
\<close>

section \<open>The library\<close>

record 'w libEnv =
  l_host :: "'w host"
  l_UnmarshalParams :: "string \<Rightarrow> go_error + clientParams"
  l_MarshalError :: "string \<Rightarrow> string"
  l_rpc :: rpcEnv
  l_ReadAll :: "string \<Rightarrow> go_error + string"  \<comment> \<open>the body of an answer as it is read\<close>
  l_wakeUp :: "'w flow \<Rightarrow> 'w flow option"  \<comment> \<open>the flow when its goroutine has received from \<open>wakeUp\<close>, if ever\<close>

record 'w library =
  g_flow :: "'w flow option"
  g_rpc :: "rpcServer option"  \<comment> \<open>\<open>globalRPCServer\<close>\<close>
  g_service :: "'w service"  \<comment> \<open>\<open>session.globalKeycardService\<close>\<close>
  g_lost :: "'w flow list"
  g_world :: 'w

definition emptyLibrary :: "'w \<Rightarrow> 'w library" where
  "emptyLibrary w = \<lparr>g_flow = None, g_rpc = None, g_service = NewService w, g_lost = [], g_world = w\<rparr>"

type_synonym ('a, 'w) lcmd = "('a, 'w library) gocmd"

datatype api = noAPI | flowAPI | sessionAPI

definition checkAPIMutualExclusion :: "api \<Rightarrow> (error, 'w) lcmd" where
  "checkAPIMutualExclusion requestedAPI =
     (case requestedAPI of
        flowAPI \<Rightarrow> bindM (getM g_rpc) (\<lambda>rpc. ret
          (if rpc \<noteq> None then Some (ErrorString ''not allowed to start flow API when session API is being used'') else None))
      | sessionAPI \<Rightarrow> bindM (getM g_flow) (\<lambda>f. ret
          (if f \<noteq> None then Some (ErrorString ''not allowed to start session API when flow API is being used'') else None))
      | noAPI \<Rightarrow> panicM ''Unknown API'')"

section \<open>The flow API\<close>

definition retErr :: "error \<Rightarrow> string" where
  "retErr err = (case err of None \<Rightarrow> ''ok'' | Some e \<Rightarrow> error_text e)"

definition notInitialized :: go_error where
  "notInitialized = ErrorString ''flow not initialized''"

definition notAvailable :: go_error where
  "notAvailable = ErrorString ''not available in this context''"

text \<open>The value of \<open>globalFlow\<close>, while the flow that was there lives on.\<close>

definition setGlobalFlow :: "'w flow option \<Rightarrow> (unit, 'w) lcmd" where
  "setGlobalFlow f' = modifyM (\<lambda>s. s
     \<lparr>g_lost := (case g_flow s of None \<Rightarrow> g_lost s | Some f \<Rightarrow> g_lost s @ [f]), g_flow := f'\<rparr>)"

definition onLibWorld :: "('a, 'w) gocmd \<Rightarrow> ('a, 'w) lcmd" where
  "onLibWorld = zoom g_world (\<lambda>w s. s\<lparr>g_world := w\<rparr>)"

definition KeycardInitFlow :: "'w libEnv \<Rightarrow> string \<Rightarrow> (string, 'w) lcmd" where
  "KeycardInitFlow E storageDir =
     bindM (checkAPIMutualExclusion flowAPI) (\<lambda>err.
       case err of
         Some e \<Rightarrow> ret (retErr (Some e))
       | None \<Rightarrow>
           bindM (onLibWorld (NewFlow (l_host E) storageDir)) (\<lambda>r.
             case r of
               Inl e \<Rightarrow> thenM (setGlobalFlow None) (ret (retErr (Some e)))
             | Inr f \<Rightarrow> thenM (setGlobalFlow (Some f)) (ret (retErr None))))"

text \<open>
  A call on \<open>globalFlow\<close>.  One that sends on the unbuffered \<open>wakeUp\<close> does not return before
  the flow's goroutine has received: it returns in the state \<open>l\_wakeUp\<close> gives, or waits for ever.
  What the goroutine does meanwhile is left open, as it is in the steps of \<open>lib\_flow\<close> below.
\<close>

definition onGlobalFlow :: "'w libEnv \<Rightarrow> (error, 'w) fcmd \<Rightarrow> (string, 'w) lcmd" where
  "onGlobalFlow E m = (\<lambda>s.
     case g_flow s of
       None \<Rightarrow> Ret (retErr (Some notInitialized)) s
     | Some f \<Rightarrow>
         (case m f of
            Fault x f' \<Rightarrow> Fault x (s\<lparr>g_flow := Some f'\<rparr>)
          | Ret err f' \<Rightarrow>
              if f_senders f' = f_senders f then Ret (retErr err) (s\<lparr>g_flow := Some f'\<rparr>)
              else (case l_wakeUp E f' of
                      None \<Rightarrow> Fault (Blocked ''send nobody receives'') (s\<lparr>g_flow := Some f'\<rparr>)
                    | Some f'' \<Rightarrow> Ret (retErr err) (s\<lparr>g_flow := Some f''\<rparr>))))"

definition withParams :: "'w libEnv \<Rightarrow> string \<Rightarrow> (clientParams \<Rightarrow> (error, 's) gocmd) \<Rightarrow> (error, 's) gocmd" where
  "withParams E jsonParams m =
     (case l_UnmarshalParams E jsonParams of Inl e \<Rightarrow> ret (Some e) | Inr ps \<Rightarrow> m ps)"

fun flowTypeOf :: "int \<Rightarrow> flowType" where
  "flowTypeOf n =
     (if n = 0 then FlowGetAppInfo else if n = 1 then FlowRecoverAccount
      else if n = 2 then FlowLoadAccount else if n = 3 then FlowLogin
      else if n = 4 then FlowExportPublic else if n = 5 then FlowSign
      else if n = 6 then FlowChangePIN else if n = 7 then FlowChangePUK
      else if n = 8 then FlowChangePairing else if n = 9 then FlowUnpairThis
      else if n = 10 then FlowUnpairOthers else if n = 11 then FlowDeleteAccountAndUnpair
      else if n = 12 then FlowStoreMetadata else if n = 13 then FlowGetMetadata
      else FlowUnknown n)"

definition KeycardStartFlow :: "'w libEnv \<Rightarrow> int \<Rightarrow> string \<Rightarrow> (string, 'w) lcmd" where
  "KeycardStartFlow E flowType jsonParams =
     onGlobalFlow E (withParams E jsonParams (flow_Start (flowTypeOf flowType)))"

definition KeycardResumeFlow :: "'w libEnv \<Rightarrow> string \<Rightarrow> (string, 'w) lcmd" where
  "KeycardResumeFlow E jsonParams = onGlobalFlow E (withParams E jsonParams flow_Resume)"

definition KeycardCancelFlow :: "'w libEnv \<Rightarrow> (string, 'w) lcmd" where
  "KeycardCancelFlow E = onGlobalFlow E flow_Cancel"

text \<open>The five functions of the double, which this library has but does not offer.\<close>

definition MockedLib_notAvailable :: "(string, 'w) lcmd" where
  "MockedLib_notAvailable = ret (retErr (Some notAvailable))"

section \<open>The session API\<close>

definition marshalError :: "'w libEnv \<Rightarrow> error \<Rightarrow> string" where
  "marshalError E err = l_MarshalError E (case err of None \<Rightarrow> '''' | Some e \<Rightarrow> error_text e)"

definition KeycardInitializeRPC :: "'w libEnv \<Rightarrow> (string, 'w) lcmd" where
  "KeycardInitializeRPC E =
     bindM (checkAPIMutualExclusion sessionAPI) (\<lambda>err.
       if err \<noteq> None then ret (marshalError E err)
       else
         (let (rpcServer, err) = CreateRPCServer (l_rpc E) in
          if err \<noteq> None then ret (marshalError E err)
          else thenM (modifyM (\<lambda>s. s\<lparr>g_rpc := Some rpcServer\<rparr>)) (ret (marshalError E None))))"

definition onService :: "('a, 'w) handler \<Rightarrow> ('a, 'w) lcmd" where
  "onService = zoom g_service (\<lambda>v s. s\<lparr>g_service := v\<rparr>)"

definition KeycardCallRPC :: "'w libEnv \<Rightarrow> string \<Rightarrow> (string, 'w) lcmd" where
  "KeycardCallRPC E payload =
     bindM (getM g_rpc) (\<lambda>rpc.
       case rpc of
         None \<Rightarrow> ret (marshalError E (Some (ErrorString ''RPC server not initialized'')))
       | Some rpcServer \<Rightarrow>
           bindM (onService (ServeHTTP (l_rpc E) (l_host E) rpcServer
               \<lparr>hr_Method = ''POST'', hr_ContentType = ''application/json'', hr_Body = payload\<rparr>)) (\<lambda>rr. ret
             (case l_ReadAll E (hp_Body rr) of
                Inl e \<Rightarrow> marshalError E (wrapErr ''internal error reading response body'' (Some e))
              | Inr body \<Rightarrow> body)))"

definition ResetAPI :: "(unit, 'w) lcmd" where
  "ResetAPI = thenM (setGlobalFlow None) (modifyM (\<lambda>s. s\<lparr>g_rpc := None\<rparr>))"

section \<open>All together\<close>

datatype libCall =
    LibInitFlow string
  | LibStartFlow int string
  | LibResumeFlow string
  | LibCancelFlow
  | LibInitRPC
  | LibCallRPC string
  | LibReset
  | LibMocked

fun libPerform :: "'w libEnv \<Rightarrow> libCall \<Rightarrow> (string, 'w) lcmd" where
  "libPerform E (LibInitFlow dir) = KeycardInitFlow E dir"
| "libPerform E (LibStartFlow t ps) = KeycardStartFlow E t ps"
| "libPerform E (LibResumeFlow ps) = KeycardResumeFlow E ps"
| "libPerform E LibCancelFlow = KeycardCancelFlow E"
| "libPerform E LibInitRPC = KeycardInitializeRPC E"
| "libPerform E (LibCallRPC p) = KeycardCallRPC E p"
| "libPerform E LibReset = thenM ResetAPI (ret '''')"
| "libPerform E LibMocked = MockedLib_notAvailable"

text \<open>
  The goroutines of a flow, of the one in the variable or of a lost one, change that flow only;
  how they do is left open.  Those of the session's context take their steps.  A call that waits
  for ever leaves its state behind.
\<close>

inductive lib_reachable :: "'w libEnv \<Rightarrow> 'w library \<Rightarrow> bool" for E where
  lib_empty: "lib_reachable E (emptyLibrary w)"
| lib_call: "lib_reachable E s \<Longrightarrow> leaves (libPerform E c) s t \<Longrightarrow> lib_reachable E t"
| lib_session: "lib_reachable E s \<Longrightarrow> s_context (g_service s) = Some k \<Longrightarrow>
    leaves (monitorStep (l_host E) i) k k' \<Longrightarrow>
    lib_reachable E (s\<lparr>g_service := (g_service s)\<lparr>s_context := Some k'\<rparr>\<rparr>)"
| lib_flow: "lib_reachable E s \<Longrightarrow> g_flow s = Some f \<Longrightarrow> lib_reachable E (s\<lparr>g_flow := Some f'\<rparr>)"
| lib_lost: "lib_reachable E s \<Longrightarrow> i < length (g_lost s) \<Longrightarrow>
    lib_reachable E (s\<lparr>g_lost := (g_lost s)[i := f']\<rparr>)"

section \<open>The double\<close>

record 'w mockLib =
  d_flow :: "'w mockedFlow option"
  d_world :: 'w

type_synonym ('a, 'w) dcmd = "('a, 'w mockLib) gocmd"

definition onMockedFlow :: "(error, 'w) mcmd \<Rightarrow> (error, 'w) dcmd" where
  "onMockedFlow m = (\<lambda>s.
     case d_flow s of
       None \<Rightarrow> Fault (Panicked ''nil pointer dereference'') s
     | Some f \<Rightarrow>
         (case m f of
            Ret err f \<Rightarrow> Ret err (s\<lparr>d_flow := Some f\<rparr>)
          | Fault x f \<Rightarrow> Fault x (s\<lparr>d_flow := Some f\<rparr>)))"

definition mockLib_InitFlow :: "'w mockEnv \<Rightarrow> string \<Rightarrow> (string, 'w) dcmd" where
  "mockLib_InitFlow E storageDir =
     bindM (zoom d_world (\<lambda>w s. s\<lparr>d_world := w\<rparr>) (NewMockedFlow E storageDir)) (\<lambda>r.
       case r of
         Inl e \<Rightarrow> thenM (modifyM (\<lambda>s. s\<lparr>d_flow := None\<rparr>)) (ret (retErr (Some e)))
       | Inr (f, err) \<Rightarrow> thenM (modifyM (\<lambda>s. s\<lparr>d_flow := Some f\<rparr>)) (ret (retErr err)))"

definition mockLib_StartFlow :: "'w libEnv \<Rightarrow> int \<Rightarrow> string \<Rightarrow> (string, 'w) dcmd" where
  "mockLib_StartFlow L flowType jsonParams =
     bindM (withParams L jsonParams (\<lambda>ps. onMockedFlow (mock_Start (flowTypeOf flowType) ps))) (ret \<circ> retErr)"

definition mockLib_ResumeFlow :: "'w libEnv \<Rightarrow> string \<Rightarrow> (string, 'w) dcmd" where
  "mockLib_ResumeFlow L jsonParams =
     bindM (withParams L jsonParams (\<lambda>ps. onMockedFlow (mock_Resume ps))) (ret \<circ> retErr)"

definition mockLib_CancelFlow :: "(string, 'w) dcmd" where
  "mockLib_CancelFlow = bindM (onMockedFlow mock_Cancel) (ret \<circ> retErr)"

definition readerStateOf :: "int \<Rightarrow> readerState" where
  "readerStateOf n = (if n = 0 then NoReader else if n = 1 then NoKeycard
     else if n = 2 then KeycardInserted else OtherReaderState n)"

definition keycardStateOf :: "int \<Rightarrow> keycardState" where
  "keycardStateOf n =
     (if n = 0 then NotStatusKeycard else if n = 1 then EmptyKeycard else if n = 2 then MaxPairingSlotsReached
      else if n = 3 then MaxPINRetriesReached else if n = 4 then MaxPUKRetriesReached
      else if n = 5 then KeycardWithMnemonicOnly else if n = 6 then KeycardWithMnemonicAndMedatada
      else CustomKeycard n)"

text \<open>\<open>unmarshal\<close> is JSON's for a card; the empty text is a nil card.\<close>

definition jsonToMockedKeycard :: "(string \<Rightarrow> go_error + cardData) \<Rightarrow> string \<Rightarrow> go_error + cardData option" where
  "jsonToMockedKeycard unmarshal json =
     (if json = '''' then Inr None
      else case unmarshal json of Inl e \<Rightarrow> Inl e | Inr c \<Rightarrow> Inr (Some c))"

definition MockedLibRegisterKeycard ::
    "'w mockEnv \<Rightarrow> (string \<Rightarrow> go_error + cardData) \<Rightarrow> int \<Rightarrow> int \<Rightarrow> int \<Rightarrow> string \<Rightarrow> string \<Rightarrow> (string, 'w) dcmd" where
  "MockedLibRegisterKeycard E unmarshal cardIndex readerState keycardState keycard helper =
     (case jsonToMockedKeycard unmarshal keycard of
        Inl e \<Rightarrow> ret (retErr (Some e))
      | Inr k \<Rightarrow>
          (case jsonToMockedKeycard unmarshal helper of
             Inl e \<Rightarrow> ret (retErr (Some e))
           | Inr h \<Rightarrow>
               bindM (onMockedFlow (RegisterKeycard E cardIndex (readerStateOf readerState)
                   (keycardStateOf keycardState) k h)) (ret \<circ> retErr)))"

definition MockedLibReaderPluggedIn :: "(string, 'w) dcmd" where
  "MockedLibReaderPluggedIn = bindM (onMockedFlow ReaderPluggedIn) (ret \<circ> retErr)"

definition MockedLibReaderUnplugged :: "(string, 'w) dcmd" where
  "MockedLibReaderUnplugged = bindM (onMockedFlow ReaderUnplugged) (ret \<circ> retErr)"

definition MockedLibKeycardInserted :: "int \<Rightarrow> (string, 'w) dcmd" where
  "MockedLibKeycardInserted cardIndex = bindM (onMockedFlow (mock_KeycardInserted cardIndex)) (ret \<circ> retErr)"

definition MockedLibKeycardRemoved :: "(string, 'w) dcmd" where
  "MockedLibKeycardRemoved = bindM (onMockedFlow KeycardRemoved) (ret \<circ> retErr)"

section \<open>One API at a time\<close>

definition exclusive :: "'w library \<Rightarrow> bool" where
  "exclusive s \<longleftrightarrow> \<not> (g_flow s \<noteq> None \<and> g_rpc s \<noteq> None)"

text \<open>The registration of the service does not fail.\<close>

lemma KeycardInitializeRPC_eq:
  "KeycardInitializeRPC E =
     bindM (checkAPIMutualExclusion sessionAPI) (\<lambda>err.
       if err \<noteq> None then ret (marshalError E err)
       else thenM (modifyM (\<lambda>s. s\<lparr>g_rpc := Some (fst (CreateRPCServer (l_rpc E)))\<rparr>)) (ret (marshalError E None)))"
  by (simp add: KeycardInitializeRPC_def case_prod_beta Let_def cong: if_cong)

lemmas lib_defs = KeycardInitFlow_def KeycardStartFlow_def KeycardResumeFlow_def KeycardCancelFlow_def
  KeycardInitializeRPC_eq KeycardCallRPC_def ResetAPI_def checkAPIMutualExclusion_def setGlobalFlow_def
  onLibWorld_def onService_def MockedLib_notAvailable_def

lemma exclusive_perform: "exclusive s \<Longrightarrow> leaves (libPerform E c) s t \<Longrightarrow> exclusive t"
  by (cases c) (auto simp: leaves_def exclusive_def lib_defs onGlobalFlow_def zoom_def cmd_defs
      split: option.splits outcome.splits sum.splits if_splits)

lemma reachable_exclusive: "lib_reachable E s \<Longrightarrow> exclusive s"
proof (induction rule: lib_reachable.induct)
  case (lib_call s c t)
  from exclusive_perform [OF lib_call.IH lib_call.hyps(2)] show ?case .
qed (auto simp: exclusive_def emptyLibrary_def)

section \<open>Calls by RPC\<close>

text \<open>The server in the variable is always the one of the program.\<close>

lemma server_perform:
  "leaves (libPerform E c) s t \<Longrightarrow> g_rpc s \<in> {None, Some (fst (CreateRPCServer (l_rpc E)))} \<Longrightarrow>
     g_rpc t \<in> {None, Some (fst (CreateRPCServer (l_rpc E)))}"
  by (cases c) (auto simp: leaves_def lib_defs onGlobalFlow_def zoom_def cmd_defs split: option.splits outcome.splits sum.splits if_splits)

lemma reachable_server: "lib_reachable E s \<Longrightarrow> g_rpc s \<in> {None, Some (fst (CreateRPCServer (l_rpc E)))}"
proof (induction rule: lib_reachable.induct)
  case (lib_call s c t)
  from server_perform [OF lib_call.hyps(2) lib_call.IH] show ?case .
qed (auto simp: emptyLibrary_def)

lemma KeycardCallRPC_called:
  assumes "g_rpc s = Some server" and "readCall (l_rpc E) server (jsonPost payload) = Inr (q, req)"
    and "\<And>body. l_ReadAll E body = Inr body"
  shows "KeycardCallRPC E payload s =
    (case callService (l_host E) req (g_service s) of
       Ret (err, reply) v \<Rightarrow> Ret (hp_Body (WriteResponse (l_rpc E) q reply err)) (s\<lparr>g_service := v\<rparr>)
     | Fault x v \<Rightarrow> Fault x (s\<lparr>g_service := v\<rparr>))"
  using assms by (simp add: KeycardCallRPC_def ServeHTTP_def jsonPost_def onService_def zoom_def cmd_defs
      split: outcome.split prod.split)

text \<open>A call of a client; without an id the answer is empty.\<close>

lemma KeycardCallRPC_client:
  assumes "lib_reachable E s" and "g_rpc s \<noteq> None" and "r_Decode (l_rpc E) payload = Inr (clientRequest req i)"
    and "int_args req" and "\<And>body. l_ReadAll E body = Inr body"
  shows "KeycardCallRPC E payload s =
    (case callService (l_host E) req (g_service s) of
       Ret (err, reply) v \<Rightarrow> Ret (if i = JNull then '''' else
         r_Encode (l_rpc E) (serverResponse err reply i) @ [CHR 0x0A]) (s\<lparr>g_service := v\<rparr>)
     | Fault x v \<Rightarrow> Fault x (s\<lparr>g_service := v\<rparr>))"
proof -
  from reachable_server [OF assms(1)] assms(2) have "g_rpc s = Some (fst (CreateRPCServer (l_rpc E)))" by auto
  from KeycardCallRPC_called [OF this readCall_client [OF assms(3,4)] assms(5)] show ?thesis
    by (auto simp: WriteResponse_def split: outcome.split)
qed

section \<open>The session behind the library\<close>

text \<open>Only an RPC changes the service.\<close>

lemma service_perform:
  assumes "leaves (libPerform E c) s t"
  shows "g_service t = g_service s \<or>
    (\<exists>req. leaves (callService (l_host E) req) (g_service s) (g_service t))"
proof (cases c)
  case (LibCallRPC p)
  show ?thesis
  proof (cases "g_rpc s")
    case (Some server)
    then have "g_service t = g_service s \<or> leaves (ServeHTTP (l_rpc E) (l_host E) server (jsonPost p)) (g_service s) (g_service t)"
      using assms LibCallRPC by (auto simp: leaves_def KeycardCallRPC_def jsonPost_def onService_def zoom_def cmd_defs
          split: outcome.splits)
    then show ?thesis
      by (auto simp: ServeHTTP_def leaves_def cmd_defs split: sum.splits outcome.splits prod.splits)
  qed (use assms LibCallRPC in \<open>auto simp: leaves_def KeycardCallRPC_def cmd_defs\<close>)
qed (use assms in \<open>auto simp: leaves_def lib_defs onGlobalFlow_def zoom_def cmd_defs
       split: option.splits outcome.splits sum.splits if_splits\<close>)

lemma reachable_service_ok: "lib_reachable E s \<Longrightarrow> service_ok (l_host E) (g_service s)"
proof (induction rule: lib_reachable.induct)
  case (lib_call s c t)
  from service_perform [OF lib_call.hyps(2)] show ?case
    using staysD [OF service_ok_call lib_call.IH] lib_call.IH by auto
next
  case (lib_session s k i k')
  from service_ok_goroutine [OF lib_session.IH lib_session.hyps(2,3)] show ?case by simp
qed (simp_all add: emptyLibrary_def service_ok_new)

section \<open>Which calls fault\<close>

text \<open>A resume assigns to the parameters, which are nil when the flow was started with \<open>null\<close>.\<close>

definition nilParams :: "'w libEnv \<Rightarrow> string \<Rightarrow> 'w flow \<Rightarrow> bool" where
  "nilParams E jsonParams f \<longleftrightarrow> f_state f = Paused \<and> f_params f = None \<and>
     (\<exists>p ps. l_UnmarshalParams E jsonParams = Inr (Some (p # ps)))"

definition faults :: "('a, 's) gocmd \<Rightarrow> 's \<Rightarrow> bool" where
  "faults m s \<longleftrightarrow> runs m (\<lambda>_ _. False) (\<lambda>_ _. True) s"

lemma faults_iff: "faults m s \<longleftrightarrow> (\<exists>x t. m s = Fault x t)"
  by (simp add: faults_def runs_def split: outcome.split)

lemma NewFlow_returns: "\<exists>r w'. NewFlow H dir w = Ret r w'"
  by (auto simp: NewFlow_def NewStore_def bindE_def worldM_def cmd_defs split: readResult.split sum.split option.split prod.split)

text \<open>The flow while a call waits for its goroutine to receive, for the calls that wake it.\<close>

fun sending :: "'w libEnv \<Rightarrow> libCall \<Rightarrow> 'w flow \<Rightarrow> 'w flow option" where
  "sending E (LibResumeFlow jsonParams) f =
     (case l_UnmarshalParams E jsonParams of
        Inr ps \<Rightarrow>
          if f_state f = Paused \<and> \<not> nilParams E jsonParams f
          then Some (f\<lparr>f_params := map_option (\<lambda>m. m ++ map_of (case ps of None \<Rightarrow> [] | Some ps \<Rightarrow> ps)) (f_params f),
            f_state := Resuming, f_senders := f_senders f + 1\<rparr>)
          else None
      | Inl e \<Rightarrow> None)"
| "sending E LibCancelFlow f =
     (if f_state f = Paused then Some (f\<lparr>f_state := Cancelling, f_senders := f_senders f + 1\<rparr>) else None)"
| "sending E _ f = None"

definition stuckCall :: "'w libEnv \<Rightarrow> libCall \<Rightarrow> 'w flow \<Rightarrow> bool" where
  "stuckCall E c f \<longleftrightarrow> (\<exists>f'. sending E c f = Some f' \<and> l_wakeUp E f' = None)"

lemma faults_onGlobalFlow:
  "faults (onGlobalFlow E m) s \<longleftrightarrow> (\<exists>f. g_flow s = Some f \<and>
     (faults m f \<or> (\<exists>err f'. m f = Ret err f' \<and> f_senders f' \<noteq> f_senders f \<and> l_wakeUp E f' = None)))"
  by (auto simp: faults_iff onGlobalFlow_def split: option.split outcome.split)

lemma Resume_sends:
  "\<not> nilParams E js f \<Longrightarrow> sending E (LibResumeFlow js) f = None \<Longrightarrow>
     \<exists>err. withParams E js flow_Resume f = Ret err f"
  "sending E (LibResumeFlow js) f = Some f' \<Longrightarrow> withParams E js flow_Resume f = Ret None f'"
  "nilParams E js f \<Longrightarrow> \<exists>f'. withParams E js flow_Resume f = Fault (Panicked ''assignment to entry in nil map'') f'"
  by (auto simp: withParams_def flow_Resume_def mergeParams_def setRunState_def nilParams_def option.map_ident
      cmd_defs intro!: flow.equality split: sum.splits option.splits list.splits if_splits)

lemma Cancel_sends:
  "sending E LibCancelFlow f = None \<Longrightarrow> \<exists>err f'. flow_Cancel f = Ret err f' \<and> f_senders f' = f_senders f"
  "sending E LibCancelFlow f = Some f' \<Longrightarrow> flow_Cancel f = Ret None f'"
  by (auto simp: flow_Cancel_def setRunState_def cmd_defs split: if_splits)

lemma sending_senders: "sending E c f = Some f' \<Longrightarrow> f_senders f' = f_senders f + 1"
  by (cases c) (auto split: sum.splits if_splits)

lemma flow_calls_fault:
  "faults (KeycardStartFlow E t ps) s = False"
  "faults (KeycardResumeFlow E ps) s \<longleftrightarrow>
     (\<exists>f. g_flow s = Some f \<and> (nilParams E ps f \<or> stuckCall E (LibResumeFlow ps) f))"
  "faults (KeycardCancelFlow E) s \<longleftrightarrow> (\<exists>f. g_flow s = Some f \<and> stuckCall E LibCancelFlow f)"
proof -
  have "\<exists>err f'. withParams E ps (flow_Start ft) f = Ret err f' \<and> f_senders f' = f_senders f" for ft f
    by (auto simp: withParams_def flow_Start_def cmd_defs split: sum.split)
  then show "faults (KeycardStartFlow E t ps) s = False"
    unfolding KeycardStartFlow_def faults_onGlobalFlow by (metis faults_iff outcome.distinct(1) outcome.inject(1))
  have "(faults (withParams E ps flow_Resume) f \<or> (\<exists>err f'. withParams E ps flow_Resume f = Ret err f' \<and>
      f_senders f' \<noteq> f_senders f \<and> l_wakeUp E f' = None)) \<longleftrightarrow> nilParams E ps f \<or> stuckCall E (LibResumeFlow ps) f" for f
  proof (cases "nilParams E ps f")
    case True
    with Resume_sends(3) [OF this] show ?thesis by (auto simp: faults_iff)
  next
    case False
    show ?thesis
    proof (cases "sending E (LibResumeFlow ps) f")
      case None
      with Resume_sends(1) [OF False None] False show ?thesis by (auto simp: faults_iff stuckCall_def)
    next
      case (Some f')
      from Resume_sends(2) [OF this] sending_senders [OF this] Some False show ?thesis
        by (auto simp: faults_iff stuckCall_def)
    qed
  qed
  then show "faults (KeycardResumeFlow E ps) s \<longleftrightarrow>
     (\<exists>f. g_flow s = Some f \<and> (nilParams E ps f \<or> stuckCall E (LibResumeFlow ps) f))"
    by (simp add: KeycardResumeFlow_def faults_onGlobalFlow)
  have "(faults flow_Cancel f \<or> (\<exists>err f'. flow_Cancel f = Ret err f' \<and> f_senders f' \<noteq> f_senders f \<and> l_wakeUp E f' = None))
      \<longleftrightarrow> stuckCall E LibCancelFlow f" for f
  proof (cases "sending E LibCancelFlow f")
    case None
    with Cancel_sends(1) [OF None] show ?thesis by (auto simp: faults_iff stuckCall_def)
  next
    case (Some f')
    from Cancel_sends(2) [OF this] sending_senders [OF this] Some show ?thesis
      by (auto simp: faults_iff stuckCall_def)
  qed
  then show "faults (KeycardCancelFlow E) s \<longleftrightarrow> (\<exists>f. g_flow s = Some f \<and> stuckCall E LibCancelFlow f)"
    by (simp add: KeycardCancelFlow_def faults_onGlobalFlow)
qed

text \<open>Of the RPCs those whose handler does; a refused request is answered.\<close>

lemma faults_KeycardCallRPC:
  "faults (KeycardCallRPC E p) s \<longleftrightarrow>
     (\<exists>server q req. g_rpc s = Some server \<and> readCall (l_rpc E) server (jsonPost p) = Inr (q, req) \<and>
        faults (callService (l_host E) req) (g_service s))"
proof (cases "g_rpc s")
  case None
  then show ?thesis by (simp add: faults_iff KeycardCallRPC_def cmd_defs)
next
  case (Some server)
  then have "faults (KeycardCallRPC E p) s \<longleftrightarrow>
      faults (ServeHTTP (l_rpc E) (l_host E) server (jsonPost p)) (g_service s)"
    by (simp add: KeycardCallRPC_def faults_iff onService_def zoom_def jsonPost_def cmd_defs split: outcome.split)
  with Some show ?thesis
    by (auto simp: faults_iff ServeHTTP_def cmd_defs split: sum.split outcome.split)
qed

lemma faults_perform:
  "faults (libPerform E c) s \<longleftrightarrow>
     (\<exists>f. g_flow s = Some f \<and> ((\<exists>ps. c = LibResumeFlow ps \<and> nilParams E ps f) \<or> stuckCall E c f)) \<or>
     (\<exists>p server q req. c = LibCallRPC p \<and> g_rpc s = Some server \<and>
        readCall (l_rpc E) server (jsonPost p) = Inr (q, req) \<and> faults (callService (l_host E) req) (g_service s))"
proof (cases c)
  case (LibInitFlow dir)
  obtain r w where "NewFlow (l_host E) dir (g_world s) = Ret r w" using NewFlow_returns [of "l_host E" dir "g_world s"] by auto
  then show ?thesis
    using LibInitFlow by (auto simp: faults_def stuckCall_def lib_defs runs_def zoom_def cmd_defs split: sum.split)
next
  case (LibCallRPC p)
  then show ?thesis by (simp add: faults_KeycardCallRPC stuckCall_def)
qed (auto simp: flow_calls_fault stuckCall_def,
     auto simp: faults_def lib_defs wp split: if_splits)

section \<open>Before the initialisation\<close>

text \<open>The library answers that there is no flow; its double calls a method of nil.\<close>

lemma double_before_init:
  "d_flow s = None \<Longrightarrow> l_UnmarshalParams L ps = Inr p \<Longrightarrow>
     mockLib_StartFlow L t ps s = Fault (Panicked ''nil pointer dereference'') s"
  "d_flow s = None \<Longrightarrow> mockLib_CancelFlow s = Fault (Panicked ''nil pointer dereference'') s"
  "d_flow s = None \<Longrightarrow> MockedLibReaderPluggedIn s = Fault (Panicked ''nil pointer dereference'') s"
  by (simp_all add: mockLib_StartFlow_def mockLib_CancelFlow_def MockedLibReaderPluggedIn_def
      withParams_def onMockedFlow_def cmd_defs)

end
