(* ===== verification/SignalServer.thy ===== *)
theory SignalServer
  imports RpcServer "HOL-Library.Multiset"
begin

text \<open>
  \<open>signal/signals.go\<close> and the web socket server of \<open>cmd/status-keycard-server\<close>: a signal goes to
  the handler that is set, which writes it to every connection, or to the C callback.

  The connections are a list in the order in which the map is iterated; the order is arbitrary,
  so between two calls the list may be permuted.  The lists of what has been written and closed
  have no field in the code.  The mutex makes the calls atomic; \<open>Stop\<close> does not take it.
\<close>

section \<open>State\<close>

record ('c, 'w) netEnv =
  n_SplitHostPort :: "string \<Rightarrow> go_error + string \<times> string"
  n_Atoi :: "string \<Rightarrow> go_error + int"
  n_rpc :: rpcEnv
  n_Listen :: "string \<Rightarrow> 'w \<Rightarrow> (go_error + string) \<times> 'w"  \<comment> \<open>the address of the listener\<close>
  n_Serve :: "string \<Rightarrow> 'w \<Rightarrow> error \<times> 'w"  \<comment> \<open>returns when the server is closed\<close>
  n_Shutdown :: "'w \<Rightarrow> error \<times> 'w"
  n_Upgrade :: "'w \<Rightarrow> (go_error + 'c) \<times> 'w"
  n_SetWriteDeadline :: "'c \<Rightarrow> 'w \<Rightarrow> error \<times> 'w"
  n_WriteMessage :: "'c \<Rightarrow> bytes \<Rightarrow> 'w \<Rightarrow> error \<times> 'w"
  n_Close :: "'c \<Rightarrow> 'w \<Rightarrow> error \<times> 'w"
  n_SignalEvent :: "bytes \<Rightarrow> 'w \<Rightarrow> unit \<times> 'w"  \<comment> \<open>the C callback\<close>

record ('c, 'w) server =
  sv_server :: bool  \<comment> \<open>\<open>s.server\<close> is not nil\<close>
  sv_listener :: "string option"
  sv_connections :: "'c list"
  sv_address :: string
  sv_handler :: bool  \<comment> \<open>\<open>keycardSignalHandler\<close> is the method of this server\<close>
  sv_written :: "('c \<times> bytes) list"
  sv_closed :: "'c list"
  sv_world :: 'w

type_synonym ('a, 'c, 'w) ncmd = "('a, ('c, 'w) server) gocmd"

definition onNet :: "('w \<Rightarrow> 'a \<times> 'w) \<Rightarrow> ('a, 'c, 'w) ncmd" where
  "onNet f = zoom sv_world (\<lambda>w s. s\<lparr>sv_world := w\<rparr>) (worldM f)"

definition NewServer :: "'w \<Rightarrow> ('c, 'w) server" where
  "NewServer w = \<lparr>sv_server = False, sv_listener = None, sv_connections = [], sv_address = '''',
     sv_handler = False, sv_written = [], sv_closed = [], sv_world = w\<rparr>"

definition Address :: "('c, 'w) server \<Rightarrow> string" where
  "Address s = sv_address s"

definition server_Port :: "('c, 'w) netEnv \<Rightarrow> ('c, 'w) server \<Rightarrow> go_error + int" where
  "server_Port N s =
     (case n_SplitHostPort N (sv_address s) of Inl e \<Rightarrow> Inl e | Inr (_, portString) \<Rightarrow> n_Atoi N portString)"

section \<open>Signals\<close>

definition closeConnection :: "('c, 'w) netEnv \<Rightarrow> 'c \<Rightarrow> (unit, 'c, 'w) ncmd" where
  "closeConnection N c =
     bindM (onNet (n_Close N c)) (\<lambda>_. modifyM (\<lambda>s. s\<lparr>sv_closed := sv_closed s @ [c]\<rparr>))"

definition forgetConnection :: "'c \<Rightarrow> (unit, 'c, 'w) ncmd" where
  "forgetConnection c = modifyM (\<lambda>s. s\<lparr>sv_connections := removeAll c (sv_connections s)\<rparr>)"

definition deleteConnection :: "('c, 'w) netEnv \<Rightarrow> 'c \<Rightarrow> (unit, 'c, 'w) ncmd" where
  "deleteConnection N c = thenM (forgetConnection c) (closeConnection N c)"

primrec forEach :: "('c \<Rightarrow> (unit, 's) gocmd) \<Rightarrow> 'c list \<Rightarrow> (unit, 's) gocmd" where
  "forEach m [] = ret ()"
| "forEach m (c # cs) = thenM (m c) (forEach m cs)"

definition writeSignal :: "('c, 'w) netEnv \<Rightarrow> bytes \<Rightarrow> 'c \<Rightarrow> (unit, 'c, 'w) ncmd" where
  "writeSignal N data c =
     bindM (onNet (n_SetWriteDeadline N c)) (\<lambda>err.
       if err \<noteq> None then deleteConnection N c
       else
         bindM (onNet (n_WriteMessage N c data)) (\<lambda>err.
           if err \<noteq> None then deleteConnection N c
           else modifyM (\<lambda>s. s\<lparr>sv_written := sv_written s @ [(c, data)]\<rparr>)))"

definition signalHandler :: "('c, 'w) netEnv \<Rightarrow> bytes \<Rightarrow> (unit, 'c, 'w) ncmd" where
  "signalHandler N data = bindM (getM sv_connections) (forEach (writeSignal N data))"

definition SetKeycardSignalHandler :: "bool \<Rightarrow> (unit, 'c, 'w) ncmd" where
  "SetKeycardSignalHandler handler = modifyM (\<lambda>s. s\<lparr>sv_handler := handler\<rparr>)"

definition Setup :: "(unit, 'c, 'w) ncmd" where
  "Setup = SetKeycardSignalHandler True"

record 'e envelope =
  env_Type :: string
  env_Event :: 'e

definition NewEnvelope :: "string \<Rightarrow> 'e \<Rightarrow> 'e envelope" where
  "NewEnvelope typ event = \<lparr>env_Type = typ, env_Event = event\<rparr>"

definition Send :: "('c, 'w) netEnv \<Rightarrow> ('e envelope \<Rightarrow> go_error + bytes) \<Rightarrow> string \<Rightarrow> 'e \<Rightarrow> (unit, 'c, 'w) ncmd" where
  "Send N marshal typ event =
     (case marshal (NewEnvelope typ event) of
        Inl e \<Rightarrow> ret ()
      | Inr data \<Rightarrow>
          bindM (getM sv_handler) (\<lambda>handler.
            if handler then signalHandler N data else onNet (n_SignalEvent N data)))"

section \<open>The life of the server\<close>

text \<open>\<open>os.Exit\<close> is a fault.\<close>

definition server_Listen :: "('c, 'w) netEnv \<Rightarrow> string \<Rightarrow> (error, 'c, 'w) ncmd" where
  "server_Listen N address =
     bindM (getM sv_server) (\<lambda>started.
       if started then ret (Some (ErrorString ''server already started''))
       else
         (case n_SplitHostPort N address of
            Inl e \<Rightarrow> ret (wrapErr ''invalid address'' (Some e))
          | Inr _ \<Rightarrow>
              thenM (modifyM (\<lambda>s. s\<lparr>sv_server := True\<rparr>))
                (if snd (CreateRPCServer (n_rpc N)) \<noteq> None then panicM ''os.Exit(1)''
                 else
                   bindM (onNet (n_Listen N address)) (\<lambda>r.
                     case r of
                       Inl e \<Rightarrow> thenM (modifyM (\<lambda>s. s\<lparr>sv_listener := None\<rparr>)) (ret (Some e))
                     | Inr a \<Rightarrow>
                         thenM (modifyM (\<lambda>s. s\<lparr>sv_listener := Some a, sv_address := a\<rparr>)) (ret None)))))"

definition server_Serve :: "('c, 'w) netEnv \<Rightarrow> (unit, 'c, 'w) ncmd" where
  "server_Serve N =
     bindM (getM (\<lambda>s. (sv_server s, sv_listener s))) (\<lambda>(started, l).
       case l of
         Some a \<Rightarrow> if started then bindM (onNet (n_Serve N a)) (\<lambda>_. ret ()) else panicM ''nil pointer dereference''
       | None \<Rightarrow> panicM ''nil pointer dereference'')"

definition server_Stop :: "('c, 'w) netEnv \<Rightarrow> (unit, 'c, 'w) ncmd" where
  "server_Stop N =
     thenM (bindM (getM sv_connections)
       (forEach (\<lambda>c. thenM (closeConnection N c) (forgetConnection c))))
    (bindM (getM sv_server) (\<lambda>started.
       if \<not> started then panicM ''nil pointer dereference''
       else
         bindM (onNet (n_Shutdown N)) (\<lambda>_.
           modifyM (\<lambda>s. s\<lparr>sv_server := False, sv_address := ''''\<rparr>))))"

text \<open>A request for a web socket.\<close>

definition server_signals :: "('c, 'w) netEnv \<Rightarrow> (unit, 'c, 'w) ncmd" where
  "server_signals N =
     bindM (onNet (n_Upgrade N)) (\<lambda>r.
       case r of
         Inl e \<Rightarrow> ret ()
       | Inr c \<Rightarrow> modifyM (\<lambda>s. s\<lparr>sv_connections := List.insert c (sv_connections s)\<rparr>))"

definition server_main :: "('c, 'w) netEnv \<Rightarrow> string \<Rightarrow> (unit, 'c, 'w) ncmd" where
  "server_main N address =
     thenM Setup
    (bindM (server_Listen N address) (\<lambda>err.
       if err \<noteq> None then ret () else server_Serve N))"

section \<open>All together\<close>

datatype serverCall =
    SrvSetup
  | SrvSignal bytes
  | SrvListen string
  | SrvServe
  | SrvStop
  | SrvRequest

fun serverPerform :: "('c, 'w) netEnv \<Rightarrow> serverCall \<Rightarrow> (unit, 'c, 'w) ncmd" where
  "serverPerform N SrvSetup = Setup"
| "serverPerform N (SrvSignal data) = signalHandler N data"
| "serverPerform N (SrvListen a) = bindM (server_Listen N a) (\<lambda>_. ret ())"
| "serverPerform N SrvServe = server_Serve N"
| "serverPerform N SrvStop = server_Stop N"
| "serverPerform N SrvRequest = server_signals N"

inductive server_reachable :: "('c, 'w) netEnv \<Rightarrow> ('c, 'w) server \<Rightarrow> bool" for N where
  server_new: "server_reachable N (NewServer w)"
| server_call: "server_reachable N s \<Longrightarrow> serverPerform N c s = Ret () t \<Longrightarrow> server_reachable N t"
| server_order: "server_reachable N s \<Longrightarrow> mset cs = mset (sv_connections s) \<Longrightarrow>
    server_reachable N (s\<lparr>sv_connections := cs\<rparr>)"

section \<open>What a signal does\<close>

text \<open>Whether a connection takes a message in a world.\<close>

definition accepts :: "('c, 'w) netEnv \<Rightarrow> bytes \<Rightarrow> 'c \<Rightarrow> 'w \<Rightarrow> bool" where
  "accepts N data c w \<longleftrightarrow>
     (case n_SetWriteDeadline N c w of (err, w') \<Rightarrow> err = None \<and> fst (n_WriteMessage N c data w') = None)"

text \<open>The connections \<open>cs\<close> have had the message, those with \<open>P\<close> have taken it.\<close>

definition delivered :: "bytes \<Rightarrow> 'c list \<Rightarrow> ('c \<Rightarrow> bool) \<Rightarrow> ('c, 'w) server \<Rightarrow> ('c, 'w) server \<Rightarrow> bool" where
  "delivered data cs P s t \<longleftrightarrow>
     sv_connections t = [c \<leftarrow> sv_connections s. c \<in> set cs \<longrightarrow> P c] \<and>
     sv_written t = sv_written s @ [(c, data). c \<leftarrow> cs, P c] \<and>
     sv_closed t = sv_closed s @ [c \<leftarrow> cs. \<not> P c] \<and>
     sv_server t = sv_server s \<and> sv_listener t = sv_listener s \<and> sv_address t = sv_address s \<and>
     sv_handler t = sv_handler s"

lemma runs_onNet [wp]: "runs (onNet f) Q F s = (case f (sv_world s) of (x, w) \<Rightarrow> Q x (s\<lparr>sv_world := w\<rparr>))"
  by (simp add: onNet_def runs_def zoom_def worldM_def split: prod.split)

lemma runs_writeSignal:
  "runs (writeSignal N data c) (\<lambda>_ t. delivered data [c] (\<lambda>_. accepts N data c (sv_world s)) s t)
     (\<lambda>_ _. False) s"
  by (auto simp: writeSignal_def deleteConnection_def forgetConnection_def closeConnection_def accepts_def
      delivered_def wp removeAll_filter_not_eq split: prod.split intro!: filter_cong)

lemma delivered_frame:
  "delivered data cs P s t \<Longrightarrow> sv_server t = sv_server s \<and> sv_listener t = sv_listener s \<and>
     sv_address t = sv_address s"
  by (simp add: delivered_def)

lemma delivered_distinct:
  "delivered data cs P s t \<Longrightarrow> distinct (sv_connections s) \<Longrightarrow> distinct (sv_connections t)"
  unfolding delivered_def by (metis distinct_filter)

lemma delivered_written: "concat (map (\<lambda>c. if P c then [(c, data)] else []) cs) = map (\<lambda>c. (c, data)) (filter P cs)"
  by (induction cs) simp_all

lemma delivered_step:
  assumes "delivered data [c] (\<lambda>_. b) s t" and "delivered data cs P t u" and "c \<notin> set cs"
  shows "delivered data (c # cs) (\<lambda>x. if x = c then b else P x) s u"
proof -
  have "[x \<leftarrow> cs. \<not> (if x = c then b else P x)] = [x \<leftarrow> cs. \<not> P x]"
    "[x \<leftarrow> cs. if x = c then b else P x] = [x \<leftarrow> cs. P x]"
    using assms(3) by (auto intro!: filter_cong)
  moreover have "[(x, data). x \<leftarrow> cs, if x = c then b else P x] = [(x, data). x \<leftarrow> cs, P x]"
    using assms(3) by (intro arg_cong [where f = concat] map_cong) auto
  ultimately show ?thesis
    using assms by (auto simp: delivered_def intro!: filter_cong)
qed

lemma runs_forEach_writeSignal:
  "distinct cs \<Longrightarrow> runs (forEach (writeSignal N data) cs)
     (\<lambda>_ t. \<exists>P. delivered data cs P s t \<and>
       (\<forall>c \<in> set cs. (\<forall>w. accepts N data c w) \<longrightarrow> P c) \<and> (\<forall>c \<in> set cs. (\<forall>w. \<not> accepts N data c w) \<longrightarrow> \<not> P c))
     (\<lambda>_ _. False) s"
proof (induction cs arbitrary: s)
  case Nil
  then show ?case by (simp add: delivered_def wp)
next
  case (Cons c cs)
  let ?b = "accepts N data c (sv_world s)"
  have "runs (forEach (writeSignal N data) cs)
     (\<lambda>_ u. \<exists>P. delivered data (c # cs) P s u \<and>
       (\<forall>c \<in> set (c # cs). (\<forall>w. accepts N data c w) \<longrightarrow> P c) \<and>
       (\<forall>c \<in> set (c # cs). (\<forall>w. \<not> accepts N data c w) \<longrightarrow> \<not> P c)) (\<lambda>_ _. False) t"
    if t: "delivered data [c] (\<lambda>_. ?b) s t" for t
  proof (rule runs_mono [OF Cons.IH])
    fix u :: "('a, 'b) server" assume "\<exists>P. delivered data cs P t u \<and>
       (\<forall>c \<in> set cs. (\<forall>w. accepts N data c w) \<longrightarrow> P c) \<and> (\<forall>c \<in> set cs. (\<forall>w. \<not> accepts N data c w) \<longrightarrow> \<not> P c)"
    then obtain P where P: "delivered data cs P t u"
      "\<forall>c \<in> set cs. (\<forall>w. accepts N data c w) \<longrightarrow> P c" "\<forall>c \<in> set cs. (\<forall>w. \<not> accepts N data c w) \<longrightarrow> \<not> P c"
      by blast
    then show "\<exists>P. delivered data (c # cs) P s u \<and>
       (\<forall>c \<in> set (c # cs). (\<forall>w. accepts N data c w) \<longrightarrow> P c) \<and>
       (\<forall>c \<in> set (c # cs). (\<forall>w. \<not> accepts N data c w) \<longrightarrow> \<not> P c)"
      using delivered_step [OF t P(1)] Cons.prems by (intro exI [of _ "\<lambda>x. if x = c then ?b else P x"]) auto
  qed (use Cons.prems in simp_all)
  then show ?case by (simp add: wp) (rule runs_mono [OF runs_writeSignal])
qed

lemma runs_signalHandler:
  assumes "distinct (sv_connections s)"
  shows "runs (signalHandler N data) (\<lambda>_ t. delivered data (sv_connections s) (\<lambda>c. c \<in> set (sv_connections t)) s t \<and>
      (\<forall>c \<in> set (sv_connections s). (\<forall>w. accepts N data c w) \<longrightarrow> c \<in> set (sv_connections t)) \<and>
      (\<forall>c \<in> set (sv_connections s). (\<forall>w. \<not> accepts N data c w) \<longrightarrow> c \<notin> set (sv_connections t)))
     (\<lambda>_ _. False) s"
proof -
  have "delivered data (sv_connections s) (\<lambda>c. c \<in> set (sv_connections t)) s t"
    if "delivered data (sv_connections s) P s t" for t P
  proof -
    have "set (sv_connections t) = {c \<in> set (sv_connections s). P c}"
      using that by (auto simp: delivered_def)
    then have "\<forall>c \<in> set (sv_connections s). (c \<in> set (sv_connections t)) = P c"
      by auto
    with that show ?thesis
      by (auto simp: delivered_def cong: filter_cong intro!: arg_cong [where f = concat] map_cong)
  qed
  then show ?thesis
    unfolding signalHandler_def
    by (simp add: wp) (rule runs_mono [OF runs_forEach_writeSignal [OF assms]]; force simp: delivered_def)
qed

lemma delivered_members:
  assumes "delivered data (sv_connections s) (\<lambda>c. c \<in> set (sv_connections t)) s t"
  shows "sv_connections t = [c \<leftarrow> sv_connections s. c \<in> set (sv_connections t)]"
    and "sv_written t = sv_written s @ map (\<lambda>c. (c, data)) (sv_connections t)"
    and "sv_closed t = sv_closed s @ [c \<leftarrow> sv_connections s. c \<notin> set (sv_connections t)]"
proof -
  have "[c \<leftarrow> sv_connections s. c \<in> set (sv_connections s) \<longrightarrow> c \<in> set (sv_connections t)] =
      [c \<leftarrow> sv_connections s. c \<in> set (sv_connections t)]"
    by (rule filter_cong) simp_all
  with assms show c: "sv_connections t = [c \<leftarrow> sv_connections s. c \<in> set (sv_connections t)]"
    unfolding delivered_def by metis
  show "sv_written t = sv_written s @ map (\<lambda>c. (c, data)) (sv_connections t)"
    using assms c unfolding delivered_def delivered_written by metis
  show "sv_closed t = sv_closed s @ [c \<leftarrow> sv_connections s. c \<notin> set (sv_connections t)]"
    using assms by (simp add: delivered_def)
qed

section \<open>Stopping\<close>

lemma runs_closeConnection:
  "runs (closeConnection N c) Q F s = (case n_Close N c (sv_world s) of (_, w) \<Rightarrow>
     Q () (s\<lparr>sv_world := w, sv_closed := sv_closed s @ [c]\<rparr>))"
  by (simp add: closeConnection_def wp split: prod.split)

lemma runs_forgetConnection:
  "runs (forgetConnection c) Q F s = Q () (s\<lparr>sv_connections := [x \<leftarrow> sv_connections s. x \<noteq> c]\<rparr>)"
  by (simp add: forgetConnection_def wp removeAll_filter_not_eq neq_commute)

lemma runs_closeAll:
  "runs (forEach (\<lambda>c. thenM (closeConnection N c) (forgetConnection c)) cs)
     (\<lambda>_ t. sv_connections t = [c \<leftarrow> sv_connections s. c \<notin> set cs] \<and> sv_closed t = sv_closed s @ cs \<and>
        sv_written t = sv_written s \<and> sv_server t = sv_server s \<and> sv_address t = sv_address s)
     (\<lambda>_ _. False) s"
proof (induction cs arbitrary: s)
  case Nil
  then show ?case by (simp add: wp)
next
  case (Cons c cs)
  show ?case
    by (auto simp: wp runs_closeConnection runs_forgetConnection split: prod.split
        intro!: runs_mono [OF Cons.IH] filter_cong)
qed

lemma runs_server_Stop:
  "runs (server_Stop N) (\<lambda>_ t. sv_server s \<and> \<not> sv_server t \<and> sv_address t = '''' \<and>
       sv_connections t = [] \<and> sv_closed t = sv_closed s @ sv_connections s)
     (\<lambda>x _. \<not> sv_server s \<and> x = Panicked ''nil pointer dereference'') s"
  unfolding server_Stop_def
  by (auto simp: wp split: prod.split intro!: runs_mono [OF runs_closeAll])

section \<open>The states of the server\<close>

definition server_ok :: "('c, 'w) server \<Rightarrow> bool" where
  "server_ok s \<longleftrightarrow> distinct (sv_connections s) \<and>
     (sv_address s \<noteq> '''' \<longrightarrow> sv_server s \<and> sv_listener s = Some (sv_address s))"

lemma server_ok_signal: "server_ok s \<Longrightarrow> runs (signalHandler N data) (\<lambda>_. server_ok) (\<lambda>_ _. True) s"
  by (rule runs_mono [OF runs_signalHandler])
     (auto simp: server_ok_def dest: delivered_distinct delivered_frame)

lemma server_ok_perform:
  assumes "server_ok s"
  shows "runs (serverPerform N c) (\<lambda>_. server_ok) (\<lambda>_ _. True) s"
proof (cases c)
  case (SrvSignal data)
  then show ?thesis using server_ok_signal [OF assms] by simp
next
  case SrvStop
  then show ?thesis
    by (simp, intro runs_mono [OF runs_server_Stop]) (auto simp: server_ok_def)
qed (use assms in \<open>auto simp: Setup_def SetKeycardSignalHandler_def server_Listen_def server_Serve_def
       server_signals_def server_ok_def wp split: prod.split sum.split option.split\<close>)

lemma reachable_server_ok: "server_reachable N s \<Longrightarrow> server_ok s"
proof (induction rule: server_reachable.induct)
  case (server_call s c t)
  show ?case
    using server_ok_perform [OF server_call.IH, of N c] server_call.hyps(2) by (simp add: runs_def)
next
  case (server_order s cs)
  then have "distinct cs"
    using mset_eq_imp_distinct_iff unfolding server_ok_def by metis
  with server_order.IH show ?case by (simp add: server_ok_def)
qed (simp add: server_ok_def NewServer_def)

text \<open>A listen that fails leaves the server started; only a stop undoes that.\<close>

lemma failed_listen:
  assumes "\<not> sv_server s" and "n_SplitHostPort N a = Inr hp" and "n_Listen N a (sv_world s) = (Inl e, w)"
  shows "server_Listen N a s = Ret (Some e) (s\<lparr>sv_server := True, sv_listener := None, sv_world := w\<rparr>)"
  using assms by (simp add: server_Listen_def onNet_def zoom_def worldM_def cmd_defs)

lemma started_listen: "sv_server s \<Longrightarrow> server_Listen N a s = Ret (Some (ErrorString ''server already started'')) s"
  by (simp add: server_Listen_def cmd_defs)

end
