(* ===== verification/StatusSignals.thy ===== *)
theory StatusSignals
  imports SignalServer ServiceSystem
begin

text \<open>
  The statuses of the session at the other end: \<open>publishStatus\<close> passes each to \<open>signal.Send\<close>, which
  has the server write it to its web sockets, while connections come and go.
\<close>

definition statusChanged :: string where "statusChanged = ''status-changed''"

type_synonym marshaller = "status envelope \<Rightarrow> go_error + bytes"

text \<open>The server from one state to another, with the statuses sent in between.\<close>

inductive observed :: "('c, 'w) netEnv \<Rightarrow> marshaller \<Rightarrow> ('c, 'w) server \<Rightarrow> status list \<Rightarrow> ('c, 'w) server \<Rightarrow> bool"
  for N marshal s where
  obs_start: "observed N marshal s [] s"
| obs_signal: "observed N marshal s sts t \<Longrightarrow> Send N marshal statusChanged st t = Ret () u \<Longrightarrow>
    observed N marshal s (sts @ [st]) u"
| obs_request: "observed N marshal s sts t \<Longrightarrow> server_signals N t = Ret () u \<Longrightarrow> observed N marshal s sts u"
| obs_order: "observed N marshal s sts t \<Longrightarrow> mset cs = mset (sv_connections t) \<Longrightarrow>
    observed N marshal s sts (t\<lparr>sv_connections := cs\<rparr>)"

text \<open>What a connection has got.\<close>

definition received :: "'c \<Rightarrow> ('c, 'w) server \<Rightarrow> bytes list" where
  "received c s = map snd [p \<leftarrow> sv_written s. fst p = c]"

lemma filter_pair: "distinct cs \<Longrightarrow> c \<in> set cs \<Longrightarrow> [p \<leftarrow> map (\<lambda>c. (c, d)) cs. fst p = c] = [(c, d)]"
  by (induction cs) (auto simp: filter_empty_conv)

text \<open>A connection that takes every message gets each signal once.\<close>

lemma signal_received:
  assumes "distinct (sv_connections s)" and "c \<in> set (sv_connections s)" and "\<And>w. accepts N data c w"
    and "signalHandler N data s = Ret () t"
  shows "distinct (sv_connections t)" and "c \<in> set (sv_connections t)" and "sv_handler t = sv_handler s"
    and "received c t = received c s @ [data]"
proof -
  from runs_signalHandler [OF assms(1), of N data] assms(4)
  have d: "delivered data (sv_connections s) (\<lambda>c. c \<in> set (sv_connections t)) s t"
    and stays: "c \<in> set (sv_connections t)"
    using assms(2,3) by (auto simp: runs_def)
  from delivered_distinct [OF d assms(1)] show "distinct (sv_connections t)" .
  with stays have "[p \<leftarrow> map (\<lambda>c. (c, data)) (sv_connections t). fst p = c] = [(c, data)]"
    by (intro filter_pair)
  with delivered_members(2) [OF d] show "received c t = received c s @ [data]"
    by (simp add: received_def)
  from d show "sv_handler t = sv_handler s" by (simp add: delivered_def)
qed (use assms runs_signalHandler [OF assms(1), of N data] in \<open>auto simp: runs_def\<close>)

lemma server_signals_frame:
  assumes "server_signals N s = Ret () t" and "distinct (sv_connections s)"
  shows "sv_written t = sv_written s" and "sv_handler t = sv_handler s" and "distinct (sv_connections t)"
    and "set (sv_connections s) \<subseteq> set (sv_connections t)"
proof -
  obtain r w where u: "n_Upgrade N (sv_world s) = (r, w)" by fastforce
  have t: "t = (case r of Inl e \<Rightarrow> s\<lparr>sv_world := w\<rparr>
      | Inr c \<Rightarrow> s\<lparr>sv_world := w, sv_connections := List.insert c (sv_connections s)\<rparr>)"
    using assms(1) u by (cases r) (simp_all add: server_signals_def onNet_def zoom_def worldM_def cmd_defs)
  show "sv_written t = sv_written s" "sv_handler t = sv_handler s" "distinct (sv_connections t)"
    "set (sv_connections s) \<subseteq> set (sv_connections t)"
    using assms(2) unfolding t by (cases r; auto)+
qed

lemma observed_received:
  assumes "observed N marshal s sts t" and "distinct (sv_connections s)" and "c \<in> set (sv_connections s)"
    and "sv_handler s" and "\<And>data w. accepts N data c w"
    and "\<And>st. marshal (NewEnvelope statusChanged st) = Inr (text_of st)"
  shows "distinct (sv_connections t) \<and> c \<in> set (sv_connections t) \<and> sv_handler t \<and>
    received c t = received c s @ map text_of sts"
  using assms(1)
proof (induction rule: observed.induct)
  case obs_start
  show ?case using assms(2-4) by simp
next
  case (obs_signal sts t st u)
  then have "signalHandler N (text_of st) t = Ret () u"
    using assms(6) by (simp add: Send_def cmd_defs)
  from signal_received [OF _ _ assms(5) this] obs_signal.IH show ?case by simp
next
  case (obs_request sts t u)
  then have "distinct (sv_connections t)" "c \<in> set (sv_connections t)" "sv_handler t"
    "received c t = received c s @ map text_of sts" by simp_all
  with server_signals_frame [OF obs_request.hyps(2)] show ?case by (auto simp: received_def)
next
  case (obs_order sts t cs)
  then show ?case
    using mset_eq_setD [OF obs_order.hyps(2)] mset_eq_imp_distinct_iff [OF obs_order.hyps(2)]
    by (simp add: received_def)
qed

text \<open>Sending never fails, so that any statuses can be sent.\<close>

lemma Send_returns:
  assumes "distinct (sv_connections s)"
  shows "\<exists>t. Send N marshal typ event s = Ret () t \<and> distinct (sv_connections t)"
proof (cases "marshal (NewEnvelope typ event)")
  case (Inr data)
  show ?thesis
  proof (cases "sv_handler s")
    case True
    with Inr runs_signalHandler [OF assms, of N data] show ?thesis
      by (auto simp: Send_def runs_def cmd_defs split: outcome.splits dest: delivered_distinct [OF _ assms])
  qed (use Inr assms in \<open>auto simp: Send_def onNet_def zoom_def worldM_def cmd_defs split: prod.split\<close>)
qed (use assms in \<open>simp add: Send_def cmd_defs\<close>)

lemma observed_exists:
  "distinct (sv_connections s) \<Longrightarrow> \<exists>t. observed N marshal s sts t \<and> distinct (sv_connections t)"
proof (induction sts rule: rev_induct)
  case (snoc st sts)
  then obtain t where "observed N marshal s sts t" "distinct (sv_connections t)" by blast
  with Send_returns [of t N marshal statusChanged st] show ?case by (blast intro: obs_signal)
qed (auto intro: obs_start)

end
