(* ===== verification/FlowSteps.thy ===== *)
theory FlowSteps
  imports Flows
begin

text \<open>
  Single steps of a flow, computed: the calls of the client, the places where they are
  taken, and the rounds of \<open>connect\<close>.
\<close>

section \<open>Events\<close>

lemma poll_Tick: "f_script f = Tick # evs \<Longrightarrow> poll f = Ret () (f\<lparr>f_script := evs\<rparr>)"
  by (simp add: poll_def remaining_def setScript_def cmd_defs)

lemma nextEvent_Cons: "f_script f = ev # evs \<Longrightarrow> nextEvent why f = Ret ev (f\<lparr>f_script := evs\<rparr>)"
  by (simp add: nextEvent_def setScript_def cmd_defs)

lemma client_Cancel:
  "f_state f \<noteq> Idle \<Longrightarrow> client CallCancel f = Ret () (f\<lparr>f_state := Cancelling,
    f_senders := (if f_state f = Paused then f_senders f + 1 else f_senders f), f_log := f_log f @ [Reply CallCancel None]\<rparr>)"
  by (simp add: client_def flow_Cancel_def emit_def setRunState_def cmd_defs)

lemma mergeParams_Some: "f_params f = Some m \<Longrightarrow>
    mergeParams (Some ps) f = Ret () (f\<lparr>f_params := Some (m ++ map_of ps)\<rparr>)"
  by (cases ps) (simp_all add: mergeParams_def cmd_defs)

lemma client_Resume:
  "f_state f = Paused \<Longrightarrow> f_params f = Some m \<Longrightarrow> client (CallResume (Some ps)) f =
    Ret () (f\<lparr>f_params := Some (m ++ map_of ps), f_state := Resuming, f_senders := f_senders f + 1,
      f_log := f_log f @ [Reply (CallResume (Some ps)) None]\<rparr>)"
  by (simp add: client_def flow_Resume_def emit_def setRunState_def mergeParams_Some cmd_defs)

lemma client_Resume_early:
  "f_state f \<noteq> Paused \<Longrightarrow> client (CallResume ps) f =
    Ret () (f\<lparr>f_log := f_log f @ [Reply (CallResume ps) (Some (ErrorString ''only paused flows can be resumed''))]\<rparr>)"
  by (simp add: client_def flow_Resume_def emit_def cmd_defs)

section \<open>A pause\<close>

definition pauseStatus :: "string \<Rightarrow> 'w flow \<Rightarrow> params" where
  "pauseStatus msg f = [ErrorKey \<mapsto> VStr msg] ++ statusOfCard (f_cardInfo f)"

lemma pause_Tick:
  "f_script f = Tick # evs \<Longrightarrow> pause a msg Map.empty f =
    Ret () (f\<lparr>f_script := evs, f_log := f_log f @ [Signal a (pauseStatus msg f)], f_state := Paused\<rparr>)"
  by (simp add: pause_def emit_def setRunState_def pauseStatus_def poll_Tick cmd_defs)

section \<open>The rounds of connect\<close>

lemma connectLoop_Cons:
  "f_script f = Call c # evs \<Longrightarrow> connectLoop H kc (Suc n) fired rs f =
    thenM (client c) (connectLoop H kc n fired rs) (f\<lparr>f_script := evs\<rparr>)"
  "f_script f = TimerFires # evs \<Longrightarrow> connectLoop H kc (Suc n) False rs f =
    thenM (pause InsertCard ErrorConnection Map.empty) (connectLoop H kc n True rs) (f\<lparr>f_script := evs\<rparr>)"
  "f_script f = Tick # evs \<Longrightarrow> 0 < f_senders f \<Longrightarrow> connectLoop H kc (Suc n) fired rs f =
    (if f_state f \<noteq> Cancelling then panicM ''Resuming is not expected during connection''
     else ret (Inl GiveupError)) (f\<lparr>f_script := evs, f_senders := f_senders f - 1\<rparr>)"
  by (simp_all add: nextEvent_Cons receive_def cmd_defs)

lemma connectLoop_connected:
  assumes "f_script f = ReaderEvent # evs" and "readersChanged H kc rs (f_world f) = Ret (ConnectedTo kc') w"
  shows "connectLoop H kc (Suc n) fired rs f = Ret (Inr kc')
    (if f_state f = Paused
     then f\<lparr>f_script := evs, f_world := w, f_state := Running, f_log := f_log f @ [Signal CardInserted Map.empty]\<rparr>
     else f\<lparr>f_script := evs, f_world := w\<rparr>)"
  using assms by (simp add: nextEvent_Cons onFlowWorld_def zoom_def setRunState_def emit_def cmd_defs)

lemma flow_connect_started:
  assumes "StartKeycardContext H (f_world f) = Ret (Inr kc) w"
  shows "flow_connect H f =
    connectLoop H kc (length (f_script f)) False (initialStates (kx_readers kc)) (f\<lparr>f_world := w\<rparr>)"
  using assms by (simp add: flow_connect_def bindE_def onFlowWorld_def zoom_def remaining_def cmd_defs)

section \<open>The connected card\<close>

lemma kc_ApplicationInfo_eq:
  assumes "f_kc f = Some kc" and "kx_card kc = Some handle" and "kx_cmdSet kc = Some cs"
  shows "onCard H (\<lambda>_. kc_ApplicationInfo) f = Ret (cs_ApplicationInfo cs) f"
proof -
  have "kc\<lparr>kx_cmdSet := Some cs\<rparr> = kc" using assms(3) by (cases kc) simp
  with assms show ?thesis
    by (cases f) (simp add: onCard_def kc_ApplicationInfo_def zoom_def cmd_defs)
qed

lemma runs_onCard_params: "runs (onCard H m) (\<lambda>_ t. f_params t = f_params f) (\<lambda>_ _. True) f"
  by (auto simp: runs_def onCard_def zoom_def split: option.splits outcome.splits prod.splits)

lemma pauseAndRestart_fails: "runs (pauseAndRestart a msg) (\<lambda>r _. r \<noteq> None) (\<lambda>_ _. True) f"
  unfolding pauseAndRestart_def andThen_def
  by (rule runs_bind [OF runs_triv]) (simp add: wp split: option.split)

text \<open>A card that is selected without an error is the one the parameters ask for.\<close>

definition asked_for :: "string \<Rightarrow> string \<Rightarrow> 'w flow \<Rightarrow> bool" where
  "asked_for k v f \<longleftrightarrow> Option.bind (f_params f) (\<lambda>ps. ps k) \<in> {None, Some (VStr v)}"

text \<open>
  What the card answers to SELECT, in the state in which it is selected: the application info the
  step goes by is the one parsed from that answer.
\<close>

definition selects :: "'w host \<Rightarrow> nat \<Rightarrow> 'w \<Rightarrow> appInfo \<Rightarrow> bool" where
  "selects H handle w info \<longleftrightarrow>
     (\<exists>resp w'. Send (cardPort H handle) (SetLe 0 (NewCommandSelect KeycardInstanceAID)) w = Ret (Inr resp) w' \<and>
        Sw resp = SwOK \<and> ParseApplicationInfo (resp_Data resp) = Some (Inr info))"

lemma runs_Select_answer:
  "runs (Select C (cardPort H handle)) (\<lambda>r s. r = Inr () \<longrightarrow>
     (\<exists>info. selects H handle w info \<and> cs_ApplicationInfo (fst s) = Some info)) (\<lambda>_ _. True) (cs, w)"
proof -
  let ?sel = "SetLe 0 (NewCommandSelect KeycardInstanceAID)"
  have tail: "runs (if HasSecureChannelCapability info
      then bindE (onSc (GenerateSecret C P k)) (\<lambda>_. thenM (onSc sc_Reset) (ret (Inr ())))
      else ret (Inr ())) (\<lambda>r s. r = Inr () \<longrightarrow> cs_ApplicationInfo (fst s) = Some i) (\<lambda>_ _. True) t"
    if "cs_ApplicationInfo (fst t) = Some i" for info k i P and t :: "commandSet \<times> 'a"
  proof -
    have "preserves (\<lambda>s :: commandSet \<times> 'a. cs_ApplicationInfo (fst s) = Some i) (if HasSecureChannelCapability info
      then bindE (onSc (GenerateSecret C P k)) (\<lambda>_. thenM (onSc sc_Reset) (ret (Inr ())))
      else ret (Inr ()))"
      by (intro keeps preserves_onSc) auto
    from preservesD [OF this that] show ?thesis by (rule runs_mono) auto
  qed
  have "runs (sendOK (onSnd (Send (cardPort H handle) ?sel))) (\<lambda>r s. \<forall>resp. r = Inr resp \<longrightarrow>
      (\<exists>w'. Send (cardPort H handle) ?sel w = Ret (Inr resp) w') \<and> Sw resp = SwOK) (\<lambda>_ _. True) (cs, w)"
    by (auto simp: sendOK_def checkOK_def zoom_def runs_def cmd_defs split: outcome.split sum.split)
  then show ?thesis
    unfolding Select_def
  proof (rule runs_bind_sum)
    fix resp :: response and t :: "commandSet \<times> 'a"
    assume a: "\<forall>resp'. Inr resp = Inr resp' \<longrightarrow>
      (\<exists>w'. Send (cardPort H handle) ?sel w = Ret (Inr resp') w') \<and> Sw resp' = SwOK"
    show "runs (case ParseApplicationInfo (resp_Data resp) of
         None \<Rightarrow> panicM ''index out of range''
       | Some (Inl e) \<Rightarrow> ret (Inl e)
       | Some (Inr appInfo) \<Rightarrow>
           thenM (modifyM (\<lambda>(cs, c). (cs\<lparr>cs_ApplicationInfo := Some appInfo\<rparr>, c)))
           (if HasSecureChannelCapability appInfo then
              bindE (onSc (GenerateSecret C (cardPort H handle) (ai_SecureChannelPublicKey appInfo))) (\<lambda>_.
                thenM (onSc sc_Reset) (ret (Inr ())))
            else ret (Inr ()))) (\<lambda>r s. r = Inr () \<longrightarrow>
     (\<exists>info. selects H handle w info \<and> cs_ApplicationInfo (fst s) = Some info)) (\<lambda>_ _. True) t"
    proof (cases "ParseApplicationInfo (resp_Data resp)")
      case (Some y)
      show ?thesis
      proof (cases y)
        case (Inr i)
        have "selects H handle w i" using a Some Inr by (auto simp: selects_def)
        then show ?thesis
          unfolding Some Inr option.case sum.case runs_thenM runs_modifyM
          by (intro runs_mono [OF tail [where i = i]]) (auto simp: case_prod_unfold)
      qed (simp add: Some wp)
    qed (simp add: wp)
  qed simp
qed

lemma runs_kc_SelectApplet_answer:
  "runs (kc_SelectApplet C (cardPort H handle)) (\<lambda>r s. \<forall>info. r = Inr (Some info) \<longrightarrow>
     cs_ApplicationInfo (fst s) = Some info \<and> (ai_Installed info \<longrightarrow> selects H handle w info)) (\<lambda>_ _. True) (cs, w)"
  unfolding kc_SelectApplet_def
  by (rule runs_bind [OF runs_Select_answer]) (auto simp: wp emptyAppInfo_def split: sum.split)

text \<open>The card that is connected, and the card information of the flow taken from an application info.\<close>

definition infoStatus :: "appInfo \<Rightarrow> cardStatus \<Rightarrow> cardStatus" where
  "infoStatus info c = c\<lparr>c_instanceUID := Btox (ai_InstanceUID info), c_keyUID := Btox (ai_KeyUID info),
     c_freeSlots := BytesToInt (ai_AvailableSlots info), c_version := BytesToInt (ai_Version info)\<rparr>"

lemma runs_selectKeycard:
  assumes "f_kc f = Some kc" and "kx_card kc = Some handle" and "kx_cmdSet kc = Some cs"
  shows "runs (selectKeycard H) (\<lambda>r t. r = None \<longrightarrow> (\<exists>info cs'. selects H handle (f_world f) info \<and> ai_Installed info \<and>
      f_kc t = Some (kc\<lparr>kx_cmdSet := Some cs'\<rparr>) \<and> cs_ApplicationInfo cs' = Some info \<and>
      f_cardInfo t = infoStatus info (f_cardInfo f) \<and> f_params t = f_params f \<and>
      asked_for keyInstanceUID (Btox (ai_InstanceUID info)) f \<and> asked_for keyKeyUID (Btox (ai_KeyUID info)) f))
    (\<lambda>_ _. True) f"
proof -
  have "runs (onCard H (kc_SelectApplet (h_prims H))) (\<lambda>r t. \<forall>info. r = Inr (Some info) \<longrightarrow>
      (\<exists>cs' w. t = f\<lparr>f_kc := Some (kc\<lparr>kx_cmdSet := Some cs'\<rparr>), f_world := w\<rparr> \<and> cs_ApplicationInfo cs' = Some info \<and>
        (ai_Installed info \<longrightarrow> selects H handle (f_world f) info))) (\<lambda>_ _. True) f"
    using runs_kc_SelectApplet_answer [of "h_prims H" H handle "f_world f" cs] assms
    by (auto simp: onCard_def zoom_def runs_def split: outcome.splits prod.splits)
  then show ?thesis
    unfolding selectKeycard_def
  proof (rule runs_bind)
    fix r :: "go_error + appInfo option" and t :: "'a flow"
    assume t: "\<forall>info. r = Inr (Some info) \<longrightarrow>
      (\<exists>cs' w. t = f\<lparr>f_kc := Some (kc\<lparr>kx_cmdSet := Some cs'\<rparr>), f_world := w\<rparr> \<and> cs_ApplicationInfo cs' = Some info \<and>
        (ai_Installed info \<longrightarrow> selects H handle (f_world f) info))"
    show "runs (case r of
        Inl _ \<Rightarrow> ret (Some RestartError)
      | Inr None \<Rightarrow> panicM ''nil pointer dereference''
      | Inr (Some appInfo) \<Rightarrow>
          thenM (setCardInfo (\<lambda>c. c\<lparr>c_instanceUID := Btox (ai_InstanceUID appInfo),
             c_keyUID := Btox (ai_KeyUID appInfo), c_freeSlots := BytesToInt (ai_AvailableSlots appInfo),
             c_version := BytesToInt (ai_Version appInfo)\<rparr>))
          (if \<not> ai_Installed appInfo then pauseAndRestart SwapCard ErrorNotAKeycard
           else
             bindM (param keyInstanceUID) (\<lambda>requiredInstanceUID.
             bindM (getM f_cardInfo) (\<lambda>c.
               if requiredInstanceUID \<noteq> None \<and> requiredInstanceUID \<noteq> Some (VStr (c_instanceUID c))
               then pauseAndRestart SwapCard keyInstanceUID
               else
                 bindM (param keyKeyUID) (\<lambda>requiredKeyUID.
                 bindM (getM f_cardInfo) (\<lambda>c.
                   if requiredKeyUID \<noteq> None \<and> requiredKeyUID \<noteq> Some (VStr (c_keyUID c))
                   then pauseAndRestart SwapCard keyKeyUID
                   else ret None))))))
      (\<lambda>r t. r = None \<longrightarrow> (\<exists>info cs'. selects H handle (f_world f) info \<and> ai_Installed info \<and>
        f_kc t = Some (kc\<lparr>kx_cmdSet := Some cs'\<rparr>) \<and> cs_ApplicationInfo cs' = Some info \<and>
        f_cardInfo t = infoStatus info (f_cardInfo f) \<and> f_params t = f_params f \<and>
        asked_for keyInstanceUID (Btox (ai_InstanceUID info)) f \<and> asked_for keyKeyUID (Btox (ai_KeyUID info)) f))
      (\<lambda>_ _. True) t"
    proof (cases "\<exists>info. r = Inr (Some info)")
      case True
      then obtain info cs' w where r: "r = Inr (Some info)" "t = f\<lparr>f_kc := Some (kc\<lparr>kx_cmdSet := Some cs'\<rparr>), f_world := w\<rparr>"
        "cs_ApplicationInfo cs' = Some info" "ai_Installed info \<longrightarrow> selects H handle (f_world f) info"
        using t by blast
      show ?thesis
        by (auto simp: r wp setCardInfo_def param_def asked_for_def infoStatus_def
            intro: runs_mono [OF pauseAndRestart_fails] intro!: exI [of _ info])
    qed (auto simp: wp split: sum.split option.split)
  qed
qed

end
