(* ===== verification/FlowFacts.thy ===== *)
theory FlowFacts
  imports Flows
begin

text \<open>
  What every step of a flow leaves alone, and where a flow can stop: the frame of the
  steps, the signals they send, and the bound on their rounds.
\<close>

section \<open>Frames\<close>

text \<open>A predicate that the client's calls keep, and the passing of events.\<close>

locale poll_frame =
  fixes P :: "'w flow \<Rightarrow> bool"
  assumes frame_script: "P f \<Longrightarrow> length evs \<le> length (f_script f) \<Longrightarrow> P (f\<lparr>f_script := evs\<rparr>)"
    and frame_client: "preserves P (client cl)"
begin

lemmas keeps_client [keeps] = frame_client

lemma keeps_remaining [keeps]: "preserves P remaining"
  unfolding remaining_def by (intro keeps)

lemma runs_shorter:
  "P f \<Longrightarrow> length evs \<le> length (f_script f) \<Longrightarrow> preserves P m \<Longrightarrow>
    runs (thenM (setScript evs) m) (\<lambda>_. P) (\<lambda>_. P) f"
  unfolding setScript_def runs_thenM runs_modifyM by (blast intro: preservesD frame_script)

lemma keeps_nextEvent [keeps]: "preserves P (nextEvent why)"
  unfolding nextEvent_def
  by (rule preserves_getM_bind)
     (auto simp: wp split: list.split intro: runs_shorter [unfolded runs_thenM] keeps
      intro!: frame_script simp: setScript_def)

lemma keeps_pollCalls: "preserves P (pollCalls n)"
proof (induction n)
  case (Suc n)
  have "preserves P (thenM (client c) (pollCalls n))" for c by (intro keeps Suc.IH)
  then have c: "runs (client c) (\<lambda>_. runs (pollCalls n) (\<lambda>_. P) (\<lambda>_. P)) (\<lambda>_. P) f" if "P f" for c f
    using that by (simp add: preserves_def wp)
  show ?case
    unfolding pollCalls.simps
    by (intro preserves_getM_bind)
       (auto split: list.split event.split simp: wp setScript_def intro!: frame_script c)
qed (simp add: keeps)

lemma keeps_poll [keeps]: "preserves P poll"
  unfolding poll_def by (intro keeps keeps_pollCalls)

end

text \<open>
  A predicate that the steps of a flow keep: besides, it does not look at the card, the
  store and the world, and it survives signals other than the result, pausing and running
  on, and the loss of a parameter.
\<close>

locale step_frame = poll_frame P for P :: "'w flow \<Rightarrow> bool" +
  assumes frame_card: "P f \<Longrightarrow> P (f\<lparr>f_kc := kc, f_world := w\<rparr>)"
    and frame_store: "P f \<Longrightarrow> P (f\<lparr>f_pairings := p, f_world := w\<rparr>)"
    and frame_info: "P f \<Longrightarrow> P (f\<lparr>f_cardInfo := c\<rparr>)"
    and frame_del: "P f \<Longrightarrow> P (f\<lparr>f_params := map_option (\<lambda>m. m(k := None)) (f_params f)\<rparr>)"
    and frame_senders: "P f \<Longrightarrow> P (f\<lparr>f_senders := n\<rparr>)"
    and frame_state: "P f \<Longrightarrow> st \<in> {Running, Paused} \<Longrightarrow> P (f\<lparr>f_state := st\<rparr>)"
    and frame_signal: "P f \<Longrightarrow> a \<noteq> FlowResult \<Longrightarrow> P (f\<lparr>f_log := f_log f @ [Signal a status]\<rparr>)"
begin

lemma keeps_values [keeps]:
  "preserves P (asString v)" "preserves P (asBool v)" "preserves P (asList v)"
  unfolding asString_def asBool_def asList_def by (cases v; simp add: keeps)+

lemma keeps_fields [keeps]:
  "preserves P (param k)" "preserves P (flag k)"
  unfolding flag_def param_def by (intro keeps)+

lemma keeps_setters [keeps]:
  "preserves P (setCardInfo g)" "preserves P (delParam k)" "preserves P receive"
  unfolding setCardInfo_def delParam_def receive_def
  by (intro keeps preserves_modifyM frame_info frame_del frame_senders; assumption)+

lemma keeps_setContext [keeps]: "preserves P (setContext kc)"
  unfolding setContext_def
proof (rule preserves_modifyM)
  fix f assume "P f"
  from frame_card [OF this, where kc = kc and w = "f_world f"] show "P (f\<lparr>f_kc := kc\<rparr>)" by simp
qed

lemma keeps_setRunState [keeps]:
  "preserves P (setRunState Running)" "preserves P (setRunState Paused)"
  unfolding setRunState_def by (intro preserves_modifyM frame_state; simp)+

lemma keeps_emit [keeps]: "a \<noteq> FlowResult \<Longrightarrow> preserves P (emit (Signal a status))"
  unfolding emit_def by (intro preserves_modifyM frame_signal)

lemma keeps_andThen [keeps]:
  "preserves P m \<Longrightarrow> preserves P n \<Longrightarrow> preserves P (andThen m n)"
  "preserves P m \<Longrightarrow> preserves P k \<Longrightarrow> preserves P (andThenE m k)"
  unfolding andThen_def andThenE_def by (intro keeps; assumption)+

lemma keeps_awaitWake [keeps]: "preserves P (awaitWake n)"
  by (induction n) (auto split: event.split intro!: keeps)

lemma keeps_pause [keeps]: "a \<noteq> FlowResult \<Longrightarrow> preserves P (pause a msg status)"
  unfolding pause_def by (intro keeps; simp)

lemma keeps_pauseAndWait [keeps]:
  "a \<noteq> FlowResult \<Longrightarrow> preserves P (pauseAndWaitWithStatus a msg status)"
  "a \<noteq> FlowResult \<Longrightarrow> preserves P (pauseAndWait a msg)"
  "a \<noteq> FlowResult \<Longrightarrow> preserves P (pauseAndRestart a msg)"
  unfolding pauseAndRestart_def pauseAndWait_def pauseAndWaitWithStatus_def by (intro keeps; simp)+

lemma keeps_onFlowWorld [keeps]: "preserves P (onFlowWorld m)"
  unfolding onFlowWorld_def
proof (rule preserves_zoom)
  fix f w assume "P f"
  from frame_card [OF this, where kc = "f_kc f" and w = w] show "P (f\<lparr>f_world := w\<rparr>)" by simp
qed

lemma keeps_onCard [keeps]: "preserves P (onCard H m)"
  by (auto simp: preserves_def onCard_def runs_def zoom_def intro: frame_card
      split: option.splits prod.splits outcome.splits)

lemma keeps_onStore [keeps]: "preserves P (onStore m)"
  unfolding onStore_def by (rule preserves_zoom) (auto intro: frame_store)

lemma keeps_closeKeycard [keeps]: "preserves P (closeKeycard H kc)"
  unfolding closeKeycard_def by (intro keeps)

lemma keeps_flow_connect [keeps]: "preserves P (flow_connect H)"
proof -
  have "preserves P (connectLoop H kc n fired rs)" for kc n fired rs
  proof (induction n arbitrary: fired rs)
    case (Suc n)
    show ?case
      unfolding connectLoop.simps
      by (intro keeps; auto split: event.split waiting.split intro!: keeps Suc.IH)
  qed (simp add: keeps)
  then show ?thesis unfolding flow_connect_def by (intro keeps)
qed

lemma keeps_require [keeps]: "preserves P requireKeys" "preserves P requireNoKeys"
  unfolding requireKeys_def requireNoKeys_def by (intro keeps; simp)+

lemma keeps_stops [keeps]: "preserves P outOfFuel" "preserves P repairing"
  by (simp_all add: outOfFuel_def repairing_def keeps)

lemma keeps_factoryReset [keeps]: "preserves P (flow_factoryReset H)"
  unfolding flow_factoryReset_def by (intro keeps)

lemma keeps_selectKeycard [keeps]: "preserves P (selectKeycard H)"
  unfolding selectKeycard_def by (intro keeps; simp)

lemma keeps_flow_pair [keeps]: "preserves P (flow_pair n H)"
proof (induction n)
  case (Suc n)
  show ?case unfolding flow_pair.simps by (intro keeps Suc.IH; simp)
qed (simp add: keeps)

end

text \<open>With the three steps that try a PIN or a PUK or set them, a whole flow keeps the predicate.\<close>

locale flow_frame = step_frame P for P :: "'w flow \<Rightarrow> bool" +
  assumes frame_initCard: "preserves P (initCard n H)"
    and frame_unblockPIN: "preserves P (unblockPIN n H)"
    and frame_authenticate: "preserves P (authenticate n H)"
begin

lemmas keeps_attempts [keeps] = frame_initCard frame_unblockPIN frame_authenticate

lemma keeps_openSC [keeps]: "preserves P (openSC m H n giveup)"
proof -
  have "preserves P (readRetries H)" "preserves P (verifyAuthenticity H)"
    unfolding readRetries_def verifyAuthenticity_def by (intro keeps)+
  moreover have "preserves P (modifyM (\<lambda>f. f\<lparr>f_pairings := store_Delete uid (f_pairings f)\<rparr>))" for uid
  proof (rule preserves_modifyM)
    fix f assume "P f"
    from frame_store [OF this, where p = "store_Delete uid (f_pairings f)" and w = "f_world f"]
    show "P (f\<lparr>f_pairings := store_Delete uid (f_pairings f)\<rparr>)" by simp
  qed
  ultimately have "preserves P (openKnown H)"
    unfolding openKnown_def by (intro keeps)
  with \<open>preserves P (verifyAuthenticity H)\<close> show ?thesis
    by (induction m) (auto split: option.split intro!: keeps)
qed

lemma keeps_openSCAndAuthenticate [keeps]: "preserves P (openSCAndAuthenticate H m n giveup)"
  unfolding openSCAndAuthenticate_def by (intro keeps)

lemma keeps_small [keeps]:
  "preserves P (unpairCurrent H)" "preserves P (unpair H idx)" "preserves P (removeKey H)"
  "preserves P (flow_getMetadata H)" "preserves P (exportKeyExtended H path p2)"
  "preserves P (flow_exportKey H path b)" "preserves P cardIds" "preserves P idsAndSlots" "preserves P okIds"
  "preserves P (masterAddress H result)"
  unfolding unpairCurrent_def unpair_def removeKey_def flow_getMetadata_def exportKeyExtended_def
    flow_exportKey_def cardIds_def idsAndSlots_def okIds_def masterAddress_def
  by (intro keeps)+

lemma keeps_walletComponents [keeps]: "preserves P (walletComponents ps)"
  by (induction ps) (auto split: prod.split option.split intro!: keeps)

lemma keeps_lists [keeps]:
  "preserves P (exportKeyList H b ps)" "preserves P (unpairAll H is')" "preserves P (resolveWallets H ws)"
  subgoal by (induction ps) (auto intro!: keeps)
  subgoal by (induction is') (auto split: option.split intro!: keeps)
  subgoal by (induction ws) (auto intro!: keeps)
  done

lemma keeps_flow_storeMetadata [keeps]: "preserves P (flow_storeMetadata n H)"
proof (induction n)
  case (Suc n)
  show ?case unfolding flow_storeMetadata.simps by (intro keeps Suc.IH; simp)
qed (simp add: keeps)

lemma keeps_exportBIP44Key [keeps]: "preserves P (exportBIP44Key n H)"
proof (induction n)
  case (Suc n)
  show ?case
    unfolding exportBIP44Key.simps Let_def
    by (intro keeps Suc.IH; auto split: val.split option.split intro!: keeps Suc.IH)
qed (simp add: keeps)

lemma keeps_loadKeys [keeps]: "preserves P (loadKeys n H)"
proof (induction n)
  case (Suc n)
  show ?case unfolding loadKeys.simps by (intro keeps Suc.IH; simp)
qed (simp add: keeps)

lemma keeps_change [keeps]:
  "preserves P (flow_changePIN n H)" "preserves P (flow_changePUK n H)"
  "preserves P (flow_changePairing n H)" "preserves P (flow_sign n H)"
  by (induction n; simp add: keeps; (intro keeps; auto split: option.split sum.split intro!: keeps)?)+

lemma keeps_flowOf [keeps]: "preserves P (flowOf H m n t)"
  by (cases t)
     (simp_all add: getAppInfoFlow_def exportKeysFlow_def exportPublicFlow_def loadKeysFlow_def signFlow_def
       changePINFlow_def changePUKFlow_def changePairingFlow_def unpairThisFlow_def unpairOthersFlow_def
       deleteUnpairFlow_def storeMetadataFlow_def getMetadataFlow_def Let_def, (intro keeps)+)

lemma keeps_connectedFlow [keeps]: "preserves P (connectedFlow H m n)"
  unfolding connectedFlow_def useKeycard_def by (intro keeps)

lemma keeps_runAgain [keeps]: "preserves P (runAgain r H m n)"
proof (induction r)
  case (Suc r)
  show ?case unfolding runAgain.simps by (intro keeps Suc.IH)
qed (simp add: keeps)

end

text \<open>Predicates that do not look at the parameters either, nor at the attempts.\<close>

locale param_frame = step_frame P for P :: "'w flow \<Rightarrow> bool" +
  assumes frame_params: "P f \<Longrightarrow> P (f\<lparr>f_params := ps\<rparr>)"
    and frame_tried: "P f \<Longrightarrow> P (f\<lparr>f_log := f_log f @ [Tried a err]\<rparr>)"
begin

lemma keeps_setParam [keeps]: "preserves P (setParam k v)"
  unfolding setParam_def by (intro keeps preserves_modifyM frame_params)

lemma keeps_tryCard [keeps]: "preserves P (tryCard H a m)"
  unfolding tryCard_def emit_def by (intro keeps preserves_modifyM frame_tried)

lemma keeps_initCard: "preserves P (initCard n H)"
proof (induction n)
  case (Suc n)
  show ?case unfolding initCard.simps Let_def by (intro keeps Suc.IH; simp)
qed (simp add: keeps)

lemma keeps_unblockPIN: "preserves P (unblockPIN n H)"
proof (induction n)
  case (Suc n)
  show ?case
    unfolding unblockPIN.simps Let_def
    by (intro keeps Suc.IH; auto split: option.split sum.split bool.split intro!: keeps Suc.IH)
qed (simp add: keeps)

lemma keeps_authenticate [keeps]: "preserves P (authenticate n H)"
proof (induction n)
  case (Suc n)
  show ?case
    unfolding authenticate.simps verifyGiven_def Let_def
    by (intro keeps keeps_unblockPIN Suc.IH; auto split: bool.split intro!: keeps keeps_unblockPIN Suc.IH)
qed (simp add: keeps)

end

sublocale param_frame \<subseteq> flow_frame
  by unfold_locales (rule keeps_initCard keeps_unblockPIN keeps_authenticate)+

section \<open>The log of a run\<close>

definition no_result :: "logEntry list \<Rightarrow> bool" where
  "no_result es \<longleftrightarrow> (\<forall>status. Signal FlowResult status \<notin> set es)"

definition starts_refused :: "logEntry list \<Rightarrow> bool" where
  "starts_refused es \<longleftrightarrow> (\<forall>t ps. Reply (CallStart t ps) None \<notin> set es)"

definition only_replies :: "logEntry list \<Rightarrow> bool" where
  "only_replies es \<longleftrightarrow> (\<forall>a status. Signal a status \<notin> set es)"

lemma log_simps [simp]:
  "no_result []" "starts_refused []" "only_replies []"
  "no_result (es @ es') = (no_result es \<and> no_result es')"
  "starts_refused (es @ es') = (starts_refused es \<and> starts_refused es')"
  "only_replies (es @ es') = (only_replies es \<and> only_replies es')"
  "no_result [Signal a status] = (a \<noteq> FlowResult)" "no_result [Reply c err]" "no_result [Tried att err]"
  "starts_refused [Signal a status]" "starts_refused [Reply CallCancel err]"
  "starts_refused [Reply (CallResume cps) err]"
  "starts_refused [Reply (CallStart t cps) (Some e)]" "only_replies [Reply c err]"
  "starts_refused [Tried att err]"
  by (auto simp: no_result_def starts_refused_def only_replies_def)

text \<open>A flow that is on: \<open>n\<close> goroutines, and a log with the prefix \<open>l\<close>.\<close>

definition flow_on :: "nat \<Rightarrow> logEntry list \<Rightarrow> 'w flow \<Rightarrow> bool" where
  "flow_on n l f \<longleftrightarrow> f_state f \<noteq> Idle \<and> f_goroutines f = n \<and>
     (\<exists>es. f_log f = l @ es \<and> no_result es \<and> starts_refused es \<and>
       (f_state f = Cancelling \<longrightarrow> Reply CallCancel None \<in> set es))"

lemma runs_mergeParams:
  assumes "\<And>p. Q () (f\<lparr>f_params := p\<rparr>)" and "\<And>msg. F (Panicked msg) f"
  shows "runs (mergeParams ps) Q F f"
proof -
  have "Q () f" using assms(1) [of "f_params f"] by simp
  then show ?thesis
    by (auto simp: mergeParams_def wp assms split: option.split list.split)
qed

lemma client_flow_on: "preserves (flow_on n l) (client c)"
proof (rule preservesI)
  fix f :: "'a flow" assume "flow_on n l f"
  then show "runs (client c) (\<lambda>_. flow_on n l) (\<lambda>_. flow_on n l) f"
    by (cases c)
       (auto simp: client_def flow_Start_def flow_Resume_def flow_Cancel_def emit_def setRunState_def
         flow_on_def wp intro!: runs_mergeParams)
qed

interpretation on_run: param_frame "flow_on n l" for n l
  by unfold_locales (auto simp: flow_on_def intro: client_flow_on)

text \<open>After the result, until the goroutine has ended.\<close>

definition flow_ending :: "nat \<Rightarrow> logEntry list \<Rightarrow> 'w flow \<Rightarrow> bool" where
  "flow_ending n l f \<longleftrightarrow> f_state f \<noteq> Idle \<and> f_goroutines f = n \<and>
     (\<exists>rs. f_log f = l @ rs \<and> only_replies rs \<and> starts_refused rs)"

lemma client_flow_ending: "preserves (flow_ending n l) (client c)"
proof (rule preservesI)
  fix f :: "'a flow" assume "flow_ending n l f"
  then show "runs (client c) (\<lambda>_. flow_ending n l) (\<lambda>_. flow_ending n l) f"
    by (cases c)
       (auto simp: client_def flow_Start_def flow_Resume_def flow_Cancel_def emit_def setRunState_def
         flow_ending_def wp intro!: runs_mergeParams)
qed

interpretation ending: poll_frame "flow_ending n l" for n l
  by unfold_locales (auto simp: flow_ending_def intro: client_flow_ending)

definition run_log :: "logEntry list \<Rightarrow> bool" where
  "run_log es \<longleftrightarrow> (\<exists>as rs. es = as @ rs \<and> no_result as \<and> starts_refused es \<and>
     (if rs = [] then Reply CallCancel None \<in> set as
      else \<exists>status rs'. rs = Signal FlowResult status # rs' \<and> only_replies rs'))"

text \<open>
  A run: the rounds up to the result, the calls that come before the signal, and the calls
  after it.
\<close>

abbreviation ended :: "'w flow \<Rightarrow> 'w flow" where
  "ended f \<equiv> f\<lparr>f_params := None, f_state := Idle, f_goroutines := f_goroutines f - 1\<rparr>"

lemma runs_runFlow:
  assumes "runs (runAgain n H m n) A F f" and p: "\<And>r t. A r t \<Longrightarrow> runs poll (\<lambda>_. A r) F t"
    and c: "\<And>r t. A r t \<Longrightarrow> f_state t = Cancelling \<Longrightarrow> Q (ended t)"
    and s: "\<And>r t. A r t \<Longrightarrow> f_state t \<noteq> Cancelling \<Longrightarrow> B r (t\<lparr>f_log := f_log t @ [Signal FlowResult r]\<rparr>)"
    and q: "\<And>r t. B r t \<Longrightarrow> runs poll (\<lambda>_. B r) F t" and e: "\<And>r t. B r t \<Longrightarrow> Q (ended t)"
  shows "runs (runFlow H m n) (\<lambda>_. Q) F f"
  unfolding runFlow_def
proof (rule runs_bind [OF assms(1)], rule runs_then [OF p], assumption)
  fix r and t :: "'a flow" assume t: "A r t"
  show "runs (bindM (getM f_state) (\<lambda>st.
     thenM (if st \<noteq> Cancelling then thenM (emit (Signal FlowResult r)) poll else ret ()) (modifyM ended)))
     (\<lambda>_. Q) F t"
  proof (cases "f_state t = Cancelling")
    case True
    with c [OF t] show ?thesis by (simp add: wp)
  next
    case False
    from q [OF s [OF t False]]
    have "runs (thenM poll (modifyM ended)) (\<lambda>_. Q) F (t\<lparr>f_log := f_log t @ [Signal FlowResult r]\<rparr>)"
      by (rule runs_then) (drule e, simp add: wp)
    with False show ?thesis by (simp add: wp emit_def)
  qed
qed

lemma runs_keeps: "preserves P m \<Longrightarrow> P s \<Longrightarrow> runs m (\<lambda>_. P) (\<lambda>_ _. True) s"
  by (blast intro: runs_mono preservesD)

lemma runFlow_log:
  assumes "f_state f = Running"
  shows "runs (runFlow H m n)
    (\<lambda>_ t. f_state t = Idle \<and> f_params t = None \<and> f_goroutines t = f_goroutines f - 1 \<and>
      (\<exists>es. f_log t = f_log f @ es \<and> run_log es)) (\<lambda>_ _. True) f"
proof (rule runs_runFlow)
  let ?l = "f_log f" and ?n = "f_goroutines f"
  let ?A = "\<lambda>_::params. flow_on ?n ?l"
  let ?B = "\<lambda>r t. \<exists>es. no_result es \<and> starts_refused es \<and> flow_ending ?n (?l @ es @ [Signal FlowResult r]) t"
  let ?Q = "\<lambda>t. f_state t = Idle \<and> f_params t = None \<and> f_goroutines t = ?n - 1 \<and>
      (\<exists>es. f_log t = ?l @ es \<and> run_log es)"
  show "runs (runAgain n H m n) ?A (\<lambda>_ _. True) f"
    using assms by (intro runs_keeps on_run.keeps_runAgain) (simp add: flow_on_def)
  fix r and t :: "'a flow"
  show "?A r t \<Longrightarrow> runs poll (\<lambda>_. ?A r) (\<lambda>_ _. True) t"
    by (rule runs_keeps [OF on_run.keeps_poll])
  show "?A r t \<Longrightarrow> f_state t = Cancelling \<Longrightarrow> ?Q (ended t)"
    by (auto simp: flow_on_def run_log_def)
  show "?A r t \<Longrightarrow> f_state t \<noteq> Cancelling \<Longrightarrow> ?B r (t\<lparr>f_log := f_log t @ [Signal FlowResult r]\<rparr>)"
    by (auto simp: flow_on_def flow_ending_def)
  show "?B r t \<Longrightarrow> runs poll (\<lambda>_. ?B r) (\<lambda>_ _. True) t"
    by (elim exE conjE) (rule runs_mono [OF runs_keeps [OF ending.keeps_poll]]; auto)
  assume "?B r t"
  then obtain es rs where "f_log t = ?l @ es @ [Signal FlowResult r] @ rs" and "f_goroutines t = ?n"
    and es: "no_result es" "starts_refused es" and rs: "only_replies rs" "starts_refused rs"
    by (auto simp: flow_ending_def)
  moreover have "run_log (es @ Signal FlowResult r # rs)"
    unfolding run_log_def using es rs
    by (intro exI [of _ es] exI [of _ "Signal FlowResult r # rs"]) (auto simp: starts_refused_def)
  ultimately show "?Q (ended t)" by simp
qed

end
