(* ===== verification/FlowRaces.thy ===== *)
theory FlowRaces
  imports FlowSteps FlowFacts
begin

text \<open>
  Calls that come at a bad moment: an answer that is given before the flow has set its run
  state, a start that follows a result at once, and a cancellation that no goroutine receives.
\<close>

section \<open>An answer that comes too early\<close>

text \<open>Events without a call that could wake the flow.\<close>

definition silent :: "event list \<Rightarrow> bool" where
  "silent evs \<longleftrightarrow> (\<forall>ev \<in> set evs. ev \<noteq> Call CallCancel \<and> (\<forall>ps. ev \<noteq> Call (CallResume ps)))"

lemma client_Start_busy:
  "f_state f \<noteq> Idle \<Longrightarrow> client (CallStart t ps) f =
    Ret () (f\<lparr>f_log := f_log f @ [Reply (CallStart t ps) (Some (ErrorString ''already running''))]\<rparr>)"
  by (simp add: client_def flow_Start_def emit_def cmd_defs)

text \<open>A flow that is paused is then never woken, whatever else happens.\<close>

lemma awaitWake_silent:
  assumes "silent (f_script f)" and "f_state f = Paused" and "f_senders f = 0"
  shows "\<exists>t rs. awaitWake n f = Fault (Blocked ''waiting for the client'') t \<and>
    f_log t = f_log f @ rs \<and> only_replies rs \<and> f_state t = Paused \<and> f_senders t = 0"
  using assms
proof (induction n arbitrary: f)
  case 0
  then show ?case by (auto simp: blockM_def intro: exI [of _ "[]"])
next
  case (Suc n)
  show ?case
  proof (cases "f_script f")
    case Nil
    with Suc.prems show ?thesis by (auto simp: nextEvent_def cmd_defs intro: exI [of _ "[]"])
  next
    case (Cons ev evs)
    note step = nextEvent_Cons [OF Cons]
    show ?thesis
    proof (cases "\<exists>c. ev = Call c")
      case True
      with Suc.prems(1) Cons obtain t ps where ev: "ev = Call (CallStart t ps)"
        by (auto simp: silent_def) (metis call.exhaust)
      let ?e = "Reply (CallStart t ps) (Some (ErrorString ''already running''))"
      from Suc.IH [of "f\<lparr>f_script := evs, f_log := f_log f @ [?e]\<rparr>"] Suc.prems Cons
      obtain u rs where "awaitWake n (f\<lparr>f_script := evs, f_log := f_log f @ [?e]\<rparr>) = Fault (Blocked ''waiting for the client'') u"
        "f_log u = f_log f @ ?e # rs" "only_replies rs" "f_state u = Paused" "f_senders u = 0"
        by (auto simp: silent_def)
      moreover have "only_replies (?e # rs)" using \<open>only_replies rs\<close> by (simp add: only_replies_def)
      ultimately show ?thesis
        using Suc.prems(2) by (auto simp: step ev client_Start_busy cmd_defs)
    next
      case False
      from Suc.IH [of "f\<lparr>f_script := evs\<rparr>"] Suc.prems Cons
      have "\<exists>t rs. awaitWake n (f\<lparr>f_script := evs\<rparr>) = Fault (Blocked ''waiting for the client'') t \<and>
          f_log t = f_log f @ rs \<and> only_replies rs \<and> f_state t = Paused \<and> f_senders t = 0"
        by (simp add: silent_def)
      with False Suc.prems(3) show ?thesis
        by (cases ev) (auto simp: step receive_def cmd_defs)
    qed
  qed
qed

lemma poll_refused_Resume:
  assumes "f_script f = Call (CallResume ps) # Tick # evs" and "f_state f \<noteq> Paused"
  shows "poll f = Ret () (f\<lparr>f_script := evs,
    f_log := f_log f @ [Reply (CallResume ps) (Some (ErrorString ''only paused flows can be resumed''))]\<rparr>)"
  using assms by (simp add: poll_def remaining_def setScript_def client_Resume_early cmd_defs)

lemma early_answer:
  assumes "f_state f = Running" and "f_senders f = 0"
    and "f_script f = Tick # Call (CallResume ps) # Tick # evs" and "silent evs"
  shows "\<exists>t rs. pauseAndWait a msg f = Fault (Blocked ''waiting for the client'') t \<and> f_state t = Paused \<and>
    f_log t = f_log f @ [Signal a (pauseStatus msg f),
      Reply (CallResume ps) (Some (ErrorString ''only paused flows can be resumed''))] @ rs \<and> only_replies rs"
proof -
  let ?es = "[Signal a (pauseStatus msg f), Reply (CallResume ps) (Some (ErrorString ''only paused flows can be resumed''))]"
  let ?g = "f\<lparr>f_script := evs, f_log := f_log f @ ?es, f_state := Paused\<rparr>"
  have p: "pause a msg Map.empty (f\<lparr>f_script := Call (CallResume ps) # Tick # evs\<rparr>) = Ret () ?g"
    using assms(1) by (simp add: pause_def emit_def setRunState_def pauseStatus_def poll_refused_Resume cmd_defs)
  from awaitWake_silent [of ?g "length evs"] assms(2,4) obtain t rs where
    "awaitWake (length evs) ?g = Fault (Blocked ''waiting for the client'') t"
    "f_log t = f_log f @ ?es @ rs" "only_replies rs" "f_state t = Paused"
    by auto
  then show ?thesis
    using assms(1,3)
    by (auto simp: pauseAndWait_def pauseAndWaitWithStatus_def poll_Tick p remaining_def cmd_defs)
qed

section \<open>A start that comes too early\<close>

lemma poll_refused_Start:
  assumes "f_script f = Call (CallStart t ps) # Tick # evs" and "f_state f \<noteq> Idle"
  shows "poll f = Ret () (f\<lparr>f_script := evs,
    f_log := f_log f @ [Reply (CallStart t ps) (Some (ErrorString ''already running''))]\<rparr>)"
  using assms by (simp add: poll_def remaining_def setScript_def client_Start_busy cmd_defs)

lemma early_start:
  assumes "f_state f = Running" and "runAgain n H m n f = Ret r g" and "f_state g = Running"
    and "f_script g = Tick # Call (CallStart t ps) # Tick # evs"
  shows "\<exists>u. runFlow H m n f = Ret () u \<and> f_state u = Idle \<and> f_goroutines u = f_goroutines f - 1 \<and>
    f_log u = f_log g @ [Signal FlowResult r, Reply (CallStart t ps) (Some (ErrorString ''already running''))]"
proof -
  have "\<exists>u. runFlow H m n f = Ret () u \<and>
    f_log u = f_log g @ [Signal FlowResult r, Reply (CallStart t ps) (Some (ErrorString ''already running''))]"
    using assms(2-4) by (simp add: runFlow_def emit_def poll_Tick poll_refused_Start cmd_defs)
  with runs_RetD [OF runFlow_log [OF assms(1)]] show ?thesis by blast
qed

section \<open>A cancellation that nobody receives\<close>

text \<open>
  While \<open>connect\<close> asks for a card the flow is \<open>Paused\<close>.  If connecting then fails, it
  is still \<open>Paused\<close> although nobody receives from \<open>wakeUp\<close> any more: a cancellation
  waits for ever, the flow ends without a result, and the next flow that connects receives what the
  cancellation sends, and panics.
\<close>

lemma stale_cancel:
  assumes "f_state f = Running" and "f_senders f = 0"
    and "StartKeycardContext H (f_world f) = Ret (Inr kc) w"
    and "readersChanged H kc (initialStates (kx_readers kc)) w = Ret (RunErr e) w1"
    and "StartKeycardContext H w1 = Ret (Inl e') w2" and "e' \<noteq> RestartError"
    and "f_script f = TimerFires # Tick # ReaderEvent # Call CallCancel # Tick # evs"
  shows "\<exists>t. runFlow H m (Suc (Suc n)) f = Ret () t \<and> f_state t = Idle \<and> f_senders t = 1 \<and>
    f_goroutines t = f_goroutines f - 1 \<and>
    f_log t = f_log f @ [Signal InsertCard (pauseStatus ErrorConnection (f\<lparr>f_cardInfo := freshCardInfo\<rparr>)), Reply CallCancel None]"
proof -
  let ?f = "f\<lparr>f_cardInfo := freshCardInfo\<rparr>"
  define g where "g = ?f\<lparr>f_script := Call CallCancel # Tick # evs, f_world := w1, f_state := Paused,
    f_log := f_log f @ [Signal InsertCard (pauseStatus ErrorConnection ?f)]\<rparr>"
  have g: "g\<lparr>f_cardInfo := freshCardInfo\<rparr> = g" "f_script g = Call CallCancel # Tick # evs" "f_state g = Paused"
    "f_senders g = 0" "f_goroutines g = f_goroutines f" "f_world g = w1"
    "f_log g = f_log f @ [Signal InsertCard (pauseStatus ErrorConnection ?f)]"
    using assms(2) by (simp_all add: g_def)
  have "flow_connect H ?f = Ret (Inl RestartError) g"
    using assms by (simp add: flow_connect_started connectLoop_Cons pause_Tick pauseStatus_def nextEvent_Cons
        onFlowWorld_def zoom_def g_def cmd_defs)
  then have 1: "connectedFlow H m (Suc (Suc n)) ?f = Ret (Inl RestartError) g"
    by (simp add: connectedFlow_def bindE_def cmd_defs)
  have "flow_connect H g = Ret (Inl e') (g\<lparr>f_world := w2\<rparr>)"
    using assms(5) g(6) by (simp add: flow_connect_def bindE_def onFlowWorld_def zoom_def cmd_defs)
  then have 2: "connectedFlow H m (Suc (Suc n)) g = Ret (Inl e') (g\<lparr>f_world := w2\<rparr>)"
    by (simp add: connectedFlow_def bindE_def cmd_defs)
  show ?thesis
    using 1 2 assms(6) g
    by (simp add: runFlow_def setCardInfo_def poll_def remaining_def setScript_def client_Cancel cmd_defs)
qed

lemma stale_send_panics:
  assumes "f_senders f > 0" and "f_state f = Running" and "StartKeycardContext H (f_world f) = Ret (Inr kc) w"
    and "f_script f = Tick # evs"
  shows "\<exists>t. runFlow H m (Suc n) f = Fault (Panicked ''Resuming is not expected during connection'') t"
proof -
  let ?f = "f\<lparr>f_cardInfo := freshCardInfo\<rparr>"
  have "\<exists>t. flow_connect H ?f = Fault (Panicked ''Resuming is not expected during connection'') t"
    using assms by (simp add: flow_connect_started connectLoop_Cons cmd_defs del: connectLoop.simps)
  then obtain t where "connectedFlow H m (Suc n) ?f = Fault (Panicked ''Resuming is not expected during connection'') t"
    by (auto simp: connectedFlow_def bindE_def cmd_defs)
  then show ?thesis by (simp add: runFlow_def setCardInfo_def cmd_defs)
qed

end
