(* ===== verification/ExampleClient.thy ===== *)
theory ExampleClient
  imports SharedApi FlowRaces
begin

text \<open>
  \<open>examples/example-go/main.go\<close>, a client that runs one flow after the other and answers what
  they ask for.  A signal is handled in a goroutine of its own.  The flow is that of
  \<open>FlowEngine\<close> and \<open>Flows\<close>; the calls the client makes are events of its script, and
  \<open>exampleCall\<close> says which one follows a signal.
\<close>

section \<open>The client\<close>

definition correctPairing :: string where "correctPairing = ''KeycardDefaultPairing''"
definition correctPIN :: string where "correctPIN = ''123456''"
definition correctPUK :: string where "correctPUK = ''123456123456''"
definition exampleKeyUID :: string where
  "exampleKeyUID = ''136cbfc087cf7df6cf3248bce7563d4253b302b2f9e2b5eef8713fa5091409bc''"

record 'w example =
  x_flow :: "'w flow"  \<comment> \<open>\<open>currentFlow\<close>\<close>
  x_finished :: bool  \<comment> \<open>the channel \<open>finished\<close> is closed\<close>

type_synonym ('a, 'w) xcmd = "('a, 'w example) gocmd"

definition onFlow :: "('a, 'w) fcmd \<Rightarrow> ('a, 'w) xcmd" where
  "onFlow = zoom x_flow (\<lambda>f x. x\<lparr>x_flow := f\<rparr>)"

text \<open>The switch of \<open>signalHandler\<close>: the parameter and the value it resumes the flow with.\<close>

fun exampleAnswer :: "action \<Rightarrow> (string \<times> string) option" where
  "exampleAnswer SwapCard = Some (keyKeyUID, exampleKeyUID)"
| "exampleAnswer EnterPairing = Some (keyPairingPass, correctPairing)"
| "exampleAnswer EnterPIN = Some (keyPIN, correctPIN)"
| "exampleAnswer EnterNewPIN = Some (keyNewPIN, correctPIN)"
| "exampleAnswer EnterNewPUK = Some (keyNewPUK, correctPUK)"
| "exampleAnswer EnterNewPair = Some (keyNewPairing, correctPairing)"
| "exampleAnswer EnterMnemonic = Some (keyMnemonic,
     ''receive fan copper bracket end train again sustain wet siren throw cigar'')"
| "exampleAnswer _ = None"

definition exampleCall :: "action \<Rightarrow> call option" where
  "exampleCall a = map_option (\<lambda>(k, v). CallResume (Some [(k, VStr v)])) (exampleAnswer a)"

definition closeFinished :: "(unit, 'w) xcmd" where
  "closeFinished = bindM (getM x_finished) (\<lambda>closed.
     if closed then panicM ''close of closed channel'' else modifyM (\<lambda>x. x\<lparr>x_finished := True\<rparr>))"

definition exampleHandler :: "action \<Rightarrow> (unit, 'w) xcmd" where
  "exampleHandler a =
     (case exampleCall a of
        Some c \<Rightarrow> bindM (onFlow (clientCall c)) (\<lambda>_. ret ())
      | None \<Rightarrow> if a = FlowResult then closeFinished else ret ())"

text \<open>\<open>testFlow\<close> up to \<open><-finished\<close>; an error of the start is printed.\<close>

definition testFlow :: "flowType \<Rightarrow> clientParams \<Rightarrow> (unit, 'w) xcmd" where
  "testFlow typ params =
     thenM (modifyM (\<lambda>x. x\<lparr>x_finished := False\<rparr>))
    (bindM (onFlow (flow_Start typ params)) (\<lambda>_. ret ()))"

definition testRecoverAccount :: "(unit, 'w) xcmd" where
  "testRecoverAccount = testFlow FlowRecoverAccount (Some [])"

abbreviation purpose44 :: "string \<Rightarrow> string" where
  "purpose44 i \<equiv> ''m/44'' @ [quote] @ ''/60'' @ [quote] @ ''/0'' @ [quote] @ ''/0/'' @ i"

definition exampleTests :: "(flowType \<times> clientParams) list" where
  "exampleTests =
     [(FlowGetAppInfo, Some [(keyFactoryReset, VBool True)]),
      (FlowLoadAccount, Some [(keyMnemonicLen, VInt 12)]),
      (FlowUnpairThis, Some [(keyPIN, VStr correctPIN)]),
      (FlowRecoverAccount, Some [(keyPairingPass, VStr ''WrongPass''), (keyPIN, VStr ''234567'')]),
      (FlowLogin, Some [(keyKeyUID, VStr ''60a78c98d5dd659f714eb7072bfb2c0d8a65f74a8f6aff7bb27cf56ae1feec17'')]),
      (FlowGetAppInfo, Some []),
      (FlowExportPublic, Some [(keyBIP44Path, VStr (purpose44 ''1'')), (keyExportMaster, VBool True)]),
      (FlowExportPublic, Some [(keyBIP44Path, VStr (''m/43'' @ [quote] @ ''/60'' @ [quote] @ ''/1581'' @ [quote] @
         ''/1'' @ [quote] @ ''/0'')), (keyExportPriv, VBool True)]),
      (FlowExportPublic, Some [(keyBIP44Path,
         VList [VStr (purpose44 ''2''), VStr (purpose44 ''3''), VStr (purpose44 ''4'')])]),
      (FlowSign, Some [(keyTXHash, VStr ''60a78c98d5dd659f714eb7072bfb2c0d8a65f74a8f6aff7bb27cf56ae1feec17''),
         (keyBIP44Path, VStr (purpose44 ''0''))]),
      (FlowStoreMetadata, Some [(keyCardName, VStr ''TestCard''), (keyWalletPaths,
         VList [VStr (purpose44 ''0''), VStr (purpose44 ''1''), VStr (purpose44 ''5''), VStr (purpose44 ''6'')])]),
      (FlowGetMetadata, Some []),
      (FlowGetMetadata, Some [(keyResolveAddr, VBool True)]),
      (FlowUnpairThis, Some [(keyPIN, VStr correctPIN)])]"

definition example_start :: "'w flow \<Rightarrow> 'w example" where
  "example_start f = \<lparr>x_flow = f, x_finished = False\<rparr>"

text \<open>\<open>main\<close> up to the first test; without a directory or a flow it prints the error and ends.\<close>

definition example_main :: "'w host \<Rightarrow> ('w \<Rightarrow> (go_error + string) \<times> 'w) \<Rightarrow> (string \<Rightarrow> string \<Rightarrow> string) \<Rightarrow>
    ('w example option, 'w) gocmd" where
  "example_main H mkdirTemp join =
     bindM (worldM mkdirTemp) (\<lambda>r.
       case r of
         Inl e \<Rightarrow> ret None
       | Inr dir \<Rightarrow>
           bindM (NewFlow H (join dir ''keycard-pairings.json'')) (\<lambda>r.
             case r of Inl e \<Rightarrow> ret None | Inr f \<Rightarrow> ret (Some (example_start f))))"

text \<open>The other example, which makes one call of the library.\<close>

definition sharedExample_main :: "'w libEnv \<Rightarrow> ('w \<Rightarrow> (go_error + string) \<times> 'w) \<Rightarrow>
    (string \<Rightarrow> string \<Rightarrow> string) \<Rightarrow> (string option, 'w) lcmd" where
  "sharedExample_main E mkdirTemp join =
     bindM (onLibWorld (worldM mkdirTemp)) (\<lambda>r.
       case r of
         Inl e \<Rightarrow> ret None
       | Inr dir \<Rightarrow> bindM (KeycardInitFlow E (join dir ''keycard-pairings.json'')) (\<lambda>res. ret (Some res)))"

section \<open>Its answers\<close>

text \<open>Of the questions a flow asks, these are left without an answer.\<close>

lemma exampleCall_None:
  "exampleCall a = None \<longleftrightarrow>
     a \<in> {FlowResult, InsertCard, CardInserted, EnterPUK, EnterTXHash, EnterPath, EnterName, EnterWallets}"
  by (cases a) (simp_all add: exampleCall_def)

lemma exampleCall_Resume: "exampleCall a = Some c \<Longrightarrow> \<exists>k v. c = CallResume (Some [(k, VStr v)])"
  by (auto simp: exampleCall_def)

text \<open>An answer to a flow that is not paused changes nothing, in the client as in the flow.\<close>

lemma exampleHandler_early:
  "exampleCall a = Some c \<Longrightarrow> f_state (x_flow x) \<noteq> Paused \<Longrightarrow> exampleHandler a x = Ret () x"
  by (frule exampleCall_Resume) (auto simp: exampleHandler_def onFlow_def zoom_def flow_Resume_def cmd_defs)

text \<open>A test whose start is refused waits on a channel that is not closed.\<close>

lemma testFlow_refused:
  "f_state (x_flow x) \<noteq> Idle \<Longrightarrow> testFlow t ps x = Ret () (x\<lparr>x_finished := False\<rparr>)"
  by (simp add: testFlow_def onFlow_def zoom_def flow_Start_def cmd_defs)

lemma example_main_start:
  assumes "example_main H mkdirTemp join w = Ret (Some s) w'"
  shows "\<exists>f. s = example_start f \<and> f_state f = Idle \<and> f_senders f = 0"
  using assms by (auto simp: example_main_def NewFlow_def bindE_def worldM_def cmd_defs split: outcome.splits sum.splits prod.splits)

end
