(* ===== verification/WalletPaths.thy ===== *)
theory WalletPaths
  imports SessionContext
begin

text \<open>
  The wallet paths of \<open>StoreMetadata\<close>: what \<open>parsePaths\<close> takes out of a path is what
  \<open>ToMetadata\<close> puts back behind the wallet root path, for the paths it is meant for.
\<close>

lemma digit_codes:
  "char_of (52::nat) = CHR ''4''" "char_of (54::nat) = CHR ''6''" "char_of (48::nat) = CHR ''0''"
  by (simp_all add: char_of_def bit_0)

lemma WalletRoothPath_chars:
  "WalletRoothPath = CHR ''m'' # CHR ''/'' # show_nat 44 @ CHR 0x27 # CHR ''/'' # show_nat 60 @
     CHR 0x27 # CHR ''/'' # show_nat 0 @ CHR 0x27 # CHR ''/'' # ''0''"
  by (simp add: WalletRoothPath_def show_nat.simps digit_codes)

definition walletPrefix :: "uint32 list" where
  "walletPrefix = [0x8000002C, 0x8000003C, 0x80000000]"

text \<open>A path with the wallet root path in front has its three hardened components.\<close>

lemma parseLoop_wallet:
  "\<exists>pos. parseLoop (newDecoder (WalletRoothPath @ r)) = parseLoop (segState walletPrefix '''' (''0'' @ r) pos)"
proof -
  have "parseLoop (newDecoder (WalletRoothPath @ r)) =
      parseLoop (segState [] '''' (show_nat 44 @ CHR 0x27 # CHR ''/'' # show_nat 60 @
        CHR 0x27 # CHR ''/'' # show_nat 0 @ CHR 0x27 # CHR ''/'' # ''0'' @ r) 2)"
    unfolding WalletRoothPath_chars by (simp add: parseLoop_root)
  also have "\<dots> = parseLoop (segState ([] @ [0x8000002C]) '''' (show_nat 60 @
        CHR 0x27 # CHR ''/'' # show_nat 0 @ CHR 0x27 # CHR ''/'' # ''0'' @ r)
        (2 + int (length (show_nat 44)) + 2))"
    using parseLoop_hardened_segment [of 44 "show_nat 44"] by (simp add: hardenedStart_def)
  also have "\<dots> = parseLoop (segState (([] @ [0x8000002C]) @ [0x8000003C]) '''' (show_nat 0 @
        CHR 0x27 # CHR ''/'' # ''0'' @ r)
        (2 + int (length (show_nat 44)) + 2 + int (length (show_nat 60)) + 2))"
    using parseLoop_hardened_segment [of 60 "show_nat 60"] by (simp add: hardenedStart_def)
  also have "\<dots> = parseLoop (segState ((([] @ [0x8000002C]) @ [0x8000003C]) @ [0x80000000]) '''' (''0'' @ r)
        (2 + int (length (show_nat 44)) + 2 + int (length (show_nat 60)) + 2 + int (length (show_nat 0)) + 2))"
    using parseLoop_hardened_segment [of 0 "show_nat 0"] by (simp add: hardenedStart_def)
  finally show ?thesis unfolding walletPrefix_def by auto
qed

lemma Decode_wallet:
  assumes "take (length WalletRoothPath) path = WalletRoothPath"
  shows "\<exists>st qs err. Decode path = (st, walletPrefix @ qs, err)"
proof -
  obtain r where path: "path = WalletRoothPath @ r"
    using assms append_take_drop_id [of "length WalletRoothPath" path] by metis
  obtain pos where "parseLoop (newDecoder path) = parseLoop (segState walletPrefix '''' (''0'' @ r) pos)"
    using parseLoop_wallet [of r] path by auto
  moreover obtain e d where "parseLoop (segState walletPrefix '''' (''0'' @ r) pos) = (e, d)"
    by fastforce
  moreover from parseLoop_path [OF this] obtain qs where "d_path d = walletPrefix @ qs"
    by (auto simp: segState_def)
  ultimately show ?thesis by (simp add: Decode_def parse_def)
qed

lemma parsePaths_no_panic: "runs (parsePaths paths) (\<lambda>_ _. True) (\<lambda>_ _. False) s"
proof (induction paths)
  case (Cons path paths)
  show ?case
  proof (cases "take (length WalletRoothPath) path = WalletRoothPath")
    case True
    from Decode_wallet [OF this] obtain st qs err where d: "Decode path = (st, walletPrefix @ qs, err)"
      by blast
    have "walletPrefix @ qs \<noteq> []" by (simp add: walletPrefix_def)
    with True d show ?thesis
      by (cases err) (auto simp: wp split: sum.split intro!: runs_mono [OF Cons])
  qed (simp add: wp)
qed (simp add: wp)

text \<open>The path of a wallet, as the metadata names it.\<close>

definition walletPath :: "uint32 \<Rightarrow> string" where
  "walletPath i = Encode (walletTmp i)"

lemma walletPath_prefix: "take (length WalletRoothPath) (walletPath i) = WalletRoothPath"
  by (simp add: walletPath_def walletTmp_def Encode_def WalletRoothPath_def hardenedStart_def
      show_nat.simps digit_codes)

lemma parsePaths_walletPaths:
  "\<forall>i \<in> set is. \<not> hardened i \<Longrightarrow> parsePaths (map walletPath is) s = Ret (Inr is) s"
proof (induction "is")
  case (Cons i "is")
  have "Decode (walletPath i) = (StartingPointMaster, walletTmp i, None)"
    using Cons.prems by (simp add: walletPath_def Decode_Encode dropTrailingHardened_def walletTmp_def)
  with Cons walletPath_prefix [of i] show ?case
    by (simp add: bindE_def bindM_def ret_def walletTmp_def)
qed (simp add: ret_def)

text \<open>The prefix is compared as text, so a component that merely begins with \<open>0\<close> passes.\<close>

lemma Decode_foreign:
  "Decode (WalletRoothPath @ ''5'') = (StartingPointMaster, walletPrefix @ [5], None)"
proof -
  have seg: "e = EOF \<and> d_path d = walletPrefix @ [5] \<and> d_start d = StartingPointMaster"
    if "parseLoop (segState walletPrefix '''' (''0'' @ ''5'') pos) = (e, d)" for pos e d
    using that
    by (auto simp: parseLoop.simps runParseFunc_def segState_def parseSegment_def saveSegment_def
        ParseUint32_def digits_val_def digit_val_def is_digit_def rune_string_def Let_def hardenedStart_def)
  obtain pos where p: "parseLoop (newDecoder (WalletRoothPath @ ''5'')) = parseLoop (segState walletPrefix '''' (''0'' @ ''5'') pos)"
    using parseLoop_wallet [of "''5''"] by blast
  obtain e d where ed: "parseLoop (segState walletPrefix '''' (''0'' @ ''5'') pos) = (e, d)" by fastforce
  show ?thesis using seg [OF ed] ed p by (simp add: Decode_def parse_def)
qed

lemma parsePaths_foreign: "parsePaths [WalletRoothPath @ ''5''] s = Ret (Inr [5]) s"
  using Decode_foreign by (simp add: walletPrefix_def bindE_def bindM_def ret_def)

end
