(* ===== verification/Instances.thy ===== *)
theory Instances
  imports SessionService WalletPaths
begin

text \<open>
  A concrete environment, in which the hypotheses of the properties can be met: toy
  ciphers, a model of a card, a host with that card in a reader.  Nothing of the model
  depends on it.
\<close>

definition demoPrims :: prims where
  "demoPrims =
     \<lparr>aesEnc = (\<lambda>k b. rev b), aesDec = (\<lambda>k b. rev b), desEnc = (\<lambda>k b. rev b), des3Enc = (\<lambda>k b. rev b),
      sha256 = (\<lambda>b. replicate 32 (of_nat (length b))), sha512 = (\<lambda>b. replicate 64 (of_nat (length b))),
      pbkdf2Sha256 = (\<lambda>p s n l. replicate l 0), pbkdf2Sha512 = (\<lambda>p s n l. replicate l 0),
      nfkd = (\<lambda>b. b), unmarshalPubkey = Inr, scalarMultX = (\<lambda>p q. replicate 32 0), pubFromPriv = Inr,
      pubkeyToAddress = Btox, ecrecover = (\<lambda>h s. Inr h), verifyIdentity = (\<lambda>c d. Inr d)\<rparr>"

lemma demo_aes: "aes_ok demoPrims"
  by (simp add: aes_ok_def block_cipher_def demoPrims_def)

definition demoChannel :: secureChannel where
  "demoChannel = \<lparr>sc_open = True, sc_secret = [], sc_publicKey = None, sc_encKey = replicate 32 1,
     sc_macKey = replicate 32 2, sc_iv = replicate 16 0\<rparr>"

lemma demo_ready: "sc_ready demoChannel"
  by (simp add: sc_ready_def demoChannel_def aesKeyOK_def)

definition demoSet :: commandSet where
  "demoSet = NewCommandSet\<lparr>cs_sc := demoChannel\<rparr>"

lemma demoSet_sc [simp]: "cs_sc demoSet = demoChannel"
  by (simp add: demoSet_def)

text \<open>The card of this port answers every command with the bytes that are the state.\<close>

definition demoPort :: "bytes port" where
  "demoPort = \<lparr>transmit = (\<lambda>_. getM Inr), randRead = (\<lambda>n. ret (Inr (replicate n 0))),
     ecGenerateKey = ret (Inr ([1], [2]))\<rparr>"

lemma demoPort_transmit [simp]: "transmit demoPort b c = Ret (Inr c) c"
  by (simp add: demoPort_def getM_def)

section \<open>A card\<close>

text \<open>
  The card's side of the protocol, as far as a session needs it: selecting, pairing, the
  secure channel, and under it the status, the PIN and the public data.  The card keeps
  the keys and the IV of the secure channel as the client does.
\<close>

record modelCard =
  mc_pin :: bytes
  mc_tries :: nat
  mc_data :: bytes
  mc_sc :: secureChannel

definition cardInfo :: bytes where
  "cardInfo = [0xA4, 15, 0x8F, 1, 7, 0x80, 1, 9, 0x02, 2, 3, 1, 0x02, 1, 5, 0x8E, 0]"

definition cardStatus :: "modelCard \<Rightarrow> bytes" where
  "cardStatus c = [0xA3, 9, 0x02, 1, of_nat (mc_tries c), 0x02, 1, 5, 0x01, 1, 0xFF]"

definition cardPlain :: "byte \<Rightarrow> bytes \<Rightarrow> modelCard \<Rightarrow> bytes \<times> modelCard" where
  "cardPlain ins data c =
     (if ins = InsGetStatus then (cardStatus c @ [0x90, 0], c)
      else if ins = InsVerifyPIN then
        (if data = mc_pin c then ([0x90, 0], c\<lparr>mc_tries := 3\<rparr>)
         else ([0x63, 0xC0 OR of_nat (mc_tries c - 1)], c\<lparr>mc_tries := mc_tries c - 1\<rparr>))
      else if ins = InsGetData then (mc_data c @ [0x90, 0], c)
      else if ins = InsStoreData then ([0x90, 0], c\<lparr>mc_data := data\<rparr>)
      else if ins = InsMutuallyAuthenticate then ([0x90, 0], c)
      else ([0x6D, 0], c))"

definition cardSecure :: "prims \<Rightarrow> byte \<Rightarrow> bytes \<Rightarrow> modelCard \<Rightarrow> bytes \<times> modelCard" where
  "cardSecure C ins data c =
     (let sc = mc_sc c; sc1 = sc\<lparr>sc_iv := take 16 data\<rparr> in
      case removePadding 16 (cbcDecrypt (aesDec C (sc_encKey sc)) 16 (sc_iv sc) (drop 16 data)) of
        None \<Rightarrow> ([0x69, 0x82], c)
      | Some d \<Rightarrow>
          (case cardPlain ins d c of
             (plain, c') \<Rightarrow>
               (cardAnswer C sc1 plain,
                c'\<lparr>mc_sc := sc1\<lparr>sc_iv := answerMac C sc1 (cipherText C sc1 plain)\<rparr>\<rparr>)))"

text \<open>The shared secret of the demonstration is 32 zeros, and so is the salt of a session.\<close>

definition cardTransmit :: "prims \<Rightarrow> bytes \<Rightarrow> modelCard \<Rightarrow> bytes \<times> modelCard" where
  "cardTransmit C raw c =
     (case ParseCommand raw of
        Inl _ \<Rightarrow> ([0x67, 0], c)
      | Inr cmd \<Rightarrow>
          if Ins cmd = InsSelect then (cardInfo @ [0x90, 0], c\<lparr>mc_sc := NewSecureChannel\<rparr>)
          else if Ins cmd = InsPair then
            (if P1 cmd = P1PairingFirstStep
             then (sha256 C (replicate 32 0 @ cmd_Data cmd) @ replicate 32 5 @ [0x90, 0], c)
             else (0 # replicate 32 6 @ [0x90, 0], c))
          else if Ins cmd = InsOpenSecureChannel then
            (let keys = sha512 C (replicate 32 0 @ sha256 C (replicate 32 0 @ replicate 32 6) @ replicate 32 0) in
             (replicate 48 0 @ [0x90, 0],
              c\<lparr>mc_sc := \<lparr>sc_open = True, sc_secret = replicate 32 0, sc_publicKey = None,
                sc_encKey = take 32 keys, sc_macKey = drop 32 keys, sc_iv = replicate 16 0\<rparr>\<rparr>))
          else if sc_open (mc_sc c) then cardSecure C (Ins cmd) (cmd_Data cmd) c
          else ([0x69, 0x82], c))"

definition demoCard :: modelCard where
  "demoCard = \<lparr>mc_pin = string_bytes ''123456'', mc_tries = 3, mc_data = [], mc_sc = NewSecureChannel\<rparr>"

section \<open>A host\<close>

record world =
  w_pcsc :: bool
  w_readers :: "string list"
  w_card :: "modelCard option"
  w_files :: "string \<rightharpoonup> bytes"

definition demoHost :: "world host" where
  "demoHost =
     \<lparr>h_prims = demoPrims,
      h_EstablishContext = (\<lambda>w. (if w_pcsc w then Inr 0 else Inl (SCardError 0x8010001D), w)),
      h_Release = (\<lambda>_ w. (None, w)), h_Cancel = (\<lambda>_ w. (None, w)),
      h_ListReaders = (\<lambda>_ w. ((w_readers w, None), w)),
      h_GetStatusChange = (\<lambda>_ _ rs w.
        ((map (\<lambda>r. r\<lparr>EventState := if w_card w = None then StateEmpty else StatePresent\<rparr>) rs, None), w)),
      h_Connect = (\<lambda>_ _ w. (Inr 7, w)), h_Status = (\<lambda>_ w. (Inr 2, w)), h_Disconnect = (\<lambda>_ w. (None, w)),
      h_CardTransmit = (\<lambda>_ b w.
        (case w_card w of
           None \<Rightarrow> (Inl (SCardError 0x80100069), w)
         | Some c \<Rightarrow> (case cardTransmit demoPrims b c of (r, c') \<Rightarrow> (Inr r, w\<lparr>w_card := Some c'\<rparr>)))),
      h_RandRead = (\<lambda>n w. (Inr (replicate n 0), w)), h_GenerateKey = (\<lambda>w. (Inr ([1], [2]), w)),
      h_ReadFile = (\<lambda>p w. case w_files w p of None \<Rightarrow> NotExist | Some b \<Rightarrow> FileData b),
      h_Dir = (\<lambda>p. p), h_MkdirAll = (\<lambda>_ w. (None, w)),
      h_WriteFile = (\<lambda>p b w. (None, w\<lparr>w_files := (w_files w)(p \<mapsto> b)\<rparr>)),
      h_MarshalPairs = (\<lambda>v. Inr [1]), h_UnmarshalPairs = (\<lambda>b. Inr (Some [])),
      h_BuildLogger = (\<lambda>_ paths w. (if ''bad'' \<in> set paths then Some (ErrorString ''EACCES'') else None, w)),
      h_RuneCount = length, h_MnemonicValid = (\<lambda>m. False),
      h_ValidationErrors = (\<lambda>_. ErrorString ''invalid'')\<rparr>"

definition demoWorld :: "modelCard option \<Rightarrow> world" where
  "demoWorld c = \<lparr>w_pcsc = True, w_readers = [''reader''], w_card = c, w_files = Map.empty\<rparr>"

definition demoStart :: "bool \<Rightarrow> string \<Rightarrow> startRequest" where
  "demoStart enabled file = \<lparr>sr_StorageFilePath = ''p'', sr_LogEnabled = enabled, sr_LogFilePath = file\<rparr>"

definition demoStore :: store where
  "demoStore = \<lparr>st_path = ''pairings.json'', st_values = Some Map.empty\<rparr>"

text \<open>
  A session with a card: start, one detection step that pairs with the card and opens the
  secure channel, and a PIN that is right.  The run is evaluated in the kernel, with the
  card's side computed by the model card.
\<close>

definition demoRun :: "(world ctx \<Rightarrow> world ctx \<Rightarrow> world ctx \<Rightarrow> bool) \<Rightarrow> bool" where
  "demoRun check =
     (case thenM (SimulateError None) (Start demoHost)
         (contextWith demoStore (demoWorld (Some demoCard))) of
        Fault _ _ \<Rightarrow> False
      | Ret _ k0 \<Rightarrow>
     (case monitorStep demoHost 0 k0 of
        Fault _ _ \<Rightarrow> False
      | Ret _ k1 \<Rightarrow>
     (case perform demoHost (ReqVerifyPIN ''123456'') k1 of
        Fault _ _ \<Rightarrow> False
      | Ret e k2 \<Rightarrow> e = None \<and> check k0 k1 k2)))"

definition demoCheck :: "world ctx \<Rightarrow> world ctx \<Rightarrow> world ctx \<Rightarrow> bool" where
  "demoCheck k0 k1 k2 \<longleftrightarrow>
     map State (k_signals k1) = [ConnectingCard, Ready] \<and> State (k_status k1) = Ready \<and>
     map State (k_signals k2) = [ConnectingCard, Ready, Authorized] \<and> State (k_status k2) = Authorized \<and>
     map_option RemainingAttemptsPIN (AppStatus (k_status k2)) = Some 3 \<and> length (k_monitors k2) = 1 \<and>
     \<not> k_mutex k1 \<and> k_cmdSet k1 \<noteq> None \<and> l_running (k_link k1) \<and> l_card (k_link k1) \<noteq> None \<and>
     k_forceScanC k1 = Some ScanOpen \<and> takeWatcher (k_monitors k1) \<noteq> None"

lemma demoRun: "demoRun demoCheck"
  by code_simp

lemma demo_session:
  obtains k0 k1 k2 where "session_init demoHost k0" and "session_step demoHost k0 k1"
    and "leaves (perform demoHost (ReqVerifyPIN ''123456'')) k1 k2" and "demoCheck k0 k1 k2"
proof -
  obtain e0 k0 where 0: "thenM (SimulateError None) (Start demoHost)
      (contextWith demoStore (demoWorld (Some demoCard))) = Ret e0 k0"
    using demoRun by (auto simp: demoRun_def split: outcome.splits)
  obtain u k1 where 1: "monitorStep demoHost 0 k0 = Ret u k1"
    using demoRun 0 by (auto simp: demoRun_def split: outcome.splits)
  obtain e k2 where 2: "perform demoHost (ReqVerifyPIN ''123456'') k1 = Ret e k2" "demoCheck k0 k1 k2"
    using demoRun 0 1 by (auto simp: demoRun_def split: outcome.splits)
  show thesis
  proof (rule that)
    show "session_init demoHost k0" using 0 unfolding session_init_def leaves_def by blast
    show "session_step demoHost k0 k1" using 1 by (intro by_monitor [of _ 0]) (simp add: leaves_def)
    show "leaves (perform demoHost (ReqVerifyPIN ''123456'')) k1 k2" using 2 by (simp add: leaves_def)
  qed (rule 2)
qed

lemma demo_reach:
  obtains k where "reach (session_init demoHost) (session_step demoHost) k"
    and "State (k_status k) = Authorized" and "map State (k_signals k) = [ConnectingCard, Ready, Authorized]"
proof -
  obtain k0 k1 k2 where d: "session_init demoHost k0" "session_step demoHost k0 k1"
    "leaves (perform demoHost (ReqVerifyPIN ''123456'')) k1 k2" "demoCheck k0 k1 k2"
    by (rule demo_session)
  have r: "reach (session_init demoHost) (session_step demoHost) k2"
    by (rule reach_step, rule reach_step, rule reach_init, rule d(1), rule d(2), rule by_request, rule d(3))
  show thesis
    by (rule that [OF r]) (use d(4) in \<open>simp_all only: demoCheck_def\<close>)
qed

section \<open>A session whose card has gone\<close>

definition demoStatus :: "sessionState \<Rightarrow> status" where
  "demoStatus st = \<lparr>State = st, AppInfo = None, AppStatus = None, Metadata = None\<rparr>"

definition goneLink :: "world link" where
  "goneLink = \<lparr>l_card = Some 7, l_running = True, l_queue = 0, l_world = (demoWorld None)\<lparr>w_readers := []\<rparr>\<rparr>"

definition demoCtx :: "sessionState \<Rightarrow> monitor list \<Rightarrow> world ctx" where
  "demoCtx st ms =
     (contextWith demoStore (demoWorld None))
       \<lparr>k_link := goneLink, k_cmdSet := Some NewCommandSet, k_cardCtx := Some 0, k_shutdown := True,
        k_forceScanC := Some ScanOpen, k_status := demoStatus st, k_monitors := ms\<rparr>"

lemma demoCtx_simps [simp]:
  "k_cmdSet (demoCtx st ms) = Some NewCommandSet" "k_monitors (demoCtx st ms) = ms"
  "k_status (demoCtx st ms) = demoStatus st" "k_mutex (demoCtx st ms) = False"
  "k_forceScanC (demoCtx st ms) = Some ScanOpen" "k_cardCtx (demoCtx st ms) = Some 0"
  "k_simulatedError (demoCtx st ms) = None" "k_link (demoCtx st ms) = goneLink"
  by (simp_all add: demoCtx_def contextWith_def)

lemma goneLink_simps [simp]:
  "l_running goneLink" "l_card goneLink = Some 7" "l_world goneLink = (demoWorld None)\<lparr>w_readers := []\<rparr>"
  by (simp_all add: goneLink_def)

lemma demoStatus_State [simp]: "State (demoStatus st) = st"
  by (simp add: demoStatus_def)

section \<open>A host that keeps its pairings\<close>

definition demoInfo :: info where
  "demoInfo = \<lparr>info_Key = [1, 2, 3], info_Index = 0\<rparr>"

definition demoPairs :: "(string \<times> jsonInfo) list" where
  "demoPairs = [(''00'', Some (''010203'', 0))]"

definition jsonHost :: "world host" where
  "jsonHost = demoHost
     \<lparr>h_MarshalPairs := (\<lambda>v. if v = Some (map_of demoPairs) then Inr [1] else Inl (ErrorString ''unsupported'')),
      h_UnmarshalPairs := (\<lambda>b. if b = [1] then Inr (Some demoPairs) else Inl (ErrorString ''bad''))\<rparr>"

lemma json_host: "json_ok jsonHost" "files_ok jsonHost"
  by (auto simp: json_ok_def files_ok_def jsonHost_def demoHost_def demoPairs_def split: if_splits)

end
