(* ===== verification/FlowInstances.thy ===== *)
theory FlowInstances
  imports Instances Flows
begin

text \<open>
  Flows on the model card: the flow that stores metadata, with the parameters it asks for,
  evaluated in the kernel with the card's side computed by the model card.
\<close>

definition demoFlow :: "flowType \<Rightarrow> params \<Rightarrow> event list \<Rightarrow> modelCard option \<Rightarrow> world flow" where
  "demoFlow t ps evs c =
     \<lparr>f_flowType = t, f_state = Running, f_senders = 0, f_pairings = demoStore, f_params = Some ps,
      f_cardInfo = freshCardInfo, f_knownCA = [], f_kc = None, f_goroutines = 1, f_script = evs,
      f_log = [], f_world = demoWorld c\<rparr>"

lemma demoFlow_simps [simp]:
  "f_flowType (demoFlow t ps evs c) = t" "f_state (demoFlow t ps evs c) = Running"
  "f_senders (demoFlow t ps evs c) = 0" "f_params (demoFlow t ps evs c) = Some ps"
  "f_kc (demoFlow t ps evs c) = None" "f_goroutines (demoFlow t ps evs c) = 1"
  "f_script (demoFlow t ps evs c) = evs" "f_log (demoFlow t ps evs c) = []"
  "f_world (demoFlow t ps evs c) = demoWorld c" "f_knownCA (demoFlow t ps evs c) = []"
  by (simp_all add: demoFlow_def)

definition demoParams :: params where
  "demoParams = [keyPIN \<mapsto> VStr ''000000'', keyCardName \<mapsto> VStr ''card'', keyWalletPaths \<mapsto> VList []]"

definition demoEvents :: "event list" where
  "demoEvents = [ReaderEvent, Tick, Tick, Call (CallResume (Some [(keyPIN, VStr ''123456'')])), Tick, Tick]"

text \<open>What is noted in the log, without the values.\<close>

datatype mark = Sent action | Answered bool | Took attempt | Refused attempt

fun noted :: "logEntry \<Rightarrow> mark" where
  "noted (Signal a _) = Sent a"
| "noted (Reply _ err) = Answered (err = None)"
| "noted (Tried a None) = Took a"
| "noted (Tried a (Some _)) = Refused a"

definition demoLog :: "mark list" where
  "demoLog = [Refused (TryPIN ''000000''), Sent EnterPIN, Answered True, Took (TryPIN ''123456''), Sent FlowResult]"

lemma demo_flow_ran:
  "(case runFlow demoHost 2 3 (demoFlow FlowStoreMetadata demoParams demoEvents (Some demoCard)) of
      Fault _ _ \<Rightarrow> False
    | Ret _ f \<Rightarrow> map noted (f_log f) = demoLog \<and>
        (case last (f_log f) of Signal _ status \<Rightarrow> status ErrorKey = None | _ \<Rightarrow> False))"
  by code_simp

lemma demo_flow_run:
  obtains f status where "runFlow demoHost 2 3 (demoFlow FlowStoreMetadata demoParams demoEvents (Some demoCard)) = Ret () f"
    and "map noted (f_log f) = demoLog" and "Signal FlowResult status \<in> set (f_log f)" and "status ErrorKey = None"
proof -
  let ?r = "runFlow demoHost 2 3 (demoFlow FlowStoreMetadata demoParams demoEvents (Some demoCard))"
  from demo_flow_ran obtain f a status where f: "?r = Ret () f" "map noted (f_log f) = demoLog"
    "last (f_log f) = Signal a status" "status ErrorKey = None"
    by (auto split: outcome.splits logEntry.splits)
  have "f_log f \<noteq> []" using f(2) by (auto simp: demoLog_def)
  then have "noted (Signal a status) = last demoLog" using f(2,3) last_map [of "f_log f" noted] by simp
  then have "a = FlowResult" by (simp add: demoLog_def)
  with f(3) \<open>f_log f \<noteq> []\<close> have "Signal FlowResult status \<in> set (f_log f)" using last_in_set by metis
  with f show thesis using that by blast
qed

text \<open>A flow that has connected to the card.\<close>

definition demoConnected :: "params \<Rightarrow> world flow" where
  "demoConnected ps = (demoFlow FlowStoreMetadata ps [] (Some demoCard))
     \<lparr>f_kc := Some \<lparr>kx_cardCtx = 0, kx_readers = [''reader''], kx_card = Some 7,
        kx_cmdSet = Some (NewCommandSet\<lparr>cs_ApplicationInfo := Some (emptyAppInfo\<lparr>ai_Initialized := True\<rparr>)\<rparr>)\<rparr>,
      f_knownCA := [''known'']\<rparr>"

lemma demo_selected:
  "(case selectKeycard demoHost (demoConnected [keyInstanceUID \<mapsto> VStr ''07'']) of
      Fault _ _ \<Rightarrow> False
    | Ret err _ \<Rightarrow> err = None)"
  by code_simp

lemma demo_not_identified:
  "(case onCard demoHost (kc_Identify (h_prims demoHost)) (demoConnected Map.empty) of
      Ret (Inl _) _ \<Rightarrow> True
    | _ \<Rightarrow> False)"
  by code_simp

text \<open>A flow on its way to a card.\<close>

definition demoContext :: kcontext where
  "demoContext = \<lparr>kx_cardCtx = 0, kx_readers = [''reader''], kx_card = None, kx_cmdSet = None\<rparr>"

lemma demo_context: "StartKeycardContext demoHost (demoWorld c) = Ret (Inr demoContext) (demoWorld c)"
  by (simp add: StartKeycardContext_def context_start_def demoContext_def demoHost_def demoWorld_def worldM_def
      bindM_def ret_def)

lemma demo_card_found:
  "readersChanged demoHost demoContext (initialStates (kx_readers demoContext)) (demoWorld (Some demoCard)) =
    Ret (ConnectedTo (demoContext\<lparr>kx_card := Some 7, kx_cmdSet := Some NewCommandSet\<rparr>)) (demoWorld (Some demoCard))"
  by (simp add: readersChanged_def context_connect_def initialStates_def demoContext_def StatePresent_def
      demoHost_def demoWorld_def worldM_def bindE_def bindM_def ret_def)

end
