(* ===== verification/MockInstances.thy ===== *)
theory MockInstances
  imports MockCard FlowControl SharedApi StatusSignals ExampleClient FlowInstances
begin

text \<open>
  Concrete surroundings for the mocked flow, the library and the signal server, with which their
  properties are applied.
\<close>

section \<open>A mocked flow with a card\<close>

definition demoEnv :: "world mockEnv" where
  "demoEnv = \<lparr>e_host = demoHost, e_Join = (\<lambda>dir file. dir @ ''/'' @ file), e_Intn = (\<lambda>n w. (int n - 1, w)),
     e_MarshalCards = (\<lambda>_ _. Inr []), e_UnmarshalCards = (\<lambda>_. (Map.empty, Map.empty, None))\<rparr>"

lemma demoEnv_Intn: "Intn_ok demoEnv"
  by (simp add: Intn_ok_def demoEnv_def)

text \<open>A registered card, and a flow that has been started and runs.\<close>

definition demoMock :: "flowType \<Rightarrow> (string \<times> val) list \<Rightarrow> world mockedFlow" where
  "demoMock t ps = (newMock ''dir/mocked_keycards.json'' \<lparr>st_path = ''dir'', st_values = Some Map.empty\<rparr>
       ((demoWorld None)\<lparr>w_files := [''dir/mocked_keycards.json'' \<mapsto> []]\<rparr>))
     \<lparr>m_cards := [1 \<mapsto> templateKeycard], m_helpers := [1 \<mapsto> templateHelper],
      m_initialReaderState := KeycardInserted, m_currentReaderState := KeycardInserted,
      m_inserted := Some 1, m_flowType := t, m_params := Some (map_of ps), m_state := Running,
      m_goroutines := 1\<rparr>"

lemma demoMock_reachable: "mock_reachable demoEnv (demoMock t ps)"
proof -
  let ?w = "demoWorld None"
  have new: "\<exists>f w. NewMockedFlow demoEnv ''dir'' ?w = Ret (Inr (f, Some (ErrorString
      ''open dir/mocked_keycards.json: no such file or directory''))) w \<and>
      f = newMock ''dir/mocked_keycards.json'' \<lparr>st_path = ''dir'', st_values = Some Map.empty\<rparr> ?w"
    by (simp add: NewMockedFlow_def NewStore_def bindE_def loadRegisteredKeycards_def demoEnv_def demoHost_def
        demoWorld_def worldM_def newMock_def cmd_defs)
  then obtain f w where f: "NewMockedFlow demoEnv ''dir'' ?w = Ret (Inr (f, Some (ErrorString
      ''open dir/mocked_keycards.json: no such file or directory''))) w"
    "f = newMock ''dir/mocked_keycards.json'' \<lparr>st_path = ''dir'', st_values = Some Map.empty\<rparr> ?w"
    by blast
  have "\<exists>g. mockPerform demoEnv (MockRegister 1 KeycardInserted KeycardWithMnemonicAndMedatada None None) f =
      Ret None g \<and> mockPerform demoEnv (MockStart t (Some ps)) g = Ret None (demoMock t ps)"
    by (simp add: RegisterKeycard_def registerCard_def storeRegisteredKeycards_def mock_Start_def goRunFlow_def
        demoEnv_def demoHost_def demoWorld_def demoMock_def f(2) newMock_def zoom_def worldM_def cmd_defs)
  then obtain g where g: "mockPerform demoEnv (MockRegister 1 KeycardInserted KeycardWithMnemonicAndMedatada None None) f =
      Ret None g" "mockPerform demoEnv (MockStart t (Some ps)) g = Ret None (demoMock t ps)"
    by blast
  show ?thesis
    by (rule mock_call [OF mock_call [OF mock_new [OF f(1)] g(1)] g(2)])
qed

lemma demoMock_simps [simp]:
  "m_params (demoMock t ps) = Some (map_of ps)" "m_pairings (demoMock t ps) = \<lparr>st_path = ''dir'', st_values = Some Map.empty\<rparr>"
  "m_state (demoMock t ps) = Running" "currentCard (demoMock t ps) = Some templateKeycard"
  "atInserted (m_helpers (demoMock t ps)) (demoMock t ps) = Some templateHelper"
  by (simp_all add: demoMock_def newMock_def currentCard_def atInserted_def)

lemma typedParams_pin: "typedParams (map_of [(keyPIN, VStr pin)])"
  by (simp add: typedParams_def textKeys_def flagKeys_def keyPIN_def keyNewPIN_def keyPUK_def keyNewPUK_def
      keyMnemonic_def keyCardName_def keyOverwrite_def keyFactoryReset_def keyResolveAddr_def keyExportMaster_def
      keyExportPriv_def keyWalletPaths_def keyBIP44Path_def)

lemma demoMock_conforms: "typedParams (map_of ps) \<Longrightarrow> conforms (demoMock t ps)"
  by (simp add: conforms_def, simp add: demoMock_def newMock_def atInserted_def)

lemma templateKeycard_simps [simp]:
  "mk_NotStatusKeycard templateKeycard = False" "mk_InstanceUID templateKeycard \<noteq> ''''"
  "mk_KeyUID templateKeycard \<noteq> ''''" "mk_FreePairingSlots templateKeycard \<noteq> 0"
  "mk_PinRetries templateKeycard = 3" "mk_PukRetries templateKeycard = 5" "mk_Pin templateKeycard = ''111111''"
  by (simp_all add: templateKeycard_def MaxPINRetries_def MaxPUKRetries_def MaxFreeSlots_def)

section \<open>A server of RPCs\<close>

fun commas :: "string list \<Rightarrow> string" where
  "commas [] = ''''"
| "commas [s] = s"
| "commas (s # ss) = s @ '','' @ commas ss"

fun printJson :: "json \<Rightarrow> string" where
  "printJson JNull = ''null''"
| "printJson (JBool b) = (if b then ''true'' else ''false'')"
| "printJson (JInt n) = (if n < 0 then ''-'' else '''') @ show_nat (nat \<bar>n\<bar>)"
| "printJson (JFloat s) = s"
| "printJson (JStr s) = [CHR 0x22] @ s @ [CHR 0x22]"
| "printJson (JArr js) = ''['' @ commas (map printJson js) @ '']''"
| "printJson (JObj ms) = ''{'' @ commas (map (\<lambda>(n, j). [CHR 0x22] @ n @ [CHR 0x22] @ '':'' @ printJson j) ms) @ ''}''"

text \<open>The texts are abbreviations of the requests.\<close>

definition demoRequests :: "(string \<times> json) list" where
  "demoRequests =
     [(''status'', clientRequest SvcGetStatus (JInt 1)),
      (''status, no id'', clientRequest SvcGetStatus JNull),
      (''start'', clientRequest (SvcStart (demoStart False '''')) (JInt 2)),
      (''start, bad log'', clientRequest (SvcStart (demoStart True ''bad'')) (JInt 2)),
      (''store nothing'', JObj [(''method'', JStr ''keycard.StoreMetadata''), (''params'', JArr [])]),
      (''no params'', JObj [(''method'', JStr ''keycard.Stop''), (''id'', JInt 3)])]"

definition demoRpc :: rpcEnv where
  "demoRpc = \<lparr>r_ToLower = id, r_Fold = id, r_Quote = (\<lambda>s. [CHR 0x22] @ s @ [CHR 0x22]),
     r_Decode = (\<lambda>text. case map_of demoRequests text of None \<Rightarrow> Inl (ErrorString ''EOF'') | Some j \<Rightarrow> Inr j),
     r_Encode = printJson,
     r_TypeError = (\<lambda>dest _. ErrorString (''json: cannot unmarshal into '' @ dest))\<rparr>"

section \<open>A library whose pairings cannot be read\<close>

definition demoLib :: "world libEnv" where
  "demoLib = \<lparr>l_host = demoHost\<lparr>h_ReadFile := \<lambda>p w. if p = ''bad'' then ReadError (ErrorString ''EIO'') else NotExist\<rparr>,
     l_UnmarshalParams = (\<lambda>_. Inr (Some [])), l_MarshalError = id, l_rpc = demoRpc,
     l_ReadAll = Inr, l_wakeUp = (\<lambda>f. Some (f\<lparr>f_senders := f_senders f - 1\<rparr>))\<rparr>"

text \<open>After the session API has been initialised.\<close>

definition demoSession :: "world library" where
  "demoSession = (emptyLibrary (demoWorld None))\<lparr>g_rpc := Some (fst (CreateRPCServer demoRpc))\<rparr>"

lemma demoSession_reachable: "lib_reachable demoLib demoSession"
proof -
  have "libPerform demoLib LibInitRPC (emptyLibrary (demoWorld None)) = Ret '''' demoSession"
    by (simp add: lib_defs marshalError_def demoLib_def demoSession_def emptyLibrary_def cmd_defs)
  then show ?thesis
    by (intro lib_call [OF lib_empty [of _ "demoWorld None"], where c = LibInitRPC]) (simp add: leaves_def)
qed

lemma demoSession_simps [simp]:
  "g_rpc demoSession = Some (fst (CreateRPCServer demoRpc))" "g_service demoSession = NewService (demoWorld None)"
  "l_rpc demoLib = demoRpc" "l_ReadAll demoLib body = Inr body"
  by (simp_all add: demoSession_def emptyLibrary_def demoLib_def)

lemma demoRpc_Decode:
  "r_Decode demoRpc ''status'' = Inr (clientRequest SvcGetStatus (JInt 1))"
  "r_Decode demoRpc ''status, no id'' = Inr (clientRequest SvcGetStatus JNull)"
  "r_Decode demoRpc ''start'' = Inr (clientRequest (SvcStart (demoStart False '''')) (JInt 2))"
  "r_Decode demoRpc ''start, bad log'' = Inr (clientRequest (SvcStart (demoStart True ''bad'')) (JInt 2))"
  by (simp_all add: demoRpc_def demoRequests_def)

definition demoFlow0 :: "world flow" where
  "demoFlow0 = (case NewFlow demoHost ''dir'' (demoWorld None) of Ret (Inr f) _ \<Rightarrow> f)"

section \<open>A server with two connections\<close>

text \<open>The connections are numbered by the world; an odd one takes no message.\<close>

definition demoNet :: "(nat, nat) netEnv" where
  "demoNet = \<lparr>n_SplitHostPort = (\<lambda>a. if a = '''' then Inl (ErrorString ''missing port in address'') else Inr (a, ''0'')),
     n_Atoi = (\<lambda>_. Inr 0), n_rpc = demoRpc,
     n_Listen = (\<lambda>a w. (if a = ''taken'' then Inl (ErrorString ''address already in use'') else Inr a, w)),
     n_Serve = (\<lambda>_ w. (None, w)), n_Shutdown = (\<lambda>w. (None, w)), n_Upgrade = (\<lambda>w. (Inr w, w + 1)),
     n_SetWriteDeadline = (\<lambda>_ w. (None, w)),
     n_WriteMessage = (\<lambda>c _ w. (if even c then None else Some (ErrorString ''broken pipe''), w)),
     n_Close = (\<lambda>_ w. (None, w)), n_SignalEvent = (\<lambda>_ w. ((), w))\<rparr>"

definition demoServer :: "(nat, nat) server" where
  "demoServer = (NewServer 2)\<lparr>sv_connections := [1, 0]\<rparr>"

lemma demoServer_reachable: "server_reachable demoNet demoServer"
proof -
  have "serverPerform demoNet SrvRequest (NewServer 0) = Ret () ((NewServer 1)\<lparr>sv_connections := [0]\<rparr>)"
    "serverPerform demoNet SrvRequest ((NewServer 1)\<lparr>sv_connections := [0]\<rparr>) = Ret () demoServer"
    by (simp_all add: server_signals_def demoNet_def demoServer_def NewServer_def onNet_def zoom_def worldM_def cmd_defs)
  then show ?thesis
    by (blast intro: server_new server_call)
qed

text \<open>A library that has been asked to start where there is no PC/SC.\<close>

lemma demoStarted: "\<exists>s k. lib_reachable demoLib s \<and> s_context (g_service s) = Some k"
proof -
  let ?w = "(demoWorld None)\<lparr>w_pcsc := False\<rparr>"
  let ?s = "(emptyLibrary ?w)\<lparr>g_rpc := Some (fst (CreateRPCServer demoRpc))\<rparr>"
  have "libPerform demoLib LibInitRPC (emptyLibrary ?w) = Ret '''' ?s"
    by (simp add: lib_defs marshalError_def demoLib_def emptyLibrary_def cmd_defs)
  then have r: "lib_reachable demoLib ?s"
    by (intro lib_call [OF lib_empty [of _ ?w], where c = LibInitRPC]) (simp add: leaves_def)
  have "NewStore (l_host demoLib) (sr_StorageFilePath (demoStart False '''')) ?w =
      Ret (Inr \<lparr>st_path = ''p'', st_values = Some Map.empty\<rparr>) ?w"
    by (simp add: NewStore_def demoLib_def demoStart_def demoHost_def demoWorld_def bindE_def worldM_def cmd_defs)
  then have "\<exists>t. svc_Start (l_host demoLib) (demoStart False '''') (NewService ?w) =
      Ret (Some (ErrorString ErrorPCSC), ()) t \<and> s_context t \<noteq> None"
    by (intro svc_Start_no_pcsc [where w = ?w and w' = ?w and e = "SCardError 0x8010001D"])
       (simp_all add: NewService_def demoStart_def, simp add: demoLib_def demoHost_def)
  then obtain t k where t: "svc_Start (l_host demoLib) (demoStart False '''') (NewService ?w) =
      Ret (Some (ErrorString ErrorPCSC), ()) t" "s_context t = Some k" by blast
  then have "\<exists>x. KeycardCallRPC demoLib ''start'' ?s = Ret x (?s\<lparr>g_service := t\<rparr>)"
    using KeycardCallRPC_client [OF r, of "''start''" "SvcStart (demoStart False '''')" "JInt 2"]
    by (simp add: demoRpc_Decode replied_def emptyLibrary_def cmd_defs)
  then have "leaves (libPerform demoLib (LibCallRPC ''start'')) ?s (?s\<lparr>g_service := t\<rparr>)"
    by (auto simp: leaves_def)
  from lib_call [OF r this] t(2) show ?thesis by fastforce
qed

section \<open>A server that has been set up\<close>

definition demoSetup :: "(nat, nat) server" where
  "demoSetup = demoServer\<lparr>sv_handler := True\<rparr>"

lemma demoSetup_reachable: "server_reachable demoNet demoSetup"
proof -
  have "serverPerform demoNet SrvSetup demoServer = Ret () demoSetup"
    by (simp add: Setup_def SetKeycardSignalHandler_def demoSetup_def cmd_defs)
  then show ?thesis by (rule server_call [OF demoServer_reachable])
qed

lemma demoSetup_simps [simp]:
  "sv_handler demoSetup" "sv_connections demoSetup = [1, 0]" "received c demoSetup = []"
  by (simp_all add: demoSetup_def demoServer_def NewServer_def received_def)

end
