(* ===== verification/SessionRaces.thy ===== *)
theory SessionRaces
  imports SessionLive
begin

text \<open>
  Commands of the client that are not atomic.  A command is cut where it has the card's answer
  and the mutex, and the others (the goroutines of the detection, further commands) take
  steps before it goes on.  If the goroutine that watches the reader leaves in between, a command
  that then forces a scan waits for ever with the mutex held, and no later command reaches a card.
\<close>

section \<open>A command cut at the card's answer\<close>

definition begins :: "('a, commandSet \<times> 'w link) gocmd \<Rightarrow> ('a, 'w) kcmd" where
  "begins m = thenM lockM (withCmdSet m)"

definition unlocking :: "('a, 'w) kcmd \<Rightarrow> ('a, 'w) kcmd" where
  "unlocking m = deferM m (\<lambda>_. unlockM)"

lemma locked_cut: "locked (bindM (withCmdSet m) f) = bindM (begins m) (\<lambda>x. unlocking (f x))"
  by (auto simp: fun_eq_iff locked_def begins_def unlocking_def deferM_def cmd_defs split: outcome.split)

lemma begins_state:
  assumes "begins m k = Ret x j"
  shows "\<not> k_mutex k \<and> (\<exists>cs l. j = k\<lparr>k_mutex := True, k_cmdSet := Some cs, k_link := l\<rparr>)"
  using assms
  by (auto simp: begins_def withCmdSet_def lockM_def cmd_defs split: if_splits option.splits outcome.splits prod.splits)

text \<open>
  \<open>card_answered H k req err j rest\<close>: the request, taken up in the state \<open>k\<close>, has passed its guard, has
  the mutex and has the card's answer, with the error \<open>err\<close>, in the state \<open>j\<close>; \<open>rest\<close> is what
  is left of it.  Of a command with several exchanges it is the first.
\<close>

inductive card_answered :: "'w host \<Rightarrow> 'w ctx \<Rightarrow> request \<Rightarrow> error \<Rightarrow> 'w ctx \<Rightarrow> (error, 'w) kcmd \<Rightarrow> bool" for H k where
  init_answered: "keycardConnected k \<Longrightarrow>
    begins (cs_Init (h_prims H) (kport H) (NewSecrets (h_prims H) pin puk pass)) k = Ret r j \<Longrightarrow>
    card_answered H k (ReqInitialize pin puk pass) (errOf r) j
      (unlocking (case r of
         Inl e \<Rightarrow> checkSCardError H (Some e)
       | Inr _ \<Rightarrow> thenM (resetCardConnection H) (thenM forceScan (ret None))))"
| verify_answered: "keycardReady k = None \<Longrightarrow>
    begins (cs_VerifyPIN (h_prims H) (kport H) pin) k = Ret r j \<Longrightarrow>
    card_answered H k (ReqVerifyPIN pin) (errOf r) j
      (replying fst (deferM
        (unlocking (case r of
           Inr _ \<Rightarrow> ret (None, True)
         | Inl e \<Rightarrow>
             if isWrongPIN e then ret (None, False)
             else bindM (checkSCardError H (Some e)) (\<lambda>err. ret (err, False))))
        (\<lambda>(err, authorized). onAuthorizeInteractions H authorized)))"
| change_pin_answered: "keycardAuthorized k = None \<Longrightarrow>
    begins (cs_ChangePIN (h_prims H) (kport H) pin) k = Ret r j \<Longrightarrow>
    card_answered H k (ReqChangePIN pin) (errOf r) j
      (deferM (unlocking (checkSCardError H (errOf r))) (\<lambda>_. onAuthorizeInteractions H False))"
| unblock_answered: "keycardInitialized k = None \<Longrightarrow> State (k_status k) = BlockedPIN \<Longrightarrow>
    begins (cs_UnblockPIN (h_prims H) (kport H) puk pin) k = Ret r j \<Longrightarrow>
    card_answered H k (ReqUnblockPIN puk pin) (errOf r) j
      (deferM (unlocking (checkSCardError H (errOf r))) (\<lambda>err. onAuthorizeInteractions H (err = None)))"
| change_puk_answered: "keycardAuthorized k = None \<Longrightarrow>
    begins (cs_ChangePUK (h_prims H) (kport H) puk) k = Ret r j \<Longrightarrow>
    card_answered H k (ReqChangePUK puk) (errOf r) j
      (deferM (unlocking (checkSCardError H (errOf r))) (\<lambda>_. onAuthorizeInteractions H False))"
| generate_answered: "keycardReady k = None \<Longrightarrow>
    begins (cs_GenerateMnemonic (h_prims H) (kport H) (quot n 3)) k = Ret r j \<Longrightarrow>
    card_answered H k (ReqGenerateMnemonic n) (errOf r) j (replying errOf (unlocking (checkSum H r)))"
| load_answered: "keycardAuthorized k = None \<Longrightarrow>
    begins (loadSeed (h_prims H) (kport H) (mnemonicToBinarySeed (h_prims H) mnemonic password)) k = Ret r j \<Longrightarrow>
    card_answered H k (ReqLoadMnemonic mnemonic password) (errOf r) j
      (replying errOf (deferM (unlocking (checkSum H r))
        (\<lambda>r. case r of Inl _ \<Rightarrow> ret () | Inr keyUID \<Rightarrow> noteKeys keyUID)))"
| factory_reset_answered: "keycardConnected k \<Longrightarrow> thenM (resetStatus FactoryResetting) publishStatus k = Ret () k' \<Longrightarrow>
    begins (kc_FactoryReset (h_prims H) (kport H) True) k' = Ret r j \<Longrightarrow>
    card_answered H k ReqFactoryReset (errOf r) j
      (unlocking (thenM (resetCardConnection H) (thenM forceScan (ret (errOf r)))))"
| metadata_answered: "keycardInitialized k = None \<Longrightarrow>
    begins (cs_GetData (h_prims H) (kport H) P1StoreDataPublic) k = Ret r j \<Longrightarrow>
    card_answered H k ReqGetMetadata (errOf r) j
      (replying errOf (unlocking (case r of
         Inl e \<Rightarrow> checkSum H (Inl e)
       | Inr data \<Rightarrow>
           if data = [] then ret (Inr None)
           else (case ParseMetadata data of
                   None \<Rightarrow> blockM ''metadata loop''
                 | Some (Inl e) \<Rightarrow> ret (Inl (Wrapped ''failed to parse metadata'' e))
                 | Some (Inr md) \<Rightarrow> ret (Inr (Some (ToMetadata md)))))))"
| store_answered: "keycardAuthorized k = None \<Longrightarrow> parsePaths paths k = Ret (Inr components) k \<Longrightarrow>
    NewMetadata name components = Inr md \<Longrightarrow>
    begins (cs_StoreData (h_prims H) (kport H) P1StoreDataPublic (Serialize md)) k = Ret r j \<Longrightarrow>
    card_answered H k (ReqStoreMetadata name paths) (errOf r) j
      (bindM (unlocking (checkSCardError H (errOf r))) (\<lambda>err.
        case err of
          Some e \<Rightarrow> ret (Some e)
        | None \<Rightarrow>
            bindM (updateMetadata H) (\<lambda>err.
              case err of
                Some e \<Rightarrow> ret (Some e)
              | None \<Rightarrow> thenM publishStatus (ret None))))"
| export_answered: "keycardAuthorized k = None \<Longrightarrow> keycardHasKeys k = Ret None k \<Longrightarrow>
    begins (cs_ExportKeyExtended (h_prims H) (kport H) True (EncryptionPath = MasterPath)
      P2ExportKeyPrivateAndPublic EncryptionPath) k = Ret r j \<Longrightarrow>
    card_answered H k ReqExportLoginKeys (errOf r) j
      (replying errOf (bindE
        (unlocking (case r of
           Inl e \<Rightarrow> checkSum H (Inl e)
         | Inr exportedKey \<Rightarrow>
             (case exportedKeyToAddress (h_prims H) exportedKey of
                Inl e \<Rightarrow> ret (Inl (Wrapped ''failed to convert key to address''
                    (Wrapped ''failed to unmarshal public key'' e)))
              | Inr address \<Rightarrow> ret (Inr (mkKeyPair address exportedKey)))))
        (\<lambda>ek. bindE (exportKey H WhisperPath P2ExportKeyPrivateAndPublic) (\<lambda>wk.
           ret (Inr \<lparr>EncryptionPrivateKey = Some ek, WhisperPrivateKey = Some wk\<rparr>)))))"

text \<open>With nothing in between, the command is the atomic one.\<close>

lemma bindM_Ret: "m k = Ret x j \<Longrightarrow> bindM m f k = f x j"
  by (simp add: bindM_def)

lemma thenM_Ret: "thenM a b k = Ret () j \<Longrightarrow> thenM a (thenM b m) k = m j"
  by (auto simp: thenM_def bindM_def split: outcome.splits)

lemma deferM_bind: "deferM (bindM m f) d = bindM m (\<lambda>x. deferM (f x) d)"
  and replying_bind: "replying g (bindM m f) = bindM m (\<lambda>x. replying g (f x))"
  and bindE_bind: "bindE (bindM m f') e = bindM m (\<lambda>x. bindE (f' x) e)"
  and bindM_bind: "bindM (bindM m h) i = bindM m (\<lambda>x. bindM (h x) i)"
  by (auto simp: fun_eq_iff deferM_def replying_def bindE_def cmd_defs split: outcome.split)

lemma answered_perform: "card_answered H k req err j rest \<Longrightarrow> perform H req k = rest j"
proof (induction rule: card_answered.induct)
  case (factory_reset_answered k' r j)
  then show ?case
    by (simp add: FactoryReset_def guardErr_def locked_cut bindM_Ret thenM_Ret getM_def)
next
  case (export_answered r j)
  let ?F = "\<lambda>ek. bindE (exportKey H WhisperPath P2ExportKeyPrivateAndPublic) (\<lambda>wk.
    ret (Inr \<lparr>EncryptionPrivateKey = Some ek, WhisperPrivateKey = Some wk\<rparr>))"
  have "ExportLoginKeys H k = bindE (exportKey H EncryptionPath P2ExportKeyPrivateAndPublic) ?F k"
    using export_answered by (simp add: ExportLoginKeys_def guardSum_def getM_def bindM_Ret)
  also have "\<dots> = bindE (unlocking (case r of
           Inl e \<Rightarrow> checkSum H (Inl e)
         | Inr exportedKey \<Rightarrow>
             (case exportedKeyToAddress (h_prims H) exportedKey of
                Inl e \<Rightarrow> ret (Inl (Wrapped ''failed to convert key to address''
                    (Wrapped ''failed to unmarshal public key'' e)))
              | Inr address \<Rightarrow> ret (Inr (mkKeyPair address exportedKey))))) ?F j"
    unfolding exportKey_def [of H EncryptionPath] Let_def locked_cut bindE_bind
    by (rule bindM_Ret) (rule export_answered.hyps(3))
  finally show ?case by (simp add: replying_def bindM_def)
qed (simp_all add: Initialize_def VerifyPIN_def ChangePIN_def ChangePUK_def UnblockPIN_def GenerateMnemonic_def
    LoadMnemonic_def GetMetadata_def StoreMetadata_def getState_def guardErr_def guardSum_def
    locked_cut deferM_bind replying_bind bindM_bind bindM_Ret getM_def)

lemma answered_state:
  "card_answered H k req err j rest \<Longrightarrow>
     k_mutex j \<and> k_cmdSet j \<noteq> None \<and> k_monitors j = k_monitors k \<and> k_forceScanC j = k_forceScanC k"
proof (induction rule: card_answered.induct)
  case (factory_reset_answered k' r j)
  then have "k_monitors k' = k_monitors k \<and> k_forceScanC k' = k_forceScanC k"
    by (auto simp: resetStatus_def publishStatus_def cmd_defs)
  with begins_state [OF factory_reset_answered.hyps(3)] show ?case by auto
qed (drule begins_state, force)+

section \<open>The steps of the others\<close>

inductive other_step :: "'w host \<Rightarrow> 'w ctx \<Rightarrow> 'w ctx \<Rightarrow> bool" for H where
  other_request: "leaves (perform H req) k t \<Longrightarrow> other_step H k t"
| other_monitor: "leaves (monitorStep H i) k t \<Longrightarrow> other_step H k t"

abbreviation others :: "'w host \<Rightarrow> 'w ctx \<Rightarrow> 'w ctx \<Rightarrow> bool" where
  "others H \<equiv> (other_step H)\<^sup>*\<^sup>*"

lemma others_keep:
  assumes "others H k t" and "P k" and "\<And>req. preserves P (perform H req)" and "\<And>i. preserves P (monitorStep H i)"
  shows "P t"
  using assms(1,2)
proof (induction rule: rtranclp_induct)
  case (step t u)
  from step.hyps(2) step.IH [OF step.prems] show ?case
    by (auto elim!: other_step.cases intro: leaves_preserves assms(3,4))
qed

text \<open>The mutex that a command holds is not taken from it.\<close>

interpretation held: client_frame k_mutex
  by unfold_locales simp_all

lemma held_perform: "preserves k_mutex (perform H req)"
  by (cases req) (simp_all add: held.keeps_commands held.keeps_VerifyPIN keeps)

lemma preserves_monitorStep:
  assumes "\<And>k ms. P k \<Longrightarrow> P (k\<lparr>k_monitors := ms\<rparr>)" and "\<And>m. preserves P (monitorBody H m)"
  shows "preserves P (monitorStep H i)"
  unfolding monitorStep_def
  by (intro preserves_bindM [OF preserves_getM] preserves_if preserves_thenM preserves_bindM
      preserves_modifyM preserves_ret assms)

lemma held_connectCard: "preserves k_mutex (connectCard H c rs)"
  unfolding connectCard_def chooseReader_def openCard_def identifyCard_def takeAppInfo_def
  by (intro held.keeps_setters held.keeps_kWorld held.keeps_resetCardConnection
      held.keeps_publishStatus held.keeps_simulateError held.keeps_selectApplet
      preserves_deferM preserves_thenM preserves_bindM preserves_case_option preserves_case_sum
      preserves_if preserves_ret preserves_panicM preserves_modifyM) simp_all

lemma held_monitorStep: "preserves k_mutex (monitorStep H i)"
proof (rule preserves_monitorStep)
  fix m
  have "preserves k_mutex (detectionRoutine H c)" for c
    unfolding detectionRoutine_def
    by (intro held_connectCard held.keeps_getCurrentReadersState held.keeps_setters
        held.keeps_publishStatus held.keeps_connectKeycard
        preserves_thenM preserves_bindM preserves_case_option preserves_case_sum preserves_ret)
  then show "preserves k_mutex (monitorBody H m)"
    unfolding monitorBody_def
    by (cases m) (auto intro!: preserves_bindM preserves_getM preserves_case_option preserves_panicM
        held.keeps_waitChange held.keeps_watchActiveReader)
qed simp

lemma others_held: "others H k t \<Longrightarrow> k_mutex k \<Longrightarrow> k_mutex t"
  by (erule others_keep) (rule held_perform held_monitorStep | assumption)+

section \<open>A session that hangs\<close>

text \<open>The mutex is held and no goroutine watches a reader: none ever will.\<close>

definition hung :: "'w ctx \<Rightarrow> bool" where
  "hung k \<longleftrightarrow> k_mutex k \<and> takeWatcher (k_monitors k) = None"

lemma takeWatcher_append: "takeWatcher (ms @ ns) = None \<longleftrightarrow> takeWatcher ms = None \<and> takeWatcher ns = None"
  by (induction ms rule: takeWatcher.induct) auto

interpretation hang: client_frame hung
  by unfold_locales (auto simp: hung_def)

lemma hung_perform: "preserves hung (perform H req)"
  by (cases req) (simp_all add: hang.keeps_commands hang.keeps_VerifyPIN keeps)

text \<open>A detection that runs then stops at the mutex before it has identified a card.\<close>

definition finds_none :: "(go_error + readerState option, 'w) kcmd \<Rightarrow> bool" where
  "finds_none m \<longleftrightarrow> (\<forall>k. hung k \<longrightarrow> runs m (\<lambda>r t. hung t \<and> (\<forall>x. r \<noteq> Inr (Some x))) (\<lambda>_. hung) k)"

lemma finds_none_ret: "finds_none (ret (Inl e))" "finds_none (ret (Inr None))"
  by (simp_all add: finds_none_def wp)

lemma finds_none_bind:
  "preserves hung m \<Longrightarrow> (\<And>x. finds_none (f x)) \<Longrightarrow> finds_none (bindM m f)"
  "preserves hung n \<Longrightarrow> finds_none m' \<Longrightarrow> finds_none (thenM n m')"
  unfolding finds_none_def preserves_def by (blast intro: runs_bind runs_then)+

lemma finds_none_cases:
  "finds_none n \<Longrightarrow> (\<And>y. finds_none (g y)) \<Longrightarrow> finds_none (case z of None \<Rightarrow> n | Some y \<Rightarrow> g y)"
  "finds_none n \<Longrightarrow> finds_none n' \<Longrightarrow> finds_none (if b then n else n')"
  by (simp_all split: option.split)

lemma finds_none_identifyCard: "finds_none (bindM (selectApplet H) f)"
  by (auto simp: finds_none_def runs_def bindM_def hung_def selectApplet_locked)

lemma finds_none_connectCard: "finds_none (connectCard H c rs)"
proof -
  have m: "preserves hung (modifyM (\<lambda>k. k\<lparr>k_cmdSet := x\<rparr>))" "preserves hung (modifyM (\<lambda>k. k\<lparr>k_forceScanC := y\<rparr>))"
    "preserves hung (modifyM (\<lambda>k. k\<lparr>k_link := (k_link k)\<lparr>l_card := z\<rparr>\<rparr>))" for x y z
    by (simp_all add: preserves_def wp hung_def)
  have "finds_none (chooseReader H c rs)"
    unfolding chooseReader_def openCard_def identifyCard_def
    by (intro finds_none_cases finds_none_bind finds_none_identifyCard finds_none_ret m hang.keeps_setters
        hang.keeps_kWorld hang.keeps_resetCardConnection hang.keeps_simulateError)
  then show ?thesis
    unfolding connectCard_def finds_none_def runs_deferM
    by (auto elim!: allE impE runs_mono simp: publishStatus_def wp hung_def)
qed

lemma hung_monitorBody:
  assumes "hung k" and "\<forall>r. m \<noteq> Watching r"
  shows "runs (monitorBody H m) (\<lambda>next t. hung t \<and> (\<forall>r. next \<noteq> Some (Watching r))) (\<lambda>_. hung) k"
proof -
  have "runs (detectionRoutine H c) (\<lambda>next t. hung t \<and> (\<forall>r. next \<noteq> Some (Watching r))) (\<lambda>_. hung) k" for c
    unfolding detectionRoutine_def
  proof (rule runs_bind [OF preservesD [OF hang.keeps_getCurrentReadersState assms(1)]])
    fix r :: "go_error + readersStates" and t :: "'a ctx"
    assume t: "hung t"
    have "runs (connectCard H c rs) (\<lambda>r t. hung t \<and> (\<forall>x. r \<noteq> Inr (Some x))) (\<lambda>_. hung) t" for rs
      using finds_none_connectCard [of H c rs] t unfolding finds_none_def by blast
    from runs_mono [OF this] t
    show "runs (case r of
         Inl e \<Rightarrow> thenM (resetStatus InternalError) (thenM publishStatus (ret None))
       | Inr readers \<Rightarrow>
           bindM (connectCard H c readers) (\<lambda>r.
             case r of
               Inr (Some readerState) \<Rightarrow>
                 bindM (connectKeycard H) (\<lambda>_. ret (Some (Watching readerState)))
             | _ \<Rightarrow> ret (Some (WaitingChange (readers @ [pnpReader])))))
       (\<lambda>next t. hung t \<and> (\<forall>r. next \<noteq> Some (Watching r))) (\<lambda>_. hung) t"
      by (auto simp: runs_bindM wp hung_def resetStatus_def publishStatus_def split: sum.split option.split)
  qed
  moreover have "runs (waitChange H c rs) (\<lambda>next t. hung t \<and> (\<forall>r. next \<noteq> Some (Watching r))) (\<lambda>_. hung) k" for c rs
    unfolding waitChange_def
    by (rule runs_bind [OF preservesD [OF hang.keeps_kWorld assms(1)]]) (auto simp: wp)
  ultimately show ?thesis
    using assms by (cases m) (auto simp: monitorBody_def wp split: option.split)
qed

lemma takeWatcher_None: "takeWatcher ms = None \<longleftrightarrow> (\<forall>m \<in> set ms. \<forall>r. m \<noteq> Watching r)"
  by (induction ms rule: takeWatcher.induct) auto

lemma hung_monitorStep: "preserves hung (monitorStep H i)"
proof (rule preservesI)
  fix k :: "'a ctx" assume k: "hung k"
  show "runs (monitorStep H i) (\<lambda>_. hung) (\<lambda>_. hung) k"
  proof (cases "i < length (k_monitors k)")
    case True
    let ?k = "k\<lparr>k_monitors := dropNth i (k_monitors k)\<rparr>"
    have "hung ?k"
      using k by (auto simp: hung_def takeWatcher_None dropNth_def dest: in_set_takeD in_set_dropD)
    moreover have "\<forall>r. k_monitors k ! i \<noteq> Watching r"
      using k True by (auto simp: hung_def takeWatcher_None)
    ultimately have "runs (monitorBody H (k_monitors k ! i))
        (\<lambda>next t. hung t \<and> (\<forall>r. next \<noteq> Some (Watching r))) (\<lambda>_. hung) ?k"
      by (rule hung_monitorBody)
    then have "runs (bindM (monitorBody H (k_monitors k ! i)) (\<lambda>next.
        modifyM (\<lambda>k. k\<lparr>k_monitors := k_monitors k @ (case next of None \<Rightarrow> [] | Some m \<Rightarrow> [m])\<rparr>)))
        (\<lambda>_. hung) (\<lambda>_. hung) ?k"
      unfolding runs_bindM by (rule runs_mono) (auto simp: wp hung_def takeWatcher_None split: option.split)
    with True show ?thesis by (simp add: monitorStep_def wp)
  qed (use k in \<open>simp add: monitorStep_def wp\<close>)
qed

lemma others_hung: "others H k t \<Longrightarrow> hung k \<Longrightarrow> hung t"
  by (erule others_keep) (rule hung_perform hung_monitorStep | assumption)+

section \<open>Requests while the mutex is held\<close>

text \<open>A request then changes the status, the signals and the simulated error at most.\<close>

definition same_card :: "'w ctx \<Rightarrow> 'w ctx \<Rightarrow> bool" where
  "same_card k t \<longleftrightarrow> k_link t = k_link k \<and> k_cmdSet t = k_cmdSet k \<and> k_monitors t = k_monitors k \<and>
     k_forceScanC t = k_forceScanC k \<and> k_mutex t = k_mutex k"

lemma runs_locked_held: "k_mutex k \<Longrightarrow> runs (locked m) Q F k = F (Blocked ''lock of a held mutex'') k"
  by (simp add: locked_def lockM_def wp)

lemma runs_parsePaths: "(\<And>r. Q r s) \<Longrightarrow> (\<And>x. F x s) \<Longrightarrow> runs (parsePaths paths) Q F s"
proof (induction paths arbitrary: Q)
  case (Cons path paths)
  have "runs (parsePaths paths) (\<lambda>r. runs (case r of Inl e \<Rightarrow> ret (Inl e) | Inr ps \<Rightarrow> ret (Inr (c # ps))) Q F) F s" for c
    by (rule Cons.IH) (auto simp: wp Cons.prems split: sum.split)
  then show ?case
    by (auto simp: wp bindE_def Cons.prems split: prod.split option.split)
qed (simp add: wp)

lemma perform_held:
  assumes "k_mutex k"
  shows "runs (perform H req) (\<lambda>_. same_card k) (\<lambda>_. same_card k) k"
proof -
  note held = runs_locked_held guardErr_def guardSum_def runs_replying same_card_def wp assms
  have "runs (StoreMetadata H name paths) (\<lambda>_. same_card k) (\<lambda>_. same_card k) k" for name paths
    by (auto simp: StoreMetadata_def held intro!: runs_parsePaths split: option.split sum.split)
  moreover have "runs (ExportLoginKeys H) (\<lambda>_. same_card k) (\<lambda>_. same_card k) k"
    by (auto simp: ExportLoginKeys_def exportKey_def keycardHasKeys_def bindE_def held Let_def split: option.split)
  moreover have "runs (ExportRecoverKeys H) (\<lambda>_. same_card k) (\<lambda>_. same_card k) k"
    by (auto simp: ExportRecoverKeys_def ExportLoginKeys_def exportKey_def keycardHasKeys_def bindE_def held Let_def
        split: option.split)
  ultimately show ?thesis
    by (cases req)
       (auto simp: Initialize_def VerifyPIN_def ChangePIN_def ChangePUK_def UnblockPIN_def GenerateMnemonic_def
         LoadMnemonic_def FactoryReset_def GetMetadata_def SimulateError_def GetStatus_def getState_def
         resetStatus_def publishStatus_def held split: option.split sum.split)
qed

lemma held_request: "k_mutex k \<Longrightarrow> leaves (perform H req) k t \<Longrightarrow> same_card k t"
  by (rule leaves_runs [OF perform_held])

section \<open>The rest of a command\<close>

text \<open>The commands that force a scan, and those that do not take the mutex again.\<close>

fun forces :: "request \<Rightarrow> error \<Rightarrow> bool" where
  "forces ReqFactoryReset err = True"
| "forces (ReqInitialize pin puk pass) err = (err = None \<or> IsSCardError err)"
| "forces req err = IsSCardError err"

fun one_lock :: "request \<Rightarrow> bool" where
  "one_lock (ReqInitialize pin puk pass) = True"
| "one_lock (ReqGenerateMnemonic n) = True"
| "one_lock (ReqLoadMnemonic mnemonic password) = True"
| "one_lock ReqFactoryReset = True"
| "one_lock ReqGetMetadata = True"
| "one_lock req = False"

lemma hung_forceScan: "hung k \<Longrightarrow> k_forceScanC k \<noteq> Some ScanClosed \<Longrightarrow> \<exists>why. forceScan k = Fault (Blocked why) k"
  by (auto simp: hung_def forceScan_def cmd_defs split: option.split scanChannel.split)

definition hangs :: "('a, 'w) kcmd \<Rightarrow> 'w ctx \<Rightarrow> bool" where
  "hangs m k \<longleftrightarrow> runs m (\<lambda>_ _. False) (\<lambda>e t. (\<exists>why. e = Blocked why) \<and> hung t) k"

lemma hangs_scan:
  assumes "hung k" and "k_forceScanC k \<noteq> Some ScanClosed"
  shows "hangs (thenM (resetCardConnection H) (thenM forceScan m)) k"
  unfolding hangs_def runs_thenM
proof (rule runs_resetCardConnection)
  fix l
  have "hung (k\<lparr>k_cmdSet := None, k_link := l\<rparr>)" using assms(1) by (simp add: hung_def)
  then show "runs forceScan (\<lambda>_. runs m (\<lambda>_ _. False) (\<lambda>e t. (\<exists>why. e = Blocked why) \<and> hung t))
     (\<lambda>e t. (\<exists>why. e = Blocked why) \<and> hung t) (k\<lparr>k_cmdSet := None, k_link := l\<rparr>)"
    using hung_forceScan [of "k\<lparr>k_cmdSet := None, k_link := l\<rparr>"] assms(2) by (auto simp: runs_def)
qed

lemma hangs_through:
  "hangs m1 k \<Longrightarrow> hangs (bindM m1 f) k" "hangs m2 k \<Longrightarrow> hangs (deferM m2 d) k"
  "hangs m3 k \<Longrightarrow> hangs (replying g m3) k" "hangs m4 k \<Longrightarrow> hangs (bindE m4 h) k"
  "hangs m5 k \<Longrightarrow> hangs (unlocking m5) k" "hangs m6 k \<Longrightarrow> hangs (thenM m6 n) k"
  by (auto simp: hangs_def runs_def bindM_def deferM_def replying_def bindE_def unlocking_def thenM_def split: outcome.splits)

lemma hangs_check:
  assumes "hung k" and "k_forceScanC k \<noteq> Some ScanClosed"
  shows "IsSCardError err \<Longrightarrow> hangs (checkSCardError H err) k"
    and "IsSCardError (Some e) \<Longrightarrow> hangs (checkSum H (Inl e)) k"
    and "IsSCardError (errOf r) \<Longrightarrow> hangs (checkSum H r) k"
proof -
  show c: "hangs (checkSCardError H err) k" if "IsSCardError err" for err
    using hangs_scan [OF assms] that by (auto simp: checkSCardError_def split: option.split)
  show s: "hangs (checkSum H (Inl e)) k" if "IsSCardError (Some e)" for e
    using hangs_through(6) [OF c [OF that]] by (simp add: checkSum_def)
  show "hangs (checkSum H r) k" if "IsSCardError (errOf r)"
    using s that by (cases r) simp_all
qed

lemma rest_hangs:
  assumes "card_answered H k req err j rest" and "forces req err" and "hung t" and "k_forceScanC t \<noteq> Some ScanClosed"
  shows "hangs rest t"
  using assms(1,2)
proof (induction rule: card_answered.induct)
  case (init_answered pin puk pass r j)
  then show ?case
    using hangs_scan [OF assms(3,4)] hangs_check [OF assms(3,4)]
    by (auto intro!: hangs_through(5) split: sum.split)
next
  case (factory_reset_answered k' r j)
  show ?case by (intro hangs_through hangs_scan assms(3,4))
next
  case (verify_answered pin r j)
  then obtain c where "r = Inl (SCardError c)" by (auto simp: IsSCardError_iff errOf_def split: sum.splits)
  then show ?case using hangs_check [OF assms(3,4)] by (auto intro!: hangs_through)
qed (cases rule: sum.exhaust, auto intro!: hangs_through hangs_check [OF assms(3,4)] split: sum.splits)

section \<open>While the goroutine watches\<close>

interpretation openScan: client_frame "\<lambda>k. k_forceScanC k \<noteq> Some ScanClosed"
  by unfold_locales simp_all

lemma open_monitorStep: "preserves (\<lambda>k. k_forceScanC k \<noteq> Some ScanClosed) (monitorStep H i)"
proof (rule preserves_monitorStep)
  fix m
  have "preserves (\<lambda>k. k_forceScanC k \<noteq> Some ScanClosed) (connectCard H c rs)" for c rs
    unfolding connectCard_def chooseReader_def openCard_def identifyCard_def takeAppInfo_def
    by (intro openScan.keeps_setters openScan.keeps_kWorld openScan.keeps_resetCardConnection
        openScan.keeps_publishStatus openScan.keeps_simulateError openScan.keeps_selectApplet
        preserves_deferM preserves_thenM preserves_bindM preserves_case_option preserves_case_sum
        preserves_if preserves_ret preserves_panicM preserves_modifyM) simp_all
  then have "preserves (\<lambda>k. k_forceScanC k \<noteq> Some ScanClosed) (detectionRoutine H c)" for c
    unfolding detectionRoutine_def
    by (intro openScan.keeps_getCurrentReadersState openScan.keeps_setters
        openScan.keeps_publishStatus openScan.keeps_connectKeycard
        preserves_thenM preserves_bindM preserves_case_option preserves_case_sum preserves_ret)
  then show "preserves (\<lambda>k. k_forceScanC k \<noteq> Some ScanClosed) (monitorBody H m)"
    unfolding monitorBody_def
    by (cases m) (auto intro!: preserves_bindM preserves_getM preserves_case_option preserves_panicM
        openScan.keeps_waitChange openScan.keeps_watchActiveReader)
qed simp

text \<open>A command is in its exchange: as long as the goroutine watches, the connection is left alone.\<close>

definition exchanging :: "'w ctx \<Rightarrow> bool" where
  "exchanging k \<longleftrightarrow> k_mutex k \<and> length (k_monitors k) \<le> 1 \<and> k_forceScanC k \<noteq> Some ScanClosed \<and>
     (takeWatcher (k_monitors k) \<noteq> None \<longrightarrow> calmC k)"

lemma watcher_polls:
  assumes "calmC k"
  shows "runs (watchActiveReader H c r) (\<lambda>next t. \<forall>r'. next = Some (Watching r') \<longrightarrow> calmC (t\<lparr>k_monitors := [Watching r']\<rparr>))
    (\<lambda>e _. \<exists>msg. e = Panicked msg) (k\<lparr>k_monitors := []\<rparr>)"
  using assms
  by (auto simp: watchActiveReader_def kWorld_def onWorld_def wp calm_defs link_live_def split: prod.split list.split)

lemma exchanging_monitorStep:
  assumes "exchanging k" and "leaves (monitorStep H i) k t"
  shows "exchanging t"
proof -
  have n: "length (k_monitors k) \<le> 1" using assms(1) by (simp add: exchanging_def)
  have t: "k_mutex t" "k_forceScanC t \<noteq> Some ScanClosed" "length (k_monitors t) \<le> 1"
    using leaves_preserves [OF held_monitorStep _ assms(2)] leaves_preserves [OF open_monitorStep _ assms(2)]
      leaves_runs [OF monitorStep_at_most_one [OF n] assms(2)] assms(1)
    by (auto simp: exchanging_def)
  have "calmC t" if w: "takeWatcher (k_monitors t) \<noteq> None"
  proof -
    have "\<not> hung t" using w by (simp add: hung_def)
    with leaves_preserves [OF hung_monitorStep _ assms(2)] have "\<not> hung k" by blast
    with assms(1) have k: "takeWatcher (k_monitors k) \<noteq> None" "calmC k" by (auto simp: hung_def exchanging_def)
    with n obtain r where r: "k_monitors k = [Watching r]"
      by (cases "k_monitors k" rule: takeWatcher.cases) auto
    show ?thesis
    proof (cases "i = 0")
      case True
      have "runs (monitorStep H 0) (\<lambda>_ t. takeWatcher (k_monitors t) \<noteq> None \<longrightarrow> calmC t)
          (\<lambda>e _. \<exists>msg. e = Panicked msg) k"
      proof -
        have m: "runs (watchActiveReader H c r) (\<lambda>next t. k_monitors t = [] \<and>
            (\<forall>r'. next = Some (Watching r') \<longrightarrow> calmC (t\<lparr>k_monitors := [Watching r']\<rparr>)))
            (\<lambda>e _. \<exists>msg. e = Panicked msg) (k\<lparr>k_monitors := []\<rparr>)" for c
          using watcher_polls [OF k(2), of H c r]
            preservesD [OF monitors.keeps_watchActiveReader, of "k\<lparr>k_monitors := []\<rparr>" 0 H c r]
          by (auto simp: runs_def split: outcome.splits)
        have "runs (monitorBody H (Watching r)) (\<lambda>next t. k_monitors t = [] \<and>
            (\<forall>r'. next = Some (Watching r') \<longrightarrow> calmC (t\<lparr>k_monitors := [Watching r']\<rparr>)))
            (\<lambda>e _. \<exists>msg. e = Panicked msg) (k\<lparr>k_monitors := []\<rparr>)"
          using m by (simp add: monitorBody_def wp split: option.split)
        then have "runs (monitorBody H (Watching r)) (\<lambda>next t.
            takeWatcher (k_monitors t @ (case next of None \<Rightarrow> [] | Some m \<Rightarrow> [m])) \<noteq> None \<longrightarrow>
            calmC (t\<lparr>k_monitors := k_monitors t @ (case next of None \<Rightarrow> [] | Some m \<Rightarrow> [m])\<rparr>))
            (\<lambda>e _. \<exists>msg. e = Panicked msg) (k\<lparr>k_monitors := []\<rparr>)"
          by (rule runs_mono) (auto split: option.split monitor.splits simp: takeWatcher_None)
        then show ?thesis
          unfolding monitorStep_def by (simp add: r dropNth_def wp)
      qed
      from leaves_runs [where P = "\<lambda>t. takeWatcher (k_monitors t) \<noteq> None \<longrightarrow> calmC t"] this assms(2) w True
      show ?thesis by (auto simp: leaves_def runs_def)
    next
      case False
      with r assms(2) have "t = k" by (simp add: leaves_def monitorStep_def cmd_defs)
      with k show ?thesis by simp
    qed
  qed
  with t show ?thesis by (simp add: exchanging_def)
qed

lemma others_exchanging: "others H k t \<Longrightarrow> exchanging k \<Longrightarrow> exchanging t"
proof (induction rule: rtranclp_induct)
  case (step t u)
  from step.hyps(2) show ?case
  proof cases
    case (other_request req)
    with step.IH step.prems have "same_card t u" by (intro held_request) (simp_all add: exchanging_def)
    with step.IH step.prems show ?thesis by (auto simp: same_card_def exchanging_def calm_defs)
  qed (use exchanging_monitorStep step.IH step.prems in blast)
qed

lemma begins_calm:
  assumes "nonblocking (onChan link_live) m" and "calm k" and "length (k_monitors k) \<le> 1" and "begins m k = Ret r j"
  shows "exchanging j"
proof -
  from assms(4) have w: "withCmdSet m (k\<lparr>k_mutex := True\<rparr>) = Ret r j" and c: "k_cmdSet k \<noteq> None"
    by (auto simp: begins_def lockM_def withCmdSet_def cmd_defs split: if_splits option.splits)
  have "calmL (k\<lparr>k_mutex := True\<rparr>)" using assms(2) by (simp add: calm_defs)
  from leadsD [OF leads_withCmdSet [OF assms(1)] this] w have "calmC j" by (simp add: runs_def)
  with begins_state [OF assms(4)] assms(3) show ?thesis by (auto simp: exchanging_def calm_defs)
qed

lemma nonblocking_loadSeed: "nonblocking (onChan link_live) (loadSeed (h_prims H) (kport H) seed)"
  by (intro card_ops)

lemma answered_exchanging:
  "card_answered H k req err j rest \<Longrightarrow> calm k \<Longrightarrow> length (k_monitors k) \<le> 1 \<Longrightarrow> exchanging j"
proof (induction rule: card_answered.induct)
  case (factory_reset_answered k' r j)
  then have k: "calm k'" "length (k_monitors k') \<le> 1"
    by (auto simp: resetStatus_def publishStatus_def calm_defs cmd_defs)
  show ?case by (rule begins_calm [OF _ k factory_reset_answered.hyps(3)]) (intro card_ops)
qed (erule begins_calm [rotated 3]; (intro card_ops | assumption))+

lemma leads_deferM: "leads I J m \<Longrightarrow> (\<And>r. leads J K (d r)) \<Longrightarrow> leads I K (deferM m d)"
  unfolding deferM_def by (intro leads_bindM leads_thenM leads_ret)

lemma leads_unlocking: "leads calmC calmL m \<Longrightarrow> leads calmC calm (unlocking m)"
  unfolding unlocking_def unlockM_def
  by (rule leads_deferM [where J = calmL], assumption, rule leads_modifyM) (simp add: calm_defs)

lemma leads_replying: "leads I J m \<Longrightarrow> leads I J (replying f m)"
  by (simp add: leads_def runs_replying)

lemma rest_returns:
  "card_answered H k req err j rest \<Longrightarrow> one_lock req \<Longrightarrow> leads calmC calm rest"
proof (induction rule: card_answered.induct)
  case (load_answered mnemonic password r j)
  have "leads calm calm (case r of Inl _ \<Rightarrow> ret () | Inr keyUID \<Rightarrow> noteKeys keyUID)" for r :: "go_error + bytes"
    using nonblocking_noteKeys by (auto simp: nonblocking_leads leads_def wp split: sum.split)
  then show ?case
    by (intro leads_replying leads_deferM [where J = calm] leads_unlocking leads_checkSum)
qed (simp_all, (intro leads_replying leads_unlocking leads_cases leads_reset_scan leads_checkSCardError
       leads_checkSum leads_metadata leads_rets)+)

section \<open>A status that is torn\<close>

text \<open>
  A factory reset publishes before it waits for the mutex.  If a PIN is being verified then, the
  verification goes on and publishes an open session without the card's application info.
\<close>

lemma torn_status:
  assumes "card_answered H k (ReqVerifyPIN pin) err j rest" and "leaves (perform H ReqFactoryReset) j t"
    and "rest t = Ret e u" and "session_open (State (k_status u))"
  shows "AppInfo (k_status u) = None \<and> \<not> status_ok (k_status u) \<and> k_status u \<in> set (k_signals u)"
proof -
  let ?R = "\<lambda>k :: 'a ctx. AppInfo (k_status k) = None"
  from answered_state [OF assms(1)] assms(2) have t: "?R t"
    by (auto simp: leaves_def FactoryReset_def guardErr_def keycardConnected_def resetStatus_def publishStatus_def
        Reset_def locked_def lockM_def cmd_defs)
  have setters: "preserves ?R (setState st)" "preserves ?R (setAppStatus a)" for st a
    by (simp_all add: preserves_def setState_def setAppStatus_def wp)
  have update: "preserves ?R (updateApplicationStatus H)"
    unfolding updateApplicationStatus_def
    by (intro onstatus.keeps_guardErr onstatus.keeps_locked preserves_bindM onstatus.keeps_withCmdSet
        preserves_case_sum preserves_thenM setters preserves_ret)
  have auth: "runs (onAuthorizeInteractions H b) (\<lambda>_ t. ?R t \<and> k_status t \<in> set (k_signals t)) (\<lambda>_ _. True) s"
    if "?R s" for b s
    unfolding onAuthorizeInteractions_def
    by (rule runs_bind [OF runs_mono [OF preservesD [OF update that]]])
       (auto simp: getState_def setState_def publishStatus_def wp)
  have "runs rest (\<lambda>_ t. ?R t \<and> k_status t \<in> set (k_signals t)) (\<lambda>_ _. True) t"
    using assms(1)
  proof cases
    case (verify_answered r)
    have "preserves ?R (unlocking (case r of
           Inr _ \<Rightarrow> ret (None, True)
         | Inl e \<Rightarrow>
             if isWrongPIN e then ret (None, False)
             else bindM (checkSCardError H (Some e)) (\<lambda>err. ret (err, False))))"
    proof -
      have "preserves ?R unlockM" by (simp add: preserves_def unlockM_def wp)
      then show ?thesis
        unfolding unlocking_def
        by (intro preserves_deferM preserves_case_sum preserves_if preserves_bindM preserves_ret onstatus.keeps_checkSCardError)
    qed
    from preservesD [OF this t] show ?thesis
      unfolding verify_answered runs_replying [where P = "\<lambda>t. ?R t \<and> k_status t \<in> set (k_signals t)"] runs_deferM
      by (rule runs_mono) (auto intro: auth)
  qed
  with assms(3,4) show ?thesis by (auto simp: runs_def status_ok_def)
qed

section \<open>The detection as the holder of the mutex\<close>

text \<open>A session that hangs stays so, and no request reaches the card.\<close>

lemma hung_for_ever:
  assumes "hung u" and "others H u v"
  shows "k_mutex v \<and> (leaves (perform H req) v w \<longrightarrow> k_link w = k_link v)"
  using others_hung [OF assms(2,1)] held_request [of v H req w] by (auto simp: hung_def same_card_def)

text \<open>A card that the detection has opened: the mutex is free again, and the channel for scans is new.\<close>

definition freshScan :: "'w ctx \<Rightarrow> bool" where
  "freshScan k \<longleftrightarrow> k_forceScanC k = Some ScanOpen \<and> k_monitors k = []"

interpretation fresh: client_frame freshScan
  by unfold_locales (auto simp: freshScan_def)

lemma locked_free: "runs (locked m) (\<lambda>_ t. \<not> k_mutex t) (\<lambda>_ _. True) k"
  by (auto simp: locked_def lockM_def unlockM_def wp runs_def deferM_def cmd_defs split: outcome.split)

lemma identifyCard_free: "runs (identifyCard H rd) (\<lambda>_ t. \<not> k_mutex t) (\<lambda>_ _. True) k"
proof -
  have p: "preserves (\<lambda>k. \<not> k_mutex k) (resetCardConnection H)" "preserves (\<lambda>k. \<not> k_mutex k) (simulateError H err s)"
    "preserves (\<lambda>k. \<not> k_mutex k) (setState st)" "preserves (\<lambda>k. \<not> k_mutex k) (setAppInfo ai)" for err s st ai
  proof -
    show r: "preserves (\<lambda>k. \<not> k_mutex k) (resetCardConnection H)"
      by (auto simp: preserves_def intro: runs_resetCardConnection)
    show "preserves (\<lambda>k. \<not> k_mutex k) (simulateError H err s)"
      unfolding simulateError_def by (intro keeps r)
    show "preserves (\<lambda>k. \<not> k_mutex k) (setState st)" "preserves (\<lambda>k. \<not> k_mutex k) (setAppInfo ai)"
      by (simp_all add: preserves_def setState_def setAppInfo_def wp)
  qed
  have rest: "preserves (\<lambda>k. \<not> k_mutex k) (bindM (simulateError H (errOf r) SimulatedSelectAppletError) (\<lambda>err.
        case err of
          Some e \<Rightarrow> thenM (resetCardConnection H) (thenM (setState ConnectionError)
            (ret (Inl (Wrapped ''failed to select applet'' e))))
        | None \<Rightarrow>
            (case r of
               Inl _ \<Rightarrow> panicM ''nil pointer dereference''
             | Inr None \<Rightarrow> panicM ''nil pointer dereference''
             | Inr (Some appInfo) \<Rightarrow> takeAppInfo H rd appInfo)))" for r
    unfolding takeAppInfo_def by (intro keeps p)
  show ?thesis
    unfolding identifyCard_def runs_thenM runs_modifyM selectApplet_def
    by (rule runs_bind [OF runs_mono [OF locked_free]]) (auto intro: runs_mono [OF preservesD [OF rest]])
qed

lemma connectCard_fresh:
  assumes "connectCard H c rs k = Ret (Inr (Some rd)) t" and "k_monitors k = []"
  shows "freshScan t \<and> \<not> k_mutex t"
proof -
  have o: "preserves freshScan (openCard H c r)" for r
    unfolding openCard_def identifyCard_def takeAppInfo_def
    by (intro fresh.keeps_setters fresh.keeps_kWorld fresh.keeps_resetCardConnection
      fresh.keeps_publishStatus fresh.keeps_simulateError fresh.keeps_selectApplet
      preserves_deferM preserves_thenM preserves_bindM preserves_case_option preserves_case_sum
      preserves_if preserves_ret preserves_panicM preserves_modifyM) (simp_all add: freshScan_def)
  have f: "runs (openCard H c r) (\<lambda>x t. (\<exists>y. x = Inr (Some y)) \<longrightarrow> \<not> k_mutex t) (\<lambda>_ _. True) s" for r s
    unfolding openCard_def
    by (auto simp: runs_bindM runs_thenM wp simulateError_def setState_def kWorld_def onWorld_def
        intro!: runs_mono [OF identifyCard_free] runs_resetCardConnection split: option.split)
  have card: "runs (openCard H c r) (\<lambda>x t. (\<exists>y. x = Inr (Some y)) \<longrightarrow> freshScan t \<and> \<not> k_mutex t) (\<lambda>_ _. True) s"
    if "freshScan s" for r s
    using f [of r s] preservesD [OF o that, of r] by (auto simp: runs_def split: outcome.splits)
  have "runs (chooseReader H c rs) (\<lambda>x t. (\<exists>y. x = Inr (Some y)) \<longrightarrow> freshScan t \<and> \<not> k_mutex t) (\<lambda>_ _. True) k"
    unfolding chooseReader_def
    by (auto simp: wp resetStatus_def intro!: runs_resetCardConnection card split: option.split)
       (simp add: freshScan_def assms(2))
  then have "runs (connectCard H c rs) (\<lambda>x t. (\<exists>y. x = Inr (Some y)) \<longrightarrow> freshScan t \<and> \<not> k_mutex t) (\<lambda>_ _. True) k"
    unfolding connectCard_def runs_deferM
    by (rule runs_mono) (auto simp: publishStatus_def wp freshScan_def)
  with assms(1) show ?thesis by (simp add: runs_def)
qed

lemma updateApplicationStatus_done:
  assumes "updateApplicationStatus H k = Ret None t"
  shows "State (k_status t) \<noteq> EmptyKeycard \<and> \<not> k_mutex t"
proof (cases "keycardInitialized k")
  case None
  have "runs (locked (bindM (withCmdSet (cs_GetStatusApplication (h_prims H) (kport H))) (\<lambda>r.
         case r of
           Inl e \<Rightarrow> thenM (setAppStatus None) (thenM (setState ConnectionError) (ret (Some e)))
         | Inr appStatus \<Rightarrow>
             thenM (setAppStatus (ToAppStatus (Some appStatus)))
               (thenM (setState (blockedState appStatus)) (ret None)))))
     (\<lambda>r t. r = None \<longrightarrow> State (k_status t) \<noteq> EmptyKeycard \<and> \<not> k_mutex t) (\<lambda>_ _. True) k"
    unfolding locked_cut
    by (rule runs_bind [OF runs_triv])
       (auto simp: wp unlocking_def unlockM_def setAppStatus_def setState_def blockedState_def Let_def split: sum.split)
  with assms None show ?thesis
    by (simp add: updateApplicationStatus_def guardErr_def bindM_def getM_def runs_def)
qed (use assms in \<open>simp add: updateApplicationStatus_def guardErr_def cmd_defs\<close>)

text \<open>The metadata of a new card is read by the goroutine that would watch the reader next.\<close>

lemma openPaired_hangs:
  assumes "k_simulatedError k3 = None" and "freshScan k2"
    and "withCmdSet (kc_OpenSecureChannel (h_prims H) (kport H) (info_Index pair) (info_Key pair)) k2 = Ret (Inr u) k3"
    and "updateApplicationStatus H k3 = Ret None k4" and "k_cmdSet k4 = Some cs"
    and "cs_GetData (h_prims H) (kport H) P1StoreDataPublic (cs, k_link k4) = Ret (Inl (SCardError code)) (cs', l)"
  shows "\<exists>t. openPaired H pair k2 = Fault (Blocked ''send nobody receives'') t \<and> hung t \<and> k_monitors t = []"
proof -
  have "freshScan k3" by (rule runs_RetD [OF preservesD [OF fresh.keeps_withCmdSet assms(2)] assms(3)])
  from runs_RetD [OF preservesD [OF fresh.keeps_updateApplicationStatus this] assms(4)] have o: "freshScan k4" .
  have "unwatched k4" using o by (simp add: freshScan_def unwatched_def)
  moreover have "State (k_status k4) \<noteq> EmptyKeycard" "\<not> k_mutex k4"
    using updateApplicationStatus_done [OF assms(4)] by simp_all
  ultimately obtain t where t: "GetMetadata H k4 = Fault (Blocked ''send nobody receives'') t" "k_mutex t"
    using GetMetadata_unwatched [OF assms(5) _ _ _ assms(6)] by blast
  have "freshScan t" using preservesD [OF fresh.keeps_GetMetadata [of H] o] t(1) by (simp add: runs_def)
  with t show ?thesis
    using assms(1,3,4)
    by (auto simp: openPaired_def updateMetadata_def simulateError_def errors_Is_def hung_def freshScan_def cmd_defs
        split: outcome.splits)
qed

lemma detection_metadata_error:
  assumes "k_monitors k = [Detecting]" and "k_cardCtx k = Some c"
    and "getCurrentReadersState H c (k\<lparr>k_monitors := []\<rparr>) = Ret (Inr readers) k1"
    and "connectCard H c readers k1 = Ret (Inr (Some rd)) k2"
    and "AppInfo (k_status k2) = Some i" and "v2_Initialized i"
    and "store_Get (Btox (v2_InstanceUID i)) (k_pairings k2) = Some pair"
    and "withCmdSet (kc_OpenSecureChannel (h_prims H) (kport H) (info_Index pair) (info_Key pair)) k2 = Ret (Inr u) k3"
    and "k_simulatedError k3 = None"
    and "updateApplicationStatus H k3 = Ret None k4" and "k_cmdSet k4 = Some cs"
    and "cs_GetData (h_prims H) (kport H) P1StoreDataPublic (cs, k_link k4) = Ret (Inl (SCardError code)) (cs', l)"
  shows "\<exists>t. monitorStep H 0 k = Fault (Blocked ''send nobody receives'') t \<and> hung t \<and> k_monitors t = []"
proof -
  have "length (k_monitors k1) = 0"
    using preservesD [OF monitors.keeps_getCurrentReadersState, of "k\<lparr>k_monitors := []\<rparr>" 0 H c] assms(3)
    by (auto simp: runs_def)
  then have "freshScan k2" using connectCard_fresh [OF assms(4)] by simp
  from openPaired_hangs [OF assms(9) this assms(8,10,11,12)] obtain t where
    t: "openPaired H pair k2 = Fault (Blocked ''send nobody receives'') t" "hung t" "k_monitors t = []" by blast
  have "connectKeycard H k2 = Fault (Blocked ''send nobody receives'') t"
    using assms(5-7) t(1) by (simp add: connectKeycard_def deferM_def cmd_defs)
  with assms(1-4) t show ?thesis
    by (simp add: monitorStep_def monitorBody_def detectionRoutine_def dropNth_def cmd_defs)
qed

text \<open>A factory reset of a card whose reader nobody watches, as one step and cut.\<close>

interpretation blind: client_frame "\<lambda>k. takeWatcher (k_monitors k) = None"
  by unfold_locales simp_all

lemma FactoryReset_unwatched_hangs:
  assumes "k_cmdSet k \<noteq> None" and "\<not> k_mutex k" and "unwatched k" and "l_running (k_link k)"
  shows "runs (FactoryReset H) (\<lambda>_ _. False) (\<lambda>e t. (\<exists>msg. e = Panicked msg) \<or> hung t) k"
proof -
  have "takeWatcher (k_monitors k) = None" using assms(3) by (simp add: unwatched_def)
  from preservesD [OF blind.keeps_commands(5) this, of H] FactoryReset_unwatched [OF assms, of H]
  show ?thesis by (auto simp: runs_def stuck_locked_def hung_def split: outcome.splits)
qed

lemma answered_unwatched_hangs:
  assumes "unwatched k" and "card_answered H k ReqFactoryReset err j rest" and "others H j t"
  shows "hangs rest t"
proof (rule rest_hangs [OF assms(2)])
  have j: "hung j" "k_forceScanC j \<noteq> Some ScanClosed"
    using answered_state [OF assms(2)] assms(1) by (simp_all add: unwatched_def hung_def)
  show "hung t" by (rule others_hung [OF assms(3) j(1)])
  have "preserves (\<lambda>k. k_forceScanC k \<noteq> Some ScanClosed) (perform H req)" for req
    by (cases req) (simp_all add: openScan.keeps_commands openScan.keeps_VerifyPIN keeps)
  from others_keep [OF assms(3) j(2) this open_monitorStep] show "k_forceScanC t \<noteq> Some ScanClosed" .
qed simp

end
