(* ===== verification/RaceInstances.thy ===== *)
theory RaceInstances
  imports SessionRaces Instances
begin

text \<open>
  Concrete sessions whose card is pulled at a bad moment, and two clients at once.
\<close>

section \<open>A card that is pulled while its metadata are read\<close>

definition pulledHost :: "world host" where
  "pulledHost = demoHost\<lparr>h_CardTransmit := (\<lambda>c b w.
     case ParseCommand b of
       Inr cmd \<Rightarrow> if Ins cmd = InsGetData then (Inl (SCardError 0x80100069), w) else h_CardTransmit demoHost c b w
     | Inl _ \<Rightarrow> h_CardTransmit demoHost c b w)\<rparr>"

definition pairedStore :: store where
  "pairedStore = \<lparr>st_path = ''pairings.json'',
     st_values = Some [''07'' \<mapsto> Some \<lparr>info_Key = replicate 32 64, info_Index = 0\<rparr>]\<rparr>"

definition detectCtx :: "world ctx" where
  "detectCtx = (contextWith pairedStore (demoWorld (Some demoCard)))
     \<lparr>k_cardCtx := Some 0, k_shutdown := True,
      k_link := \<lparr>l_card = None, l_running = True, l_queue = 0, l_world = demoWorld (Some demoCard)\<rparr>\<rparr>"

definition pulledAt :: "world ctx \<Rightarrow> bool" where
  "pulledAt k4 \<longleftrightarrow> (case k_cmdSet k4 of
      None \<Rightarrow> False
    | Some cs \<Rightarrow> (case cs_GetData (h_prims pulledHost) (kport pulledHost) P1StoreDataPublic (cs, k_link k4) of
        Ret r _ \<Rightarrow> IsSCardError (errOf r)
      | Fault _ _ \<Rightarrow> False))"

definition pairedWith :: "world ctx \<Rightarrow> info option" where
  "pairedWith k2 = (case AppInfo (k_status k2) of
      None \<Rightarrow> None
    | Some i \<Rightarrow> if v2_Initialized i then store_Get (Btox (v2_InstanceUID i)) (k_pairings k2) else None)"

definition openedAt :: "world ctx \<Rightarrow> info \<Rightarrow> bool" where
  "openedAt k2 pair \<longleftrightarrow>
     (case withCmdSet (kc_OpenSecureChannel (h_prims pulledHost) (kport pulledHost) (info_Index pair) (info_Key pair)) k2 of
        Ret (Inr _) k3 \<Rightarrow> k_simulatedError k3 = None \<and>
          (case updateApplicationStatus pulledHost k3 of Ret None k4 \<Rightarrow> pulledAt k4 | _ \<Rightarrow> False)
      | _ \<Rightarrow> False)"

definition connectedAt :: "readersStates \<Rightarrow> world ctx \<Rightarrow> bool" where
  "connectedAt readers k1 \<longleftrightarrow>
     (case connectCard pulledHost 0 readers k1 of
        Ret (Inr (Some rd)) k2 \<Rightarrow> (case pairedWith k2 of None \<Rightarrow> False | Some pair \<Rightarrow> openedAt k2 pair)
      | _ \<Rightarrow> False)"

definition pulledRun :: bool where
  "pulledRun \<longleftrightarrow>
     (case getCurrentReadersState pulledHost 0 detectCtx of
        Ret (Inr readers) k1 \<Rightarrow> connectedAt readers k1
      | _ \<Rightarrow> False)"

lemma pulledRun: "pulledRun"
  by code_simp

lemma pulled_run:
  obtains readers k1 rd k2 i pair k3 k4 cs code cs' l where
    "getCurrentReadersState pulledHost 0 detectCtx = Ret (Inr readers) k1"
    and "connectCard pulledHost 0 readers k1 = Ret (Inr (Some rd)) k2"
    and "AppInfo (k_status k2) = Some i" and "v2_Initialized i"
    and "store_Get (Btox (v2_InstanceUID i)) (k_pairings k2) = Some pair"
    and "withCmdSet (kc_OpenSecureChannel (h_prims pulledHost) (kport pulledHost) (info_Index pair) (info_Key pair)) k2 =
      Ret (Inr ()) k3"
    and "k_simulatedError k3 = None"
    and "updateApplicationStatus pulledHost k3 = Ret None k4" and "k_cmdSet k4 = Some cs"
    and "cs_GetData (h_prims pulledHost) (kport pulledHost) P1StoreDataPublic (cs, k_link k4) =
      Ret (Inl (SCardError code)) (cs', l)"
proof -
  obtain readers k1 where r: "getCurrentReadersState pulledHost 0 detectCtx = Ret (Inr readers) k1" "connectedAt readers k1"
    using pulledRun by (auto simp: pulledRun_def split: outcome.splits sum.splits)
  then obtain rd k2 pair where
    1: "connectCard pulledHost 0 readers k1 = Ret (Inr (Some rd)) k2"
      "pairedWith k2 = Some pair" "openedAt k2 pair"
    by (auto simp: connectedAt_def split: outcome.splits sum.splits option.splits)
  obtain i where i: "AppInfo (k_status k2) = Some i" "v2_Initialized i"
      "store_Get (Btox (v2_InstanceUID i)) (k_pairings k2) = Some pair"
    using 1(2) by (auto simp: pairedWith_def split: option.splits if_splits)
  obtain k3 k4 where 2: "withCmdSet (kc_OpenSecureChannel (h_prims pulledHost) (kport pulledHost)
      (info_Index pair) (info_Key pair)) k2 = Ret (Inr ()) k3" "k_simulatedError k3 = None"
      "updateApplicationStatus pulledHost k3 = Ret None k4" "pulledAt k4"
    using 1(3) by (auto simp: openedAt_def split: outcome.splits sum.splits option.splits)
  obtain cs where cs: "k_cmdSet k4 = Some cs"
    using 2(4) by (auto simp: pulledAt_def split: option.splits)
  with 2(4) obtain x y where "cs_GetData (h_prims pulledHost) (kport pulledHost) P1StoreDataPublic (cs, k_link k4) = Ret x y"
      "IsSCardError (errOf x)"
    by (cases "cs_GetData (h_prims pulledHost) (kport pulledHost) P1StoreDataPublic (cs, k_link k4)")
       (auto simp: pulledAt_def)
  then obtain code cs' l where
      "cs_GetData (h_prims pulledHost) (kport pulledHost) P1StoreDataPublic (cs, k_link k4) =
        Ret (Inl (SCardError code)) (cs', l)"
    by (cases x; cases y) (auto simp: IsSCardError_iff)
  with r(1) 1(1) i 2(1-3) cs show thesis by (intro that)
qed

section \<open>A reader that is unplugged\<close>

text \<open>PC/SC reports the last reader unplugged as \<open>ErrNoReadersAvailable\<close>.\<close>

definition unpluggedHost :: "world host" where
  "unpluggedHost = demoHost\<lparr>h_ListReaders := (\<lambda>_ w. (([], Some (SCardError 0x8010002E)), w))\<rparr>"

section \<open>A card that is pulled during a command\<close>

definition watchedCtx :: "world ctx" where
  "watchedCtx = demoCtx Ready [Watching pnpReader]"

lemma watched_calm: "calm watchedCtx" "length (k_monitors watchedCtx) \<le> 1"
  by (simp_all add: watchedCtx_def calm_defs link_live_def)

lemma pulled_command:
  "(case begins (cs_GetData (h_prims demoHost) (kport demoHost) P1StoreDataPublic) watchedCtx of
      Ret (Inl (SCardError _)) j \<Rightarrow>
        (case monitorStep demoHost 0 j of Ret _ t \<Rightarrow> takeWatcher (k_monitors t) = None | _ \<Rightarrow> False)
    | _ \<Rightarrow> False)"
  by code_simp

lemma pulled_answered:
  obtains err j rest t where "card_answered demoHost watchedCtx ReqGetMetadata err j rest" and "IsSCardError err"
    and "others demoHost j t" and "takeWatcher (k_monitors t) = None"
proof -
  obtain code j t where b: "begins (cs_GetData (h_prims demoHost) (kport demoHost) P1StoreDataPublic) watchedCtx =
      Ret (Inl (SCardError code)) j" and t: "monitorStep demoHost 0 j = Ret () t" "takeWatcher (k_monitors t) = None"
    using pulled_command by (auto split: outcome.splits sum.splits go_error.splits)
  have "keycardInitialized watchedCtx = None"
    by (simp add: watchedCtx_def keycardInitialized_None)
  from metadata_answered [OF this b] show thesis
    by (rule that) (use t in \<open>auto intro!: other_monitor [of _ 0] simp: leaves_def\<close>)
qed

section \<open>A PIN and a factory reset at once\<close>

definition tornCheck :: "world ctx \<Rightarrow> bool" where
  "tornCheck k1 \<longleftrightarrow>
     (case begins (cs_VerifyPIN (h_prims demoHost) (kport demoHost) ''123456'') k1 of
        Ret (Inr _) j \<Rightarrow>
          (case perform demoHost ReqFactoryReset j of
             Fault (Blocked _) t \<Rightarrow>
               (case replying fst (deferM (unlocking (ret (None, True)))
                   (\<lambda>(err, authorized). onAuthorizeInteractions demoHost authorized)) t of
                  Ret e u \<Rightarrow> State (k_status u) = Authorized
                | _ \<Rightarrow> False)
           | _ \<Rightarrow> False)
      | _ \<Rightarrow> False)"

lemma tornRun: "demoRun (\<lambda>k0 k1 k2. keycardReady k1 = None \<and> tornCheck k1)"
  by code_simp

text \<open>So it happens: the session is published as \<open>Authorized\<close> without an application info.\<close>

lemma torn_status_happens:
  "\<exists>k err j rest t e u. card_answered demoHost k (ReqVerifyPIN ''123456'') err j rest \<and>
     leaves (perform demoHost ReqFactoryReset) j t \<and> rest t = Ret e u \<and> State (k_status u) = Authorized \<and>
     AppInfo (k_status u) = None \<and> k_status u \<in> set (k_signals u)"
proof -
  obtain k1 where k1: "keycardReady k1 = None" "tornCheck k1"
    using tornRun by (auto simp: demoRun_def split: outcome.splits)
  then obtain j why t e u where b: "begins (cs_VerifyPIN (h_prims demoHost) (kport demoHost) ''123456'') k1 = Ret (Inr ()) j"
    and l: "perform demoHost ReqFactoryReset j = Fault (Blocked why) t"
    and u: "replying fst (deferM (unlocking (ret (None, True)))
                   (\<lambda>(err, authorized). onAuthorizeInteractions demoHost authorized)) t = Ret e u"
      "State (k_status u) = Authorized"
    by (auto simp: tornCheck_def split: outcome.splits sum.splits fault.splits)
  from l have l: "leaves (perform demoHost ReqFactoryReset) j t" by (auto simp: leaves_def)
  note a = verify_answered [OF k1(1) b, simplified]
  from torn_status [OF a l u(1)] u(2) have "AppInfo (k_status u) = None \<and> k_status u \<in> set (k_signals u)"
    by (simp add: session_open_def)
  with a l u show ?thesis by blast
qed

end
