(* ===== verification/FlowAuth.thy ===== *)
theory FlowAuth
  imports FlowFacts
begin

text \<open>
  What a flow has to have before it reports success: the card the client asked for, and a
  PIN or PUK that the card has accepted.
\<close>

section \<open>The log grows\<close>

definition log_from :: "logEntry list \<Rightarrow> 'w flow \<Rightarrow> bool" where
  "log_from l f \<longleftrightarrow> (\<exists>es. f_log f = l @ es)"

lemma client_log_from: "preserves (log_from l) (client c)"
proof (rule preservesI)
  fix f :: "'a flow" assume "log_from l f"
  then show "runs (client c) (\<lambda>_. log_from l) (\<lambda>_. log_from l) f"
    by (cases c)
       (auto simp: client_def flow_Start_def flow_Resume_def flow_Cancel_def emit_def setRunState_def
         log_from_def wp intro!: runs_mergeParams)
qed

interpretation log_grows: param_frame "log_from l" for l
  by unfold_locales (auto simp: log_from_def intro: client_log_from)

section \<open>The PIN\<close>

text \<open>The card has accepted a PIN, or a PUK with a new PIN.\<close>

definition accepted :: "logEntry list \<Rightarrow> bool" where
  "accepted es \<longleftrightarrow> (\<exists>pin. Tried (TryPIN pin) None \<in> set es) \<or> (\<exists>puk pin. Tried (TryPUK puk pin) None \<in> set es)"

lemma accepted_append [simp]: "accepted (es @ es') \<longleftrightarrow> accepted es \<or> accepted es'"
  by (auto simp: accepted_def)

text \<open>Started in \<open>f\<close>, the command succeeds only if the card has accepted the PIN or PUK on the way.\<close>

definition auths :: "('a \<Rightarrow> bool) \<Rightarrow> ('a, 'w) fcmd \<Rightarrow> 'w flow \<Rightarrow> bool" where
  "auths ok m f \<longleftrightarrow>
     runs m (\<lambda>r u. \<exists>es. f_log u = f_log f @ es \<and> (ok r \<longrightarrow> accepted es)) (\<lambda>_ _. True) f"

named_theorems auth "rules on what succeeds only with the PIN"

abbreviation noErr :: "error \<Rightarrow> bool" where "noErr err \<equiv> err = None"
abbreviation isInr :: "'e + 'a \<Rightarrow> bool" where "isInr r \<equiv> \<exists>x. r = Inr x"

lemma runs_log_from:
  assumes "\<And>l. preserves (log_from l) m"
  shows "runs m (\<lambda>_ u. \<exists>es. f_log u = f_log f @ es) (\<lambda>_ _. True) f"
  using preservesD [OF assms, of "f_log f" f] by (auto simp: log_from_def elim: runs_mono)

lemma auths_grows:
  assumes "\<And>l. preserves (log_from l) m" and "\<And>r. \<not> ok r"
  shows "auths ok m f"
  unfolding auths_def by (rule runs_mono [OF runs_log_from [OF assms(1)]]) (simp_all add: assms(2))

text \<open>
  A command after another one: where the first has been accepted, the second only has to go
  on with the log; \<open>P\<close> is what the first keeps.
\<close>

lemma auths_seq:
  fixes f :: "'w flow"
  assumes "auths ok' m f" and "preserves P m" and "P f"
    and "\<And>x l. ok' x \<Longrightarrow> preserves (log_from l) (g x)"
    and "\<And>x t. \<not> ok' x \<Longrightarrow> P t \<Longrightarrow> auths ok (g x) t"
  shows "auths ok (bindM m g) f"
  unfolding auths_def
proof (rule runs_bind [OF runs_conj [OF assms(1) [unfolded auths_def] runs_keeps [OF assms(2,3)]]])
  fix x and t :: "'w flow"
  assume "(\<exists>es. f_log t = f_log f @ es \<and> (ok' x \<longrightarrow> accepted es)) \<and> P t"
  then obtain es where es: "f_log t = f_log f @ es" "ok' x \<longrightarrow> accepted es" and t: "P t" by blast
  show "runs (g x) (\<lambda>r u. \<exists>es. f_log u = f_log f @ es \<and> (ok r \<longrightarrow> accepted es)) (\<lambda>_ _. True) t"
  proof (cases "ok' x")
    case True
    show ?thesis by (rule runs_mono [OF runs_log_from [OF assms(4) [OF True]]]) (use es True in auto)
  next
    case False
    from assms(5) [OF False t] show ?thesis unfolding auths_def by (rule runs_mono) (auto simp: es)
  qed
qed

lemma preserves_True: "preserves (\<lambda>_. True) m"
  by (simp add: preserves_def runs_triv)

lemma auths_after:
  assumes "auths ok' m f" and "\<And>x l. ok' x \<Longrightarrow> preserves (log_from l) (g x)"
    and "\<And>x t. \<not> ok' x \<Longrightarrow> auths ok (g x) t"
  shows "auths ok (bindM m g) f"
  by (rule auths_seq [OF assms(1) preserves_True]) (simp_all add: assms)

lemma auths_keeping:
  assumes "\<And>l. preserves (log_from l) m" and "preserves P m" and "P f" and "\<And>x t. P t \<Longrightarrow> auths ok (g x) t"
  shows "auths ok (bindM m g) f"
  by (rule auths_seq [OF auths_grows [OF assms(1)] assms(2,3)]) (simp_all add: assms(4))

lemma auths_bindM [auth]:
  assumes "\<And>l. preserves (log_from l) m" and "\<And>x t. auths ok (g x) t"
  shows "auths ok (bindM m g) f"
  by (rule auths_keeping [where P = "\<lambda>_. True", OF assms(1) preserves_True TrueI assms(2)])

lemma auths_thenM [auth]:
  "(\<And>l. preserves (log_from l) m) \<Longrightarrow> (\<And>t. auths ok k t) \<Longrightarrow> auths ok (thenM m k) f"
  unfolding thenM_def by (rule auths_bindM)

lemma auths_fails [auth]:
  "\<not> ok x \<Longrightarrow> auths ok (ret x) f" "auths ok outOfFuel f" "auths ok repairing f" "auths ok (panicM msg) f"
  by (simp_all add: auths_def wp outOfFuel_def repairing_def)

text \<open>An attempt that succeeds is noted in the log.\<close>

lemma auths_attempt:
  fixes f :: "'w flow" and g :: "go_error + 'b \<Rightarrow> ('a, 'w) fcmd"
  assumes "accepted [Tried a None]"
    and "\<And>e t. auths ok (g (Inl e)) t" and "\<And>l x. preserves (log_from l) (g (Inr x))"
  shows "auths ok (bindM (tryCard H a m) g) f"
proof -
  have "runs (tryCard H a m) (\<lambda>r u. (\<exists>es. f_log u = f_log f @ es) \<and>
      ((\<exists>x. r = Inr x) \<longrightarrow> (\<exists>es. f_log u = f_log f @ es \<and> accepted es))) (\<lambda>_ _. True) f"
    unfolding tryCard_def
  proof (rule runs_bind [OF runs_log_from])
    fix r and t :: "'w flow" assume "\<exists>es. f_log t = f_log f @ es"
    then obtain es where es: "f_log t = f_log f @ es" by blast
    show "runs (thenM (emit (Tried a (errOf r))) (ret r)) (\<lambda>r u. (\<exists>es. f_log u = f_log f @ es) \<and>
      ((\<exists>x. r = Inr x) \<longrightarrow> (\<exists>es. f_log u = f_log f @ es \<and> accepted es))) (\<lambda>_ _. True) t"
      using assms(1) by (cases r) (auto simp: emit_def wp es)
  qed (rule log_grows.keeps_onCard)
  then show ?thesis
    unfolding auths_def
  proof (rule runs_bind)
    fix r :: "go_error + 'b" and t :: "'w flow"
    assume *: "(\<exists>es. f_log t = f_log f @ es) \<and>
      ((\<exists>x. r = Inr x) \<longrightarrow> (\<exists>es. f_log t = f_log f @ es \<and> accepted es))"
    show "runs (g r) (\<lambda>r u. \<exists>es. f_log u = f_log f @ es \<and> (ok r \<longrightarrow> accepted es)) (\<lambda>_ _. True) t"
    proof (cases r)
      case (Inl e)
      from * obtain es where es: "f_log t = f_log f @ es" by blast
      have "runs (g (Inl e)) (\<lambda>r u. \<exists>es. f_log u = f_log t @ es \<and> (ok r \<longrightarrow> accepted es)) (\<lambda>_ _. True) t"
        using assms(2) by (simp add: auths_def)
      then show ?thesis unfolding Inl by (rule runs_mono) (auto simp: es)
    next
      case (Inr x)
      with * obtain es where es: "f_log t = f_log f @ es" "accepted es" by blast
      show ?thesis
        unfolding Inr by (rule runs_mono [OF runs_log_from [OF assms(3)]]) (auto simp: es)
    qed
  qed
qed

lemma accepted_attempts: "accepted [Tried (TryPIN pin) None]" "accepted [Tried (TryPUK puk pin) None]"
  by (simp_all add: accepted_def)

lemmas auths_attempts = auths_attempt [OF accepted_attempts(1)] auths_attempt [OF accepted_attempts(2)]

lemma auths_if [auth]:
  "(b \<Longrightarrow> auths ok m f) \<Longrightarrow> (\<not> b \<Longrightarrow> auths ok k f) \<Longrightarrow> auths ok (if b then m else k) f"
  by simp

lemma auths_case_sum [auth]:
  "(\<And>e. x = Inl e \<Longrightarrow> auths ok (g e) f) \<Longrightarrow> (\<And>y. x = Inr y \<Longrightarrow> auths ok (h y) f) \<Longrightarrow>
    auths ok (case x of Inl e \<Rightarrow> g e | Inr y \<Rightarrow> h y) f"
  by (simp split: sum.split)

lemma auths_case_option [auth]:
  "(x = None \<Longrightarrow> auths ok m f) \<Longrightarrow> (\<And>y. x = Some y \<Longrightarrow> auths ok (g y) f) \<Longrightarrow>
    auths ok (case x of None \<Rightarrow> m | Some y \<Rightarrow> g y) f"
  by (simp split: option.split)

lemma auths_case_prod [auth]:
  "(\<And>a b. p = (a, b) \<Longrightarrow> auths ok (g a b) f) \<Longrightarrow> auths ok (case p of (a, b) \<Rightarrow> g a b) f"
  by (simp split: prod.split)

lemma auths_case_bool [auth]:
  "auths ok m f \<Longrightarrow> auths ok k f \<Longrightarrow> auths ok (case b of True \<Rightarrow> m | False \<Rightarrow> k) f"
  by (simp split: bool.split)

lemma auths_andThen [auth]:
  "(\<And>l. preserves (log_from l) m) \<Longrightarrow> (\<And>t. auths noErr k t) \<Longrightarrow> auths noErr (andThen m k) f"
  unfolding andThen_def by (rule auths_bindM) (simp_all add: auth split: option.split)

lemma auths_pauseAndRestart [auth]: "a \<noteq> FlowResult \<Longrightarrow> auths noErr (pauseAndRestart a msg) f"
  unfolding pauseAndRestart_def pauseAndWait_def andThen_def
  by (intro auth keeps; simp)

lemma auths_unblockPIN [auth]: "auths noErr (unblockPIN n H) f"
proof (induction n arbitrary: f)
  case (Suc n)
  show ?case
    unfolding unblockPIN.simps Let_def
    by (intro auths_attempts auth keeps Suc.IH; simp)
qed (simp add: auth)

lemma auths_authenticate [auth]: "auths noErr (authenticate n H) f"
proof (induction n arbitrary: f)
  case (Suc n)
  show ?case
    unfolding authenticate.simps verifyGiven_def Let_def
    by (intro auths_attempts auth keeps Suc.IH; simp)
qed (simp add: auth)

lemma auths_openSCAndAuthenticate: "auths noErr (openSCAndAuthenticate H m n giveup) f"
  unfolding openSCAndAuthenticate_def by (intro auth keeps)

section \<open>The flows\<close>

text \<open>Success after \<open>openSCAndAuthenticate\<close> needs an acceptance, whatever comes then.\<close>

lemma auths_needed [auth]:
  "(\<And>l. preserves (log_from l) k) \<Longrightarrow> auths isInr (andThenE (openSCAndAuthenticate H m n giveup) k) f"
  unfolding andThenE_def
  by (rule auths_after [OF auths_openSCAndAuthenticate]) (auto simp: auth)

lemma auths_afterE:
  "(\<And>l. preserves (log_from l) m) \<Longrightarrow> (\<And>t. auths isInr k t) \<Longrightarrow> auths isInr (andThenE m k) f"
  unfolding andThenE_def by (rule auths_bindM) (simp_all add: auth split: option.split)

definition needs_pin :: "flowType \<Rightarrow> bool" where
  "needs_pin t \<longleftrightarrow> t \<notin> {FlowGetAppInfo, FlowGetMetadata} \<and> (\<forall>i. t \<noteq> FlowUnknown i)"

lemma auths_flowOf:
  assumes "needs_pin t"
  shows "auths isInr (flowOf H m n t) f"
  using assms
  by (cases t)
     (simp_all add: needs_pin_def exportKeysFlow_def exportPublicFlow_def loadKeysFlow_def signFlow_def
       changePINFlow_def changePUKFlow_def changePairingFlow_def unpairThisFlow_def unpairOthersFlow_def
       deleteUnpairFlow_def storeMetadataFlow_def Let_def, (intro auths_needed auths_afterE keeps)+)

text \<open>The application info says \<open>paired\<close> only then, too.\<close>

lemma auths_getAppInfo:
  "auths (\<lambda>r. \<exists>res. r = Inr res \<and> res keyPaired = Some (VBool True)) (getAppInfoFlow H m n) f"
proof -
  have "auths (\<lambda>r. \<exists>res. r = Inr res \<and> res keyPaired = Some (VBool True))
      (bindM (openSCAndAuthenticate H m n True) (\<lambda>err.
       if err = None then
         bindM (getM f_cardInfo) (\<lambda>c. ret (Inr (res(keyPaired \<mapsto> VBool True, keyPINRetries \<mapsto> VInt (c_pinRetries c),
             keyPUKRetries \<mapsto> VInt (c_pukRetries c)))))
       else if err = Some GiveupError then ret (Inr (res(keyPaired \<mapsto> VBool False)))
       else ret (Inl (the err)))) t" for t and res :: params
    by (rule auths_after [OF auths_openSCAndAuthenticate]) (auto intro!: keeps auth)
  then show ?thesis
    unfolding getAppInfoFlow_def Let_def by (rule auths_bindM [OF log_grows.keeps_onCard])
qed

section \<open>The run\<close>

text \<open>The type of the flow stays while it runs: a start is refused.\<close>

definition on_type :: "flowType \<Rightarrow> 'w flow \<Rightarrow> bool" where
  "on_type t f \<longleftrightarrow> f_flowType f = t \<and> f_state f \<noteq> Idle"

lemma client_on_type: "preserves (on_type t) (client c)"
proof (rule preservesI)
  fix f :: "'a flow" assume "on_type t f"
  then show "runs (client c) (\<lambda>_. on_type t) (\<lambda>_. on_type t) f"
    by (cases c)
       (auto simp: client_def flow_Start_def flow_Resume_def flow_Cancel_def emit_def setRunState_def
         on_type_def wp intro!: runs_mergeParams)
qed

interpretation typed: param_frame "on_type t" for t
  by unfold_locales (auto simp: on_type_def intro: client_on_type)

lemma auths_useKeycard:
  assumes "needs_pin t" and "on_type t f"
  shows "auths isInr (useKeycard H m n) f"
proof -
  have flow: "auths isInr (bindM (getM f_flowType) (flowOf H m n)) u" if "on_type t u" for u
    using that auths_flowOf [OF assms(1), of H m n u] by (simp add: auths_def wp on_type_def)
  have choose: "auths isInr (andThenE (selectKeycard H) (bindM (getM f_flowType) (flowOf H m n))) u"
    if "on_type t u" for u
    unfolding andThenE_def
    by (rule auths_keeping [where P = "on_type t"]) (auto intro!: keeps auth flow that split: option.split)
  show ?thesis
    unfolding useKeycard_def
  proof (rule auths_keeping [where P = "on_type t"])
    fix reset and u :: "'a flow" assume "on_type t u"
    then show "auths isInr (andThenE (if reset then flow_factoryReset H else ret None)
        (andThenE (selectKeycard H) (bindM (getM f_flowType) (flowOf H m n)))) u"
      unfolding andThenE_def [of "if reset then _ else _"]
      by (intro auths_keeping [where P = "on_type t"]) (auto intro!: keeps auth choose split: option.split)
  qed (intro keeps assms)+
qed

lemma auths_connectedFlow:
  assumes "needs_pin t" and "on_type t f"
  shows "auths isInr (connectedFlow H m n) f"
proof -
  have use: "auths isInr (deferM (useKeycard H m n) d) u"
    if "on_type t u" and "\<And>r l. preserves (log_from l) (d r)" for d u
    unfolding deferM_def thenM_def
    by (rule auths_after [OF auths_useKeycard [OF assms(1) that(1)]]) (auto intro!: keeps auth that(2))
  have "auths isInr (thenM (setContext (Some kc)) (deferM (useKeycard H m n)
      (\<lambda>_. thenM (closeKeycard H (Some kc)) (setContext None)))) u" if "on_type t u" for kc u
    unfolding thenM_def [of "setContext (Some kc)"]
    by (rule auths_keeping [where P = "on_type t"]) (intro keeps use that; assumption)+
  then show ?thesis
    unfolding connectedFlow_def bindE_def
    by (intro auths_keeping [where P = "on_type t"]) (auto intro!: keeps auths_fails assms split: sum.split)
qed

text \<open>The result of a flow that has failed has the key of the errors.\<close>

abbreviation no_error :: "params \<Rightarrow> bool" where "no_error status \<equiv> status ErrorKey = None"

lemma errorResult_error: "\<not> no_error (errorResult c e)"
  by (simp add: errorResult_def Let_def flow_keys)

lemma auths_runAgain:
  "needs_pin t \<Longrightarrow> on_type t f \<Longrightarrow> auths no_error (runAgain r H m n) f"
proof (induction r arbitrary: f)
  case (Suc r)
  show ?case
    unfolding runAgain.simps thenM_def
  proof (rule auths_keeping [where P = "on_type t"])
    fix x :: unit and u :: "'a flow" assume u: "on_type t u"
    show "auths no_error (bindM (connectedFlow H m n) (\<lambda>result. case result of
         Inr status \<Rightarrow> ret status
       | Inl e \<Rightarrow> if e = RestartError then runAgain r H m n
           else bindM (getM f_cardInfo) (\<lambda>c. ret (errorResult c e)))) u"
      by (rule auths_seq [OF auths_connectedFlow [OF Suc.prems(1) u] typed.keeps_connectedFlow u])
         (auto intro!: keeps auth Suc.IH Suc.prems(1) errorResult_error split: sum.split)
  qed (intro keeps Suc.prems)+
qed (simp add: auth)

lemma no_result_replies: "only_replies es \<Longrightarrow> no_result es"
  by (simp add: only_replies_def no_result_def)

lemma runFlow_accepted:
  assumes "f_state f = Running" and "needs_pin (f_flowType f)"
  shows "runs (runFlow H m n) (\<lambda>_ t. \<exists>es. f_log t = f_log f @ es \<and>
    (\<forall>status. Signal FlowResult status \<in> set es \<and> no_error status \<longrightarrow> accepted es)) (\<lambda>_ _. True) f"
proof (rule runs_runFlow)
  let ?l = "f_log f" and ?n = "f_goroutines f" and ?t = "f_flowType f"
  let ?A = "\<lambda>r t. flow_on ?n ?l t \<and> (\<exists>es. log_from (?l @ es) t \<and> (no_error r \<longrightarrow> accepted es))"
  let ?B = "\<lambda>r t. \<exists>es. no_result es \<and> (no_error r \<longrightarrow> accepted es) \<and>
      flow_ending ?n (?l @ es @ [Signal FlowResult r]) t"
  let ?Q = "\<lambda>t. \<exists>es. f_log t = ?l @ es \<and>
      (\<forall>status. Signal FlowResult status \<in> set es \<and> no_error status \<longrightarrow> accepted es)"
  have f: "flow_on ?n ?l f" "on_type ?t f" using assms by (simp_all add: flow_on_def on_type_def)
  show "runs (runAgain n H m n) ?A (\<lambda>_ _. True) f"
    by (rule runs_mono [OF runs_conj [OF runs_keeps [OF on_run.keeps_runAgain f(1)]
          auths_runAgain [OF assms(2) f(2), unfolded auths_def]]])
       (simp, metis log_from_def append_Nil2)
  fix r and t :: "'a flow"
  show "?A r t \<Longrightarrow> runs poll (\<lambda>_. ?A r) (\<lambda>_ _. True) t"
    by (elim exE conjE)
       (rule runs_mono [OF runs_conj [OF runs_keeps [OF on_run.keeps_poll] runs_keeps [OF log_grows.keeps_poll]]];
        auto)
  show "?A r t \<Longrightarrow> f_state t = Cancelling \<Longrightarrow> ?Q (ended t)"
    by (auto simp: flow_on_def no_result_def)
  show "?B r (t\<lparr>f_log := f_log t @ [Signal FlowResult r]\<rparr>)" if "?A r t"
  proof -
    from that obtain es where "f_log t = ?l @ es" "no_result es" "no_error r \<longrightarrow> accepted es"
      "f_state t \<noteq> Idle" "f_goroutines t = ?n"
      by (auto simp: flow_on_def log_from_def)
    then show ?thesis by (intro exI [of _ es]) (simp add: flow_ending_def)
  qed
  show "?B r t \<Longrightarrow> runs poll (\<lambda>_. ?B r) (\<lambda>_ _. True) t"
    by (elim exE conjE) (rule runs_mono [OF runs_keeps [OF ending.keeps_poll]]; auto)
  show "?B r t \<Longrightarrow> ?Q (ended t)"
    by (fastforce simp: flow_ending_def no_result_def only_replies_def)
qed

end
