(* ===== verification/FlowAttempts.thy ===== *)
theory FlowAttempts
  imports FlowFacts
begin

text \<open>
  The attempts with the PIN: after the card has refused one, the flow does not make another
  before the client has resumed it, a PUK has been accepted or a card has been initialised.
\<close>

section \<open>Spaced attempts\<close>

fun is_try :: "logEntry \<Rightarrow> bool" where
  "is_try (Tried (TryPIN _) _) = True"
| "is_try _ = False"

text \<open>A refused PIN has not been answered yet.\<close>

fun refusal :: "bool \<Rightarrow> logEntry \<Rightarrow> bool" where
  "refusal b (Tried (TryPIN _) (Some e)) = (b \<or> snd (GetRetries (Some e)))"
| "refusal b (Tried _ None) = False"
| "refusal b (Reply (CallResume _) None) = False"
| "refusal b _ = b"

definition refused :: "logEntry list \<Rightarrow> bool" where
  "refused es = foldl refusal False es"

text \<open>No attempt is made while a refusal has not been answered.\<close>

definition spaced :: "logEntry list \<Rightarrow> bool" where
  "spaced es \<longleftrightarrow> (\<forall>as e bs. es = as @ e # bs \<longrightarrow> is_try e \<longrightarrow> \<not> refused as)"

lemma refused_simps [simp]:
  "\<not> refused []" "refused (es @ [e]) = refusal (refused es) e"
  by (simp_all add: refused_def)

lemma spaced_simps [simp]:
  "spaced []" "spaced (es @ [e]) \<longleftrightarrow> spaced es \<and> (is_try e \<longrightarrow> \<not> refused es)"
proof -
  show "spaced (es @ [e]) \<longleftrightarrow> spaced es \<and> (is_try e \<longrightarrow> \<not> refused es)"
  proof
    assume s: "spaced (es @ [e])"
    have "\<not> refused as" if "es = as @ x # bs" "is_try x" for as x bs
      using s that unfolding spaced_def by (metis append_Cons append_assoc)
    with s show "spaced es \<and> (is_try e \<longrightarrow> \<not> refused es)" by (simp add: spaced_def)
  next
    assume s: "spaced es \<and> (is_try e \<longrightarrow> \<not> refused es)"
    have "\<not> refused as" if a: "es @ [e] = as @ x # bs" "is_try x" for as x bs
    proof (cases bs rule: rev_cases)
      case Nil
      with a s show ?thesis by simp
    next
      case (snoc bs' y)
      with a s show ?thesis by (simp add: spaced_def)
    qed
    then show "spaced (es @ [e])" by (simp add: spaced_def)
  qed
qed (simp add: spaced_def)

definition pin_given :: "'w flow \<Rightarrow> bool" where
  "pin_given f \<longleftrightarrow> Option.bind (f_params f) (\<lambda>m. m keyPIN) \<noteq> None"

text \<open>
  \<open>careful\<close>: the attempts are spaced, and after a refusal there is no PIN to try.  Without
  a refusal the parameters can be what they like (\<open>answered\<close>); between a refusal and the
  removal of the PIN the attempts are only spaced (\<open>trying\<close>).
\<close>

definition trying :: "logEntry list \<Rightarrow> 'w flow \<Rightarrow> bool" where
  "trying l f \<longleftrightarrow> f_state f \<noteq> Idle \<and> (\<exists>es. f_log f = l @ es \<and> spaced es)"

definition careful :: "logEntry list \<Rightarrow> 'w flow \<Rightarrow> bool" where
  "careful l f \<longleftrightarrow> f_state f \<noteq> Idle \<and> (\<exists>es. f_log f = l @ es \<and> spaced es \<and> (refused es \<longrightarrow> \<not> pin_given f))"

definition answered :: "logEntry list \<Rightarrow> 'w flow \<Rightarrow> bool" where
  "answered l f \<longleftrightarrow> f_state f \<noteq> Idle \<and> (\<exists>es. f_log f = l @ es \<and> spaced es \<and> \<not> refused es)"

lemma answered_careful: "answered l f \<Longrightarrow> careful l f"
  by (auto simp: answered_def careful_def)

lemma careful_trying: "careful l f \<Longrightarrow> trying l f"
  by (auto simp: trying_def careful_def)

lemma client_careful: "preserves (careful l) (client c)"
proof (rule preservesI)
  fix f :: "'a flow" assume f: "careful l f"
  then obtain es where es: "f_log f = l @ es" "spaced es" "refused es \<longrightarrow> \<not> pin_given f" "f_state f \<noteq> Idle"
    by (auto simp: careful_def)
  have r: "careful l (g\<lparr>f_log := f_log f @ [Reply c' (Some e)]\<rparr>)"
    if "f_state g \<noteq> Idle" "f_params g = f_params f" for g :: "'a flow" and c' e
    using es that unfolding careful_def
    by (intro conjI exI [of _ "es @ [Reply c' (Some e)]"]) (auto simp: pin_given_def)
  have k: "careful l (g\<lparr>f_log := f_log f @ [Reply CallCancel err]\<rparr>)"
    if "f_state g \<noteq> Idle" "f_params g = f_params f" for g :: "'a flow" and err
    using es that unfolding careful_def
    by (intro conjI exI [of _ "es @ [Reply CallCancel err]"]) (cases err; auto simp: pin_given_def)+
  have s: "careful l (g\<lparr>f_log := f_log f @ [Reply (CallResume ps) None]\<rparr>)"
    if "f_state g \<noteq> Idle" for g :: "'a flow" and ps
    using es that unfolding careful_def
    by (intro conjI exI [of _ "es @ [Reply (CallResume ps) None]"]) auto
  show "runs (client c) (\<lambda>_. careful l) (\<lambda>_. careful l) f"
  proof (cases c)
    case (CallStart t ps)
    with es(4) r show ?thesis by (simp add: client_def flow_Start_def emit_def wp)
  next
    case (CallResume ps)
    show ?thesis
    proof (cases "f_state f = Paused")
      case True
      have "runs (mergeParams ps) (\<lambda>_ g. f_log g = f_log f) (\<lambda>_. careful l) f"
        by (rule runs_mergeParams) (simp_all add: f)
      then have "runs (mergeParams ps) (\<lambda>_ g. careful l (g\<lparr>f_state := Resuming, f_senders := f_senders g + 1,
            f_log := f_log g @ [Reply (CallResume ps) None]\<rparr>)) (\<lambda>_. careful l) f"
        by (rule runs_mono) (use s in auto)
      with CallResume True show ?thesis
        by (simp add: client_def flow_Resume_def emit_def setRunState_def wp) (erule runs_mono; simp add: wp)
    next
      case False
      with CallResume r [of f] es(4) show ?thesis by (simp add: client_def flow_Resume_def emit_def wp)
    qed
  next
    case CallCancel
    with k es(4) show ?thesis by (auto simp: client_def flow_Cancel_def emit_def setRunState_def wp)
  qed
qed

lemma careful_signal:
  assumes "careful l f"
  shows "careful l (f\<lparr>f_log := f_log f @ [Signal a status]\<rparr>)"
proof -
  from assms obtain es where "f_log f = l @ es" "spaced es" "refused es \<longrightarrow> \<not> pin_given f" "f_state f \<noteq> Idle"
    by (auto simp: careful_def)
  then show ?thesis
    unfolding careful_def by (intro conjI exI [of _ "es @ [Signal a status]"]) (auto simp: pin_given_def)
qed

interpretation attempts: step_frame "careful l" for l
proof unfold_locales
  fix f :: "'a flow" and evs
  assume "careful l f"
  then show "careful l (f\<lparr>f_script := evs\<rparr>)" by (simp add: careful_def pin_given_def)
next
  fix f :: "'a flow" and k
  assume "careful l f"
  then show "careful l (f\<lparr>f_params := map_option (\<lambda>m. m(k := None)) (f_params f)\<rparr>)"
    by (cases "f_params f") (auto simp: careful_def pin_given_def)
next
  fix f :: "'a flow" and a status
  assume "careful l f"
  then show "careful l (f\<lparr>f_log := f_log f @ [Signal a status]\<rparr>)" by (rule careful_signal)
qed (auto simp: careful_def pin_given_def intro: client_careful)

section \<open>The three steps with attempts\<close>

definition leadsTo :: "('s \<Rightarrow> bool) \<Rightarrow> ('s \<Rightarrow> bool) \<Rightarrow> ('a, 's) gocmd \<Rightarrow> bool" where
  "leadsTo P Q m \<longleftrightarrow> (\<forall>s. P s \<longrightarrow> runs m (\<lambda>_. Q) (\<lambda>_. Q) s)"

lemma leadsTo_weaken: "preserves Q m \<Longrightarrow> (\<And>s. P s \<Longrightarrow> Q s) \<Longrightarrow> leadsTo P Q m"
  by (simp add: leadsTo_def preserves_def)

lemma leadsTo_thenM:
  assumes "\<And>s. P s \<Longrightarrow> runs m (\<lambda>_. R) (\<lambda>_. Q) s" and "leadsTo R Q k"
  shows "leadsTo P Q (thenM m k)"
  unfolding leadsTo_def runs_thenM using assms(2)
  by (auto simp: leadsTo_def intro: runs_mono [OF assms(1)])

lemma answered_setters:
  "answered l f \<Longrightarrow> runs (setCardInfo g) (\<lambda>_. answered l) (\<lambda>_. careful l) f"
  "answered l f \<Longrightarrow> runs (setParam k v) (\<lambda>_. answered l) (\<lambda>_. careful l) f"
  "answered l f \<Longrightarrow> runs (delParam k) (\<lambda>_. answered l) (\<lambda>_. careful l) f"
  by (auto simp: setCardInfo_def setParam_def delParam_def wp answered_def intro: answered_careful
      split: option.split)

lemma trying_setters:
  "trying l f \<Longrightarrow> runs (setCardInfo g) (\<lambda>_. trying l) F f"
  "trying l f \<Longrightarrow> runs (delParam keyPIN) (\<lambda>_. careful l) F f"
  by (auto simp: setCardInfo_def delParam_def wp trying_def careful_def pin_given_def
      split: option.split) (cases "f_params f"; simp)

text \<open>Attempts other than with a PIN.\<close>

lemma careful_other:
  fixes g :: "go_error + 'b \<Rightarrow> ('c, 'w) fcmd"
  assumes "\<And>r. \<not> is_try (Tried a r)" and "\<And>b. \<not> refusal b (Tried a None)"
    and "\<And>b e. refusal b (Tried a (Some e)) = b"
    and "\<And>e. preserves (careful l) (g (Inl e))" and "\<And>x. leadsTo (answered l) (careful l) (g (Inr x))"
  shows "preserves (careful l) (bindM (tryCard H a m) g)"
proof (rule preservesI)
  fix f :: "'w flow" assume "careful l f"
  from preservesD [OF attempts.keeps_onCard this]
  have "runs (tryCard H a m) (\<lambda>r t. careful l t \<and> ((\<exists>x. r = Inr x) \<longrightarrow> answered l t)) (\<lambda>_. careful l) f"
    unfolding tryCard_def
  proof (rule runs_bind)
    fix r :: "go_error + 'b" and t :: "'w flow" assume "careful l t"
    then obtain es where es: "f_log t = l @ es" "spaced es" "refused es \<longrightarrow> \<not> pin_given t" "f_state t \<noteq> Idle"
      by (auto simp: careful_def)
    have "careful l (t\<lparr>f_log := f_log t @ [Tried a (errOf r)]\<rparr>)"
      using es assms(1-3) unfolding careful_def
      by (intro conjI exI [of _ "es @ [Tried a (errOf r)]"]) (cases r; auto simp: pin_given_def)+
    moreover have "answered l (t\<lparr>f_log := f_log t @ [Tried a (errOf r)]\<rparr>)" if "r = Inr x" for x
      using es assms(1,2) that unfolding answered_def
      by (intro conjI exI [of _ "es @ [Tried a (errOf r)]"]) auto
    ultimately show "runs (thenM (emit (Tried a (errOf r))) (ret r))
        (\<lambda>r t. careful l t \<and> ((\<exists>x. r = Inr x) \<longrightarrow> answered l t)) (\<lambda>_. careful l) t"
      by (auto simp: emit_def wp)
  qed
  then show "runs (bindM (tryCard H a m) g) (\<lambda>_. careful l) (\<lambda>_. careful l) f"
  proof (rule runs_bind)
    fix r :: "go_error + 'b" and t :: "'w flow"
    assume "careful l t \<and> ((\<exists>x. r = Inr x) \<longrightarrow> answered l t)"
    with assms(4,5) show "runs (g r) (\<lambda>_. careful l) (\<lambda>_. careful l) t"
      by (cases r) (auto simp: leadsTo_def preserves_def)
  qed
qed

text \<open>An attempt with a PIN that is given.\<close>

lemma careful_PIN:
  fixes g :: "go_error + 'b \<Rightarrow> ('c, 'w) fcmd"
  assumes f: "careful l f" "pin_given f"
    and "\<And>x. leadsTo (answered l) (careful l) (g (Inr x))"
    and "\<And>e. snd (GetRetries (Some e)) \<Longrightarrow> leadsTo (trying l) (careful l) (g (Inl e))"
    and "\<And>e. \<not> snd (GetRetries (Some e)) \<Longrightarrow> leadsTo (answered l) (careful l) (g (Inl e))"
  shows "runs (bindM (tryCard H (TryPIN pin) m) g) (\<lambda>_. careful l) (\<lambda>_. careful l) f"
proof (rule runs_bind)
  have "answered l f" using f by (auto simp: answered_def careful_def)
  then have c: "runs (onCard H m) (\<lambda>_. answered l) (\<lambda>_. answered l) f"
    by (auto simp: runs_def onCard_def zoom_def answered_def split: option.splits outcome.splits prod.splits)
  show "runs (tryCard H (TryPIN pin) m) (\<lambda>r t. trying l t \<and> (snd (GetRetries (errOf r)) \<or> answered l t))
      (\<lambda>_. careful l) f"
    unfolding tryCard_def
  proof (rule runs_bind)
    show "runs (onCard H m) (\<lambda>_. answered l) (\<lambda>_. careful l) f"
      by (rule runs_mono [OF c]) (auto intro: answered_careful)
    fix r :: "go_error + 'b" and t :: "'w flow" assume "answered l t"
    then obtain es where es: "f_log t = l @ es" "spaced es" "\<not> refused es" "f_state t \<noteq> Idle"
      by (auto simp: answered_def)
    have "trying l (t\<lparr>f_log := f_log t @ [Tried (TryPIN pin) (errOf r)]\<rparr>)"
      using es unfolding trying_def by (intro conjI exI [of _ "es @ [Tried (TryPIN pin) (errOf r)]"]) auto
    moreover have "answered l (t\<lparr>f_log := f_log t @ [Tried (TryPIN pin) (errOf r)]\<rparr>)"
      if "\<not> snd (GetRetries (errOf r))"
      using es that unfolding answered_def
      by (intro conjI exI [of _ "es @ [Tried (TryPIN pin) (errOf r)]"]) (cases r; auto)+
    ultimately show "runs (thenM (emit (Tried (TryPIN pin) (errOf r))) (ret r))
        (\<lambda>r t. trying l t \<and> (snd (GetRetries (errOf r)) \<or> answered l t)) (\<lambda>_. careful l) t"
      by (auto simp: emit_def wp)
  qed
  fix r :: "go_error + 'b" and t :: "'w flow"
  assume t: "trying l t \<and> (snd (GetRetries (errOf r)) \<or> answered l t)"
  show "runs (g r) (\<lambda>_. careful l) (\<lambda>_. careful l) t"
  proof (cases r)
    case (Inl e)
    with t assms(4,5) [of e] show ?thesis by (cases "snd (GetRetries (Some e))") (auto simp: leadsTo_def)
  next
    case (Inr x)
    with t assms(3) [of x] show ?thesis by (auto simp: leadsTo_def)
  qed
qed

lemma leadsTo_ret: "leadsTo (answered l) (careful l) (ret x)"
  by (simp add: leadsTo_def wp answered_careful)

lemma careful_initCard: "preserves (careful l) (initCard n H)"
proof (induction n)
  case (Suc n)
  have attempt: "preserves (careful l) (bindM (tryCard H (TryInit pin puk pairing) m) (\<lambda>r.
      if IsSCardError (errOf r) then ret (Some RestartError)
      else if errOf r \<noteq> None then ret (errOf r)
      else thenM (setParam keyPIN newPIN) (thenM (setParam keyPairingPass newPairing)
        (thenM (delParam keyNewPIN) (thenM (delParam keyNewPUK) (thenM (delParam keyNewPairing)
        (ret (Some RestartError))))))))"
    for pin puk pairing newPIN newPairing and m :: "'a port \<Rightarrow> (go_error + 'b, commandSet \<times> 'a) gocmd"
    by (rule careful_other)
       (auto intro!: keeps attempts.keeps_setters leadsTo_thenM answered_setters leadsTo_ret)
  show ?case
    unfolding initCard.simps Let_def
    by (intro attempt attempts.keeps_pauseAndWait attempts.keeps_fields attempts.keeps_values
        attempts.keeps_andThen preserves_bindM preserves_case_option Suc.IH; simp)
qed (simp add: attempts.keeps_stops)

lemma careful_unblockPIN: "preserves (careful l) (unblockPIN n H)"
proof (induction n)
  case (Suc n)
  have again: "preserves (careful l) (bindM (getM (c_pukRetries \<circ> f_cardInfo)) (\<lambda>retries.
          if retries = 0 then pauseAndRestart SwapCard keyPUKRetries
          else if \<not> pukOK then andThen (pauseAndWait EnterPUK pukError) (unblockPIN n H)
          else andThen (pauseAndWait EnterNewPIN ErrorUnblocking) (unblockPIN n H)))" for pukOK pukError
    by (intro keeps Suc.IH; simp)
  show ?case
    unfolding unblockPIN.simps Let_def
    by (intro careful_other again attempts.keeps_pauseAndWait attempts.keeps_fields attempts.keeps_values
        attempts.keeps_andThen preserves_bindM preserves_case_option preserves_case_prod preserves_if preserves_getM)
       (auto intro!: keeps attempts.keeps_setters leadsTo_thenM answered_setters leadsTo_ret again Suc.IH split: bool.split)
qed (simp add: attempts.keeps_stops)

lemma runs_asString:
  "runs (bindM (asString v) g) Q F f =
    (case v of VStr s \<Rightarrow> runs (g s) Q F f | _ \<Rightarrow> F (Panicked ''interface conversion'') f)"
  by (cases v) (simp_all add: asString_def runs_bindM runs_ret runs_panicM)

lemma leadsTo_case_bool:
  "(b \<Longrightarrow> leadsTo P Q m) \<Longrightarrow> (\<not> b \<Longrightarrow> leadsTo P Q k) \<Longrightarrow> leadsTo P Q (case b of True \<Rightarrow> m | False \<Rightarrow> k)"
  by (simp split: bool.split)

lemma careful_verifyGiven:
  assumes "\<And>e. preserves (careful l) (ask e)" and f: "careful l f" "pin_given f"
  shows "runs (verifyGiven H ask pin) (\<lambda>_. careful l) (\<lambda>_. careful l) f"
proof (cases pin)
  case (VStr s)
  show ?thesis
    unfolding verifyGiven_def runs_asString VStr val.case
  proof (rule careful_PIN [OF f])
    fix e :: go_error assume r: "snd (GetRetries (Some e))"
    then have "\<not> IsSCardError (Some e)" using GetRetries_not_SCard [of "Some e"] by simp
    with r show "leadsTo (trying l) (careful l) (case Inl e of
         Inr _ \<Rightarrow> thenM (setCardInfo (\<lambda>c. c\<lparr>c_pinRetries := MaxPINRetries\<rparr>)) (ret None)
       | Inl e \<Rightarrow>
           if IsSCardError (Some e) then ret (Some RestartError)
           else
             (case GetRetries (Some e) of
                (leftRetries, True) \<Rightarrow>
                  thenM (setCardInfo (\<lambda>c. c\<lparr>c_pinRetries := leftRetries\<rparr>)) (thenM (delParam keyPIN) (ask keyPIN))
              | (_, False) \<Rightarrow> ask keyPIN))"
      by (cases "GetRetries (Some e)")
         (auto intro!: leadsTo_thenM [OF trying_setters(1)] leadsTo_thenM [OF trying_setters(2)]
           leadsTo_weaken [OF assms(1)])
  qed (auto intro!: leadsTo_thenM answered_setters leadsTo_ret leadsTo_weaken [OF assms(1)]
      split: prod.split bool.split intro: answered_careful)
qed (simp_all add: verifyGiven_def runs_asString f)

lemma careful_authenticate: "preserves (careful l) (authenticate n H)"
proof (induction n)
  case (Suc n)
  let ?ask = "\<lambda>pinError. bindM (getM (c_pinRetries \<circ> f_cardInfo)) (\<lambda>retries.
          if retries = 0 then unblockPIN (Suc n) H
          else andThen (pauseAndWait EnterPIN pinError) (authenticate n H))"
  have ask: "preserves (careful l) (?ask pinError)" for pinError
    by (intro keeps careful_unblockPIN Suc.IH; simp)
  have verify: "preserves (careful l) (bindM (param keyPIN) (\<lambda>pin.
            case pin of None \<Rightarrow> ?ask msg | Some pin \<Rightarrow> verifyGiven H ?ask pin))" for msg
    unfolding param_def
    by (rule preserves_getM_bind)
       (auto split: option.split intro: preservesD [OF ask] careful_verifyGiven [OF ask] simp: pin_given_def)
  show ?case
    unfolding authenticate.simps Let_def
    by (intro verify careful_unblockPIN preserves_if preserves_bindM [OF preserves_getM])
qed (simp add: attempts.keeps_stops)

interpretation spacing: flow_frame "careful l" for l
  by unfold_locales (rule careful_initCard careful_unblockPIN careful_authenticate)+

text \<open>A whole run, up to where it stops.\<close>

lemma runFlow_spaced:
  fixes f :: "'w flow"
  assumes "f_state f = Running"
  shows "runs (runFlow H m n) (\<lambda>_ t. \<exists>es. f_log t = f_log f @ es \<and> spaced es)
    (\<lambda>_ t. \<exists>es. f_log t = f_log f @ es \<and> spaced es) f"
proof (rule runs_runFlow)
  let ?A = "\<lambda>_::params. careful (f_log f)"
  let ?Q = "\<lambda>t. \<exists>es. f_log t = f_log f @ es \<and> spaced es"
  have q: "?A r t \<Longrightarrow> ?Q t" for r t by (auto simp: careful_def)
  have keep: "runs k (\<lambda>_. careful (f_log f)) (\<lambda>_. ?Q) t"
    if "\<And>l. preserves (careful l) k" and "careful (f_log f) t" for t and k :: "('b, 'w) fcmd"
    by (rule runs_mono [OF preservesD [OF that]]) (auto intro: q)
  show "runs (runAgain n H m n) ?A (\<lambda>_. ?Q) f"
    using assms by (intro keep spacing.keeps_runAgain) (simp add: careful_def)
  fix r and t :: "'w flow"
  show "?A r t \<Longrightarrow> runs poll (\<lambda>_. ?A r) (\<lambda>_. ?Q) t" "?A r t \<Longrightarrow> runs poll (\<lambda>_. ?A r) (\<lambda>_. ?Q) t"
    by (intro keep attempts.keeps_poll; assumption)+
  show "?A r t \<Longrightarrow> ?Q (ended t)" "?A r t \<Longrightarrow> ?Q (ended t)" by (auto simp: careful_def)
  show "?A r t \<Longrightarrow> ?A r (t\<lparr>f_log := f_log t @ [Signal FlowResult r]\<rparr>)" by (rule careful_signal)
qed

end
