(* ===== verification/FlowStops.thy ===== *)
theory FlowStops
  imports FlowFacts
begin

text \<open>
  Where the goroutine of a flow can stop for ever: it waits for the client, for a card, it
  pairs again and again, or a panic ends the process; with more fuel than events it does
  not run out of fuel.
\<close>

section \<open>The bound on the rounds\<close>

definition stops :: "fault \<Rightarrow> bool" where
  "stops e \<longleftrightarrow> (\<exists>msg. e = Panicked msg) \<or> e = Blocked ''waiting for the client'' \<or>
     e = Blocked ''waiting for a card'' \<or> e = Blocked ''pairing again and again''"

abbreviation events_left :: "'w flow \<Rightarrow> nat" where
  "events_left f \<equiv> length (f_script f)"

text \<open>With fewer than \<open>n\<close> events the command takes no event back and stops only as it may.\<close>

definition bounded :: "nat \<Rightarrow> ('a, 'w) fcmd \<Rightarrow> bool" where
  "bounded n m \<longleftrightarrow> (\<forall>f. events_left f < n \<longrightarrow>
     runs m (\<lambda>_ t. events_left t \<le> events_left f) (\<lambda>e _. stops e) f)"

named_theorems fuel "rules that bound the rounds of a command"

lemma boundedD:
  "bounded n m \<Longrightarrow> events_left f < n \<Longrightarrow>
    runs m (\<lambda>_ t. events_left t \<le> events_left f) (\<lambda>e _. stops e) f"
  by (simp add: bounded_def)

lemma bounded_bindM [fuel]:
  fixes m :: "('a, 'w) fcmd"
  assumes "bounded n m" and "\<And>x. bounded n (g x)"
  shows "bounded n (bindM m g)"
  unfolding bounded_def runs_bindM
proof (intro allI impI)
  fix f :: "'w flow" assume f: "events_left f < n"
  show "runs m (\<lambda>x. runs (g x) (\<lambda>_ t. events_left t \<le> events_left f) (\<lambda>e _. stops e)) (\<lambda>e _. stops e) f"
  proof (rule runs_mono [OF boundedD [OF assms(1) f]])
    fix x and t :: "'w flow" assume t: "events_left t \<le> events_left f"
    from boundedD [OF assms(2), of t x] f t
    show "runs (g x) (\<lambda>_ t. events_left t \<le> events_left f) (\<lambda>e _. stops e) t"
      by (fastforce intro: runs_mono)
  qed
qed

lemma bounded_basic [fuel]:
  "bounded n (ret x)" "bounded n (getM g)" "bounded n (panicM msg)"
  by (simp_all add: bounded_def wp stops_def)

lemma bounded_modifyM [fuel]: "(\<And>f. f_script (g f) = f_script f) \<Longrightarrow> bounded n (modifyM g)"
  by (simp add: bounded_def wp)

lemma bounded_thenM [fuel]: "bounded n m \<Longrightarrow> bounded n k \<Longrightarrow> bounded n (thenM m k)"
  by (simp add: thenM_def bounded_bindM)

lemma bounded_bindE [fuel]: "bounded n m \<Longrightarrow> (\<And>x. bounded n (g x)) \<Longrightarrow> bounded n (bindE m g)"
  unfolding bindE_def by (rule bounded_bindM) (auto intro: fuel split: sum.split)

lemma bounded_deferM [fuel]: "bounded n m \<Longrightarrow> (\<And>r. bounded n (d r)) \<Longrightarrow> bounded n (deferM m d)"
  unfolding deferM_def by (intro fuel)

lemma bounded_if [fuel]:
  "(b \<Longrightarrow> bounded n m) \<Longrightarrow> (\<not> b \<Longrightarrow> bounded n k) \<Longrightarrow> bounded n (if b then m else k)"
  by simp

lemma bounded_case_option [fuel]:
  "(x = None \<Longrightarrow> bounded n m) \<Longrightarrow> (\<And>y. x = Some y \<Longrightarrow> bounded n (g y)) \<Longrightarrow>
    bounded n (case x of None \<Rightarrow> m | Some y \<Rightarrow> g y)"
  by (simp split: option.split)

lemma bounded_case_sum [fuel]:
  "(\<And>e. x = Inl e \<Longrightarrow> bounded n (g e)) \<Longrightarrow> (\<And>y. x = Inr y \<Longrightarrow> bounded n (h y)) \<Longrightarrow>
    bounded n (case x of Inl e \<Rightarrow> g e | Inr y \<Rightarrow> h y)"
  by (simp split: sum.split)

lemma bounded_case_prod [fuel]:
  "(\<And>a b. bounded n (g a b)) \<Longrightarrow> bounded n (case p of (a, b) \<Rightarrow> g a b)"
  by (simp split: prod.split)

lemma bounded_case_bool [fuel]:
  "(b \<Longrightarrow> bounded n m) \<Longrightarrow> (\<not> b \<Longrightarrow> bounded n k) \<Longrightarrow> bounded n (case b of True \<Rightarrow> m | False \<Rightarrow> k)"
  by (simp split: bool.split)

lemma bounded_andThen [fuel]:
  "bounded n m \<Longrightarrow> bounded n k \<Longrightarrow> bounded n (andThen m k)"
  "bounded n m \<Longrightarrow> bounded n k' \<Longrightarrow> bounded n (andThenE m k')"
  unfolding andThen_def andThenE_def by (intro fuel; assumption)+

section \<open>Small steps\<close>

lemma bounded_nonblocking:
  fixes get :: "'w flow \<Rightarrow> 't"
  assumes "nonblocking (\<lambda>_. True) m" and "\<And>f t. f_script (put t f) = f_script f"
  shows "bounded n (zoom get put m)"
  unfolding bounded_def runs_zoom
proof (intro allI impI)
  fix f :: "'w flow"
  have "runs m (\<lambda>_ _. True) (\<lambda>e _. \<exists>msg. e = Panicked msg) (get f)"
    using nonblockingD [OF assms(1), of "get f"] by simp
  then show "runs m (\<lambda>x t. events_left (put t f) \<le> events_left f) (\<lambda>e t. stops e) (get f)"
    by (rule runs_mono) (auto simp: assms(2) stops_def)
qed

lemma bounded_values [fuel]:
  "bounded n (asString v)" "bounded n (asBool v)" "bounded n (asList v)"
  unfolding asString_def asBool_def asList_def by (cases v; simp add: fuel)+

lemma bounded_fields [fuel]:
  "bounded n (param k)" "bounded n (flag k)" "bounded n remaining" "bounded n (setCardInfo g)"
  "bounded n (delParam k)" "bounded n (setParam k v)" "bounded n receive" "bounded n (setRunState st)"
  "bounded n (emit e)" "bounded n (setContext kc)"
  unfolding flag_def param_def remaining_def setCardInfo_def delParam_def setParam_def receive_def
    setRunState_def emit_def setContext_def
  by (intro fuel; simp)+

lemma bounded_client [fuel]: "bounded n (client c)"
proof -
  have "bounded n (mergeParams ps)" for ps
    unfolding mergeParams_def
    by (cases ps) (auto split: list.split option.split intro!: fuel)
  then have "bounded n (clientCall c)"
    by (cases c) (auto simp: flow_Start_def flow_Resume_def flow_Cancel_def intro!: fuel)
  then show ?thesis unfolding client_def by (intro fuel)
qed

lemma bounded_onFlowWorld [fuel]: "nonblocking (\<lambda>_. True) m \<Longrightarrow> bounded n (onFlowWorld m)"
  unfolding onFlowWorld_def by (rule bounded_nonblocking) simp_all

lemma bounded_onStore [fuel]: "nonblocking (\<lambda>_. True) m \<Longrightarrow> bounded n (onStore m)"
  unfolding onStore_def by (rule bounded_nonblocking) auto

lemma cardPort_live: "port_live (\<lambda>_. True) (cardPort H handle)"
  unfolding port_live_def cardPort_def context_Transmit_def by (auto intro: live)

definition harmless :: "('w port \<Rightarrow> ('a, commandSet \<times> 'w) gocmd) \<Rightarrow> bool" where
  "harmless m \<longleftrightarrow> (\<forall>P. port_live (\<lambda>_. True) P \<longrightarrow> nonblocking (onChan (\<lambda>_. True)) (m P))"

lemma bounded_onCard [fuel]:
  assumes "harmless m"
  shows "bounded n (onCard H m)"
  unfolding bounded_def
proof (intro allI impI)
  fix f :: "'a flow"
  have "bounded n (zoom (\<lambda>f. (cs, f_world f))
      (\<lambda>(cs, w) f. f\<lparr>f_kc := Some (kc\<lparr>kx_cmdSet := Some cs\<rparr>), f_world := w\<rparr>) (m (cardPort H handle)))"
    for cs kc handle n
  proof (rule bounded_nonblocking)
    show "nonblocking (\<lambda>_. True) (m (cardPort H handle))"
      using assms cardPort_live [of H handle] by (simp add: harmless_def case_prod_beta')
  qed auto
  then have z: "runs (zoom (\<lambda>f. (cs, f_world f))
      (\<lambda>(cs, w) f. f\<lparr>f_kc := Some (kc\<lparr>kx_cmdSet := Some cs\<rparr>), f_world := w\<rparr>) (m (cardPort H handle)))
      (\<lambda>_ t. events_left t \<le> events_left f) (\<lambda>e _. stops e) f" for cs kc handle
    by (rule boundedD [where n = "Suc (events_left f)"]) simp
  show "runs (onCard H m) (\<lambda>_ t. events_left t \<le> events_left f) (\<lambda>e _. stops e) f"
  proof (cases "f_kc f")
    case (Some kc)
    with z show ?thesis
      by (cases "kx_card kc"; cases "kx_cmdSet kc")
         (auto simp: runs_def onCard_def stops_def split: outcome.splits)
  qed (simp add: runs_def onCard_def stops_def)
qed

lemma bounded_tryCard [fuel]: "harmless m \<Longrightarrow> bounded n (tryCard H a m)"
  unfolding tryCard_def by (intro fuel)

lemma harmless_ops [fuel]:
  "harmless (\<lambda>P. kc_FactoryReset C P retry)" "harmless (kc_SelectApplet C)" "harmless (\<lambda>P. kc_Pair C P pass)"
  "harmless (\<lambda>P. kc_Init C P pin puk pass)" "harmless (kc_Identify C)" "harmless (kc_GetStatusApplication C)"
  "harmless (\<lambda>P. kc_OpenSecureChannel C P i key)" "harmless (\<lambda>_. kc_ApplicationInfo)"
  "harmless (\<lambda>_. kc_PairingInfo)" "harmless (\<lambda>P. kc_UnblockPIN C P puk pin)" "harmless (\<lambda>P. kc_VerifyPin C P pin)"
  "harmless (kc_UnpairCurrent C)" "harmless (\<lambda>P. kc_Unpair C P b)" "harmless (kc_RemoveKey C)"
  "harmless (\<lambda>P. kc_StoreMetadata C P md)" "harmless (\<lambda>P. kc_ExportKey C P d cur p2 path)"
  "harmless (\<lambda>P. kc_LoadMnemonic C P mn pw)" "harmless (\<lambda>P. kc_GenerateMnemonic C P k)"
  "harmless (\<lambda>P. kc_ChangePin C P pin)" "harmless (\<lambda>P. kc_ChangePuk C P puk)"
  "harmless (\<lambda>P. kc_ChangePairingPassword C P pass)" "harmless (\<lambda>P. kc_SignWithPath C P raw path)"
  "harmless (kc_GetMetadata C)"
proof -
  have pm: "nonblocking I (case ParseMetadata data of None \<Rightarrow> blockM msg | Some r \<Rightarrow> ret r)" for I data msg
    using ParseMetadata_total [of data] by (auto intro: live)
  show "harmless (kc_GetMetadata C)"
    unfolding harmless_def kc_GetMetadata_def
    by (intro allI impI nonblocking_bindE nonblocking_csops pm; assumption)
qed (auto simp: harmless_def kc_Init_def kc_Identify_def kc_GetStatusApplication_def kc_ApplicationInfo_def
    kc_PairingInfo_def kc_UnblockPIN_def kc_VerifyPin_def kc_UnpairCurrent_def kc_Unpair_def kc_RemoveKey_def
    kc_StoreMetadata_def kc_ExportKey_def kc_LoadMnemonic_def kc_GenerateMnemonic_def kc_ChangePin_def
    kc_ChangePuk_def kc_ChangePairingPassword_def kc_SignWithPath_def intro!: live)

section \<open>Waiting takes an event\<close>

lemma bounded_setScript:
  "length evs < events_left f \<Longrightarrow> bounded (events_left f) m \<Longrightarrow>
    runs (thenM (setScript evs) m) (\<lambda>_ t. events_left t < events_left f) (\<lambda>e _. stops e) f"
  using boundedD [of "events_left f" m "f\<lparr>f_script := evs\<rparr>"]
  by (auto simp: setScript_def wp elim: runs_mono)

lemma runs_nextEvent:
  assumes "stops (Blocked why)" and "\<And>ev. bounded (events_left f) (g ev)"
  shows "runs (bindM (nextEvent why) g) (\<lambda>_ t. events_left t < events_left f) (\<lambda>e _. stops e) f"
proof (cases "f_script f")
  case (Cons ev evs)
  with bounded_setScript [of evs f "g ev"] assms(2) show ?thesis
    by (simp add: nextEvent_def wp setScript_def)
qed (simp add: nextEvent_def wp assms(1))

lemma bounded_pollCalls: "bounded n (pollCalls k :: (unit, 'w) fcmd)"
proof (induction k)
  case (Suc k)
  show ?case
    unfolding bounded_def
  proof (intro allI impI)
    fix f :: "'w flow" assume f: "events_left f < n"
    show "runs (pollCalls (Suc k)) (\<lambda>_ t. events_left t \<le> events_left f) (\<lambda>e _. stops e) f"
    proof (cases "f_script f")
      case (Cons ev evs)
      have b: "bounded n (thenM (client cl) (pollCalls k :: (unit, 'w) fcmd))" for cl by (intro fuel Suc.IH)
      have "runs (thenM (client cl) (pollCalls k)) (\<lambda>_ t. events_left t \<le> events_left f) (\<lambda>e _. stops e)
          (f\<lparr>f_script := evs\<rparr>)" for cl
        by (rule runs_mono [OF boundedD [OF b]]) (use Cons f in auto)
      with Cons show ?thesis
        by (cases ev) (auto simp: wp setScript_def)
    qed (simp add: wp)
  qed
qed (simp add: fuel)

lemma bounded_poll [fuel]: "bounded n poll"
  unfolding poll_def by (intro fuel bounded_pollCalls)

lemma bounded_pause [fuel]: "bounded n (pause a msg status)"
  unfolding pause_def by (intro fuel)

lemma bounded_runs:
  fixes m :: "('a, 'w) fcmd"
  assumes "\<And>f. runs m (\<lambda>_ t. events_left t < events_left f) (\<lambda>e _. stops e) f"
  shows "bounded n m"
  unfolding bounded_def
proof (intro allI impI)
  fix f :: "'w flow"
  from assms [of f] show "runs m (\<lambda>_ t. events_left t \<le> events_left f) (\<lambda>e _. stops e) f"
    by (rule runs_mono) simp_all
qed

lemma awaitWake_shrinks:
  fixes f :: "'w flow"
  shows "runs (awaitWake k) (\<lambda>_ t. events_left t < events_left f) (\<lambda>e _. stops e) f"
proof (induction k arbitrary: f)
  case (Suc k)
  have w: "bounded n (awaitWake k :: (unit, 'w) fcmd)" for n by (rule bounded_runs [OF Suc.IH])
  then have "bounded n (case ev of Call c \<Rightarrow> thenM (client c) (awaitWake k)
       | Tick \<Rightarrow> bindM receive (\<lambda>got. if got then ret () else awaitWake k) | _ \<Rightarrow> (awaitWake k :: (unit, 'w) fcmd))" for ev n
    by (cases ev) (auto intro!: fuel w)
  then show ?case
    unfolding awaitWake.simps by (intro runs_nextEvent) (simp_all add: stops_def)
qed (simp add: wp stops_def)

text \<open>A pause that is resumed has taken an event.\<close>

definition resumes :: "(error, 'w) fcmd \<Rightarrow> bool" where
  "resumes m \<longleftrightarrow> (\<forall>f. runs m
     (\<lambda>err t. events_left t \<le> events_left f \<and> (err = None \<longrightarrow> events_left t < events_left f))
     (\<lambda>e _. stops e) f)"

lemma runs_bounded_bind:
  assumes "\<And>n. bounded n m"
    and "\<And>x t. events_left t \<le> events_left f \<Longrightarrow> runs (g x) Q (\<lambda>e _. stops e) t"
  shows "runs (bindM m g) Q (\<lambda>e _. stops e) f"
  by (rule runs_bind [OF boundedD [OF assms(1), of f "Suc (events_left f)"]]) (simp_all add: assms(2))

lemma resumes_pauseAndWaitWithStatus: "resumes (pauseAndWaitWithStatus a msg status)"
  unfolding resumes_def
proof
  fix f :: "'a flow"
  let ?Q = "\<lambda>err t. events_left t \<le> events_left f \<and> (err = None \<longrightarrow> events_left t < events_left f)"
  have last: "runs (thenM poll (bindM (getM f_state) (\<lambda>st.
      if st = Resuming then thenM (setRunState Running) (ret None) else ret (Some GiveupError))))
      ?Q (\<lambda>e _. stops e) t" if "events_left t < events_left f" for t :: "'a flow"
    unfolding thenM_def [of poll]
    by (rule runs_bounded_bind [OF bounded_poll]) (use that in \<open>auto simp: wp setRunState_def\<close>)
  have wake: "runs (thenM (bindM remaining awaitWake) (thenM poll (bindM (getM f_state) (\<lambda>st.
      if st = Resuming then thenM (setRunState Running) (ret None) else ret (Some GiveupError)))))
      ?Q (\<lambda>e _. stops e) t" if "events_left t \<le> events_left f" for t :: "'a flow"
  proof -
    have "runs (bindM remaining awaitWake) (\<lambda>_ u. events_left u < events_left t) (\<lambda>e _. stops e) t"
      using awaitWake_shrinks by (simp add: remaining_def wp)
    then show ?thesis
      unfolding thenM_def [of "bindM remaining awaitWake"]
      by (rule runs_bind) (use that last in \<open>simp add: order.strict_trans2\<close>)
  qed
  show "runs (pauseAndWaitWithStatus a msg status) ?Q (\<lambda>e _. stops e) f"
    unfolding pauseAndWaitWithStatus_def thenM_def [of poll]
  proof (rule runs_bounded_bind [OF bounded_poll])
    fix x and t :: "'a flow" assume t: "events_left t \<le> events_left f"
    have "runs (thenM (pause a msg status) (thenM (bindM remaining awaitWake) (bindM poll (\<lambda>_. bindM (getM f_state) (\<lambda>st.
      if st = Resuming then thenM (setRunState Running) (ret None) else ret (Some GiveupError))))))
      ?Q (\<lambda>e _. stops e) t"
      unfolding thenM_def [of "pause a msg status"]
      by (rule runs_bounded_bind [OF bounded_pause]) (use wake t in \<open>auto simp: thenM_def [of poll]\<close>)
    with t show "runs (bindM (getM f_state) (\<lambda>st. if st = Cancelling then ret (Some GiveupError)
       else thenM (pause a msg status) (thenM (bindM remaining awaitWake) (bindM poll (\<lambda>_. bindM (getM f_state) (\<lambda>st.
           if st = Resuming then thenM (setRunState Running) (ret None) else ret (Some GiveupError)))))))
      ?Q (\<lambda>e _. stops e) t"
      by (simp add: runs_bindM runs_getM runs_if runs_ret)
  qed
qed

lemma resumes_pauseAndWait: "resumes (pauseAndWait a msg)"
  unfolding pauseAndWait_def by (rule resumes_pauseAndWaitWithStatus)

lemma resumes_bounded:
  fixes m :: "(error, 'w) fcmd"
  assumes "resumes m"
  shows "bounded n m"
  unfolding bounded_def
proof (intro allI impI)
  fix f :: "'w flow"
  from assms have "runs m (\<lambda>err t. events_left t \<le> events_left f \<and>
      (err = None \<longrightarrow> events_left t < events_left f)) (\<lambda>e _. stops e) f"
    by (simp add: resumes_def)
  then show "runs m (\<lambda>_ t. events_left t \<le> events_left f) (\<lambda>e _. stops e) f"
    by (rule runs_mono) simp_all
qed

lemmas bounded_pauseAndWait [fuel] =
  resumes_bounded [OF resumes_pauseAndWaitWithStatus] resumes_bounded [OF resumes_pauseAndWait]

lemma bounded_pauseAndRestart [fuel]: "bounded n (pauseAndRestart a msg)"
  unfolding pauseAndRestart_def by (intro fuel)

lemma bounded_again:
  fixes g :: "error \<Rightarrow> ('a, 'w) fcmd"
  assumes "resumes m" and "bounded n (g None)" and "\<And>e n. bounded n (g (Some e))"
  shows "bounded (Suc n) (bindM m g)"
  unfolding bounded_def
proof (intro allI impI)
  fix f :: "'w flow" assume f: "events_left f < Suc n"
  show "runs (bindM m g) (\<lambda>_ t. events_left t \<le> events_left f) (\<lambda>e _. stops e) f"
  proof (rule runs_bind)
    show "runs m (\<lambda>err t. events_left t \<le> events_left f \<and> (err = None \<longrightarrow> events_left t < events_left f))
        (\<lambda>e _. stops e) f"
      using assms(1) by (simp add: resumes_def)
    fix err :: error and t :: "'w flow"
    assume t: "events_left t \<le> events_left f \<and> (err = None \<longrightarrow> events_left t < events_left f)"
    show "runs (g err) (\<lambda>_ t. events_left t \<le> events_left f) (\<lambda>e _. stops e) t"
    proof (cases err)
      case None
      with t f boundedD [OF assms(2), of t] show ?thesis by (auto elim!: runs_mono)
    next
      case (Some e)
      with t boundedD [OF assms(3), of t "Suc (events_left t)" e] show ?thesis by (auto elim!: runs_mono)
    qed
  qed
qed

lemma bounded_wait:
  "bounded n k \<Longrightarrow> bounded (Suc n) (andThen (pauseAndWait a msg) k)"
  "bounded n k' \<Longrightarrow> bounded (Suc n) (andThenE (pauseAndWait a msg) k')"
  "bounded n k \<Longrightarrow> bounded (Suc n) (andThen (pauseAndWaitWithStatus a msg status) k)"
  unfolding andThen_def andThenE_def
  by (rule bounded_again; simp add: resumes_pauseAndWait resumes_pauseAndWaitWithStatus fuel)+

section \<open>Connecting takes an event\<close>

lemma nonblocking_context [live]:
  "nonblocking (\<lambda>_. True) (context_start H)" "nonblocking (\<lambda>_. True) (readersChanged H kc rs)"
  "nonblocking (\<lambda>_. True) (context_Stop H kc)"
proof -
  have r: "nonblocking (\<lambda>_. True) (context_release H kc)" for kc
    unfolding context_release_def by (intro live)
  show "nonblocking (\<lambda>_. True) (context_Stop H kc)" unfolding context_Stop_def by (rule r)
  show "nonblocking (\<lambda>_. True) (context_start H)" unfolding context_start_def by (intro live)
  show "nonblocking (\<lambda>_. True) (readersChanged H kc rs)"
    unfolding readersChanged_def context_connect_def by (intro live r)
qed

lemma bounded_closeKeycard [fuel]: "bounded n (closeKeycard H kc)"
  unfolding closeKeycard_def by (intro fuel live)

lemma bounded_case_waiting [fuel]:
  "(\<And>rs. bounded n (a rs)) \<Longrightarrow> (\<And>e. bounded n (b e)) \<Longrightarrow> (\<And>kc. bounded n (c kc)) \<Longrightarrow>
    bounded n (case w of StillWaiting rs \<Rightarrow> a rs | RunErr e \<Rightarrow> b e | ConnectedTo kc \<Rightarrow> c kc)"
  by (simp split: waiting.split)

lemma connectLoop_shrinks:
  fixes f :: "'w flow"
  shows "runs (connectLoop H kc k fired rs) (\<lambda>_ t. events_left t < events_left f) (\<lambda>e _. stops e) f"
proof (induction k arbitrary: f fired rs)
  case (Suc k)
  have "bounded n (connectLoop H kc k fired rs)" for n fired rs by (rule bounded_runs [OF Suc.IH])
  then show ?case
    unfolding connectLoop.simps
    by (intro runs_nextEvent) (auto simp: stops_def split: event.split intro!: fuel live)
qed (simp add: wp stops_def)

text \<open>What a restart has taken: the connection it gave up.\<close>

lemma flow_connect_shrinks:
  fixes f :: "'a flow"
  shows "runs (flow_connect H)
    (\<lambda>r t. events_left t \<le> events_left f \<and>
      (r = Inl RestartError \<or> (\<exists>kc. r = Inr kc) \<longrightarrow> events_left t < events_left f)) (\<lambda>e _. stops e) f"
  (is "runs _ ?Q _ _")
  unfolding flow_connect_def StartKeycardContext_def
proof (rule runs_bind_sum)
  have s: "runs (context_start H) (\<lambda>r _. r \<noteq> Inl RestartError) (\<lambda>e _. stops e) w" for w
    by (simp add: context_start_def wp split: sum.split prod.split)
  show "runs (onFlowWorld (context_start H))
      (\<lambda>r t. events_left t = events_left f \<and> r \<noteq> Inl RestartError) (\<lambda>e _. stops e) f"
    unfolding onFlowWorld_def runs_zoom by (rule runs_mono [OF s]) simp_all
next
  fix kc :: kcontext and t :: "'a flow" assume "events_left t = events_left f \<and> Inr kc \<noteq> Inl RestartError"
  with connectLoop_shrinks [of H kc "events_left t" False "initialStates (kx_readers kc)" t]
  show "runs (bindM remaining (\<lambda>n. connectLoop H kc n False (initialStates (kx_readers kc)))) ?Q
      (\<lambda>e _. stops e) t"
    by (auto simp: remaining_def wp elim!: runs_mono)
qed auto

section \<open>The steps of the flows\<close>

lemma bounded_stops [fuel]: "bounded 0 m" "bounded n repairing"
  by (simp_all add: bounded_def repairing_def wp stops_def)

lemma bounded_require [fuel]: "bounded n requireKeys" "bounded n requireNoKeys"
  unfolding requireKeys_def requireNoKeys_def by (intro fuel)+

lemma bounded_choose [fuel]: "bounded n (flow_factoryReset H)" "bounded n (selectKeycard H)"
  unfolding flow_factoryReset_def selectKeycard_def by (intro fuel)+

lemma bounded_flow_pair [fuel]: "bounded n (flow_pair n H)"
proof (induction n)
  case (Suc n)
  show ?case
    unfolding flow_pair.simps by (intro bounded_wait fuel Suc.IH live)
qed (rule fuel)

lemma bounded_initCard [fuel]: "bounded n (initCard n H)"
proof (induction n)
  case (Suc n)
  show ?case
    unfolding initCard.simps Let_def by (intro bounded_wait fuel Suc.IH)
qed (rule fuel)

lemma bounded_openSC [fuel]: "bounded n (openSC m H n giveup)"
proof -
  have v: "bounded n (readRetries H)" "bounded n (verifyAuthenticity H)" for n
    unfolding readRetries_def verifyAuthenticity_def by (intro fuel)+
  then have k: "bounded n (openKnown H)" for n
    unfolding openKnown_def by (intro fuel) auto
  show ?thesis
  proof (induction m)
    case (Suc m)
    show ?case unfolding openSC.simps by (intro fuel Suc.IH k v)
  qed (simp add: fuel)
qed

lemma bounded_unblockPIN [fuel]: "bounded n (unblockPIN n H)"
proof (induction n)
  case (Suc n)
  have w: "bounded (Suc n) (andThen (pauseAndWait a msg) (unblockPIN n H))" for a msg
    by (intro bounded_wait Suc.IH)
  show ?case
    unfolding unblockPIN.simps Let_def
    by (intro w fuel)
qed (rule fuel)

lemma bounded_authenticate [fuel]: "bounded n (authenticate n H)"
proof (induction n)
  case (Suc n)
  have w: "bounded (Suc n) (andThen (pauseAndWait a msg) (authenticate n H))" for a msg
    by (intro bounded_wait Suc.IH)
  show ?case unfolding authenticate.simps verifyGiven_def Let_def by (intro w fuel)
qed (rule fuel)

lemma bounded_openSCAndAuthenticate [fuel]: "bounded n (openSCAndAuthenticate H m n giveup)"
  unfolding openSCAndAuthenticate_def by (intro fuel)

lemma bounded_small [fuel]:
  "bounded n (unpairCurrent H)" "bounded n (unpair H idx)" "bounded n (removeKey H)"
  "bounded n (flow_getMetadata H)" "bounded n (exportKeyExtended H path p2)"
  "bounded n (flow_exportKey H path b)" "bounded n cardIds" "bounded n idsAndSlots" "bounded n okIds"
  "bounded n (masterAddress H result)"
  unfolding unpairCurrent_def unpair_def removeKey_def flow_getMetadata_def exportKeyExtended_def
    flow_exportKey_def cardIds_def idsAndSlots_def okIds_def masterAddress_def
  by (intro fuel)+

lemma bounded_walletComponents [fuel]: "bounded n (walletComponents ps)"
  by (induction ps) (auto split: prod.split option.split intro!: fuel)

lemma bounded_lists [fuel]:
  "bounded n (exportKeyList H b ps)" "bounded n (unpairAll H is')" "bounded n (resolveWallets H ws)"
  subgoal by (induction ps) (auto intro!: fuel)
  subgoal by (induction is') (auto split: option.split intro!: fuel)
  subgoal by (induction ws) (auto intro!: fuel)
  done

lemma bounded_flow_storeMetadata [fuel]: "bounded n (flow_storeMetadata n H)"
proof (induction n)
  case (Suc n)
  show ?case unfolding flow_storeMetadata.simps by (intro bounded_wait fuel Suc.IH)
qed (rule fuel)

lemma bounded_case_val [fuel]:
  "(\<And>x. bounded n (a x)) \<Longrightarrow> (\<And>x. bounded n (b x)) \<Longrightarrow> bounded n k \<Longrightarrow>
    bounded n (case v of VStr x \<Rightarrow> a x | VList x \<Rightarrow> b x | _ \<Rightarrow> k)"
  by (simp split: val.split)

lemma bounded_exportBIP44Key [fuel]: "bounded n (exportBIP44Key n H)"
proof (induction n)
  case (Suc n)
  show ?case unfolding exportBIP44Key.simps Let_def by (intro bounded_wait fuel Suc.IH)
qed (rule fuel)

lemma bounded_loadKeys [fuel]: "bounded n (loadKeys n H)"
proof (induction n)
  case (Suc n)
  show ?case unfolding loadKeys.simps by (intro bounded_wait fuel Suc.IH)
qed (rule fuel)

lemma bounded_changePIN [fuel]: "bounded n (flow_changePIN n H)"
proof (induction n)
  case (Suc n)
  show ?case unfolding flow_changePIN.simps by (intro bounded_wait fuel Suc.IH)
qed (rule fuel)

lemma bounded_changePUK [fuel]: "bounded n (flow_changePUK n H)"
proof (induction n)
  case (Suc n)
  show ?case unfolding flow_changePUK.simps by (intro bounded_wait fuel Suc.IH)
qed (rule fuel)

lemma bounded_changePairing [fuel]: "bounded n (flow_changePairing n H)"
proof (induction n)
  case (Suc n)
  show ?case unfolding flow_changePairing.simps by (intro bounded_wait fuel Suc.IH)
qed (rule fuel)

lemma bounded_sign [fuel]: "bounded n (flow_sign n H)"
proof (induction n)
  case (Suc n)
  show ?case unfolding flow_sign.simps by (intro bounded_wait fuel Suc.IH)
qed (rule fuel)

lemma bounded_flowOf [fuel]: "bounded n (flowOf H m n t)"
  by (cases t)
     (simp_all add: getAppInfoFlow_def exportKeysFlow_def exportPublicFlow_def loadKeysFlow_def signFlow_def
       changePINFlow_def changePUKFlow_def changePairingFlow_def unpairThisFlow_def unpairOthersFlow_def
       deleteUnpairFlow_def storeMetadataFlow_def getMetadataFlow_def Let_def, (intro fuel)+)

lemma bounded_useKeycard [fuel]: "bounded n (useKeycard H m n)"
  unfolding useKeycard_def by (intro fuel)

lemma connectedFlow_shrinks:
  assumes f: "events_left f < n"
  shows "runs (connectedFlow H m n)
    (\<lambda>r t. events_left t \<le> events_left f \<and> (r = Inl RestartError \<longrightarrow> events_left t < events_left f))
    (\<lambda>e _. stops e) f"
  unfolding connectedFlow_def
proof (rule runs_bind_sum [OF flow_connect_shrinks])
  fix kc :: kcontext and t :: "'a flow"
  let ?m = "thenM (setContext (Some kc))
    (deferM (useKeycard H m n) (\<lambda>_. thenM (closeKeycard H (Some kc)) (setContext None)))"
  assume "events_left t \<le> events_left f \<and>
      (Inr kc = Inl RestartError \<or> (\<exists>kc'. Inr kc = Inr kc') \<longrightarrow> events_left t < events_left f)"
  then have t: "events_left t < events_left f" by auto
  have "bounded n ?m" by (intro fuel)
  then have "runs ?m (\<lambda>_ u. events_left u \<le> events_left t) (\<lambda>e _. stops e) t"
    by (rule boundedD) (use t f in simp)
  then show "runs ?m (\<lambda>r u. events_left u \<le> events_left f \<and>
      (r = Inl RestartError \<longrightarrow> events_left u < events_left f)) (\<lambda>e _. stops e) t"
    by (rule runs_mono) (use t in auto)
qed simp

lemma runAgain_stops:
  "events_left f < r \<Longrightarrow> events_left f < n \<Longrightarrow> runs (runAgain r H m n) (\<lambda>_ _. True) (\<lambda>e _. stops e) f"
proof (induction r arbitrary: f)
  case (Suc r)
  let ?f = "f\<lparr>f_cardInfo := freshCardInfo\<rparr>"
  have "runs (bindM (connectedFlow H m n) (\<lambda>result. case result of Inr status \<Rightarrow> ret status
      | Inl e \<Rightarrow> if e = RestartError then runAgain r H m n
          else bindM (getM f_cardInfo) (\<lambda>c. ret (errorResult c e)))) (\<lambda>_ _. True) (\<lambda>e _. stops e) ?f"
  proof (rule runs_bind [OF connectedFlow_shrinks])
    show "events_left ?f < n" using Suc.prems by simp
    fix res :: "go_error + params" and t :: "'a flow"
    assume "events_left t \<le> events_left ?f \<and> (res = Inl RestartError \<longrightarrow> events_left t < events_left ?f)"
    with Suc.prems Suc.IH [of t] show "runs (case res of Inr status \<Rightarrow> ret status
      | Inl e \<Rightarrow> if e = RestartError then runAgain r H m n
          else bindM (getM f_cardInfo) (\<lambda>c. ret (errorResult c e))) (\<lambda>_ _. True) (\<lambda>e _. stops e) t"
      by (auto simp: wp split: sum.split)
  qed
  then show ?case by (simp add: setCardInfo_def wp)
qed simp

lemma runFlow_stops:
  assumes "events_left f < n"
  shows "runs (runFlow H m n) (\<lambda>_ _. True) (\<lambda>e _. stops e) f"
  unfolding runFlow_def
proof (rule runs_bind [OF runAgain_stops [OF assms assms]])
  fix result :: params and t :: "'a flow"
  let ?m = "thenM poll (bindM (getM f_state) (\<lambda>st.
     thenM (if st \<noteq> Cancelling then thenM (emit (Signal FlowResult result)) poll else ret ())
    (modifyM (\<lambda>f. f\<lparr>f_params := None, f_state := Idle, f_goroutines := f_goroutines f - 1\<rparr>))))"
  have "bounded (Suc (events_left t)) ?m" by (intro fuel) simp
  then show "runs ?m (\<lambda>_ _. True) (\<lambda>e _. stops e) t"
    by (rule runs_mono [OF boundedD]) simp_all
qed

end
