(* ===== verification/CardDialogues.thy ===== *)
theory CardDialogues
  imports CommandSet
begin

text \<open>
  Commands as dialogues with a card that keeps to the protocol: through the secure channel
  the client reads what the card answered, and what the operations of the command set make
  of the answers.
\<close>

text \<open>
  The port passes the wrapped command on, and the card at the other end, with the same keys
  and the IV the command carries, answers \<open>plain\<close>.
\<close>

definition answers :: "prims \<Rightarrow> 'c port \<Rightarrow> commandSet \<Rightarrow> command \<Rightarrow> bytes \<Rightarrow> 'c \<Rightarrow> 'c \<Rightarrow> bool" where
  "answers C P cs cmd plain c c' \<longleftrightarrow>
     transmit P (SerializeCommand (wrapped C (cs_sc cs) cmd)) c =
       Ret (Inr (cardAnswer C ((cs_sc cs)\<lparr>sc_iv := commandMac C (cs_sc cs) cmd\<rparr>) plain)) c'"

text \<open>The IV both sides hold after the dialogue.\<close>

definition nextIV :: "prims \<Rightarrow> commandSet \<Rightarrow> command \<Rightarrow> bytes \<Rightarrow> bytes" where
  "nextIV C cs cmd plain =
     (let sc1 = (cs_sc cs)\<lparr>sc_iv := commandMac C (cs_sc cs) cmd\<rparr> in
      answerMac C sc1 (cipherText C sc1 plain))"

definition rekeyed :: "prims \<Rightarrow> commandSet \<Rightarrow> command \<Rightarrow> bytes \<Rightarrow> commandSet" where
  "rekeyed C cs cmd plain = cs\<lparr>cs_sc := (cs_sc cs)\<lparr>sc_iv := nextIV C cs cmd plain\<rparr>\<rparr>"

lemma csSend_answers:
  assumes "aes_ok C" and "sc_ready (cs_sc cs)" and "answers C P cs cmd plain c c'"
  shows "csSend C P cmd (cs, c) = Ret (ParseResponse plain) (rekeyed C cs cmd plain, c')"
  using csSend_round_trip [OF assms(1,2) refl assms(3) [unfolded answers_def]]
  by (simp add: rekeyed_def nextIV_def Let_def)

lemma rekeyed_ready:
  assumes "aes_ok C" and "sc_ready (cs_sc cs)"
  shows "sc_ready (cs_sc (rekeyed C cs cmd plain))"
proof -
  let ?sc1 = "(cs_sc cs)\<lparr>sc_iv := commandMac C (cs_sc cs) cmd\<rparr>"
  have "sc_ready ?sc1"
    by (rule sc_ready_iv [OF assms(2) length_commandMac [OF assms]])
  from length_answerMac [OF assms(1) this, of plain]
  show ?thesis by (simp add: rekeyed_def nextIV_def Let_def sc_ready_iv [OF assms(2)])
qed

lemma ParseResponse_sw: "ParseResponse [a, b] = Inr \<lparr>resp_Data = [], Sw1 = a, Sw2 = b, Sw = mkSw a b\<rparr>"
  using ParseResponse_append [of "[]" a b] by simp

lemma ParseResponse_ok:
  "ParseResponse (d @ [0x90, 0]) = Inr \<lparr>resp_Data = d, Sw1 = 0x90, Sw2 = 0, Sw = SwOK\<rparr>"
  using ParseResponse_append [of d "0x90" 0] by (simp add: mkSw_def SwOK_def)

text \<open>The status word \<open>63Cn\<close>.\<close>

lemma retry_word:
  assumes "n < 16"
  shows "isRetrySw (mkSw 0x63 (0xC0 OR of_nat n))" and "attemptsOf (mkSw 0x63 (0xC0 OR of_nat n)) = int n"
proof -
  have "\<forall>m \<in> set [0..<16]. isRetrySw (mkSw 0x63 (0xC0 OR of_nat m)) \<and>
      attemptsOf (mkSw 0x63 (0xC0 OR of_nat m)) = int m"
    by (simp add: upt_rec isRetrySw_def attemptsOf_def mkSw_def)
  with assms show "isRetrySw (mkSw 0x63 (0xC0 OR of_nat n))"
    and "attemptsOf (mkSw 0x63 (0xC0 OR of_nat n)) = int n" by auto
qed

lemma retryCheck_answers:
  "retryCheck W (ParseResponse [0x90, 0]) = Inr ()"
  "n < 16 \<Longrightarrow> retryCheck W (ParseResponse [0x63, 0xC0 OR of_nat n]) = Inl (W (int n))"
  using ParseResponse_ok [of "[]"] retry_word [of n] retrySw_not_OK
  by (auto simp: retryCheck_wrong ParseResponse_sw)

lemma respData_ok: "m s = Ret (ParseResponse (d @ [0x90, 0])) t \<Longrightarrow> respData m s = Ret (Inr d) t"
  by (simp add: respData_def sendOK_def bindE_def bindM_def ret_def ParseResponse_ok checkOK_def)

end
