(* ===== verification/Spec2Isabelle.thy ===== *)
theory Spec2Isabelle
  imports MockInstances RaceInstances FlowAuth FlowAttempts FlowStops FlowRaces CardDialogues
begin

text \<open>
  A model of status-keycard-go: the Go library by which a wallet talks to a Keycard, a smart
  card that holds its keys.

  The program.  A client calls the session service (\<open>pkg/session/service.go\<close>), which
  validates the request and passes it on to the session context
  (\<open>internal/keycard\_context\_v2.go\<close>).  The context owns the connection to the card.  A
  detection goroutine looks for a reader with a card, selects the applet, pairs (with the
  pairings kept by \<open>pkg/pairing/store.go\<close>), opens the secure channel, reads the card's
  status and metadata, publishes the resulting state as a signal, and then watches the
  reader.  The client's commands meanwhile go through the operations on the card
  (\<open>internal/keycard\_context.go\<close>), the vendored keycard-go command set, its secure channel,
  and the APDU codec.  The older flow API (\<open>pkg/flow\<close>) does without the service: a flow is a
  goroutine that connects to a card, chooses it, authenticates and does one job, and pauses to ask
  the client for what it needs; the client starts, resumes and cancels it.  A wallet written in
  another language links the C interface, which holds a flow or the RPC server of the session
  service; its double holds a mocked flow with canned cards instead.  Signals go to the C callback
  or, in the server, to every web socket.

  The theories, from the bottom.
  \<^item> \<open>Prelude\<close>: commands with a state, faults (a panic, a goroutine that waits for ever), the
    predicate transformer \<open>runs\<close>, codec interfaces.
  \<^item> \<open>GoErrors\<close>, \<open>HexUtils\<close>: error values, hexadecimal strings (\<open>internal/utils.go\<close>,
    \<open>pkg/utils/hex\_string.go\<close>).
  \<^item> \<open>Apdu\<close>, \<open>Metadata\<close>, \<open>DerivationPath\<close>: byte formats of keycard-go and their round trips.
  \<^item> \<open>CardTypes\<close>: constants, records and conversions (\<open>internal/types.go\<close>, \<open>const.go\<close>,
    \<open>error.go\<close>, \<open>utils.go\<close>).
  \<^item> \<open>Crypto\<close>, \<open>Channel\<close>, \<open>CommandSet\<close>, \<open>GlobalPlatform\<close>: padding, CBC, MAC, session keys,
    the secure channel and the commands.  The block ciphers, hashes, PBKDF2 and the curve are
    the record \<open>prims\<close>; the transmitter and the random source the record \<open>port\<close>.
  \<^item> \<open>CardDialogues\<close>: what the client makes of a card that keeps to the secure channel.
  \<^item> \<open>KeycardOps\<close>: the operations of \<open>internal/keycard\_context.go\<close> on a connected card.
  \<^item> \<open>ReadersStates\<close>, \<open>Host\<close>, \<open>PairingStore\<close>: readers, the surroundings (PC/SC, files, JSON,
    validator, as the record \<open>host\<close> of functions on a world), pairings.
  \<^item> \<open>SessionState\<close>, \<open>SessionContext\<close>: the published status and the context \<open>ctx\<close>; one command
    per method, one step per goroutine.
  \<^item> \<open>SessionFacts\<close>, \<open>SessionSystem\<close>, \<open>SessionAuth\<close>, \<open>SessionLive\<close>: the frame of each operation,
    the transition system of the client's commands and the detection's steps with its
    invariants, authorization, and which commands return.
  \<^item> \<open>SessionRaces\<close>: commands that are not atomic.  A command is cut where it has the card's answer and
    the mutex (\<open>card\_answered\<close>), and the others take steps before it goes on; a session in which
    nobody watches the reader and the mutex is held hangs for ever.
  \<^item> \<open>SessionOptions\<close>: the options of a context and its logger
    (\<open>internal/keycard\_context\_v2\_options.go\<close>, \<open>internal/logging\<close>).
  \<^item> \<open>SessionService\<close>: the handlers and their validation.
  \<^item> \<open>RpcJson\<close>, \<open>RpcServer\<close>: the request and response structs as JSON values, and the dispatch of
    a request (\<open>pkg/session/rpc.go\<close> and what it uses of \<open>gorilla/rpc\<close>): a request is parsed, its
    method found and its arguments decoded, or it is refused before it reaches the service.
  \<^item> \<open>ServiceSystem\<close>: the calls of the service and the goroutines of its context as a transition
    system; the context is always a reachable one.
  \<^item> \<open>WalletPaths\<close>: the wallet paths of \<open>StoreMetadata\<close>.
  \<^item> \<open>FlowTypes\<close>, \<open>FlowContext\<close>, \<open>FlowEngine\<close>, \<open>FlowCommands\<close>, \<open>Flows\<close>: the flow API
    (\<open>pkg/flow/types.go\<close>, \<open>flow.go\<close>, \<open>commands.go\<close> and the connection part of
    \<open>internal/keycard\_context.go\<close>): the record \<open>flow\<close>, the client's calls, pausing and
    connecting, the steps, the flows and their loop.
  \<^item> \<open>FlowFacts\<close>, \<open>FlowAuth\<close>, \<open>FlowAttempts\<close>, \<open>FlowStops\<close>, \<open>FlowSteps\<close>: the frames of the steps
    as locales, the log of a run, success only with the PIN, the spacing of the attempts, the
    bound on the rounds, and single steps computed.
  \<^item> \<open>FlowRaces\<close>: calls at a bad moment: an answer before the flow is paused, a start before it is
    idle, a cancellation that no goroutine receives.
  \<^item> \<open>MockTypes\<close>, \<open>MockHandlers\<close>, \<open>MockFlow\<close>: the double of the flow API (\<open>pkg/flow/mocked\<close>): the
    record \<open>mockedFlow\<close> with the registered cards, one command per handler, the calls and the
    goroutine.
  \<^item> \<open>MockFacts\<close>, \<open>MockSystem\<close>, \<open>MockCard\<close>: a run ends on typed parameters, the pointers in
    reachable states, and the card of the double beside a reference card.
  \<^item> \<open>FlowControl\<close>: which calls of the client are accepted, as a locale with the flow and its
    double as instances.
  \<^item> \<open>SharedApi\<close>: the C interface (\<open>shared\<close>, \<open>shared-mocked\<close>): the record
    \<open>library\<close> of the package variables, the exclusion of the two APIs, which calls fault.
  \<^item> \<open>SignalServer\<close>: signals (\<open>signal/signals.go\<close>) and the server that writes them to web
    sockets (\<open>cmd/status-keycard-server\<close>).
  \<^item> \<open>StatusSignals\<close>: the statuses of the session as a web socket sees them.
  \<^item> \<open>ExampleClient\<close>: the clients of \<open>examples\<close>, the first with the calls it answers
    each signal with; the flow it drives is that of \<open>FlowEngine\<close> and \<open>Flows\<close>.
  \<^item> \<open>Instances\<close>, \<open>RaceInstances\<close>, \<open>FlowInstances\<close>, \<open>MockInstances\<close>: a concrete card and host, flows on them, a
    mocked flow, a library and a server, on which the properties are applied.

  Correspondence.  A method is a definition of the same name, prefixed by its receiver where
  two share one: \<open>kc\_\<close> the operations on the card, \<open>cs\_\<close> the command set, \<open>sc\_\<close> the secure
  channel, \<open>svc\_\<close> the service.  Go's mutable receiver is the state of the command.  A step of a
  goroutine or a command of the client is atomic in \<open>SessionContext\<close> except where it waits for
  another: the mutex and the send on \<open>forceScanC\<close>.  So the invariants of the session (C1, C2, C5, C16,
  C39) are those of commands and steps one after the other.  In the code a command is not atomic:
  \<open>FactoryReset\<close> publishes before it takes the mutex, and the goroutine that watches the reader takes none.
  \<open>SessionRaces\<close> says what then becomes of a command (C6 to C8), and \<open>status\_torn\<close> that two clients can tear
  the status C1 speaks of.  A wait that nothing in the model can end is the fault
  \<open>Blocked\<close>, a nil dereference, a slice out of range or a failed type assertion the fault
  \<open>Panicked\<close>.  Go's 64-bit \<open>int\<close> is \<open>int\<close> where the values come from single bytes or lengths;
  the widths the code fixes (\<open>uint8\<close>, \<open>uint16\<close>, \<open>uint32\<close>) are words.

  Fuel.  The recursion of the model is structural or has a termination proof; the detection
  takes the number of further goroutine steps as separate steps of the transition system
  (\<open>monitorStep\<close>), so nothing there is bounded.  A flow is a command whose
  state holds the script of what happens around it: the client's calls, the timer of
  \<open>connect\<close>, changes of the readers, and \<open>Tick\<close>, at which the flow's goroutine runs on.  Its
  loops and recursions take fuel, \<open>n\<close> for the rounds with a pause or a restart, each of which
  takes an event of the script, and \<open>m\<close> for the pairings in a row.  More fuel than events is enough:
  \<open>flow\_stops\<close> shows that a run then ends, waits, pairs again and again, or panics, and never
  runs out of fuel.  What can be seen of a run is its log: signals, answers to the
  client's calls, attempts with a PIN, a PUK or an initialisation.

  Hypotheses on what is not under \<open>src\<close>: \<open>aes\_ok\<close> (AES decryption inverts encryption on
  blocks and keeps their length), \<open>json\_ok\<close> and \<open>files\_ok\<close> (\<open>encoding/json\<close> reads the members
  of a map as it has written them, with the texts \<open>HexString\<close> makes of the keys; a file is read as it was written), that the body of a recorded
  answer is read as it was written (\<open>l\_ReadAll\<close>), and \<open>Intn_ok\<close> (\<open>rand.Intn\<close>
  gives a number in its range).  Everything else holds for any host.

  Not modelled: what is logged; the text of JSON, web sockets and the C callback, which are
  parameters; the pointers to C memory; applet installation of the GlobalPlatform command set, which nothing calls.  In \<open>gorilla/rpc\<close> the
  selection of a service's methods by reflection is the list of them; a slice decoded three
  times from one object may show elements it had before, which is not followed.  Of the flow
  engine, the unsynchronised access to its fields is modelled as atomic calls at the places
  where the flow reads or writes its state.
  The calls of the library and of the signal server are atomic; the server's \<open>Stop\<close> does not
  take the lock, and its races are not in the model.  In the library a flow's goroutines may
  change the flow in any way; how they do is the model of the flows.  A call that sends on a flow's
  \<open>wakeUp\<close> returns when the goroutine has received, or never: which of the two, and in what state, is the
  schedule \<open>l\_wakeUp\<close>, an argument of the library.  In the flow itself such a caller is counted in
  \<open>f\_senders\<close> until it is received from.  In \<open>SessionRaces\<close> a command is cut once, at its first exchange
  with the card: steps of the goroutines between the APDUs of one exchange, and a \<open>Stop\<close> while a command
  waits, which closes the channel it sends on, are not modelled.
\<close>

section \<open>The session context\<close>

text \<open>
  C1.  In every reachable state of the session context, whatever the host, the card and the
  client do and in whatever order, the published status is consistent with its state, and
  so is every status that has been sent as a signal: an open session has its application
  info and status, \<open>Ready\<close> and \<open>Authorized\<close> mean that attempts are left, \<open>BlockedPIN\<close> and
  \<open>BlockedPUK\<close> mean that none are, and a state without a card carries no data of one.  The steps are
  commands and steps of the goroutines one after the other; for commands at once see \<open>status\_torn\<close>.
\<close>

theorem session_status_consistent:
  assumes "reach (session_init H) (session_step H) k"
  shows "status_ok (k_status k) \<and> (\<forall>s \<in> set (k_signals k). status_ok s)"
  by (rule session_status.reach_inv [OF assms])

theorem session_status_consistent_witness:
  "\<exists>k :: world ctx. map State (k_signals k) = [ConnectingCard, Ready, Authorized] \<and>
     status_ok (k_status k) \<and> (\<forall>s \<in> set (k_signals k). status_ok s)"
proof (rule demo_reach)
  fix k assume r: "reach (session_init demoHost) (session_step demoHost) k"
    and m: "map State (k_signals k) = [ConnectingCard, Ready, Authorized]"
  show ?thesis
    by (intro exI [of _ k] conjI m session_status_consistent [OF r, THEN conjunct1]
        session_status_consistent [OF r, THEN conjunct2])
qed

text \<open>
  C2.  At any time at most one goroutine looks for a card or watches one: the handover of a
  scan from the watching goroutine to a new detection never leaves two of them.
\<close>

theorem one_detection_goroutine:
  assumes "reach (session_init H) (session_step H) k"
  shows "length (k_monitors k) \<le> 1"
  by (rule session_monitors.reach_inv [OF assms])

theorem one_detection_goroutine_witness:
  "\<exists>k. State (k_status k) = Authorized \<and> length (k_monitors (k :: world ctx)) \<le> 1"
proof (rule demo_reach)
  fix k assume "reach (session_init demoHost) (session_step demoHost) k"
    and "State (k_status k) = Authorized"
  with one_detection_goroutine [of demoHost k] show ?thesis by blast
qed

text \<open>
  C3.  The commands that need the PIN (changing PIN or PUK, loading a mnemonic, storing
  metadata, exporting keys) reply an error and change nothing, on the card or in the
  session, unless a card is connected and the session is authorized.
\<close>

theorem unauthorized_commands_refused:
  assumes "needs_authorization req"
    and "\<not> (k_cmdSet k \<noteq> None \<and> State (k_status k) = Authorized)"
  shows "\<exists>e \<in> {ErrKeycardNotConnected, ErrKeycardNotInitialized, ErrKeycardNotAuthorized}.
    perform H req k = Ret (Some (Sentinel e)) k"
  using unauthorized_Some [OF assms(2)] perform_unauthorized [OF assms(1)] by blast

theorem unauthorized_commands_refused_witness:
  "\<exists>e \<in> {ErrKeycardNotConnected, ErrKeycardNotInitialized, ErrKeycardNotAuthorized}.
    perform demoHost ReqExportLoginKeys (demoCtx Ready []) = Ret (Some (Sentinel e)) (demoCtx Ready [])"
  by (rule unauthorized_commands_refused) simp_all

text \<open>
  C4.  Verifying the PIN and generating a mnemonic reply an error and change nothing unless a
  card is connected and ready; in particular no attempt of the PIN is used up.
\<close>

theorem not_ready_commands_refused:
  assumes "req = ReqVerifyPIN pin \<or> req = ReqGenerateMnemonic n"
    and "\<not> (k_cmdSet k \<noteq> None \<and> State (k_status k) \<in> {Ready, Authorized})"
  shows "\<exists>e \<in> {ErrKeycardNotConnected, ErrKeycardNotInitialized, ErrKeycardNotReady}.
    perform H req k = Ret (Some (Sentinel e)) k"
  using not_ready_Some [OF assms(2)] perform_not_ready [OF assms(1)] by blast

theorem not_ready_commands_refused_witness:
  "\<exists>e \<in> {ErrKeycardNotConnected, ErrKeycardNotInitialized, ErrKeycardNotReady}.
    perform demoHost (ReqVerifyPIN ''123456'') (demoCtx BlockedPIN []) =
      Ret (Some (Sentinel e)) (demoCtx BlockedPIN [])"
  by (rule not_ready_commands_refused [of _ "''123456''" 0]) simp_all

text \<open>
  C5.  The state \<open>Authorized\<close> is entered only by a command that carries a PIN or a PUK the
  card has accepted in that very command; no step of the detection, no other command and
  no error path leads there.
\<close>

theorem authorized_only_by_accepted_pin:
  assumes "session_step H k t" and "State (k_status k) \<noteq> Authorized" and "State (k_status t) = Authorized"
  shows "\<exists>req. leaves (perform H req) k t \<and> pin_accepted H k req"
  by (rule authorized_step [OF assms])

theorem authorized_only_by_accepted_pin_witness:
  "\<exists>k t req. State (k_status k) = Ready \<and> State (k_status t) = Authorized \<and>
     leaves (perform demoHost req) k t \<and> pin_accepted demoHost k req"
proof (rule demo_session)
  fix k0 k1 k2
  assume d: "leaves (perform demoHost (ReqVerifyPIN ''123456'')) k1 k2" "demoCheck k0 k1 k2"
  then have st: "State (k_status k1) = Ready" "State (k_status k2) = Authorized"
    by (simp_all only: demoCheck_def)
  from authorized_only_by_accepted_pin [OF by_request [OF d(1)] _ st(2)] st show ?thesis by fastforce
qed

text \<open>
  C6.  A card that is pulled while a command talks to it can hang the session for ever.  Cut the command
  where it has the card's answer and the mutex, and let the others (the goroutine that watches the reader,
  further commands) take any steps.  If the goroutine still watches, the command returns, in a calm session,
  or panics on what the card sent, as far as it does not take the mutex a second time.  If the goroutine
  has noticed and left, a command whose answer is a reader error waits for ever for somebody to take the
  forced scan, with the mutex held, and nothing sent to the card by any later command.
\<close>

theorem pulled_card_hangs:
  assumes "calm k" and "length (k_monitors k) \<le> 1" and "card_answered H k req err j rest" and "others H j t"
  shows "perform H req k = rest j \<and>
    (takeWatcher (k_monitors t) \<noteq> None \<and> one_lock req \<longrightarrow>
      (\<exists>e u. rest t = Ret e u \<and> calm u) \<or> (\<exists>msg u. rest t = Fault (Panicked msg) u)) \<and>
    (takeWatcher (k_monitors t) = None \<and> forces req err \<longrightarrow>
      (\<exists>why u. rest t = Fault (Blocked why) u \<and>
        (\<forall>v. others H u v \<longrightarrow> k_mutex v \<and> (\<forall>req' w. leaves (perform H req') v w \<longrightarrow> k_link w = k_link v))))"
proof -
  have t: "exchanging t"
    by (rule others_exchanging [OF assms(4) answered_exchanging [OF assms(3,1,2)]])
  have "(\<exists>e u. rest t = Ret e u \<and> calm u) \<or> (\<exists>msg u. rest t = Fault (Panicked msg) u)"
    if "takeWatcher (k_monitors t) \<noteq> None" "one_lock req"
  proof -
    have "calmC t" using t that(1) by (simp add: exchanging_def)
    from leadsD [OF rest_returns [OF assms(3) that(2)] this] show ?thesis
      by (auto simp: runs_def split: outcome.splits)
  qed
  moreover have "\<exists>why u. rest t = Fault (Blocked why) u \<and>
      (\<forall>v. others H u v \<longrightarrow> k_mutex v \<and> (\<forall>req' w. leaves (perform H req') v w \<longrightarrow> k_link w = k_link v))"
    if "takeWatcher (k_monitors t) = None" "forces req err"
  proof -
    have "hung t" "k_forceScanC t \<noteq> Some ScanClosed" using t that(1) by (simp_all add: exchanging_def hung_def)
    from rest_hangs [OF assms(3) that(2) this] obtain why u where u: "rest t = Fault (Blocked why) u" "hung u"
      by (auto simp: hangs_def runs_def split: outcome.splits)
    with hung_for_ever [OF u(2)] show ?thesis by blast
  qed
  ultimately show ?thesis using answered_perform [OF assms(3)] by blast
qed

theorem pulled_card_hangs_witness:
  "\<exists>err j rest t why u. card_answered demoHost watchedCtx ReqGetMetadata err j rest \<and> others demoHost j t \<and>
    rest t = Fault (Blocked why) u \<and> (\<forall>v. others demoHost u v \<longrightarrow> k_mutex v)"
proof (rule pulled_answered)
  fix err j rest t
  assume a: "card_answered demoHost watchedCtx ReqGetMetadata err j rest" "IsSCardError err"
    "others demoHost j t" "takeWatcher (k_monitors t) = None"
  have "forces ReqGetMetadata err" using a(2) by simp
  with pulled_card_hangs [OF watched_calm a(1,3)] a(4) obtain why u where
    "rest t = Fault (Blocked why) u" "\<forall>v. others demoHost u v \<longrightarrow> k_mutex v" by blast
  with a show ?thesis by blast
qed

text \<open>
  C7.  When the last reader is unplugged, which PC/SC reports as an error or as an empty list, the next
  step of the detection publishes \<open>WaitingForReader\<close> but keeps the connection to its card.  A factory
  reset then never returns, at once or with others in between: it panics on what the card sends, or it
  waits for ever for somebody to take the forced scan, and nobody gets the mutex any more.
\<close>

theorem factory_reset_after_unplug:
  assumes "k_monitors k = [Detecting]" and "k_cardCtx k = Some c" and "k_simulatedError k = None"
    and "h_ListReaders H c (l_world (k_link k)) = (([], err), w)"
    and "err \<in> {None, Some (SCardError 0x8010002E)}"
    and "k_cmdSet k \<noteq> None" and "\<not> k_mutex k" and "k_forceScanC k = Some ScanOpen"
    and "l_running (k_link k)"
  shows "\<exists>t. monitorStep H 0 k = Ret () t \<and> State (k_status t) = WaitingForReader \<and>
    k_signals t = k_signals k @ [k_status t] \<and>
    runs (FactoryReset H) (\<lambda>_ _. False)
      (\<lambda>e u. (\<exists>msg. e = Panicked msg) \<or> (\<forall>v. others H u v \<longrightarrow> k_mutex v)) t \<and>
    (\<forall>e j rest u. card_answered H t ReqFactoryReset e j rest \<and> others H j u \<longrightarrow>
      (\<exists>why v. rest u = Fault (Blocked why) v \<and> (\<forall>x. others H v x \<longrightarrow> k_mutex x)))"
proof -
  from detection_no_readers [OF assms(1-3), of H err w] assms(4,5) obtain t where
    t: "monitorStep H 0 k = Ret () t" "State (k_status t) = WaitingForReader" "k_signals t = k_signals k @ [k_status t]"
      "k_cmdSet t = k_cmdSet k" "k_mutex t = k_mutex k" "k_forceScanC t = k_forceScanC k"
      "l_running (k_link t) = l_running (k_link k)" "k_monitors t = [WaitingChange [pnpReader]]"
    by blast
  then have u: "unwatched t" using assms(8) by (simp add: unwatched_def)
  have "runs (FactoryReset H) (\<lambda>_ _. False) (\<lambda>e t. (\<exists>msg. e = Panicked msg) \<or> hung t) t"
    using t assms(6,7,9) u by (intro FactoryReset_unwatched_hangs) simp_all
  then have "runs (FactoryReset H) (\<lambda>_ _. False)
      (\<lambda>e u. (\<exists>msg. e = Panicked msg) \<or> (\<forall>v. others H u v \<longrightarrow> k_mutex v)) t"
    by (rule runs_mono) (use hung_for_ever in blast)+
  moreover have "\<exists>why v. rest u = Fault (Blocked why) v \<and> (\<forall>x. others H v x \<longrightarrow> k_mutex x)"
    if "card_answered H t ReqFactoryReset e j rest" "others H j u" for e j rest u
  proof -
    from answered_unwatched_hangs [OF u that] obtain why v where "rest u = Fault (Blocked why) v" "hung v"
      by (auto simp: hangs_def runs_def split: outcome.splits)
    with hung_for_ever [OF \<open>hung v\<close>] show ?thesis by blast
  qed
  ultimately show ?thesis using t(1-3) by blast
qed

theorem factory_reset_after_unplug_witness:
  "\<exists>t. monitorStep unpluggedHost 0 (demoCtx Ready [Detecting]) = Ret () t \<and>
    State (k_status t) = WaitingForReader \<and>
    runs (FactoryReset unpluggedHost) (\<lambda>_ _. False)
      (\<lambda>e u. (\<exists>msg. e = Panicked msg) \<or> (\<forall>v. others unpluggedHost u v \<longrightarrow> k_mutex v)) t"
proof -
  have "h_ListReaders unpluggedHost 0 (l_world (k_link (demoCtx Ready [Detecting]))) =
      (([], Some (SCardError 0x8010002E)), (demoWorld None)\<lparr>w_readers := []\<rparr>)"
    by (simp add: unpluggedHost_def)
  from factory_reset_after_unplug [OF _ _ _ this] show ?thesis by auto
qed

text \<open>
  C8.  The detection reads the metadata of a card it has paired with before it watches the reader: if the
  card is pulled then, the step of the detection never ends.  It waits for ever for somebody to take the
  forced scan, which would be itself, and whatever the others do, the mutex stays held and no command
  reaches a card.
\<close>

theorem metadata_read_error_blocks:
  assumes "k_monitors k = [Detecting]" and "k_cardCtx k = Some c"
    and "getCurrentReadersState H c (k\<lparr>k_monitors := []\<rparr>) = Ret (Inr readers) k1"
    and "connectCard H c readers k1 = Ret (Inr (Some rd)) k2"
    and "AppInfo (k_status k2) = Some i" and "v2_Initialized i"
    and "store_Get (Btox (v2_InstanceUID i)) (k_pairings k2) = Some pair"
    and "withCmdSet (kc_OpenSecureChannel (h_prims H) (kport H) (info_Index pair) (info_Key pair)) k2 = Ret (Inr u) k3"
    and "k_simulatedError k3 = None"
    and "updateApplicationStatus H k3 = Ret None k4" and "k_cmdSet k4 = Some cs"
    and "cs_GetData (h_prims H) (kport H) P1StoreDataPublic (cs, k_link k4) = Ret (Inl (SCardError code)) (cs', l)"
  shows "\<exists>t. monitorStep H 0 k = Fault (Blocked ''send nobody receives'') t \<and> k_monitors t = [] \<and>
    (\<forall>v. others H t v \<longrightarrow> k_mutex v \<and> (\<forall>req w. leaves (perform H req) v w \<longrightarrow> k_link w = k_link v))"
  using detection_metadata_error [OF assms] hung_for_ever by blast

theorem metadata_read_error_blocks_witness:
  "\<exists>t. monitorStep pulledHost 0 (detectCtx\<lparr>k_monitors := [Detecting]\<rparr>) = Fault (Blocked ''send nobody receives'') t \<and>
    (\<forall>v. others pulledHost t v \<longrightarrow> k_mutex v)"
proof -
  let ?k = "detectCtx\<lparr>k_monitors := [Detecting]\<rparr>"
  have d: "k_monitors ?k = [Detecting]" "k_cardCtx ?k = Some 0" "?k\<lparr>k_monitors := []\<rparr> = detectCtx"
    by (simp_all add: detectCtx_def contextWith_def)
  show ?thesis
  proof (rule pulled_run)
    fix readers k1 rd k2 i pair k3 k4 cs code cs' l
    assume r: "getCurrentReadersState pulledHost 0 detectCtx = Ret (Inr readers) k1"
      "connectCard pulledHost 0 readers k1 = Ret (Inr (Some rd)) k2"
      "AppInfo (k_status k2) = Some i" "v2_Initialized i"
      "store_Get (Btox (v2_InstanceUID i)) (k_pairings k2) = Some pair"
      "withCmdSet (kc_OpenSecureChannel (h_prims pulledHost) (kport pulledHost) (info_Index pair) (info_Key pair)) k2 =
        Ret (Inr ()) k3"
      "k_simulatedError k3 = None"
      "updateApplicationStatus pulledHost k3 = Ret None k4" "k_cmdSet k4 = Some cs"
      "cs_GetData (h_prims pulledHost) (kport pulledHost) P1StoreDataPublic (cs, k_link k4) =
        Ret (Inl (SCardError code)) (cs', l)"
    have "getCurrentReadersState pulledHost 0 (?k\<lparr>k_monitors := []\<rparr>) = Ret (Inr readers) k1"
      using r(1) by (simp only: d(3))
    from metadata_read_error_blocks [OF d(1,2) this r(2-10)] show ?thesis by blast
  qed
qed

text \<open>
  Two commands at once can tear the status: a factory reset resets and publishes it before it waits for
  the mutex, and a PIN that is being verified then goes on and publishes an open session without an
  application info.
\<close>

theorem status_torn:
  assumes "card_answered H k (ReqVerifyPIN pin) err j rest" and "leaves (perform H ReqFactoryReset) j t"
    and "rest t = Ret e u" and "session_open (State (k_status u))"
  shows "AppInfo (k_status u) = None \<and> \<not> status_ok (k_status u) \<and> k_status u \<in> set (k_signals u)"
  by (rule torn_status [OF assms])

theorem status_torn_witness:
  "\<exists>k err j rest t e u. card_answered demoHost k (ReqVerifyPIN ''123456'') err j rest \<and>
     leaves (perform demoHost ReqFactoryReset) j t \<and> rest t = Ret e u \<and> State (k_status u) = Authorized \<and>
     \<not> status_ok (k_status u)"
proof -
  from torn_status_happens obtain k err j rest t e u where
    a: "card_answered demoHost k (ReqVerifyPIN ''123456'') err j rest" "leaves (perform demoHost ReqFactoryReset) j t"
      "rest t = Ret e u" "State (k_status u) = Authorized" by blast
  from status_torn [OF a(1-3)] a show ?thesis by (force simp: session_open_def)
qed

section \<open>The service\<close>

text \<open>
  Before \<open>Start\<close>, every request that needs the context replies that the service has not
  been started, and changes nothing.
\<close>

theorem requests_before_start:
  assumes "needs_context req" and "s_context s = None"
  shows "serve H req s = Ret (Some (Sentinel ErrKeycardServiceNotStarted)) s"
  using serve_not_started [OF assms] by (simp add: notStarted_def)

theorem requests_before_start_witness:
  "serve demoHost SvcGetStatus (NewService (demoWorld None)) =
    Ret (Some (Sentinel ErrKeycardServiceNotStarted)) (NewService (demoWorld None))"
  by (rule requests_before_start) (simp_all add: NewService_def)



text \<open>
  C10.  A start that fails because there is no PC/SC leaves the service with a context, so a
  second attempt is refused as \<open>already started\<close>.
\<close>

theorem failed_start_is_final:
  assumes "s_context s = None" and "s_simulateError s = None"
    and "NewStore H (sr_StorageFilePath args) (s_world s) = Ret (Inr store) w"
    and "sr_LogEnabled args \<Longrightarrow> buildLogger H (sr_LogFilePath args) w = Ret None w"
    and "h_EstablishContext H w = (Inl e, w')"
  shows "\<exists>t. svc_Start H args s = Ret (Some (ErrorString ErrorPCSC), ()) t \<and>
    svc_Start H args' t = Ret (Some (ErrorString ''keycard service already started''), ()) t"
  using svc_Start_no_pcsc [OF assms] svc_Start_twice [of _ H args'] by blast

theorem failed_start_is_final_witness:
  "\<exists>t. svc_Start demoHost (demoStart True ''log'') (NewService ((demoWorld None)\<lparr>w_pcsc := False\<rparr>)) =
      Ret (Some (ErrorString ErrorPCSC), ()) t \<and>
    svc_Start demoHost (demoStart False ''log'') t =
      Ret (Some (ErrorString ''keycard service already started''), ()) t"
  by (rule failed_start_is_final [where store = "\<lparr>st_path = ''p'', st_values = Some Map.empty\<rparr>"
        and w = "(demoWorld None)\<lparr>w_pcsc := False\<rparr>" and w' = "(demoWorld None)\<lparr>w_pcsc := False\<rparr>"
        and e = "SCardError 0x8010001D"])
    (simp_all add: NewService_def NewStore_def demoStart_def demoHost_def demoWorld_def buildLogger_def
      BuildProductionLogger_def bindM_def getM_def worldM_def ret_def)

text \<open>
  When \<open>Stop\<close> returns it has dropped the context, so that every later request but a
  start is refused until then.
\<close>

theorem stop_drops_context:
  assumes "svc_Stop H s = Ret r t" and "needs_context req"
  shows "r = (None, ()) \<and> s_context t = None \<and>
    serve H req t = Ret (Some (Sentinel ErrKeycardServiceNotStarted)) t"
proof -
  have "r = (None, ()) \<and> s_context t = None"
    using svc_Stop_clears [of H s] assms(1) by (simp add: runs_def)
  with serve_not_started [OF assms(2), of t H] show ?thesis by (simp add: notStarted_def)
qed

theorem stop_drops_context_witness:
  "\<exists>r t. svc_Stop demoHost (NewService (demoWorld None)) = Ret r t \<and> s_context t = None \<and>
    serve demoHost SvcFactoryReset t = Ret (Some (Sentinel ErrKeycardServiceNotStarted)) t"
proof -
  have "svc_Stop demoHost (NewService (demoWorld None)) = Ret (None, ()) (NewService (demoWorld None))"
    by (simp add: svc_Stop_def NewService_def bindM_def getM_def ret_def)
  from stop_drops_context [OF this, of SvcFactoryReset] this show ?thesis by auto
qed

section \<open>The RPC interface\<close>

text \<open>
  C11.  A call over RPC is the call of the handler: the text of a request, once parsed, runs the
  method it names with the arguments it carries, on the service as it is, and is answered with the
  method's reply or its error and with the id of the request; a handler that panics takes the
  library down.
\<close>

theorem rpc_call_is_the_handler:
  assumes "lib_reachable E s" and "g_rpc s \<noteq> None" and "\<And>body. l_ReadAll E body = Inr body"
    and "r_Decode (l_rpc E) payload = Inr (clientRequest req i)" and "i \<noteq> JNull" and "int_args req"
  shows "KeycardCallRPC E payload s =
    (case callService (l_host E) req (g_service s) of
       Ret (err, reply) v \<Rightarrow>
         Ret (r_Encode (l_rpc E) (serverResponse err reply i) @ [CHR 0x0A]) (s\<lparr>g_service := v\<rparr>)
     | Fault x v \<Rightarrow> Fault x (s\<lparr>g_service := v\<rparr>))"
  using KeycardCallRPC_client [OF assms(1,2,4,6,3)] assms(5) by (simp split: outcome.split)

theorem rpc_call_is_the_handler_witness:
  "KeycardCallRPC demoLib ''status'' demoSession =
    Ret (printJson (JObj [(''result'', JNull), (''error'', JStr ''keycard service not started''), (''id'', JInt 1)]) @
      [CHR 0x0A]) demoSession"
proof -
  have "callService (l_host demoLib) SvcGetStatus (g_service demoSession) =
      Ret (Some notStarted, encStatus NewStatus) (g_service demoSession)"
    by (simp add: svc_GetStatus_def replied_def started_def NewService_def cmd_defs)
  moreover have "demoSession\<lparr>g_service := NewService (demoWorld None)\<rparr> = demoSession"
    by (simp add: demoSession_def emptyLibrary_def)
  moreover have "r_Encode demoRpc = printJson" by (simp add: demoRpc_def)
  ultimately show ?thesis
    using rpc_call_is_the_handler [OF demoSession_reachable _ _ demoRpc_Decode(1) [folded demoSession_simps(3)]]
    by (simp add: serverResponse_def notStarted_def)
qed

text \<open>
  C12.  Every HTTP request gets one of two kinds of answer.  It is refused, with 400, 405 or 415 and
  a plain text, and the service is as it was; or its method has run, and the answer is 200:
  empty when the request has no id, and otherwise an object with the id and with exactly one of
  result and error null.
\<close>

theorem rpc_answers:
  assumes "ServeHTTP R H server r v = Ret answer v'"
  shows "(hp_Status answer \<in> {400, 405, 415} \<and> hp_ContentType answer = ''text/plain; charset=utf-8'' \<and> v' = v) \<or>
    (hp_Status answer = 200 \<and>
      (\<exists>q req err reply. readCall R server r = Inr (q, req) \<and> callService H req v = Ret (err, reply) v' \<and>
        (case q_Id q of
           None \<Rightarrow> hp_Body answer = ''''
         | Some i \<Rightarrow> (\<exists>result error. hp_Body answer =
             r_Encode R (JObj [(''result'', result), (''error'', error), (''id'', i)]) @ [CHR 0x0A] \<and>
             (result = JNull \<longleftrightarrow> err \<noteq> None) \<and> (error = JNull \<longleftrightarrow> err = None)))))"
proof (cases "readCall R server r")
  case (Inl a)
  then show ?thesis
    using assms readCall_refused [OF Inl] readCall_refused_text [OF Inl] by (auto simp: ServeHTTP_refused)
next
  case (Inr qr)
  obtain q req where qr: "qr = (q, req)" by (cases qr)
  then obtain err reply where call: "callService H req v = Ret (err, reply) v'" "answer = WriteResponse R q reply err"
    using assms Inr by (auto simp: ServeHTTP_called split: outcome.splits prod.splits)
  have "reply \<noteq> JNull" using callService_object [OF call(1)] by auto
  from WriteResponse_shape [OF this, where q = q and R = R and err = err] call(1) WriteResponse_status [of R q reply err]
  show ?thesis unfolding Inr qr call(2) by blast
qed

theorem rpc_answers_witness:
  "\<exists>answer. ServeHTTP demoRpc demoHost (fst (CreateRPCServer demoRpc)) (jsonPost ''no params'') (NewService (demoWorld None)) =
      Ret answer (NewService (demoWorld None)) \<and> hp_Status answer = 400"
proof -
  let ?m = "''rpc: method request ill-formed: missing params field''"
  have "getMethod demoRpc [''keycard'' \<mapsto> map_of (keycardMethods (r_Fold demoRpc))] (''keycard.'' @ ''Stop'') =
      Inr (noArgs (r_Fold demoRpc) SvcStop)"
    by (subst getMethod_keycard) (simp_all add: keycardMethods_def)
  then have "readCall demoRpc (fst (CreateRPCServer demoRpc)) (jsonPost ''no params'') = Inl (writeError 400 ?m)"
    by (simp add: readCall_def jsonPost_def newCodecRequest_def demoRpc_def demoRequests_def serverRequestFields_def
        field_def fieldOf_def decRaw_def ReadRequest_def)
  from ServeHTTP_refused [OF this, of demoHost "NewService (demoWorld None)"]
  have call: "ServeHTTP demoRpc demoHost (fst (CreateRPCServer demoRpc)) (jsonPost ''no params'') (NewService (demoWorld None)) =
      Ret (writeError 400 ?m) (NewService (demoWorld None))" .
  with rpc_answers [OF call] show ?thesis by (auto simp: writeError_def)
qed

text \<open>
  A request without an id is carried out, and its answer is empty: an error of the method is
  lost.
\<close>

theorem notification_error_lost:
  assumes "lib_reachable E s" and "g_rpc s \<noteq> None" and "\<And>body. l_ReadAll E body = Inr body"
    and "r_Decode (l_rpc E) payload = Inr (clientRequest req JNull)" and "int_args req"
    and "serve (l_host E) req (g_service s) = Ret (Some e) v"
  shows "KeycardCallRPC E payload s = Ret '''' (s\<lparr>g_service := v\<rparr>)"
proof -
  from assms(6) obtain reply where "callService (l_host E) req (g_service s) = Ret (Some e, reply) v"
    by (auto simp: serve_callService errOnly_def cmd_defs split: outcome.splits prod.splits)
  with KeycardCallRPC_client [OF assms(1,2,4,5,3)] show ?thesis by simp
qed

theorem notification_error_lost_witness:
  "KeycardCallRPC demoLib ''status, no id'' demoSession = Ret '''' demoSession"
proof -
  have "serve (l_host demoLib) SvcGetStatus (g_service demoSession) = Ret (Some notStarted) (NewService (demoWorld None))"
    using serve_not_started [of SvcGetStatus "g_service demoSession" "l_host demoLib"]
    by (simp add: NewService_def del: serve.simps)
  from notification_error_lost [OF demoSession_reachable _ _ demoRpc_Decode(2) [folded demoSession_simps(3)] _ this]
  show ?thesis by (simp add: demoSession_def emptyLibrary_def)
qed

text \<open>
  C13.  Every method of the service is found under its name, and the arguments a client encodes from
  the request structs are read back as they were.
\<close>

theorem rpc_arguments_round_trip:
  assumes "int_args req"
  shows "\<exists>read. getMethod R (rs_services (fst (CreateRPCServer R))) (''keycard.'' @ methodName req) = Inr read \<and>
    read (JArr [encArgs req]) = Some req"
  using getMethod_client [of R req] keycardMethods_find [OF _ assms, of "r_Fold R"] by auto

theorem rpc_arguments_round_trip_witness:
  "\<exists>read. getMethod demoRpc (rs_services (fst (CreateRPCServer demoRpc))) ''keycard.StoreMetadata'' = Inr read \<and>
    read (JArr [JObj [(''name'', JStr ''card''), (''paths'', JArr [JStr ''m/44''])]]) = Some (SvcStoreMetadata ''card'' [''m/44''])"
  using rpc_arguments_round_trip [of "SvcStoreMetadata ''card'' [''m/44'']" demoRpc] by simp

text \<open>
  C14.  Arguments that are missing are zeros: with an empty array, or with \<open>null\<close> or an empty object in
  it, a method runs on empty strings.  The five methods that validate their arguments then refuse
  to; the others do not, so that \<open>StoreMetadata\<close> replaces the metadata of the card by an empty
  name without wallets, and \<open>Authorize\<close> tries the empty PIN.
\<close>

theorem missing_arguments_are_zeros:
  assumes "params \<in> {JArr [], JArr [JNull], JArr [JObj []]}" and "s_context v = Some k"
  shows "\<exists>read. getMethod R (rs_services (fst (CreateRPCServer R))) (''keycard.'' @ methodName req) = Inr read \<and>
    read params = Some (zeroed req) \<and>
    (validates req \<longrightarrow> (\<exists>e. serve H (zeroed req) v = Ret (Some e) v)) \<and>
    (req = SvcStoreMetadata name paths \<longrightarrow> serve H (zeroed req) v = errOnly (callErr (StoreMetadata H '''' [])) v) \<and>
    (req = SvcAuthorize pin \<longrightarrow> serve H (zeroed req) v = errOnly (onContext (VerifyPIN H '''')) v)"
proof -
  from getMethod_client [of R req] obtain read where read: "map_of (keycardMethods (r_Fold R)) (methodName req) = Some read"
    "getMethod R (rs_services (fst (CreateRPCServer R))) (''keycard.'' @ methodName req) = Inr read"
    by auto
  have zero: "read params = Some (zeroed req)"
    by (rule keycardMethods_zero [OF read(1)]) (use assms(1) in auto)
  have refused: "validates req \<longrightarrow> (\<exists>e. serve H (zeroed req) v = Ret (Some e) v)"
    using serve_malformed [of H "zeroed req" v] assms(2) by (simp add: zeroed_well_formed)
  have "serve H (SvcStoreMetadata '''' []) v = errOnly (callErr (StoreMetadata H '''' [])) v"
    "serve H (SvcAuthorize '''') v = errOnly (onContext (VerifyPIN H '''')) v"
    using assms(2) by (simp_all add: svc_StoreMetadata_def svc_Authorize_def errOnly_def bindM_def started_Some
        validated_def validateRequest_def)
  with read(2) zero refused show ?thesis by auto
qed

theorem missing_arguments_are_zeros_witness:
  "\<exists>read. getMethod demoRpc (rs_services (fst (CreateRPCServer demoRpc))) ''keycard.StoreMetadata'' = Inr read \<and>
    read (JArr []) = Some (SvcStoreMetadata '''' []) \<and>
    serve demoHost (SvcStoreMetadata '''' []) ((NewService (demoWorld None))\<lparr>s_context := Some (demoCtx Authorized [])\<rparr>) =
      errOnly (callErr (StoreMetadata demoHost '''' [])) ((NewService (demoWorld None))\<lparr>s_context := Some (demoCtx Authorized [])\<rparr>)"
  using missing_arguments_are_zeros [of "JArr []" "(NewService (demoWorld None))\<lparr>s_context := Some (demoCtx Authorized [])\<rparr>"
      "demoCtx Authorized []" demoRpc "SvcStoreMetadata ''card'' []" demoHost "''card''" "[]"] by auto

text \<open>
  C15.  A start with logging whose log file cannot be opened panics on the nil logger, before there
  is a context: through the C interface the process ends.
\<close>

theorem bad_log_file_panics:
  assumes "lib_reachable E s" and "g_rpc s \<noteq> None" and "\<And>body. l_ReadAll E body = Inr body"
    and "r_Decode (l_rpc E) payload = Inr (clientRequest (SvcStart args) i)"
    and "s_context (g_service s) = None"
    and "NewStore (l_host E) (sr_StorageFilePath args) (s_world (g_service s)) = Ret (Inr store) w"
    and "sr_LogEnabled args" and "sr_LogFilePath args \<noteq> ''''"
    and "h_BuildLogger (l_host E) True [sr_LogFilePath args] w = (Some e, w')"
  shows "KeycardCallRPC E payload s =
    Fault (Panicked ''nil pointer dereference'') (s\<lparr>g_service := (g_service s)\<lparr>s_world := w'\<rparr>\<rparr>)"
proof -
  have "buildLogger (l_host E) (sr_LogFilePath args) w = Ret (Some e) w'"
    using assms(8,9) by (simp add: buildLogger_def BuildProductionLogger_def worldM_def)
  from svc_Start_bad_log [OF assms(5,6,7) this]
  have "callService (l_host E) (SvcStart args) (g_service s) =
      Fault (Panicked ''nil pointer dereference'') ((g_service s)\<lparr>s_world := w'\<rparr>)"
    by (simp add: replied_def cmd_defs)
  with KeycardCallRPC_client [OF assms(1,2,4) _ assms(3)] show ?thesis by simp
qed

theorem bad_log_file_panics_witness:
  "KeycardCallRPC demoLib ''start, bad log'' demoSession = Fault (Panicked ''nil pointer dereference'') demoSession"
proof -
  have store: "NewStore (l_host demoLib) (sr_StorageFilePath (demoStart True ''bad'')) (s_world (g_service demoSession)) =
      Ret (Inr \<lparr>st_path = ''p'', st_values = Some Map.empty\<rparr>) (demoWorld None)"
    by (simp add: NewStore_def demoLib_def demoStart_def NewService_def demoHost_def demoWorld_def bindE_def worldM_def cmd_defs)
  have log: "h_BuildLogger (l_host demoLib) True [sr_LogFilePath (demoStart True ''bad'')] (demoWorld None) =
      (Some (the (fst (h_BuildLogger demoHost True [''bad''] (demoWorld None)))), demoWorld None)"
    by (simp add: demoLib_def demoStart_def demoHost_def)
  from bad_log_file_panics [OF demoSession_reachable _ _ demoRpc_Decode(4) [folded demoSession_simps(3)] _ store _ _ log]
  show ?thesis by (simp add: demoStart_def NewService_def demoSession_def emptyLibrary_def)
qed

text \<open>
  C16.  Whatever is called through the C interface, and whatever the goroutines of the session do in
  between, the context the service holds is in a reachable state of the session context, and so
  has the invariants of C1 and C2: its status and every status it has sent are consistent, and at
  most one goroutine detects.  A call is one step here, as a command is in C1.
\<close>

theorem library_session_reachable:
  assumes "lib_reachable E s" and "s_context (g_service s) = Some k"
  shows "reach (session_init (l_host E)) (session_step (l_host E)) k \<and> status_ok (k_status k) \<and>
    (\<forall>st \<in> set (k_signals k). status_ok st) \<and> length (k_monitors k) \<le> 1"
proof -
  from reachable_service_ok [OF assms(1)] have ok: "service_ok (l_host E) (g_service s)" .
  then have "reach (session_init (l_host E)) (session_step (l_host E)) k"
    using assms(2) by (simp add: service_ok_def)
  with service_ok_context [OF ok assms(2)] show ?thesis by blast
qed

theorem library_session_reachable_witness:
  "\<exists>s k. s_context (g_service (s :: world library)) = Some k \<and>
     reach (session_init (l_host demoLib)) (session_step (l_host demoLib)) k"
proof -
  obtain s k where "lib_reachable demoLib s" "s_context (g_service s) = Some k"
    using demoStarted by blast
  with library_session_reachable [of demoLib s k] show ?thesis by blast
qed

section \<open>The flows\<close>

text \<open>
  C17.  A run of a flow that ends leaves the flow idle, without parameters and with one
  goroutine less.  It has sent exactly one result as its last signal, or none, and then the
  client has cancelled it; and every start in the meantime has been refused.
\<close>

theorem flow_run_log:
  assumes "f_state f = Running" and "runFlow H m n f = Ret () t"
  shows "f_state t = Idle \<and> f_params t = None \<and> f_goroutines t = f_goroutines f - 1 \<and>
    (\<exists>es. f_log t = f_log f @ es \<and> run_log es)"
  using runs_RetD [OF runFlow_log [OF assms(1)] assms(2)] .

theorem flow_run_log_witness:
  "\<exists>t. runFlow demoHost 2 3 (demoFlow FlowStoreMetadata demoParams demoEvents (Some demoCard)) = Ret () t \<and>
    f_state t = Idle \<and> run_log (f_log t)"
proof -
  obtain t where t: "runFlow demoHost 2 3 (demoFlow FlowStoreMetadata demoParams demoEvents (Some demoCard)) = Ret () t"
    by (rule demo_flow_run)
  from flow_run_log [OF _ t] t show ?thesis by auto
qed

text \<open>
  C18.  The rounds of a flow are bounded by what happens around it: with more fuel than events a
  run ends, or it waits for the client or for a card, or the card has made it pair again and again,
  or the process panics.
\<close>

theorem flow_stops:
  "case runFlow H m (Suc (length (f_script f))) f of
     Ret _ _ \<Rightarrow> True
   | Fault e _ \<Rightarrow> stops e"
  using runFlow_stops [of f "Suc (length (f_script f))" H m]
  by (simp add: runs_def split: outcome.splits)

text \<open>
  C19.  A flow that uses keys or changes the card, which is every flow but those that read the
  application info or the metadata, reports success only if the card has accepted a PIN, or a PUK with a new
  PIN, in this run.
\<close>

theorem flow_success_needs_pin:
  assumes "f_state f = Running" and "needs_pin (f_flowType f)" and "runFlow H m n f = Ret () t"
    and "f_log t = f_log f @ es" and "Signal FlowResult status \<in> set es" and "status ErrorKey = None"
  shows "accepted es"
  using runs_RetD [OF runFlow_accepted [OF assms(1,2)] assms(3)] assms(4-6) by auto

theorem flow_success_needs_pin_witness:
  "\<exists>t. runFlow demoHost 2 3 (demoFlow FlowStoreMetadata demoParams demoEvents (Some demoCard)) = Ret () t \<and>
    accepted (f_log t)"
proof -
  obtain t status where t: "runFlow demoHost 2 3 (demoFlow FlowStoreMetadata demoParams demoEvents (Some demoCard)) = Ret () t"
    "Signal FlowResult status \<in> set (f_log t)" "status ErrorKey = None"
    by (rule demo_flow_run)
  from flow_success_needs_pin [OF _ _ t(1) _ t(2,3)] t(1) show ?thesis by (auto simp: needs_pin_def)
qed

text \<open>
  C20.  The attempts with a PIN are spaced, however a run ends: after the card has refused one, none is
  made before the client has resumed the flow, a PUK has been accepted or a card has been
  initialised.  No flow uses up the attempts of a card by itself.
\<close>

theorem pin_attempts_spaced:
  assumes "f_state f = Running"
  shows "case runFlow H m n f of
      Ret _ t \<Rightarrow> \<exists>es. f_log t = f_log f @ es \<and> spaced es
    | Fault _ t \<Rightarrow> \<exists>es. f_log t = f_log f @ es \<and> spaced es"
  using runFlow_spaced [OF assms, of H m n] by (simp add: runs_def split: outcome.splits)

theorem pin_attempts_spaced_witness:
  "\<exists>t. runFlow demoHost 2 3 (demoFlow FlowStoreMetadata demoParams demoEvents (Some demoCard)) = Ret () t \<and>
    map noted (f_log t) = demoLog \<and> spaced (f_log t)"
proof -
  obtain t where t: "runFlow demoHost 2 3 (demoFlow FlowStoreMetadata demoParams demoEvents (Some demoCard)) = Ret () t"
    "map noted (f_log t) = demoLog"
    by (rule demo_flow_run)
  from pin_attempts_spaced [of "demoFlow FlowStoreMetadata demoParams demoEvents (Some demoCard)" demoHost 2 3] t
  show ?thesis by simp
qed

text \<open>
  C21.  After an optional factory reset, a flow uses a card only if it is the one asked for: once
  \<open>selectKeycard\<close> has succeeded, the application info that the flow goes on with, and publishes, is the
  one in the card's own answer to the selection, of an installed applet, and an instance or a key given
  as a parameter is that of the answer.
\<close>

theorem selected_card_matches:
  assumes "f_kc f = Some kc" and "kx_card kc = Some handle" and "kx_cmdSet kc = Some cs"
    and "f_params f = Some ps" and "selectKeycard H f = Ret None t"
  shows "\<exists>info resp w cs'. Channel.Send (cardPort H handle) (SetLe 0 (NewCommandSelect KeycardInstanceAID)) (f_world f) = Ret (Inr resp) w \<and>
      Sw resp = SwOK \<and> ParseApplicationInfo (resp_Data resp) = Some (Inr info) \<and> ai_Installed info \<and>
    f_kc t = Some (kc\<lparr>kx_cmdSet := Some cs'\<rparr>) \<and> cs_ApplicationInfo cs' = Some info \<and>
    f_cardInfo t = (f_cardInfo f)\<lparr>c_instanceUID := Btox (ai_InstanceUID info), c_keyUID := Btox (ai_KeyUID info),
      c_freeSlots := BytesToInt (ai_AvailableSlots info), c_version := BytesToInt (ai_Version info)\<rparr> \<and>
    ps keyInstanceUID \<in> {None, Some (VStr (Btox (ai_InstanceUID info)))} \<and>
    ps keyKeyUID \<in> {None, Some (VStr (Btox (ai_KeyUID info)))}"
proof -
  from runs_RetD [OF runs_selectKeycard [OF assms(1-3)] assms(5)] obtain info cs' where
    1: "selects H handle (f_world f) info" "ai_Installed info" "f_kc t = Some (kc\<lparr>kx_cmdSet := Some cs'\<rparr>)"
      "cs_ApplicationInfo cs' = Some info" "f_cardInfo t = infoStatus info (f_cardInfo f)"
      "asked_for keyInstanceUID (Btox (ai_InstanceUID info)) f" "asked_for keyKeyUID (Btox (ai_KeyUID info)) f"
    by blast
  from 1(1) obtain resp w where
    "Channel.Send (cardPort H handle) (SetLe 0 (NewCommandSelect KeycardInstanceAID)) (f_world f) = Ret (Inr resp) w"
    "Sw resp = SwOK" "ParseApplicationInfo (resp_Data resp) = Some (Inr info)"
    by (auto simp: selects_def)
  moreover have "ps keyInstanceUID \<in> {None, Some (VStr (Btox (ai_InstanceUID info)))}"
    "ps keyKeyUID \<in> {None, Some (VStr (Btox (ai_KeyUID info)))}"
    using 1(6,7) assms(4) by (auto simp: asked_for_def)
  ultimately show ?thesis using 1(2-5) unfolding infoStatus_def by blast
qed

theorem selected_card_matches_witness:
  "\<exists>t. selectKeycard demoHost (demoConnected [keyInstanceUID \<mapsto> VStr ''07'']) = Ret None t \<and>
    c_instanceUID (f_cardInfo t) = ''07''"
proof -
  let ?f = "demoConnected [keyInstanceUID \<mapsto> VStr ''07'']"
  obtain t where t: "selectKeycard demoHost ?f = Ret None t"
    using demo_selected by (auto split: outcome.splits)
  have f: "f_kc ?f = Some \<lparr>kx_cardCtx = 0, kx_readers = [''reader''], kx_card = Some 7,
        kx_cmdSet = Some (NewCommandSet\<lparr>cs_ApplicationInfo := Some (emptyAppInfo\<lparr>ai_Initialized := True\<rparr>)\<rparr>)\<rparr>"
    "f_params ?f = Some [keyInstanceUID \<mapsto> VStr ''07'']"
    by (simp_all add: demoConnected_def)
  from selected_card_matches [where handle = 7, OF f(1) _ _ f(2) t] obtain info where
    "f_cardInfo t = infoStatus info (f_cardInfo ?f)" "[keyInstanceUID \<mapsto> VStr ''07''] keyInstanceUID \<in>
      {None, Some (VStr (Btox (ai_InstanceUID info)))}"
    unfolding infoStatus_def by auto
  with t show ?thesis by (auto simp: infoStatus_def)
qed

text \<open>
  C22.  With known authorities, a card without a stored pairing is not paired with unless it
  identifies itself with one of them, or the client has excepted it: \<open>openSC\<close> ends with the error,
  in the state after the identification.
\<close>

theorem unknown_authority_not_paired:
  assumes "f_kc f = Some kc" and "kx_card kc = Some handle" and "kx_cmdSet kc = Some cs"
    and "cs_ApplicationInfo cs = Some info" and "ai_Initialized info \<or> giveup"
    and "store_Get (c_instanceUID (f_cardInfo f)) (f_pairings f) = None" and "f_knownCA f \<noteq> []"
    and "f_params f = Some ps" and "ps keySkipAuthUID \<noteq> Some (VStr (c_instanceUID (f_cardInfo f)))"
    and "onCard H (kc_Identify (h_prims H)) f = Ret r u" and "\<forall>ca. r = Inr ca \<longrightarrow> ca \<notin> set (f_knownCA f)"
  shows "openSC (Suc m) H n giveup f = Ret (Some AuthenticityError) u"
proof -
  have k: "openKnown H f = Ret None f"
    using assms(6) by (simp add: openKnown_def cmd_defs)
  have "verifyAuthenticity H f = Ret (Some AuthenticityError) u"
    using assms(7-11) by (cases r) (simp_all add: verifyAuthenticity_def param_def cmd_defs)
  with k kc_ApplicationInfo_eq [OF assms(1-3)] assms(4,5) show ?thesis
    by (auto simp: andThen_def cmd_defs)
qed

theorem unknown_authority_not_paired_witness:
  "\<exists>u. openSC 2 demoHost 1 False (demoConnected Map.empty) = Ret (Some AuthenticityError) u"
proof -
  obtain e u where "onCard demoHost (kc_Identify (h_prims demoHost)) (demoConnected Map.empty) = Ret (Inl e) u"
    using demo_not_identified by (auto split: outcome.splits sum.splits)
  then have "openSC (Suc 1) demoHost 1 False (demoConnected Map.empty) = Ret (Some AuthenticityError) u"
    by (rule unknown_authority_not_paired [rotated 9])
       (auto simp: demoConnected_def demoFlow_def demoStore_def store_Get_def)
  then show ?thesis by (auto simp: numeral_2_eq_2)
qed

text \<open>
  C23.  A pause sends one signal, and the client's answer decides: resumed, the step goes on
  with the parameters merged, the client's over those there; cancelled, it gives up.
\<close>

theorem pause_answered:
  assumes "f_state f = Running" and "f_params f = Some ps"
    and "f_script f = Tick # Tick # Call c # Tick # Tick # evs"
    and "c = CallResume (Some new) \<or> c = CallCancel"
  shows "pauseAndWait a msg f =
    (if c = CallCancel
     then Ret (Some GiveupError) (f\<lparr>f_script := evs, f_state := Cancelling,
       f_log := f_log f @ [Signal a (pauseStatus msg f), Reply c None]\<rparr>)
     else Ret None (f\<lparr>f_script := evs, f_params := Some (ps ++ map_of new),
       f_log := f_log f @ [Signal a (pauseStatus msg f), Reply c None]\<rparr>))"
  using assms
  by (auto simp: pauseAndWait_def pauseAndWaitWithStatus_def poll_Tick pause_Tick remaining_def nextEvent_Cons
     client_Cancel client_Resume receive_def setRunState_def pauseStatus_def cmd_defs)

theorem pause_answered_witness:
  "\<exists>t. pauseAndWait EnterPIN '''' (demoFlow FlowLogin Map.empty
      [Tick, Tick, Call (CallResume (Some [(keyPIN, VStr ''123456'')])), Tick, Tick] None) = Ret None t \<and>
    f_params t = Some [keyPIN \<mapsto> VStr ''123456''] \<and> f_state t = Running"
  using pause_answered [of "demoFlow FlowLogin Map.empty
      [Tick, Tick, Call (CallResume (Some [(keyPIN, VStr ''123456'')])), Tick, Tick] None" _ _ _ "[(keyPIN, VStr ''123456'')]"]
  by auto

text \<open>
  C24.  While a flow asks for a card, the client may cancel, and the flow gives up; but a client that
  resumes the flow, which is paused and lets it, makes the process panic.
\<close>

theorem insert_card_answered:
  assumes "f_state f = Running" and "StartKeycardContext H (f_world f) = Ret (Inr kc) w"
    and "f_script f = TimerFires # Tick # Call c # Tick # evs" and "f_params f = Some ps"
    and "c = CallResume (Some new) \<or> c = CallCancel"
  shows "\<exists>t. flow_connect H f =
      (if c = CallCancel then Ret (Inl GiveupError) t
       else Fault (Panicked ''Resuming is not expected during connection'') t) \<and>
    f_log t = f_log f @ [Signal InsertCard (pauseStatus ErrorConnection f), Reply c None]"
  using assms
  by (auto simp: flow_connect_started connectLoop_Cons pause_Tick client_Cancel client_Resume pauseStatus_def cmd_defs
     simp del: connectLoop.simps)

theorem insert_card_answered_witness:
  "\<exists>t. flow_connect demoHost (demoFlow FlowLogin Map.empty [TimerFires, Tick, Call (CallResume (Some [])), Tick] None) =
    Fault (Panicked ''Resuming is not expected during connection'') t"
  using insert_card_answered [of "demoFlow FlowLogin Map.empty [TimerFires, Tick, Call (CallResume (Some [])), Tick] None"
      demoHost demoContext "demoWorld None" "CallResume (Some [])" "[]" _ "[]"]
  by (auto simp: demo_context)


text \<open>
  A cancellation while the flow connects is forgotten if the flow asks for a card after it: the
  pause overwrites the state, and with the card the flow runs on as if nothing had happened.
\<close>

theorem cancel_forgotten:
  assumes "f_state f = Running" and "StartKeycardContext H (f_world f) = Ret (Inr kc) w"
    and "f_script f = Call CallCancel # TimerFires # Tick # ReaderEvent # evs"
    and "readersChanged H kc (initialStates (kx_readers kc)) w = Ret (ConnectedTo kc') w'"
  shows "\<exists>t. flow_connect H f = Ret (Inr kc') t \<and> f_state t = Running \<and> f_script t = evs \<and>
    f_log t = f_log f @ [Reply CallCancel None, Signal InsertCard (pauseStatus ErrorConnection f), Signal CardInserted Map.empty]"
  using assms
  by (auto simp: flow_connect_started connectLoop_Cons connectLoop_connected pause_Tick client_Cancel pauseStatus_def cmd_defs
     simp del: connectLoop.simps)

theorem cancel_forgotten_witness:
  "\<exists>kc t. flow_connect demoHost (demoFlow FlowLogin Map.empty [Call CallCancel, TimerFires, Tick, ReaderEvent] (Some demoCard)) =
      Ret (Inr kc) t \<and> f_state t = Running"
  using cancel_forgotten [of "demoFlow FlowLogin Map.empty [Call CallCancel, TimerFires, Tick, ReaderEvent] (Some demoCard)"
      demoHost demoContext "demoWorld (Some demoCard)" "[]"]
  by (auto simp: demo_context demo_card_found)

section \<open>The secure channel and the commands over it\<close>

text \<open>
  C25.  With a card that holds the same keys, a command sent over the secure channel returns
  the card's plain answer, and both sides end with the same IV, ready for the next command.
\<close>

theorem secure_channel_round_trip:
  assumes "aes_ok C" and "sc_ready (cs_sc cs)" and "answers C P cs cmd (plain @ [a, b]) c c'"
  shows "\<exists>cs'. csSend C P cmd (cs, c) =
      Ret (Inr \<lparr>resp_Data = plain, Sw1 = a, Sw2 = b, Sw = mkSw a b\<rparr>) (cs', c') \<and>
    sc_ready (cs_sc cs') \<and> sc_iv (cs_sc cs') = nextIV C cs cmd (plain @ [a, b])"
  using csSend_answers [OF assms] rekeyed_ready [OF assms(1,2), of cmd "plain @ [a, b]"]
  by (simp add: ParseResponse_append) (simp add: rekeyed_def)

definition demoAnswer :: "command \<Rightarrow> bytes \<Rightarrow> bytes" where
  "demoAnswer cmd plain =
     cardAnswer demoPrims (demoChannel\<lparr>sc_iv := commandMac demoPrims demoChannel cmd\<rparr>) plain"

lemma demo_answers: "answers demoPrims demoPort demoSet cmd plain (demoAnswer cmd plain) (demoAnswer cmd plain)"
  by (simp add: answers_def demoAnswer_def)

theorem secure_channel_round_trip_witness:
  "\<exists>cs'. csSend demoPrims demoPort NewCommandGenerateKey (demoSet, demoAnswer NewCommandGenerateKey ([1, 2, 3] @ [0x90, 0])) =
      Ret (Inr \<lparr>resp_Data = [1, 2, 3], Sw1 = 0x90, Sw2 = 0, Sw = mkSw 0x90 0\<rparr>)
        (cs', demoAnswer NewCommandGenerateKey ([1, 2, 3] @ [0x90, 0])) \<and>
    sc_ready (cs_sc cs') \<and> sc_iv (cs_sc cs') = nextIV demoPrims demoSet NewCommandGenerateKey ([1, 2, 3] @ [0x90, 0])"
  by (rule secure_channel_round_trip [OF demo_aes _ demo_answers]) (simp add: demo_ready)

text \<open>
  C26.  What becomes of an answer of the card, whatever its data: it is handed on exactly when its MAC is
  the one computed with the keys and the header of the answer, and otherwise the command fails.  But the
  data are decrypted before the MAC is compared: an answer that is shorter than a MAC, or whose data after
  the MAC are empty or not full blocks, panics.
\<close>

theorem answer_mac_checked:
  assumes "aes_ok C" and "sc_ready sc" and "Sw resp = SwOK"
  shows "let rmac = take 16 (resp_Data resp); rdata = drop 16 (resp_Data resp); iv = answerMac C sc rdata in
    if length (resp_Data resp) < 16 then
      sc_unwrap C resp (sc, c) = Fault (Panicked ''slice bounds out of range'') (sc, c)
    else if \<not> 16 dvd length rdata then
      sc_unwrap C resp (sc, c) = Fault (Panicked ''crypto/cipher: input not full blocks'') (sc, c)
    else if rdata = [] then sc_unwrap C resp (sc, c) = Fault (Panicked ''index out of range'') (sc, c)
    else \<exists>plain. removePadding 16 (cbcDecrypt (aesDec C (sc_encKey sc)) 16 (sc_iv sc) rdata) = Some plain \<and>
      sc_unwrap C resp (sc, c) =
        Ret (if rmac = iv then ParseResponse plain else Inl (Sentinel ErrInvalidResponseMAC)) (sc\<lparr>sc_iv := iv\<rparr>, c)"
proof -
  define rdata where "rdata = drop 16 (resp_Data resp)"
  have "plainText C sc [] = None" by (rule sc_unwrap_total(2) [OF assms refl refl])
  moreover have "\<exists>d. plainText C sc rdata = Some d" if "rdata \<noteq> []" "16 dvd length rdata"
    by (rule plainText_total [OF assms(1,2) that(2,1)])
  ultimately show ?thesis
    unfolding Let_def plainText_def [symmetric] rdata_def [symmetric] sc_unwrap_total(1) [OF assms refl rdata_def]
    by (cases "rdata = []"; cases "plainText C sc rdata") auto
qed

theorem answer_mac_checked_witness:
  "sc_unwrap demoPrims \<lparr>resp_Data = replicate 32 1, Sw1 = 0x90, Sw2 = 0, Sw = SwOK\<rparr> (demoChannel, ()) =
     Ret (Inl (Sentinel ErrInvalidResponseMAC))
       (demoChannel\<lparr>sc_iv := answerMac demoPrims demoChannel (replicate 16 1)\<rparr>, ()) \<and>
   sc_unwrap demoPrims \<lparr>resp_Data = replicate 16 1, Sw1 = 0x90, Sw2 = 0, Sw = SwOK\<rparr> (demoChannel, ()) =
     Fault (Panicked ''index out of range'') (demoChannel, ())"
proof
  have "replicate 16 1 \<noteq> answerMac demoPrims demoChannel (replicate 16 1)" by code_simp
  then show "sc_unwrap demoPrims \<lparr>resp_Data = replicate 32 1, Sw1 = 0x90, Sw2 = 0, Sw = SwOK\<rparr> (demoChannel, ()) =
     Ret (Inl (Sentinel ErrInvalidResponseMAC))
       (demoChannel\<lparr>sc_iv := answerMac demoPrims demoChannel (replicate 16 1)\<rparr>, ())"
    using answer_mac_checked [OF demo_aes demo_ready, where c = "()" and
      resp = "\<lparr>resp_Data = replicate 32 1, Sw1 = 0x90, Sw2 = 0, Sw = SwOK\<rparr>"] by (auto simp: Let_def)
  show "sc_unwrap demoPrims \<lparr>resp_Data = replicate 16 1, Sw1 = 0x90, Sw2 = 0, Sw = SwOK\<rparr> (demoChannel, ()) =
     Fault (Panicked ''index out of range'') (demoChannel, ())"
    using answer_mac_checked [OF demo_aes demo_ready, where c = "()" and
      resp = "\<lparr>resp_Data = replicate 16 1, Sw1 = 0x90, Sw2 = 0, Sw = SwOK\<rparr>"] by (simp add: Let_def)
qed

text \<open>
  C27.  Verifying a PIN succeeds when the card says so, and a refusal with \<open>n\<close> attempts left
  is the error that says \<open>n\<close>; the secure channel survives both.
\<close>

theorem verify_pin_answers:
  assumes "aes_ok C" and "sc_ready (cs_sc cs)" and "n < 16"
    and "answers C P cs (NewCommandVerifyPIN pin) plain c c'"
    and "plain = (if ok then [0x90, 0] else [0x63, 0xC0 OR of_nat n])"
  shows "\<exists>cs'. cs_VerifyPIN C P pin (cs, c) =
      Ret (if ok then Inr () else Inl (WrongPINError (int n))) (cs', c') \<and> sc_ready (cs_sc cs')"
  using csSend_answers [OF assms(1,2,4)] rekeyed_ready [OF assms(1,2)] retryCheck_answers assms(3,5)
  by (auto simp: cs_VerifyPIN_def bindM_def ret_def)

theorem verify_pin_answers_witness:
  "\<exists>cs'. cs_VerifyPIN demoPrims demoPort ''000000''
        (demoSet, demoAnswer (NewCommandVerifyPIN ''000000'') [0x63, 0xC0 OR of_nat 2]) =
      Ret (Inl (WrongPINError 2)) (cs', demoAnswer (NewCommandVerifyPIN ''000000'') [0x63, 0xC0 OR of_nat 2]) \<and>
    sc_ready (cs_sc cs')"
  using verify_pin_answers [OF demo_aes _ _ demo_answers, where ok = False and n = 2] demo_ready by simp

text \<open>
  Generating a mnemonic returns the word indexes the card sent, in order, each below
  \<open>2 ^ 15\<close> read back as itself.
\<close>

theorem mnemonic_indexes:
  assumes "aes_ok C" and "sc_ready (cs_sc cs)" and "4 \<le> n" and "n \<le> 8"
    and "\<forall>i \<in> set idxs. i < 32768"
    and "answers C P cs (NewCommandGenerateMnemonic (of_int n)) (concat (map index_bytes idxs) @ [0x90, 0]) c c'"
  shows "\<exists>cs'. cs_GenerateMnemonic C P n (cs, c) = Ret (Inr (map int idxs)) (cs', c') \<and> sc_ready (cs_sc cs')"
  using csSend_answers [OF assms(1,2,6)] rekeyed_ready [OF assms(1,2)] assms(3,4) be_int16s_indexes [OF assms(5)]
  by (simp add: cs_GenerateMnemonic_def sendOK_def bindE_def bindM_def ret_def ParseResponse_ok checkOK_def)

theorem mnemonic_indexes_witness:
  "\<exists>cs'. cs_GenerateMnemonic demoPrims demoPort 4
        (demoSet, demoAnswer (NewCommandGenerateMnemonic 4) (concat (map index_bytes [2047, 3]) @ [0x90, 0])) =
      Ret (Inr [2047, 3])
        (cs', demoAnswer (NewCommandGenerateMnemonic 4) (concat (map index_bytes [2047, 3]) @ [0x90, 0])) \<and>
    sc_ready (cs_sc cs')"
  using mnemonic_indexes [OF demo_aes _ _ _ _ demo_answers
      [of "NewCommandGenerateMnemonic (of_int 4)" "concat (map index_bytes [2047, 3]) @ [0x90, 0]"]]
    demo_ready by simp

section \<open>Metadata and paths\<close>

text \<open>
  C28.  A name of at most 20 bytes and any collection of path components below \<open>2 ^ 24\<close>
  make a record whose bytes are read back as the name and the components in increasing
  order without repetition.
\<close>

theorem metadata_round_trip:
  assumes "length name \<le> 20" and "\<forall>p \<in> set paths. p < 0x1000000"
  shows "\<exists>m. NewMetadata name paths = Inr m \<and> ParseMetadata (Serialize m) = Some (Inr m) \<and>
    md_name m = name \<and> increasing (md_paths m) \<and> set (md_paths m) = set paths"
proof -
  let ?m = "\<lparr>md_name = name, md_paths = sorted_list_of_set (set paths)\<rparr>"
  have n: "NewMetadata name paths = Inr ?m" by (rule NewMetadata_ok [OF assms(1)])
  have "ParseMetadata (Serialize ?m) = Some (Inr ?m)"
    by (rule ParseMetadata_Serialize [OF NewMetadata_wf [OF n]]) (use assms(2) in simp)
  with n NewMetadata_wf [OF n] show ?thesis by (auto simp: md_wf_def)
qed

theorem metadata_round_trip_witness:
  "\<exists>m. NewMetadata ''card'' [7, 3, 4, 3] = Inr m \<and> ParseMetadata (Serialize m) = Some (Inr m) \<and>
    md_name m = ''card'' \<and> increasing (md_paths m) \<and> set (md_paths m) = set [7, 3, 4, 3]"
  by (rule metadata_round_trip) simp_all

text \<open>
  C29.  A component from \<open>2 ^ 24\<close> on that does not continue a run is written in a form the
  reader refuses: the record can be stored, and cannot be read again.
\<close>

theorem large_components_unreadable:
  assumes "length name \<le> 20" and "p \<in> set paths" and "\<not> p < 0x1000000" and "p - 1 \<notin> set paths"
  shows "\<exists>m e. NewMetadata name paths = Inr m \<and> ParseMetadata (Serialize m) = Some (Inl e)"
  using ParseMetadata_Serialize_big [of "\<lparr>md_name = name, md_paths = sorted_list_of_set (set paths)\<rparr>" p]
    NewMetadata_ok [OF assms(1), of paths] assms by auto

theorem large_components_unreadable_witness:
  "\<exists>m e. NewMetadata ''card'' [0x80000000] = Inr m \<and> ParseMetadata (Serialize m) = Some (Inl e)"
  by (rule large_components_unreadable [where p = "0x80000000"]) simp_all

text \<open>
  Reading metadata ends on every input, with an error or with components in increasing
  order: a card cannot make the loop over a run go on for ever.
\<close>

theorem parse_metadata_total:
  "(\<exists>e. ParseMetadata data = Some (Inl e)) \<or> (\<exists>m. ParseMetadata data = Some (Inr m) \<and> increasing (md_paths m))"
proof -
  obtain r where "ParseMetadata data = Some r" using ParseMetadata_total by blast
  then show ?thesis using ParseMetadata_increasing by (cases r) auto
qed

text \<open>
  C30.  Storing wallets and reading them back: the paths a client sends, with last components
  below \<open>2 ^ 24\<close>, are the paths the published metadata then lists, sorted and without
  repetition.
\<close>

theorem wallet_paths_round_trip:
  assumes "length name \<le> 20" and "\<forall>i \<in> set idxs. i < 0x1000000"
  shows "\<exists>ps m. parsePaths (map walletPath idxs) s = Ret (Inr ps) s \<and> NewMetadata name ps = Inr m \<and>
    ParseMetadata (Serialize m) = Some (Inr m) \<and>
    map w_Path (cm_Wallets (ToMetadata m)) = map walletPath (sorted_list_of_set (set idxs))"
proof -
  have "\<forall>i \<in> set idxs. \<not> hardened i"
    using assms(2) by (auto simp: hardened_def hardenedStart_def word_less_nat_alt)
  from parsePaths_walletPaths [OF this, of s] have p: "parsePaths (map walletPath idxs) s = Ret (Inr idxs) s" .
  let ?m = "\<lparr>md_name = name, md_paths = sorted_list_of_set (set idxs)\<rparr>"
  have n: "NewMetadata name idxs = Inr ?m" by (rule NewMetadata_ok [OF assms(1)])
  have "ParseMetadata (Serialize ?m) = Some (Inr ?m)"
    by (rule ParseMetadata_Serialize [OF NewMetadata_wf [OF n]]) (use assms(2) in simp)
  moreover have "map w_Path (cm_Wallets (ToMetadata ?m)) = map walletPath (sorted_list_of_set (set idxs))"
    by (simp add: ToMetadata_def walletPath_def)
  ultimately show ?thesis using p n by blast
qed

theorem wallet_paths_round_trip_witness:
  "\<exists>ps m. parsePaths (map walletPath [9, 4]) () = Ret (Inr ps) () \<and> NewMetadata ''card'' ps = Inr m \<and>
    ParseMetadata (Serialize m) = Some (Inr m) \<and>
    map w_Path (cm_Wallets (ToMetadata m)) = map walletPath (sorted_list_of_set (set [9, 4]))"
  by (rule wallet_paths_round_trip) simp_all

text \<open>
  C31.  Decoding the text of a derivation path gives the path back, except that a hardened
  last component is lost.
\<close>

theorem path_decode_encode:
  "Decode (Encode ps) =
    (StartingPointMaster, if ps \<noteq> [] \<and> hardened (last ps) then butlast ps else ps, None)"
  using Decode_Encode [of ps] by (simp add: dropTrailingHardened_def)

text \<open>
  Taking the components out of a client's wallet paths always returns, with an error or
  the components: the prefix guarantees that the access to the last component is in range.
\<close>

theorem wallet_paths_never_panic: "\<exists>r t. parsePaths paths s = Ret r t"
  using parsePaths_no_panic [of paths s] by (auto simp: runs_def split: outcome.splits)

text \<open>
  The prefix is compared as text and not as path: the path \<open>m/44'/60'/0'/05\<close>, which is
  not below the wallet root, is accepted and stored as the wallet 5.
\<close>

theorem foreign_path_accepted:
  "parsePaths [WalletRoothPath @ ''5''] s = Ret (Inr [5]) s \<and> Decode (WalletRoothPath @ ''5'') =
    (StartingPointMaster, [0x8000002C, 0x8000003C, 0x80000000, 5], None)"
  using parsePaths_foreign [of s] Decode_foreign by (simp add: walletPrefix_def)

section \<open>The mocked flow\<close>

text \<open>
  C32.  The double of a flow never panics on typed parameters: in every state it can reach, a run
  of its goroutine ends, provided the texts are texts, the flags are flags, the paths of wallets
  lie under the wallet root, and the file of pairings was not \<open>null\<close>.
\<close>

theorem mocked_runs_end:
  assumes "mock_reachable E f" and "Intn_ok E" and "pred_option typedParams (m_params f)"
    and "st_values (m_pairings f) \<noteq> None"
  shows "\<exists>t. mock_runFlow E f = Ret () t"
proof (cases "m_currentReaderState f \<in> {NoReader, NoKeycard}")
  case True
  then show ?thesis by (auto simp: mock_runFlow_def mockSend_def cmd_defs)
next
  case False
  with reachable_pointers [OF assms(1)] assms(3,4) have "conforms f"
    by (auto simp: pointers_ok_def conforms_def)
  from returnsD [OF returns_mock_runFlow [OF assms(2)] this] show ?thesis
    by (auto simp: runs_def split: outcome.splits)
qed

theorem mocked_runs_end_witness:
  "\<exists>t. mock_runFlow demoEnv (demoMock FlowLogin [(keyPIN, VStr ''111111'')]) = Ret () t"
  by (rule mocked_runs_end [OF demoMock_reachable demoEnv_Intn]) (use typedParams_pin [of "''111111''"] in simp_all)

text \<open>
  C33.  A login or a recovery with the double treats PIN, PUK and retries exactly as a reference
  card: the round leaves the card as the table \<open>refRound\<close> says, and the flow is done if and
  only if the reference has opened.
\<close>

theorem mocked_card_as_reference:
  assumes "conforms f" and "currentCard f = Some c" and "0 \<le> mk_PinRetries c" and "0 \<le> mk_PukRetries c"
    and "\<not> mk_NotStatusKeycard c" and "mk_InstanceUID c \<noteq> ''''" and "mk_KeyUID c \<noteq> ''''"
    and "t \<in> {FlowLogin, FlowRecoverAccount}"
  shows "\<exists>u. handlerOf E t f = Ret () u \<and>
    map_option pinState (currentCard u) =
      Some (fst (refRound (textOf keyPIN f) (textOf keyNewPIN f) (textOf keyPUK f) (pinState c))) \<and>
    (m_state u = Idle \<longleftrightarrow> snd (refRound (textOf keyPIN f) (textOf keyNewPIN f) (textOf keyPUK f) (pinState c)))"
  using runs_round [OF assms(1-7) _ assms(8), of _ _ E] unfolding runs_def opened_def
  by (cases "refRound (textOf keyPIN f) (textOf keyNewPIN f) (textOf keyPUK f) (pinState c)")
     (auto split: outcome.splits)

theorem mocked_card_as_reference_witness:
  "\<exists>u. handlerOf demoEnv FlowLogin (demoMock FlowLogin [(keyPIN, VStr ''222222'')]) = Ret () u \<and>
    map_option pinState (currentCard u) = Some ((pinState templateKeycard)\<lparr>ps_PinRetries := 2\<rparr>) \<and>
    m_state u \<noteq> Idle"
proof -
  let ?f = "demoMock FlowLogin [(keyPIN, VStr ''222222'')]"
  have r: "refRound (textOf keyPIN ?f) (textOf keyNewPIN ?f) (textOf keyPUK ?f) (pinState templateKeycard) =
      ((pinState templateKeycard)\<lparr>ps_PinRetries := 2\<rparr>, False)"
    by (simp add: refRound_def textOf_def pinState_def DefPINLen_def keyPIN_def keyNewPIN_def keyPUK_def)
  show ?thesis
    using mocked_card_as_reference [OF demoMock_conforms [OF typedParams_pin [of "''222222''"]] demoMock_simps(4),
        where t = FlowLogin and E = demoEnv, of FlowLogin] r
    by (simp del: handlerOf.simps)
qed

text \<open>
  Changing the PIN with the double and \<open>overwrite\<close>: whatever the PIN of the card and its
  retries, the PIN given is the new one, and the result is sent; but nothing ends the flow, and
  while it is not idle a start is refused as \<open>already running\<close>.
\<close>

theorem mocked_change_pin_unchecked:
  assumes "conforms f" and "currentCard f = Some c" and "0 \<le> mk_PinRetries c" and "0 \<le> mk_PukRetries c"
    and "\<not> mk_NotStatusKeycard c" and "mk_InstanceUID c \<noteq> ''''" and "mk_FreePairingSlots c \<noteq> 0"
    and "length pin = DefPINLen" and "textOf keyPIN f = pin" and "textOf keyNewPIN f = pin"
    and "Option.bind (m_params f) (\<lambda>m. m keyOverwrite) = Some (VBool True)" and "m_state f \<noteq> Idle"
  shows "\<exists>u status. handleChangePinFlow f = Ret () u \<and>
    map_option pinState (currentCard u) = Some (unblocked pin (pinState c)) \<and>
    last (m_signals u) = (FlowResult, status) \<and>
    mock_Start t ps u = Ret (Some (ErrorString ''already running'')) u"
proof (cases "handleChangePinFlow f")
  case (Ret x u)
  with runs_changePIN [OF assms(1-11)] have "m_state u = m_state f"
    "map_option pinState (currentCard u) = Some (unblocked pin (pinState c))"
    "\<exists>status. last (m_signals u) = (FlowResult, status)"
    by (simp_all add: runs_def)
  with Ret assms(12) double.start_busy [of u t ps] show ?thesis by auto
next
  case (Fault x u)
  with runs_changePIN [OF assms(1-11)] show ?thesis by (simp add: runs_def)
qed

theorem mocked_change_pin_unchecked_witness:
  "\<exists>u. handleChangePinFlow (demoMock FlowChangePIN
      [(keyPIN, VStr ''222222''), (keyNewPIN, VStr ''222222''), (keyOverwrite, VBool True)]) = Ret () u \<and>
    map_option pinState (currentCard u) = Some (unblocked ''222222'' (pinState templateKeycard)) \<and>
    mock_Start FlowLogin None u = Ret (Some (ErrorString ''already running'')) u"
proof -
  let ?ps = "[(keyPIN, VStr ''222222''), (keyNewPIN, VStr ''222222''), (keyOverwrite, VBool True)]"
  have "typedParams (map_of ?ps)"
    by (simp add: typedParams_def textKeys_def flagKeys_def keyPIN_def keyNewPIN_def keyPUK_def keyNewPUK_def
      keyMnemonic_def keyCardName_def keyOverwrite_def keyFactoryReset_def keyResolveAddr_def keyExportMaster_def
      keyExportPriv_def keyWalletPaths_def keyBIP44Path_def)
  then have "conforms (demoMock FlowChangePIN ?ps)" by (rule demoMock_conforms)
  from mocked_change_pin_unchecked [OF this demoMock_simps(4), where pin = "''222222''" and t = FlowLogin and ps = None]
  show ?thesis
    by (auto simp: textOf_def DefPINLen_def keyPIN_def keyNewPIN_def keyOverwrite_def)
qed

text \<open>
  Exporting a public key with the double erases the private key of every card that shares
  the map of keys: cards registered by a state share the map of the package, and what is then
  exported from another one has no private key.
\<close>

theorem shared_key_erased:
  assumes "atInserted (m_helpers f) f = Some h" and "mk_ExportedKey h = Some a"
    and "m_helpers f j = Some h'" and "mk_ExportedKey h' = Some a"
    and "publicKey i False path f = Ret k t"
  shows "m_helpers t j = Some h' \<and> exportedAt h' path t = k \<and> kp_PrivateKey k = [] \<and>
    (\<forall>p. p \<noteq> path \<longrightarrow> exportedAt h' p t = exportedAt h' p f)"
  using runs_publicKey [OF assms(1,2), of i False path] assms(3-5)
  by (auto simp: runs_def exportedAt_def)

theorem shared_key_erased_witness:
  "\<exists>k t. publicKey 1 False (WalletRoothPath @ ''/0'')
      ((demoMock FlowExportPublic [])\<lparr>m_helpers := [1 \<mapsto> templateHelper, 2 \<mapsto> templateHelper]\<rparr>) = Ret k t \<and>
    kp_PrivateKey (exportedAt templateHelper (WalletRoothPath @ ''/0'') t) = [] \<and>
    kp_PrivateKey (exportedAt templateHelper (WalletRoothPath @ ''/0'') (demoMock FlowExportPublic [])) \<noteq> []"
proof -
  let ?f = "(demoMock FlowExportPublic [])\<lparr>m_helpers := [1 \<mapsto> templateHelper, 2 \<mapsto> templateHelper]\<rparr>"
  have h: "atInserted (m_helpers ?f) ?f = Some templateHelper" "mk_ExportedKey templateHelper = Some TemplateMap"
    by (simp_all add: atInserted_def demoMock_def newMock_def templateHelper_def)
  have k: "exportedAt templateHelper (WalletRoothPath @ ''/0'') (demoMock FlowExportPublic []) =
      \<lparr>kp_Address = ''0x'' @ zeros 39 @ ''1'', kp_PublicKey = string_bytes (zeros 129 @ ''1''),
       kp_PrivateKey = string_bytes (zeros 63 @ ''1''), kp_ChainCode = []\<rparr>"
    by (simp add: exportedAt_def h demoMock_def newMock_def templateKeys_def)
  then have "\<exists>k t. publicKey 1 False (WalletRoothPath @ ''/0'') ?f = Ret k t"
    using h by (auto simp: publicKey_def exportedKey_def storeKey_def theHelper_def exportedAt_def string_bytes_def
        demoMock_def newMock_def cmd_defs split: option.splits)
  then obtain k' t where t: "publicKey 1 False (WalletRoothPath @ ''/0'') ?f = Ret k' t" by blast
  from shared_key_erased [OF h _ h(2) t, of 2] t k show ?thesis
    by (auto simp: string_bytes_def)
qed

section \<open>The library\<close>

text \<open>
  C34.  The library never holds a flow and an RPC server, whatever is called and in whatever
  order; with one of them, initialising the other replies an error and changes nothing.
\<close>

theorem one_api_at_a_time:
  assumes "lib_reachable E s"
  shows "\<not> (g_flow s \<noteq> None \<and> g_rpc s \<noteq> None) \<and>
    (g_rpc s \<noteq> None \<longrightarrow> KeycardInitFlow E dir s =
       Ret ''not allowed to start flow API when session API is being used'' s) \<and>
    (g_flow s \<noteq> None \<longrightarrow> KeycardInitializeRPC E s =
       Ret (l_MarshalError E ''not allowed to start session API when flow API is being used'') s)"
  using reachable_exclusive [OF assms]
  by (auto simp: exclusive_def KeycardInitFlow_def KeycardInitializeRPC_eq checkAPIMutualExclusion_def retErr_def
      marshalError_def cmd_defs)

theorem one_api_at_a_time_witness:
  "g_rpc demoSession \<noteq> None \<and> KeycardInitFlow demoLib ''dir'' demoSession =
     Ret ''not allowed to start flow API when session API is being used'' demoSession"
  using one_api_at_a_time [OF demoSession_reachable, of "''dir''"] by simp

text \<open>
  C35.  Which calls of the library do not reply, and when.  A resume with parameters of a paused flow that
  was started with \<open>null\<close> panics.  A resume or a cancellation of a paused flow sends on a channel without a
  buffer, and waits for ever when the flow's goroutine does not receive.  An RPC does not reply when its
  handler does not.  Every other call replies.
\<close>

theorem library_calls_that_fault:
  "(\<exists>x t. libPerform E c s = Fault x t) \<longleftrightarrow>
     (\<exists>f. g_flow s = Some f \<and>
       ((\<exists>ps. c = LibResumeFlow ps \<and> nilParams E ps f) \<or>
        (\<exists>f'. sending E c f = Some f' \<and> l_wakeUp E f' = None))) \<or>
     (\<exists>p server q req x v. c = LibCallRPC p \<and> g_rpc s = Some server \<and>
        readCall (l_rpc E) server (jsonPost p) = Inr (q, req) \<and> callService (l_host E) req (g_service s) = Fault x v)"
  using faults_perform [of E c s] unfolding faults_iff stuckCall_def by blast

text \<open>
  A flow whose goroutine does not receive: while \<open>connect\<close> asks for a card the flow is \<open>Paused\<close>, and
  it stays so when connecting fails.  A cancellation then waits for ever, the flow ends without a result,
  and the next flow that connects receives what the cancellation sends, and panics.
\<close>

theorem cancel_waits_for_ever:
  assumes "f_state f = Running" and "f_senders f = 0"
    and "StartKeycardContext H (f_world f) = Ret (Inr kc) w"
    and "readersChanged H kc (initialStates (kx_readers kc)) w = Ret (RunErr e) w1"
    and "StartKeycardContext H w1 = Ret (Inl e') w2" and "e' \<noteq> RestartError"
    and "f_script f = TimerFires # Tick # ReaderEvent # Call CallCancel # Tick # evs"
  shows "\<exists>t. runFlow H m (Suc (Suc n)) f = Ret () t \<and> f_state t = Idle \<and> f_senders t = 1 \<and>
    f_goroutines t = f_goroutines f - 1"
  using stale_cancel [OF assms] by blast

text \<open>
  C36.  A flow is not stopped when it leaves the library: after an initialisation that fails, or a
  reset, the session API starts although the flow runs on.
\<close>

theorem forgotten_flow_runs_on:
  assumes "g_flow s = Some f" and "g_rpc s = None" and "NewFlow (l_host E) dir (g_world s) = Ret (Inl e) w"
  shows "(\<exists>t. thenM (KeycardInitFlow E dir) (KeycardInitializeRPC E) s = Ret (l_MarshalError E '''') t \<and>
      g_rpc t \<noteq> None \<and> f \<in> set (g_lost t)) \<and>
    (\<exists>t. thenM ResetAPI (KeycardInitializeRPC E) s = Ret (l_MarshalError E '''') t \<and> g_rpc t \<noteq> None \<and> f \<in> set (g_lost t))"
  using assms
  by (simp add: lib_defs marshalError_def zoom_def cmd_defs)

theorem forgotten_flow_runs_on_witness:
  "\<exists>t. thenM (KeycardInitFlow demoLib ''bad'') (KeycardInitializeRPC demoLib)
      ((emptyLibrary (demoWorld None))\<lparr>g_flow := Some (demoFlow0\<lparr>f_state := Running\<rparr>)\<rparr>) = Ret '''' t \<and>
    g_rpc t \<noteq> None \<and> map f_state (g_lost t) = [Running]"
proof -
  let ?s = "(emptyLibrary (demoWorld None))\<lparr>g_flow := Some (demoFlow0\<lparr>f_state := Running\<rparr>)\<rparr>"
  have "NewFlow (l_host demoLib) ''bad'' (g_world ?s) = Ret (Inl (ErrorString ''EIO'')) (demoWorld None)"
    by (simp add: NewFlow_def NewStore_def bindE_def demoLib_def emptyLibrary_def cmd_defs)
  from forgotten_flow_runs_on [OF _ _ this] show ?thesis
    by (auto simp: demoLib_def emptyLibrary_def lib_defs marshalError_def NewFlow_def NewStore_def
        bindE_def zoom_def cmd_defs)
qed

section \<open>The example client\<close>

text \<open>
  C37.  The example client can wait for ever, as it answers signals at once: a flow sends a question before
  it is paused, and its result before it is idle.  Any answer of the client can come in between; it is
  refused, and the flow waits for another one, whatever else happens but an answer to a question it does
  not ask again.  So can the start of any of its tests; it is refused, and with the flow at its end no
  result comes.
\<close>

theorem example_can_hang:
  assumes "f_state f = Running" and "f_senders f = 0"
  shows "(\<forall>a c msg evs. exampleCall a = Some c \<and> f_script f = Tick # Call c # Tick # evs \<and> silent evs \<longrightarrow>
      (\<exists>t rs. pauseAndWait a msg f = Fault (Blocked ''waiting for the client'') t \<and> f_state t = Paused \<and>
        f_log t = f_log f @ [Signal a (pauseStatus msg f),
          Reply c (Some (ErrorString ''only paused flows can be resumed''))] @ rs \<and> only_replies rs)) \<and>
    (\<forall>test ps H m n r g evs. (test, ps) \<in> set exampleTests \<and> runAgain n H m n f = Ret r g \<and> f_state g = Running \<and>
      f_script g = Tick # Call (CallStart test ps) # Tick # evs \<longrightarrow>
      (\<exists>u. runFlow H m n f = Ret () u \<and> f_state u = Idle \<and> f_goroutines u = f_goroutines f - 1 \<and>
        f_log u = f_log g @ [Signal FlowResult r, Reply (CallStart test ps) (Some (ErrorString ''already running''))]))"
proof (intro conjI allI impI; elim conjE)
  fix a c msg evs
  assume c: "exampleCall a = Some c" and s: "f_script f = Tick # Call c # Tick # evs" "silent evs"
  from exampleCall_Resume [OF c] obtain ps where "c = CallResume ps" by blast
  with early_answer [OF assms _ s(2), of ps a msg] s(1)
  show "\<exists>t rs. pauseAndWait a msg f = Fault (Blocked ''waiting for the client'') t \<and> f_state t = Paused \<and>
        f_log t = f_log f @ [Signal a (pauseStatus msg f),
          Reply c (Some (ErrorString ''only paused flows can be resumed''))] @ rs \<and> only_replies rs" by simp
next
  fix test ps H m n r g evs
  assume "runAgain n H m n f = Ret r g" "f_state g = Running" "f_script g = Tick # Call (CallStart test ps) # Tick # evs"
  from early_start [OF assms(1) this]
  show "\<exists>u. runFlow H m n f = Ret () u \<and> f_state u = Idle \<and> f_goroutines u = f_goroutines f - 1 \<and>
        f_log u = f_log g @ [Signal FlowResult r, Reply (CallStart test ps) (Some (ErrorString ''already running''))]" .
qed

theorem example_can_hang_witness:
  "\<exists>c u t. exampleCall EnterPIN = Some c \<and>
    pauseAndWait EnterPIN '''' (demoFlow FlowLogin Map.empty [Tick, Call c, Tick] (Some demoCard)) =
      Fault (Blocked ''waiting for the client'') t \<and>
    runFlow demoHost 3 2 (demoFlow FlowGetAppInfo Map.empty
      [ReaderEvent, Tick, Call (CallStart FlowGetMetadata (Some [])), Tick] (Some demoCard)) = Ret () u \<and>
    f_state u = Idle \<and>
    last (f_log u) = Reply (CallStart FlowGetMetadata (Some [])) (Some (ErrorString ''already running''))"
proof -
  let ?c = "CallStart FlowGetMetadata (Some [])"
  let ?f = "demoFlow FlowGetAppInfo Map.empty [ReaderEvent, Tick, Call ?c, Tick] (Some demoCard)"
  have run: "case runAgain 2 demoHost 3 2 ?f of
      Ret r g \<Rightarrow> f_state g = Running \<and> f_script g = [Tick, Call ?c, Tick] | Fault _ _ \<Rightarrow> False"
    by code_simp
  obtain r g where g: "runAgain 2 demoHost 3 2 ?f = Ret r g" "f_state g = Running" "f_script g = [Tick, Call ?c, Tick]"
    using run by (auto split: outcome.splits)
  have test: "(FlowGetMetadata, Some []) \<in> set exampleTests" by (simp add: exampleTests_def)
  from example_can_hang [of ?f] test g obtain u where u: "runFlow demoHost 3 2 ?f = Ret () u" "f_state u = Idle"
      "last (f_log u) = Reply ?c (Some (ErrorString ''already running''))"
    by fastforce
  obtain c where c: "exampleCall EnterPIN = Some c" by (simp add: exampleCall_def)
  have "silent []" by (simp add: silent_def)
  with example_can_hang [of "demoFlow FlowLogin Map.empty [Tick, Call c, Tick] (Some demoCard)"] c
  obtain t where "pauseAndWait EnterPIN '''' (demoFlow FlowLogin Map.empty [Tick, Call c, Tick] (Some demoCard)) =
      Fault (Blocked ''waiting for the client'') t"
    by fastforce
  with c u show ?thesis by blast
qed

section \<open>The signal server\<close>

text \<open>
  C38.  A signal is written once to every connection that takes it, and every other connection is
  dropped and closed once; a connection that always takes messages stays, one that never does
  goes.
\<close>

theorem signal_reaches_connections:
  assumes "server_reachable N s"
  shows "\<exists>t. signalHandler N data s = Ret () t \<and>
    sv_connections t = [c \<leftarrow> sv_connections s. c \<in> set (sv_connections t)] \<and>
    sv_written t = sv_written s @ map (\<lambda>c. (c, data)) (sv_connections t) \<and>
    sv_closed t = sv_closed s @ [c \<leftarrow> sv_connections s. c \<notin> set (sv_connections t)] \<and>
    (\<forall>c \<in> set (sv_connections s).
       ((\<forall>w. accepts N data c w) \<longrightarrow> c \<in> set (sv_connections t)) \<and>
       ((\<forall>w. \<not> accepts N data c w) \<longrightarrow> c \<notin> set (sv_connections t)))"
proof -
  have "distinct (sv_connections s)"
    using reachable_server_ok [OF assms] by (simp add: server_ok_def)
  from runs_signalHandler [OF this, of N data] show ?thesis
    by (auto simp: runs_def dest: delivered_members split: outcome.splits)
qed

theorem signal_reaches_connections_witness:
  "\<exists>t. signalHandler demoNet [7] demoServer = Ret () t \<and> sv_connections t = [0] \<and> sv_written t = [(0, [7])] \<and>
    sv_closed t = [1]"
proof -
  from signal_reaches_connections [OF demoServer_reachable, of "[7]"] obtain t where t:
    "signalHandler demoNet [7] demoServer = Ret () t"
    "sv_connections t = [c \<leftarrow> sv_connections demoServer. c \<in> set (sv_connections t)]"
    "sv_written t = sv_written demoServer @ map (\<lambda>c. (c, [7])) (sv_connections t)"
    "sv_closed t = sv_closed demoServer @ [c \<leftarrow> sv_connections demoServer. c \<notin> set (sv_connections t)]"
    "0 \<in> set (sv_connections t)" "1 \<notin> set (sv_connections t)"
    by (auto simp: demoServer_def accepts_def demoNet_def)
  then have "sv_connections t = [0]" by (simp add: demoServer_def)
  with t show ?thesis by (auto simp: demoServer_def NewServer_def)
qed

text \<open>
  C39.  A web socket that takes its messages sees the statuses of the session as they were published:
  each once, in order, and every one consistent, while other connections come, break and go.  The statuses
  are those of C1, of commands one after the other.
\<close>

theorem observer_sees_every_status:
  assumes "reach (session_init H) (session_step H) k" and "server_reachable N s" and "sv_handler s"
    and "c \<in> set (sv_connections s)" and "\<And>data w. accepts N data c w"
    and "\<And>st. marshal (NewEnvelope statusChanged st) = Inr (text_of st)"
    and "observed N marshal s (k_signals k) t"
  shows "received c t = received c s @ map text_of (k_signals k) \<and> c \<in> set (sv_connections t) \<and>
    (\<forall>st \<in> set (k_signals k). status_ok st)"
proof -
  have "distinct (sv_connections s)"
    using reachable_server_ok [OF assms(2)] by (simp add: server_ok_def)
  from observed_received [OF assms(7) this assms(4,3,5,6)] session_status.reach_inv [OF assms(1)]
  show ?thesis by blast
qed

theorem observer_sees_every_status_witness:
  "\<exists>t. received 0 t = map string_bytes [''connecting-card'', ''ready'', ''authorized''] \<and>
    0 \<in> set (sv_connections (t :: (nat, nat) server))"
proof (rule demo_reach)
  fix k assume k: "reach (session_init demoHost) (session_step demoHost) k"
    "map State (k_signals k) = [ConnectingCard, Ready, Authorized]"
  let ?text = "\<lambda>st. string_bytes (stateText (State st))"
  obtain t where "observed demoNet (\<lambda>e. Inr (?text (env_Event e))) demoSetup (k_signals k) t"
    using observed_exists [of demoSetup demoNet "\<lambda>e. Inr (?text (env_Event e))" "k_signals k"] by auto
  from observer_sees_every_status [OF k(1) demoSetup_reachable _ _ _ _ this, of 0 ?text]
  have t: "received 0 t = map ?text (k_signals k)" "0 \<in> set (sv_connections t)"
    by (simp_all add: accepts_def demoNet_def NewEnvelope_def)
  have "map ?text (k_signals k) = map (string_bytes \<circ> stateText) (map State (k_signals k))" by simp
  with t k(2) show ?thesis by auto
qed

text \<open>
  A listen that fails, say because the address is taken, is final: the server counts as
  started, so another address is refused too, and serving panics.
\<close>

theorem failed_listen_is_final:
  assumes "\<not> sv_server s" and "n_SplitHostPort N a = Inr hp" and "n_Listen N a (sv_world s) = (Inl e, w)"
  shows "\<exists>t. server_Listen N a s = Ret (Some e) t \<and>
    server_Listen N b t = Ret (Some (ErrorString ''server already started'')) t \<and>
    server_Serve N t = Fault (Panicked ''nil pointer dereference'') t"
  by (simp add: failed_listen [OF assms] started_listen server_Serve_def cmd_defs)

theorem failed_listen_is_final_witness:
  "\<exists>t. server_Listen demoNet ''taken'' (NewServer 0) = Ret (Some (ErrorString ''address already in use'')) t \<and>
    server_Listen demoNet ''free'' t = Ret (Some (ErrorString ''server already started'')) t"
  using failed_listen_is_final [of "NewServer 0 :: (nat, nat) server" demoNet "''taken''" "(''taken'', ''0'')"
      "ErrorString ''address already in use''" 0 "''free''"]
  by (auto simp: demoNet_def NewServer_def)

section \<open>Bytes on the wire\<close>

text \<open>
  Hexadecimal strings: what decodes is the text of its bytes up to the case of the
  digits, and the text of bytes decodes to them.
\<close>

theorem hex_round_trip:
  assumes "Xtob s = Inr bs"
  shows "Btox bs = map hex_lower s \<and> Xtob (Btox bs) = Inr bs"
  using Btox_Xtob [OF assms] hex.dec_enc_whole [of bs] by simp

theorem hex_round_trip_witness:
  "Btox [0xA0, 0x1F] = map hex_lower ''A01f'' \<and> Xtob (Btox [0xA0, 0x1F]) = Inr [0xA0, 0x1F]"
  by (rule hex_round_trip) (simp add: hex_val_def)

text \<open>
  The length writer and the length reader agree exactly on the lengths below \<open>2 ^ 24\<close>.
\<close>

theorem length_codec_domain:
  "fst (ParseLength (WriteLength n @ rest)) = Inr n \<longleftrightarrow> n < 0x1000000"
  by (rule ParseLength_WriteLength_iff)

text \<open>
  A command that fits the short form is parsed back as it was sent.
\<close>

theorem command_round_trip:
  assumes "length (cmd_Data c) < 256" and "if cmd_requiresLe c then cmd_Data c \<noteq> [] else cmd_le c = 0"
  shows "ParseCommand (SerializeCommand c) = Inr c"
  by (rule cmd.dec_enc_whole) (use assms in \<open>auto simp: cmd_wire_def split: if_splits\<close>)

theorem command_round_trip_witness:
  "ParseCommand (SerializeCommand (NewCommandVerifyPIN ''123456'')) = Inr (NewCommandVerifyPIN ''123456'')"
  by (rule command_round_trip) (simp_all add: NewCommandVerifyPIN_def NewCommand_def)

text \<open>
  In a sequence of TLV entries, \<open>FindTagN\<close> returns the value of the \<open>n\<close>-th entry with
  the tag, counted from zero, and an error when there are not that many.
\<close>

theorem find_tag_nth:
  assumes "\<forall>e \<in> set es. simple_tag (fst e) \<and> length (snd e) < 2 ^ 24"
  shows "FindTagN (concat (map (\<lambda>e. tlv (fst e) (snd e)) es)) n [[t]] =
    (let vs = map snd (filter (\<lambda>e. fst e = t) es) in
     if n < length vs then Inr (vs ! n) else Inl (ErrTagNotFound [t]))"
  using assms
proof (induction es arbitrary: n)
  case (Cons e es)
  then show ?case by (cases n) (auto simp: FindTagN_def findTag_tlv Let_def)
qed (simp add: FindTagN_def findTag_Nil)

theorem find_tag_nth_witness:
  "FindTagN (concat (map (\<lambda>e. tlv (fst e) (snd e)) [(0x02, [3]), (0x01, [0xFF]), (0x02, [5])])) 1 [[0x02]] = Inr [5]"
  using find_tag_nth [of "[(0x02, [3]), (0x01, [0xFF]), (0x02, [5])]" 1 "0x02"]
  by (simp add: simple_tag_def)

text \<open>
  With a block cipher, encrypting data of any length and decrypting it with the same key
  and IV gives the data back; the ciphertext is whole blocks, one more than the data fills.
\<close>

theorem encrypt_decrypt:
  assumes "aes_ok C" and "aesKeyOK key" and "length iv = 16"
  shows "\<exists>e. EncryptData C d key iv s = Ret (Inr e) s \<and> DecryptData C e key iv s = Ret (Inr d) s \<and>
    length e = (length d div 16 + 1) * 16"
proof -
  have bc: "block_cipher 16 (aesEnc C key) (aesDec C key)" using assms(1,2) by (simp add: aes_ok_def)
  have "length (cbcEncrypt (aesEnc C key) 16 iv (appendPadding 16 d)) = length (appendPadding 16 d)"
    using length_cbcEncrypt [OF block_cipherD(1) [OF bc], where data = "appendPadding 16 d" and iv = iv] assms(3)
    by (simp add: appendPadding_full)
  then show ?thesis
    by (simp add: EncryptData_ok [OF assms(2,3)] DecryptData_EncryptData [OF bc assms(2,3)] ret_def
        length_appendPadding)
qed

theorem encrypt_decrypt_witness:
  "\<exists>e. EncryptData demoPrims [1, 2, 3] (replicate 32 7) (replicate 16 0) () = Ret (Inr e) () \<and>
    DecryptData demoPrims e (replicate 32 7) (replicate 16 0) () = Ret (Inr [1, 2, 3]) () \<and> length e = 16"
  using encrypt_decrypt [OF demo_aes, of "replicate 32 7" "replicate 16 0" "[1, 2, 3]" "()"]
  by (simp add: aesKeyOK_def)

text \<open>
  The path of an export command travels as big-endian words that read back as the
  components of the path, with the parameters the caller asked for.
\<close>

theorem export_command_path:
  "\<exists>cmd. NewCommandExportKey (exportKeyP1 derive makeCurrent) p2 (Encode ps) = Inr cmd \<and>
    be_words (cmd_Data cmd) = dropTrailingHardened ps \<and> Cla cmd = ClaGp \<and> Ins cmd = InsExportKey \<and>
    P1 cmd = exportKeyP1 derive makeCurrent \<and> P2 cmd = p2"
  by (simp add: NewCommandExportKey_Encode NewCommand_def be_words_pathBytes)

section \<open>Readers and pairings\<close>

text \<open>
  The reader the detection works with is the first one with a card that nobody holds
  exclusively.
\<close>

theorem first_usable_reader:
  "(ReaderWithCardIndex rs = Some i) =
    (i < length rs \<and> usable (rs ! i) \<and> {m. m < i \<and> usable (rs ! m)} = {})"
  by (auto simp: ReaderWithCardIndex_Some)

text \<open>
  C40.  A pairing that has been stored without an error is there when the store is opened
  again from its file, with all the others: pairings survive a restart.
\<close>

theorem pairing_survives_restart:
  assumes "json_ok H" and "files_ok H" and "store_Store H uid pairing (p, w) = Ret None (p', w')"
  shows "NewStore H (st_path p) w' = Ret (Inr p') w' \<and> store_Get uid p' = Some pairing \<and>
    (\<forall>u. u = uid \<or> store_Get u p' = store_Get u p)"
proof -
  obtain q where q: "storePut uid pairing p = Some p'" "q = p'"
    using assms(3)
    by (auto simp: store_Store_def store_save_def bindM_def thenM_def getM_def modifyM_def ret_def
        panicM_def zoom_def worldM_def split: option.splits sum.splits prod.splits)
  with store_Store_reopen [OF assms] pstore.get_put [OF q(1)] show ?thesis by auto
qed

theorem pairing_survives_restart_witness:
  "\<exists>p' w'. store_Store jsonHost ''00'' demoInfo (demoStore, demoWorld None) = Ret None (p', w') \<and>
    NewStore jsonHost ''pairings.json'' w' = Ret (Inr p') w' \<and> store_Get ''00'' p' = Some demoInfo"
proof -
  have "\<exists>p' w'. store_Store jsonHost ''00'' demoInfo (demoStore, demoWorld None) = Ret None (p', w')"
  proof -
    have key: "Btox [1, 2, 3] = ''010203''" by code_simp
    have "(\<lambda>m. map_option (map_option infoToJSON) \<circ> m) [''00'' \<mapsto> Some demoInfo] = map_of demoPairs"
      using key by (simp add: demoPairs_def demoInfo_def infoToJSON_def fun_eq_iff)
    then have "marshalPairs jsonHost (Some [''00'' \<mapsto> Some demoInfo]) = Inr [1]"
      by (simp add: marshalPairs_def jsonHost_def)
    then show ?thesis
      by (auto simp: store_Store_def store_save_def storePut_def demoStore_def cmd_defs zoom_def worldM_def
          split: prod.split) (simp add: jsonHost_def demoHost_def)
  qed
  then obtain p' w' where s: "store_Store jsonHost ''00'' demoInfo (demoStore, demoWorld None) = Ret None (p', w')"
    by blast
  from pairing_survives_restart [OF json_host s] s show ?thesis by (auto simp: demoStore_def)
qed

end
